(* ===== verification/Prelude.thy ===== *)
theory Prelude
  imports Main "HOL-Library.Word" "HOL-Library.List_Lexorder"
begin

text \<open>
  The vocabulary every other theory shares: machine integers at their width, Rust's
  \<open>Result\<close> as a sum with the error on the left, a panic as a value, the \<open>?\<close> operator and
  the combinators of \<open>Result\<close> and \<open>Option\<close> the source uses, a locale for anything that
  encodes and decodes, and locales for step functions and relations that keep an invariant.
\<close>

named_theorems result_simps \<open>rules that run the Result, Option and panic combinators\<close>

section \<open>Machine integers\<close>

type_synonym u8 = "8 word"
type_synonym u16 = "16 word"
type_synonym u32 = "32 word"

text \<open>An \<open>i64\<close> is a 64-bit word read with \<open>sint\<close>.\<close>

type_synonym i64 = "64 word"

definition i64_min :: int where
  "i64_min = - (2 ^ 63)"

definition i64_max :: int where
  "i64_max = 2 ^ 63 - 1"

lemma sint_i64_range: "i64_min \<le> sint (w :: i64) \<and> sint w \<le> i64_max"
  using sint_range_size [of w] by (simp add: i64_min_def i64_max_def word_size)

lemma sint_of_int_i64: "i64_min \<le> i \<Longrightarrow> i \<le> i64_max \<Longrightarrow> sint (word_of_int i :: i64) = i"
  by (simp add: sint_sbintrunc' i64_min_def i64_max_def signed_take_bit_int_eq_self)

section \<open>Results, options and panics\<close>

text \<open>
  \<open>Result<T, E>\<close> is \<open>'e + 'a\<close>. A panic ends the call with no value, so a function that can
  panic returns a \<open>run\<close>; the message is the one the source passes to \<open>expect\<close> or
  \<open>panic!\<close>, or names the arithmetic that overflowed.
\<close>

abbreviation Ok :: "'a \<Rightarrow> 'e + 'a" where
  "Ok \<equiv> Inr"

abbreviation Err :: "'e \<Rightarrow> 'e + 'a" where
  "Err \<equiv> Inl"

datatype 'a run = Ret 'a | Panic string

definition result_bind :: "'e + 'a \<Rightarrow> ('a \<Rightarrow> 'e + 'b) \<Rightarrow> 'e + 'b" where
  "result_bind r f = (case r of Inl e \<Rightarrow> Inl e | Inr x \<Rightarrow> f x)"

definition run_bind :: "'a run \<Rightarrow> ('a \<Rightarrow> 'b run) \<Rightarrow> 'b run" where
  "run_bind r f = (case r of Ret x \<Rightarrow> f x | Panic m \<Rightarrow> Panic m)"

definition ok_or :: "'a option \<Rightarrow> 'e \<Rightarrow> 'e + 'a" where
  "ok_or x e = (case x of None \<Rightarrow> Inl e | Some v \<Rightarrow> Inr v)"

definition map_err :: "('e \<Rightarrow> 'f) \<Rightarrow> 'e + 'a \<Rightarrow> 'f + 'a" where
  "map_err f r = (case r of Inl e \<Rightarrow> Inl (f e) | Inr x \<Rightarrow> Inr x)"

definition option_filter :: "('a \<Rightarrow> bool) \<Rightarrow> 'a option \<Rightarrow> 'a option" where
  "option_filter p x = (case x of None \<Rightarrow> None | Some v \<Rightarrow> (if p v then Some v else None))"

definition result_ok :: "'e + 'a \<Rightarrow> 'a option" where
  "result_ok r = (case r of Inl e \<Rightarrow> None | Inr x \<Rightarrow> Some x)"

text \<open>
  Signed addition, subtraction and absolute value follow the build: with overflow checks (the debug
  profile) an overflow panics, without them (the release profile) the result wraps.
\<close>

definition i64_sub :: "bool \<Rightarrow> i64 \<Rightarrow> i64 \<Rightarrow> i64 run" where
  "i64_sub checks a b =
     (if checks \<and> \<not> (i64_min \<le> sint a - sint b \<and> sint a - sint b \<le> i64_max)
      then Panic ''attempt to subtract with overflow'' else Ret (a - b))"

definition i64_add :: "bool \<Rightarrow> i64 \<Rightarrow> i64 \<Rightarrow> i64 run" where
  "i64_add checks a b =
     (if checks \<and> \<not> (i64_min \<le> sint a + sint b \<and> sint a + sint b \<le> i64_max)
      then Panic ''attempt to add with overflow'' else Ret (a + b))"

definition i64_abs :: "bool \<Rightarrow> i64 \<Rightarrow> i64 run" where
  "i64_abs checks a =
     (if checks \<and> sint a = i64_min then Panic ''attempt to negate with overflow''
      else Ret (if sint a < 0 then - a else a))"

lemma result_bind_simps [simp, result_simps]:
  "result_bind (Inl e) f = Inl e" "result_bind (Inr x) f = f x"
  by (simp_all add: result_bind_def)

lemma result_bind_Inr [result_simps]:
  "result_bind r f = Inr y \<longleftrightarrow> (\<exists>x. r = Inr x \<and> f x = Inr y)"
  by (cases r) auto

lemma result_bind_Inl:
  "result_bind r f = Inl e \<longleftrightarrow> r = Inl e \<or> (\<exists>x. r = Inr x \<and> f x = Inl e)"
  by (cases r) auto

lemma run_bind_simps [simp, result_simps]:
  "run_bind (Ret x) f = f x" "run_bind (Panic m) f = Panic m"
  by (simp_all add: run_bind_def)

lemma run_bind_Ret [result_simps]:
  "run_bind r f = Ret y \<longleftrightarrow> (\<exists>x. r = Ret x \<and> f x = Ret y)"
  by (cases r) auto

lemma ok_or_simps [simp, result_simps]:
  "ok_or None e = Inl e" "ok_or (Some v) e = Inr v"
  by (simp_all add: ok_or_def)

lemma ok_or_eq [result_simps]:
  "ok_or x e = Inr v \<longleftrightarrow> x = Some v" "ok_or x e = Inl e' \<longleftrightarrow> x = None \<and> e' = e"
  by (cases x; auto)+

lemma map_err_simps [simp, result_simps]:
  "map_err f (Inl e) = Inl (f e)" "map_err f (Inr x) = Inr x"
  by (simp_all add: map_err_def)

lemma map_err_Inr [result_simps]: "map_err f r = Inr x \<longleftrightarrow> r = Inr x"
  by (cases r) auto

lemma option_filter_simps [simp, result_simps]:
  "option_filter p None = None" "option_filter p (Some v) = (if p v then Some v else None)"
  by (simp_all add: option_filter_def)

lemma option_filter_Some [result_simps]: "option_filter p x = Some v \<longleftrightarrow> x = Some v \<and> p v"
  by (cases x) auto

lemma option_filter_None [result_simps]:
  "option_filter p x = None \<longleftrightarrow> x = None \<or> (\<exists>v. x = Some v \<and> \<not> p v)"
  by (cases x) auto

lemma result_ok_simps [simp, result_simps]:
  "result_ok (Inl e) = None" "result_ok (Inr x) = Some x"
  by (simp_all add: result_ok_def)

lemma result_ok_Some [result_simps]: "result_ok r = Some x \<longleftrightarrow> r = Inr x"
  by (cases r) auto

lemma i64_sub_ok:
  assumes "i64_min \<le> sint a - sint b" "sint a - sint b \<le> i64_max"
  shows "i64_sub checks a b = Ret (a - b)" "sint (a - b) = sint a - sint b"
proof -
  show "i64_sub checks a b = Ret (a - b)" using assms by (simp add: i64_sub_def)
  have "a - b = word_of_int (sint a - sint b)" by simp
  then show "sint (a - b) = sint a - sint b" using assms by (metis sint_of_int_i64)
qed

lemma i64_add_ok:
  assumes "i64_min \<le> i" "i \<le> i64_max" "i64_min \<le> j" "j \<le> i64_max" "i64_min \<le> i + j" "i + j \<le> i64_max"
  shows "i64_add checks (word_of_int i) (word_of_int j) = Ret (word_of_int (i + j))"
  using assms by (simp add: i64_add_def sint_of_int_i64)

lemma i64_abs_ok:
  assumes "sint a \<noteq> i64_min"
  shows "i64_abs checks a = Ret (if sint a < 0 then - a else a)"
    "sint (if sint a < 0 then - a else a) = \<bar>sint a\<bar>"
proof -
  show "i64_abs checks a = Ret (if sint a < 0 then - a else a)"
    using assms by (simp add: i64_abs_def)
  have r: "i64_min \<le> - sint a" "- sint a \<le> i64_max"
    using sint_i64_range [of a] assms by (auto simp: i64_min_def i64_max_def)
  have "- a = word_of_int (- sint a)" by simp
  then have "sint (- a) = - sint a" using sint_of_int_i64 [OF r] by simp
  then show "sint (if sint a < 0 then - a else a) = \<bar>sint a\<bar>" by simp
qed

section \<open>Encoders and decoders\<close>

text \<open>
  The contract of a wire form: what is encoded decodes back. \<open>good\<close> names the values the
  law is promised for (\<open>\<lambda>_. True\<close> where it is all of them).
\<close>

locale codec =
  fixes enc :: "'a \<Rightarrow> 'b"
    and dec :: "'b \<Rightarrow> 'a option"
    and good :: "'a \<Rightarrow> bool"
  assumes dec_enc: "good x \<Longrightarrow> dec (enc x) = Some x"
begin

lemma enc_eq_iff: "good x \<Longrightarrow> good y \<Longrightarrow> enc x = enc y \<longleftrightarrow> x = y"
  by (metis dec_enc option.inject)

lemma enc_inj_on: "inj_on enc {x. good x}"
  by (rule inj_onI) (simp add: enc_eq_iff)

lemma dec_enc_eq: "good x \<Longrightarrow> dec (enc x) = Some y \<longleftrightarrow> y = x"
  by (auto simp: dec_enc)

end

text \<open>
  A frame around a codec: \<open>wrap\<close> puts a marker on the encoded form and \<open>unwrap\<close> takes it
  off, so the framed form is a codec again.
\<close>

locale framed_codec = codec enc dec good
  for enc :: "'a \<Rightarrow> 'b" and dec :: "'b \<Rightarrow> 'a option" and good :: "'a \<Rightarrow> bool" +
  fixes wrap :: "'b \<Rightarrow> 'c"
    and unwrap :: "'c \<Rightarrow> 'b option"
  assumes unwrap_wrap: "unwrap (wrap b) = Some b"
begin

lemma framed_dec_enc: "good x \<Longrightarrow> Option.bind (unwrap (wrap (enc x))) dec = Some x"
  by (simp add: unwrap_wrap dec_enc)

end

sublocale framed_codec \<subseteq> framed: codec "\<lambda>x. wrap (enc x)" "\<lambda>c. Option.bind (unwrap c) dec" good
  by unfold_locales (rule framed_dec_enc)

section \<open>Step relations that keep an invariant\<close>

locale kept_invariant =
  fixes step :: "'s \<Rightarrow> 'e \<Rightarrow> 's"
    and inv :: "'s \<Rightarrow> bool"
  assumes inv_step: "inv s \<Longrightarrow> inv (step s e)"
begin

lemma inv_run: "inv s \<Longrightarrow> inv (foldl step s es)"
  by (induction es arbitrary: s) (simp_all add: inv_step)

end

text \<open>And for a step that is a relation, along every run of it.\<close>

locale relation_invariant =
  fixes step :: "'s \<Rightarrow> 's \<Rightarrow> bool"
    and inv :: "'s \<Rightarrow> bool"
  assumes inv_next: "step s s' \<Longrightarrow> inv s \<Longrightarrow> inv s'"
begin

lemma inv_reached: "step\<^sup>*\<^sup>* s s' \<Longrightarrow> inv s \<Longrightarrow> inv s'"
  by (induction rule: rtranclp_induct) (auto intro: inv_next)

end

text \<open>The same for a preorder the steps only climb: no run loses what the start had.\<close>

locale monotone_steps =
  fixes step :: "'s \<Rightarrow> 'e \<Rightarrow> 's"
    and le :: "'s \<Rightarrow> 's \<Rightarrow> bool"
  assumes le_refl: "le s s"
    and le_trans: "le s t \<Longrightarrow> le t u \<Longrightarrow> le s u"
    and le_step: "le s (step s e)"
begin

lemma le_run: "le s (foldl step s es)"
proof (induction es arbitrary: s)
  case Nil
  show ?case by (simp add: le_refl)
next
  case (Cons e es)
  have "le s (step s e)" by (rule le_step)
  moreover have "le (step s e) (foldl step (step s e) es)" by (rule Cons.IH)
  ultimately show ?case by (auto intro: le_trans)
qed

end

sublocale monotone_steps \<subseteq> above: kept_invariant step "\<lambda>s. le s0 s" for s0
  by unfold_locales (blast intro: le_trans le_step)

section \<open>Lists\<close>

lemma dropWhile_head: "dropWhile P s = c # cs \<Longrightarrow> \<not> P c"
  by (metis dropWhile_eq_Cons_conv)

lemma append_eq_at_separator:
  assumes "xs @ c # ys = xs' @ c # ys'" and "c \<notin> set xs" and "c \<notin> set xs'"
  shows "xs = xs' \<and> ys = ys'"
  using assms
proof (induction xs arbitrary: xs')
  case Nil
  then show ?case by (cases xs') auto
next
  case (Cons x xs)
  then show ?case by (cases xs') auto
qed

text \<open>
  \<open>sort_unstable\<close> followed by \<open>dedup\<close>, which is also the iteration order of a
  \<open>BTreeSet\<close>: ascending, each value once (equal elements are equal values here).
\<close>

definition sort_dedup :: "'a :: linorder list \<Rightarrow> 'a list" where
  "sort_dedup xs = remdups_adj (sort xs)"

lemma set_sort_dedup [simp]: "set (sort_dedup xs) = set xs"
  by (simp add: sort_dedup_def)

lemma distinct_remdups_adj_sorted: "sorted xs \<Longrightarrow> distinct (remdups_adj xs)"
proof (induction xs rule: remdups_adj.induct)
  case (3 x y xs)
  then show ?case by (auto split: if_splits dest: order_antisym)
qed simp_all

lemma sort_dedup_sorted: "sorted (sort_dedup xs) \<and> distinct (sort_dedup xs)"
  by (simp add: sort_dedup_def sorted_remdups_adj distinct_remdups_adj_sorted)

lemma sort_dedup_Nil [simp]: "sort_dedup xs = [] \<longleftrightarrow> xs = []"
  by (metis set_empty set_sort_dedup)

lemma sort_dedup_unique: "sorted ys \<Longrightarrow> distinct ys \<Longrightarrow> set ys = set xs \<Longrightarrow> ys = sort_dedup xs"
  by (rule sorted_distinct_set_unique) (simp_all add: sort_dedup_sorted)

end
