(* ===== verification/Rust_Str.thy ===== *)
theory Rust_Str
  imports Prelude
begin

text \<open>
  The parts of Rust's \<open>str\<close>, \<open>char\<close> and integer formatting that the source calls. A string is
  the list of its Unicode scalar values; \<open>utf8\<close> gives the bytes that \<open>as_bytes\<close> shows and
  that \<open>len\<close> counts. White space and control characters are the full Unicode properties
  \<open>White_Space\<close> and \<open>Cc\<close>, which is what \<open>trim\<close> and \<open>char::is_control\<close> test.
\<close>

named_theorems str_simps \<open>rules that evaluate string operations on concrete strings\<close>

type_synonym rchar = nat
type_synonym rstr = "rchar list"
type_synonym bytes = "u8 list"

definition lit :: "string \<Rightarrow> rstr" where
  "lit s = map of_char s"

definition valid_char :: "rchar \<Rightarrow> bool" where
  "valid_char c \<longleftrightarrow> c < 1114112 \<and> \<not> (55296 \<le> c \<and> c < 57344)"

definition valid_str :: "rstr \<Rightarrow> bool" where
  "valid_str s \<longleftrightarrow> list_all valid_char s"

section \<open>Trimming and classes of characters\<close>

definition is_whitespace :: "rchar \<Rightarrow> bool" where
  "is_whitespace c \<longleftrightarrow> (9 \<le> c \<and> c \<le> 13) \<or> c = 32 \<or> c = 133 \<or> c = 160 \<or> c = 5760
     \<or> (8192 \<le> c \<and> c \<le> 8202) \<or> c = 8232 \<or> c = 8233 \<or> c = 8239 \<or> c = 8287 \<or> c = 12288"

definition is_control :: "rchar \<Rightarrow> bool" where
  "is_control c \<longleftrightarrow> c < 32 \<or> (127 \<le> c \<and> c < 160)"

definition trim_start :: "rstr \<Rightarrow> rstr" where
  "trim_start s = dropWhile is_whitespace s"

definition trim_end :: "rstr \<Rightarrow> rstr" where
  "trim_end s = rev (dropWhile is_whitespace (rev s))"

definition trim :: "rstr \<Rightarrow> rstr" where
  "trim s = trim_end (trim_start s)"

definition trim_end_matches :: "rchar \<Rightarrow> rstr \<Rightarrow> rstr" where
  "trim_end_matches c s = rev (dropWhile (\<lambda>x. x = c) (rev s))"

text \<open>\<open>trimmed s\<close>: no white space at either end, so \<open>trim\<close> leaves \<open>s\<close> alone.\<close>

definition trimmed :: "rstr \<Rightarrow> bool" where
  "trimmed s \<longleftrightarrow> s = [] \<or> (\<not> is_whitespace (hd s) \<and> \<not> is_whitespace (last s))"

lemma dropWhile_hd: "s = [] \<or> \<not> P (hd s) \<Longrightarrow> dropWhile P s = s"
  by (cases s) auto

lemma trim_trimmed: "trimmed s \<Longrightarrow> trim s = s"
  by (auto simp: trimmed_def trim_def trim_start_def trim_end_def dropWhile_hd hd_rev)

lemma trimmed_trim: "trimmed (trim s)"
proof (cases "trim s = []")
  case True
  then show ?thesis by (simp add: trimmed_def)
next
  case False
  let ?t = "trim_start s"
  have ne: "trim_end ?t \<noteq> []" using False by (simp add: trim_def)
  then obtain c cs where r: "dropWhile is_whitespace (rev ?t) = c # cs"
    by (cases "dropWhile is_whitespace (rev ?t)") (auto simp: trim_end_def)
  have last: "\<not> is_whitespace (last (trim_end ?t))"
    using dropWhile_head [OF r] by (simp add: trim_end_def r)
  obtain pre where pre: "rev ?t = pre @ dropWhile is_whitespace (rev ?t)"
    by (metis takeWhile_dropWhile_id)
  have split: "?t = trim_end ?t @ rev pre"
    by (metis pre rev_append rev_rev_ident trim_end_def)
  have "hd (trim_end ?t) = hd ?t" using ne split by (metis hd_append2)
  moreover have "?t \<noteq> []" using ne by (auto simp: trim_end_def)
  then have "\<not> is_whitespace (hd ?t)"
    by (metis dropWhile_head list.collapse trim_start_def)
  ultimately show ?thesis using last by (simp add: trimmed_def trim_def)
qed

lemma trim_idem [simp]: "trim (trim s) = trim s"
  by (rule trim_trimmed) (rule trimmed_trim)

lemma trim_eq_iff: "trim s = s \<longleftrightarrow> trimmed s"
  by (metis trim_trimmed trimmed_trim)

lemma trim_Nil [simp]: "trim [] = []"
  by (simp add: trim_def trim_start_def trim_end_def)

lemma set_trim: "set (trim s) \<subseteq> set s"
  unfolding trim_def trim_start_def trim_end_def
  by (metis set_dropWhileD set_rev subsetI)

lemma trimmed_no_whitespace: "\<forall>c \<in> set s. \<not> is_whitespace c \<Longrightarrow> trimmed s"
  by (auto simp: trimmed_def)

lemma trim_no_whitespace: "\<forall>c \<in> set s. \<not> is_whitespace c \<Longrightarrow> trim s = s"
  by (simp add: trim_trimmed trimmed_no_whitespace)

lemma trim_end_matches_last: "s' = trim_end_matches c s \<Longrightarrow> s' \<noteq> [] \<Longrightarrow> last s' \<noteq> c"
  unfolding trim_end_matches_def
  by (metis (mono_tags, lifting) hd_rev hd_dropWhile rev_is_Nil_conv rev_rev_ident)

lemma trim_end_matches_id: "s = [] \<or> last s \<noteq> c \<Longrightarrow> trim_end_matches c s = s"
  by (cases s rule: rev_cases) (auto simp: trim_end_matches_def)

lemma trim_end_matches_split: "\<exists>n. s = trim_end_matches c s @ replicate n c"
proof -
  let ?p = "\<lambda>x. x = c"
  have "rev s = takeWhile ?p (rev s) @ dropWhile ?p (rev s)" by simp
  then have "s = trim_end_matches c s @ rev (takeWhile ?p (rev s))"
    unfolding trim_end_matches_def by (metis rev_append rev_rev_ident)
  moreover have "takeWhile ?p (rev s) = replicate (length (takeWhile ?p (rev s))) c"
    by (rule replicate_length_same [symmetric]) (auto dest: set_takeWhileD)
  ultimately show ?thesis by (metis rev_replicate)
qed

section \<open>Splitting and prefixes\<close>

fun split_char :: "rchar \<Rightarrow> rstr \<Rightarrow> rstr list" where
  "split_char c [] = [[]]"
| "split_char c (x # xs) =
     (if x = c then [] # split_char c xs
      else (case split_char c xs of [] \<Rightarrow> [[x]] | p # ps \<Rightarrow> (x # p) # ps))"

lemma split_char_nonempty [simp]: "split_char c s \<noteq> []"
  by (cases s) (auto split: list.splits)

lemma split_char_no_sep: "p \<in> set (split_char c s) \<Longrightarrow> c \<notin> set p"
proof (induction s arbitrary: p)
  case Nil
  then show ?case by simp
next
  case (Cons x xs)
  then show ?case by (cases "split_char c xs") (auto split: if_splits)
qed

fun strip_prefix :: "'a list \<Rightarrow> 'a list \<Rightarrow> 'a list option" where
  "strip_prefix [] s = Some s"
| "strip_prefix (p # ps) [] = None"
| "strip_prefix (p # ps) (c # cs) = (if p = c then strip_prefix ps cs else None)"

lemma strip_prefix_append [simp]: "strip_prefix p (p @ s) = Some s"
  by (induction p) auto

lemma strip_prefix_Some: "strip_prefix p s = Some r \<longleftrightarrow> s = p @ r"
  by (induction p s rule: strip_prefix.induct) auto

section \<open>UTF-8\<close>

definition utf8_units :: "rchar \<Rightarrow> nat list" where
  "utf8_units c =
     (if c < 128 then [c]
      else if c < 2048 then [192 + c div 64, 128 + c mod 64]
      else if c < 65536 then [224 + c div 4096, 128 + c div 64 mod 64, 128 + c mod 64]
      else [240 + c div 262144, 128 + c div 4096 mod 64, 128 + c div 64 mod 64, 128 + c mod 64])"

definition utf8_char :: "rchar \<Rightarrow> bytes" where
  "utf8_char c = map of_nat (utf8_units c)"

definition utf8 :: "rstr \<Rightarrow> bytes" where
  "utf8 s = concat (map utf8_char s)"

lemma utf8_simps [simp]:
  "utf8 [] = []" "utf8 (c # s) = utf8_char c @ utf8 s" "utf8 (s @ t) = utf8 s @ utf8 t"
  by (simp_all add: utf8_def)

lemma utf8_char_ascii: "c < 128 \<Longrightarrow> utf8_char c = [of_nat c]"
  by (simp add: utf8_char_def utf8_units_def)

lemma utf8_ascii: "\<forall>c \<in> set s. c < 128 \<Longrightarrow> utf8 s = map of_nat s"
  by (induction s) (auto simp: utf8_char_ascii)

text \<open>
  The encoding is prefix free on scalar values: the first unit gives the length, and the
  units give the value. So a byte string is the encoding of at most one string.
\<close>

lemma eq_by_digit: "c div 64 = d div 64 \<Longrightarrow> c mod 64 = d mod 64 \<Longrightarrow> c = (d :: nat)"
  by (metis div_mult_mod_eq)

lemma div_64_64: "c div 4096 = c div 64 div 64" "c div 262144 = c div 64 div 64 div (64 :: nat)"
  by (simp_all add: div_mult2_eq [symmetric])

lemma utf8_unit_bounds:
  fixes c :: nat
  assumes "c < 1114112"
  shows "c < 2048 \<Longrightarrow> c div 64 < 32" "c < 65536 \<Longrightarrow> c div 64 div 64 < 16"
    "c div 64 div 64 div 64 < 5"
  using assms by (auto simp: div_mult2_eq [symmetric])

lemma utf8_units_prefix_free:
  assumes "c < 1114112" "d < 1114112" "utf8_units c @ xs = utf8_units d @ ys"
  shows "c = d \<and> xs = ys"
  using assms(3) utf8_unit_bounds [OF assms(1)] utf8_unit_bounds [OF assms(2)]
  by (auto simp: utf8_units_def div_64_64 split: if_splits intro!: eq_by_digit)

lemma utf8_units_byte: "c < 1114112 \<Longrightarrow> u \<in> set (utf8_units c) \<Longrightarrow> u < 256"
  using utf8_unit_bounds [of c] mod_less_divisor [of 64]
  by (auto simp: utf8_units_def div_64_64 split: if_splits intro: less_le_trans)

lemma unat_utf8_char: "c < 1114112 \<Longrightarrow> map unat (utf8_char c) = utf8_units c"
  by (auto simp: utf8_char_def unat_of_nat intro!: map_idI dest: utf8_units_byte)

lemma utf8_char_prefix_free:
  assumes "valid_char c" "valid_char d" "utf8_char c @ xs = utf8_char d @ ys"
  shows "c = d \<and> xs = ys"
proof -
  have lt: "c < 1114112" "d < 1114112" using assms(1,2) by (simp_all add: valid_char_def)
  have "map unat (utf8_char c @ xs) = map unat (utf8_char d @ ys)" using assms(3) by simp
  then have "utf8_units c @ map unat xs = utf8_units d @ map unat ys"
    by (simp add: unat_utf8_char lt)
  then have "c = d" using utf8_units_prefix_free lt by blast
  with assms(3) show ?thesis by simp
qed

lemma utf8_char_nonempty [simp]: "utf8_char c \<noteq> []"
  by (simp add: utf8_char_def utf8_units_def)

lemma utf8_inj: "valid_str s \<Longrightarrow> valid_str t \<Longrightarrow> utf8 s = utf8 t \<longleftrightarrow> s = t"
proof (induction s arbitrary: t)
  case Nil
  then show ?case by (cases t) auto
next
  case (Cons c s)
  then show ?case
    by (cases t) (auto simp: valid_str_def dest: utf8_char_prefix_free)
qed

text \<open>An ASCII character is in a string exactly when its byte is in the encoding.\<close>

lemma utf8_units_ascii: "u \<in> set (utf8_units c) \<Longrightarrow> u < 128 \<Longrightarrow> u = c"
  by (auto simp: utf8_units_def split: if_splits)

lemma utf8_char_ascii_iff:
  assumes "a < 128" "valid_char c"
  shows "(of_nat a :: u8) \<in> set (utf8_char c) \<longleftrightarrow> a = c"
proof
  assume "(of_nat a :: u8) \<in> set (utf8_char c)"
  then have "unat (of_nat a :: u8) \<in> set (map unat (utf8_char c))" by simp
  then have "a \<in> set (utf8_units c)"
    using assms by (simp only: unat_utf8_char valid_char_def) (simp add: unat_of_nat)
  then show "a = c" using assms(1) by (rule utf8_units_ascii)
next
  assume "a = c"
  then show "(of_nat a :: u8) \<in> set (utf8_char c)"
    using assms(1) by (simp add: utf8_char_ascii)
qed

lemma utf8_ascii_iff:
  "a < 128 \<Longrightarrow> valid_str s \<Longrightarrow> (of_nat a :: u8) \<in> set (utf8 s) \<longleftrightarrow> a \<in> set s"
  by (induction s) (auto simp: valid_str_def utf8_char_ascii_iff)

text \<open>
  \<open>String::from_utf8\<close> on the bytes of a string: the length of a character is in its first
  unit. On other bytes the result means nothing.
\<close>

fun utf8_read :: "nat list \<Rightarrow> rstr" where
  "utf8_read [] = []"
| "utf8_read (a # xs) =
     (if a < 128 then a # utf8_read xs
      else (case xs of
              [] \<Rightarrow> []
            | b # ys \<Rightarrow>
                if a < 224 then ((a - 192) * 64 + (b - 128)) # utf8_read ys
                else (case ys of
                        [] \<Rightarrow> []
                      | c # zs \<Rightarrow>
                          if a < 240 then ((a - 224) * 4096 + (b - 128) * 64 + (c - 128)) # utf8_read zs
                          else (case zs of
                                  [] \<Rightarrow> []
                                | d # ws \<Rightarrow>
                                    ((a - 240) * 262144 + (b - 128) * 4096 + (c - 128) * 64 + (d - 128))
                                      # utf8_read ws))))"

definition utf8_decode :: "bytes \<Rightarrow> rstr" where
  "utf8_decode bs = utf8_read (map unat bs)"

lemma join_digits:
  fixes c :: nat
  shows "c div 64 * 64 + c mod 64 = c"
    "c div 64 div 64 * 4096 + c div 64 mod 64 * 64 + c mod 64 = c"
    "c div 64 div 64 div 64 * 262144 + c div 64 div 64 mod 64 * 4096 + c div 64 mod 64 * 64 + c mod 64 = c"
proof -
  have 1: "c = 64 * (c div 64) + c mod 64"
    and 2: "c div 64 = 64 * (c div 64 div 64) + c div 64 mod 64"
    and 3: "c div 64 div 64 = 64 * (c div 64 div 64 div 64) + c div 64 div 64 mod 64"
    by simp_all
  show "c div 64 * 64 + c mod 64 = c" using 1 by linarith
  show "c div 64 div 64 * 4096 + c div 64 mod 64 * 64 + c mod 64 = c" using 1 2 by linarith
  show "c div 64 div 64 div 64 * 262144 + c div 64 div 64 mod 64 * 4096 + c div 64 mod 64 * 64 + c mod 64 = c"
    using 1 2 3 by linarith
qed

lemma utf8_read_units: "c < 1114112 \<Longrightarrow> utf8_read (utf8_units c @ xs) = c # utf8_read xs"
  using utf8_unit_bounds [of c] by (auto simp: utf8_units_def div_64_64 join_digits)

lemma utf8_decode_utf8: "valid_str s \<Longrightarrow> utf8_decode (utf8 s) = s"
  by (induction s)
     (simp_all add: utf8_decode_def valid_str_def valid_char_def unat_utf8_char utf8_read_units del: utf8_read.simps(2))

interpretation utf8wire: codec utf8 "\<lambda>b. Some (utf8_decode b)" valid_str
  by unfold_locales (simp add: utf8_decode_utf8)

lemma valid_str_ascii: "\<forall>c \<in> set s. c < 128 \<Longrightarrow> valid_str s"
  by (induction s) (auto simp: valid_str_def valid_char_def)

section \<open>Decimal integers\<close>

fun show_nat :: "nat \<Rightarrow> rstr" where
  "show_nat n = (if n < 10 then [48 + n] else show_nat (n div 10) @ [48 + n mod 10])"

declare show_nat.simps [simp del]

definition show_i64 :: "i64 \<Rightarrow> rstr" where
  "show_i64 w = (if sint w < 0 then 45 # show_nat (nat (- sint w)) else show_nat (nat (sint w)))"

definition digit_value :: "rchar \<Rightarrow> nat option" where
  "digit_value c = (if 48 \<le> c \<and> c \<le> 57 then Some (c - 48) else None)"

fun parse_digits :: "nat \<Rightarrow> rstr \<Rightarrow> nat option" where
  "parse_digits acc [] = Some acc"
| "parse_digits acc (c # cs) =
     (case digit_value c of None \<Rightarrow> None | Some d \<Rightarrow> parse_digits (10 * acc + d) cs)"

definition parse_nat :: "rstr \<Rightarrow> nat option" where
  "parse_nat s = (if s = [] then None else parse_digits 0 s)"

text \<open>
  \<open>str::parse::<i64>\<close>: an optional sign, at least one digit, nothing else, in range. The
  error kinds of the library are not told apart, as the source does not.
\<close>

definition parse_i64 :: "rstr \<Rightarrow> i64 option" where
  "parse_i64 s =
     (let v = (case s of
                 c # cs \<Rightarrow>
                   (if c = 45 then map_option (\<lambda>n. - int n) (parse_nat cs)
                    else if c = 43 then map_option int (parse_nat cs)
                    else map_option int (parse_nat s))
               | [] \<Rightarrow> None)
      in (case v of
            None \<Rightarrow> None
          | Some i \<Rightarrow> (if i64_min \<le> i \<and> i \<le> i64_max then Some (word_of_int i) else None)))"

lemma parse_digits_append:
  "parse_digits acc (s @ t) = Option.bind (parse_digits acc s) (\<lambda>a. parse_digits a t)"
  by (induction s arbitrary: acc) (auto split: option.splits)

lemma show_nat_nonempty [simp]: "show_nat n \<noteq> []"
  by (subst show_nat.simps) auto

lemma show_nat_digits: "c \<in> set (show_nat n) \<Longrightarrow> 48 \<le> c \<and> c \<le> 57"
proof (induction n rule: show_nat.induct)
  case (1 n)
  then show ?case by (subst (asm) (2) show_nat.simps) (auto split: if_splits)
qed

lemma parse_digits_show_nat: "parse_digits 0 (show_nat n) = Some n"
proof (induction n rule: show_nat.induct)
  case (1 n)
  then show ?case
    by (subst show_nat.simps)
       (auto simp: parse_digits_append digit_value_def mult_div_mod_eq)
qed

lemma parse_nat_show_nat [simp]: "parse_nat (show_nat n) = Some n"
  by (simp add: parse_nat_def parse_digits_show_nat)

lemma show_i64_chars: "c \<in> set (show_i64 w) \<Longrightarrow> c = 45 \<or> (48 \<le> c \<and> c \<le> 57)"
  by (auto simp: show_i64_def dest: show_nat_digits split: if_splits)

lemma show_nat_hd: "48 \<le> hd (show_nat n) \<and> hd (show_nat n) \<le> 57"
  by (rule show_nat_digits [of _ n]) simp

lemma parse_i64_show_i64 [simp]: "parse_i64 (show_i64 w) = Some w"
proof (cases "sint w < 0")
  case True
  then show ?thesis
    using sint_i64_range [of w] by (simp add: show_i64_def parse_i64_def)
next
  case False
  obtain c cs where s: "show_nat (nat (sint w)) = c # cs"
    by (cases "show_nat (nat (sint w))") auto
  with show_nat_hd [of "nat (sint w)"] have "c \<noteq> 45" "c \<noteq> 43" by auto
  with False s parse_nat_show_nat [of "nat (sint w)"] show ?thesis
    using sint_i64_range [of w] by (simp add: show_i64_def parse_i64_def)
qed

lemma show_i64_nonempty [simp]: "show_i64 w \<noteq> []"
  by (simp add: show_i64_def)

lemma trim_show_i64 [simp]: "trim (show_i64 w) = show_i64 w"
  by (rule trim_no_whitespace) (auto simp: is_whitespace_def dest: show_i64_chars)

text \<open>What parses is ASCII: a sign and digits.\<close>

lemma parse_digits_ascii: "parse_digits acc s = Some n \<Longrightarrow> c \<in> set s \<Longrightarrow> 48 \<le> c \<and> c \<le> 57"
  by (induction s arbitrary: acc)
     (auto simp: digit_value_def split: option.splits if_splits)

lemma parse_nat_ascii: "parse_nat s = Some n \<Longrightarrow> c \<in> set s \<Longrightarrow> 48 \<le> c \<and> c \<le> 57"
  by (auto simp: parse_nat_def dest: parse_digits_ascii split: if_splits)

lemma parse_i64_chars:
  "parse_i64 s = Some w \<Longrightarrow> c \<in> set s \<Longrightarrow> c = 43 \<or> c = 45 \<or> (48 \<le> c \<and> c \<le> 57)"
  by (cases s)
     (auto simp: parse_i64_def Let_def split: option.splits if_splits dest: parse_nat_ascii)

interpretation dec64: codec show_i64 parse_i64 "\<lambda>_. True"
  by unfold_locales simp

text \<open>Distinct values print differently: the codec's law, on the decimal form.\<close>

lemma show_i64_inj: "show_i64 v = show_i64 w \<longleftrightarrow> v = w"
  by (rule dec64.enc_eq_iff) simp_all

lemmas eval_str [str_simps] =
  lit_def trim_def trim_start_def trim_end_def is_whitespace_def is_control_def
  trim_end_matches_def utf8_char_def utf8_units_def show_nat.simps show_i64_def digit_value_def
  parse_nat_def parse_i64_def i64_min_def i64_max_def

end
