(* ===== verification/Webhook_Hex.thy ===== *)
theory Webhook_Hex
  imports Rust_Str
begin

unbundle bit_operations_syntax

text \<open>
  The hexadecimal wire form of \<open>platform-webhook-sig\<close>: \<open>hex_lower\<close>, and \<open>hex_decode\<close> as the
  source has it, a \<open>while\<close> loop over a byte index whose reads can panic. The loop is proved
  to end, never to read out of range and to compute the structural \<open>hex_pairs\<close>; the two
  together are a codec.
\<close>

section \<open>Encoding\<close>

definition hex_digit :: "nat \<Rightarrow> rchar" where
  "hex_digit n = (if n < 10 then 48 + n else 87 + n)"

text \<open>\<open>{b:02x}\<close>: two lower-case digits for every byte.\<close>

definition hex_lower :: "bytes \<Rightarrow> rstr" where
  "hex_lower bs = concat (map (\<lambda>b. [hex_digit (unat b div 16), hex_digit (unat b mod 16)]) bs)"

section \<open>Decoding\<close>

definition nibble :: "u8 \<Rightarrow> u8 option" where
  "nibble c =
     (if 48 \<le> c \<and> c \<le> 57 then Some (c - 48)
      else if 97 \<le> c \<and> c \<le> 102 then Some (c - 97 + 10)
      else if 65 \<le> c \<and> c \<le> 70 then Some (c - 65 + 10)
      else None)"

text \<open>The loop of the source: \<open>i\<close> moves by two, the accumulator is what \<open>push\<close> has built.\<close>

function hex_loop :: "bytes \<Rightarrow> nat \<Rightarrow> bytes \<Rightarrow> bytes option run" where
  "hex_loop bs i out =
     (if i < length bs then
        (case nibble (bs ! i) of
           None \<Rightarrow> Ret None
         | Some hi \<Rightarrow>
             (if i + 1 < length bs then
                (case nibble (bs ! (i + 1)) of
                   None \<Rightarrow> Ret None
                 | Some lo \<Rightarrow> hex_loop bs (i + 2) (out @ [push_bit 4 hi OR lo]))
              else Panic ''index out of bounds''))
      else Ret (Some out))"
  by pat_completeness auto
termination
  by (relation "measure (\<lambda>(bs, i, out). length bs - i)") auto

declare hex_loop.simps [simp del]

definition hex_decode :: "rstr \<Rightarrow> bytes option run" where
  "hex_decode s =
     (if length (utf8 s) mod 2 \<noteq> 0 then Ret None else hex_loop (utf8 s) 0 [])"

section \<open>The loop computes the structural decoder\<close>

fun hex_pairs :: "bytes \<Rightarrow> bytes option" where
  "hex_pairs [] = Some []"
| "hex_pairs [c] = None"
| "hex_pairs (c # d # cs) =
     (case nibble c of
        None \<Rightarrow> None
      | Some hi \<Rightarrow>
          (case nibble d of
             None \<Rightarrow> None
           | Some lo \<Rightarrow> map_option ((#) (push_bit 4 hi OR lo)) (hex_pairs cs)))"

lemma hex_loop_pairs:
  "even (length bs) \<Longrightarrow> even i \<Longrightarrow> i \<le> length bs \<Longrightarrow>
     hex_loop bs i out = Ret (map_option ((@) out) (hex_pairs (drop i bs)))"
proof (induction bs i out rule: hex_loop.induct)
  case (1 bs i out)
  show ?case
  proof (cases "i < length bs")
    case False
    with "1.prems" have "i = length bs" by simp
    then show ?thesis by (simp add: hex_loop.simps [of bs "length bs" out])
  next
    case True
    with "1.prems" have i1: "i + 1 < length bs" by presburger
    then have d: "drop i bs = bs ! i # bs ! (i + 1) # drop (i + 2) bs"
      by (simp add: Cons_nth_drop_Suc [symmetric] Suc_lessD)
    have "even (i + 2)" "i + 2 \<le> length bs" using "1.prems" i1 by auto
    with "1.IH" [OF True _ i1] "1.prems"(1) i1 True d show ?thesis
      by (auto simp: hex_loop.simps [of bs i out] option.map_comp comp_def
               split: option.splits)
  qed
qed

lemma hex_pairs_odd: "odd (length bs) \<Longrightarrow> hex_pairs bs = None"
  by (induction bs rule: hex_pairs.induct) (auto split: option.splits)

lemma hex_decode_pairs: "hex_decode s = Ret (hex_pairs (utf8 s))"
proof (cases "even (length (utf8 s))")
  case True
  have "((@) []) = (\<lambda>x :: bytes. x)" by (simp add: fun_eq_iff)
  then show ?thesis
    using True by (simp add: hex_decode_def hex_loop_pairs option.map_ident)
next
  case False
  then show ?thesis by (simp add: hex_decode_def hex_pairs_odd odd_iff_mod_2_eq_one)
qed

section \<open>Round trip\<close>

lemma nibble_hex_digit: "n < 16 \<Longrightarrow> nibble (of_nat (hex_digit n)) = Some (of_nat n)"
proof -
  assume "n < 16"
  then have "n \<in> set [0..<16]" by simp
  moreover have "\<forall>n \<in> set [0..<16]. nibble (of_nat (hex_digit n)) = Some (of_nat n)"
    by code_simp
  ultimately show ?thesis by blast
qed

lemma unat_byte_lt: "unat (b :: u8) < 256"
  using unsigned_less [of b] by simp

lemma unat_byte_div: "unat (b :: u8) div 16 < 16"
  using unat_byte_lt [of b] by simp

lemma byte_of_nibbles: "push_bit 4 (of_nat (unat b div 16)) OR of_nat (unat b mod 16) = (b :: u8)"
proof -
  have hi: "(of_nat (unat b div 16) :: u8) = drop_bit 4 b"
    using unat_byte_div [of b]
    by (simp add: drop_bit_eq_div unat_div word_unat_eq_iff unat_of_nat)
  have lo: "(of_nat (unat b mod 16) :: u8) = take_bit 4 b"
    by (simp add: take_bit_eq_mod unat_mod word_unat_eq_iff unat_of_nat)
  show ?thesis
    unfolding hi lo by (rule bit_word_eqI) (auto simp: bit_simps)
qed

lemma hex_digit_ascii: "n < 16 \<Longrightarrow> hex_digit n < 128"
  by (simp add: hex_digit_def)

lemma hex_lower_simps [simp]:
  "hex_lower [] = []"
  "hex_lower (b # bs) = hex_digit (unat b div 16) # hex_digit (unat b mod 16) # hex_lower bs"
  by (simp_all add: hex_lower_def)

lemma hex_pairs_hex_lower: "hex_pairs (utf8 (hex_lower bs)) = Some bs"
  by (induction bs)
     (simp_all add: utf8_char_ascii hex_digit_ascii unat_byte_div nibble_hex_digit byte_of_nibbles)

lemma hex_decode_hex_lower: "hex_decode (hex_lower bs) = Ret (Some bs)"
  by (simp add: hex_decode_pairs hex_pairs_hex_lower)

interpretation hexc: codec hex_lower "\<lambda>s. hex_pairs (utf8 s)" "\<lambda>_. True"
  by unfold_locales (simp add: hex_pairs_hex_lower)

lemma hex_lower_inj: "hex_lower a = hex_lower b \<longleftrightarrow> a = b"
  by (rule hexc.enc_eq_iff) simp_all

lemma length_hex_lower: "length (hex_lower bs) = 2 * length bs"
  by (induction bs) simp_all

lemma hex_digit_lower: "n < 16 \<Longrightarrow> (48 \<le> hex_digit n \<and> hex_digit n \<le> 57) \<or> (97 \<le> hex_digit n \<and> hex_digit n \<le> 102)"
  by (simp add: hex_digit_def)

lemma hex_lower_chars: "c \<in> set (hex_lower bs) \<Longrightarrow> (48 \<le> c \<and> c \<le> 57) \<or> (97 \<le> c \<and> c \<le> 102)"
proof (induction bs)
  case (Cons b bs)
  show ?case
    using Cons hex_digit_lower [OF unat_byte_div [of b]] hex_digit_lower [of "unat b mod 16"]
    by auto
qed simp

end
