(* ===== verification/Webhook_Sig.thy ===== *)
theory Webhook_Sig
  imports Webhook_Hex
begin

text \<open>
  The signature scheme of \<open>platform-webhook-sig\<close>: \<open>Signer\<close>, \<open>Verifier\<close> and every step of
  \<open>verify\<close>, in the source's order. HMAC-SHA256 is the \<open>hmac\<close> and \<open>sha2\<close> crates': it is the
  parameter \<open>mac_api\<close> (key, message, tag), and \<open>mac_laws\<close> is what those crates document. The
  clock and the v4 UUID of \<open>sign\<close> are arguments. \<open>checks\<close> says whether the build has
  overflow checks.
\<close>

section \<open>Data\<close>

datatype scheme = Canonical | LegacyNoNonce

record signed =
  sgn_signature :: rstr
  sgn_timestamp :: rstr
  sgn_nonce :: rstr

record signer =
  signer_secret :: bytes

record presented =
  pre_signature :: "rstr option"
  pre_timestamp :: "rstr option"
  pre_nonce :: "rstr option"
  pre_body :: bytes

record verified =
  ver_nonce :: rstr
  ver_timestamp :: i64
  ver_scheme :: scheme

datatype verify_error =
    MissingSignature
  | MissingTimestamp
  | MissingNonce
  | MalformedSignature
  | MalformedTimestamp
  | SignatureMismatch
  | Stale (stale_timestamp: i64) (stale_now: i64) (stale_skew_secs: i64)

record verifier =
  vf_secret :: bytes
  vf_freshness_secs :: i64
  vf_accepted :: "scheme list"

definition default_freshness_secs :: i64 where
  "default_freshness_secs = 300"

fun verify_error_message :: "verify_error \<Rightarrow> rstr" where
  "verify_error_message MissingSignature = lit ''missing signature header''"
| "verify_error_message MissingTimestamp = lit ''missing timestamp header''"
| "verify_error_message MissingNonce = lit ''missing nonce header''"
| "verify_error_message MalformedSignature = lit ''malformed signature (expected sha256=<hex>)''"
| "verify_error_message MalformedTimestamp = lit ''malformed timestamp (expected integer seconds)''"
| "verify_error_message SignatureMismatch = lit ''signature mismatch''"
| "verify_error_message (Stale timestamp now skew_secs) =
     lit ''stale delivery: timestamp '' @ show_i64 timestamp @ lit '' is '' @ show_i64 skew_secs
     @ lit ''s from now ('' @ show_i64 now @ lit '')''"

section \<open>The MAC of the hmac crate\<close>

record mac_api =
  mac_new_ok :: "bytes \<Rightarrow> bool"
  mac_finalize :: "bytes \<Rightarrow> bytes \<Rightarrow> bytes"
  mac_verify_slice :: "bytes \<Rightarrow> bytes \<Rightarrow> bytes \<Rightarrow> bool"

text \<open>
  HMAC takes a key of any length, and \<open>verify_slice\<close> accepts exactly the tag \<open>finalize\<close>
  would give. Nothing is assumed about the tags themselves.
\<close>

definition mac_laws :: "mac_api \<Rightarrow> bool" where
  "mac_laws M \<longleftrightarrow> mac_new_ok M = (\<lambda>k. True) \<and>
     mac_verify_slice M = (\<lambda>k m t. t = mac_finalize M k m)"

lemma mac_laws_simps:
  "mac_laws M \<Longrightarrow> mac_new_ok M k"
  "mac_laws M \<Longrightarrow> mac_verify_slice M k m t \<longleftrightarrow> t = mac_finalize M k m"
  by (simp_all add: mac_laws_def)

section \<open>Signing\<close>

definition signer_new :: "bytes \<Rightarrow> signer" where
  "signer_new secret = \<lparr>signer_secret = secret\<rparr>"

definition mac_over :: "mac_api \<Rightarrow> bytes \<Rightarrow> rstr \<Rightarrow> rstr \<Rightarrow> bytes \<Rightarrow> bytes run" where
  "mac_over M secret timestamp nonce body =
     (if \<not> mac_new_ok M secret then Panic ''HMAC accepts any key length''
      else Ret (mac_finalize M secret
                  (utf8 timestamp @ utf8 (lit ''.'') @ utf8 nonce @ utf8 (lit ''.'') @ body)))"

definition sign_with :: "mac_api \<Rightarrow> signer \<Rightarrow> bytes \<Rightarrow> rstr \<Rightarrow> rstr \<Rightarrow> signed run" where
  "sign_with M s body timestamp nonce =
     run_bind (mac_over M (signer_secret s) timestamp nonce body)
       (\<lambda>mac. Ret \<lparr>sgn_signature = lit ''sha256='' @ hex_lower mac,
                    sgn_timestamp = timestamp, sgn_nonce = nonce\<rparr>)"

text \<open>
  \<open>SystemTime::now()\<close> is the number of nanoseconds since the epoch (negative before it);
  the seconds, an \<open>u64\<close>, are cast to \<open>i64\<close> bit for bit.
\<close>

definition now_unix_secs :: "int \<Rightarrow> i64" where
  "now_unix_secs nanos = (if 0 \<le> nanos then word_of_int (nanos div 10 ^ 9) else 0)"

definition sign :: "mac_api \<Rightarrow> signer \<Rightarrow> int \<Rightarrow> rstr \<Rightarrow> bytes \<Rightarrow> signed run" where
  "sign M s nanos uuid body =
     (let timestamp = show_i64 (now_unix_secs nanos); nonce = uuid
      in sign_with M s body timestamp nonce)"

section \<open>Verifying\<close>

definition verifier_new :: "bytes \<Rightarrow> verifier" where
  "verifier_new secret =
     \<lparr>vf_secret = secret, vf_freshness_secs = default_freshness_secs, vf_accepted = [Canonical]\<rparr>"

definition with_freshness_secs :: "verifier \<Rightarrow> i64 \<Rightarrow> verifier" where
  "with_freshness_secs v secs = v\<lparr>vf_freshness_secs := secs\<rparr>"

definition accepts :: "verifier \<Rightarrow> scheme \<Rightarrow> bool" where
  "accepts v scheme \<longleftrightarrow> scheme \<in> set (vf_accepted v)"

definition also_accept :: "verifier \<Rightarrow> scheme \<Rightarrow> verifier" where
  "also_accept v scheme =
     (if scheme \<notin> set (vf_accepted v) then v\<lparr>vf_accepted := vf_accepted v @ [scheme]\<rparr> else v)"

text \<open>The scheme, chosen by whether a nonce is present, within the accepted set.\<close>

definition choose_scheme :: "verifier \<Rightarrow> rstr option \<Rightarrow> verify_error + scheme" where
  "choose_scheme v nonce =
     (case nonce of
        Some n \<Rightarrow> (if accepts v Canonical then Ok Canonical else Err SignatureMismatch)
      | None \<Rightarrow> (if accepts v LegacyNoNonce then Ok LegacyNoNonce else Err MissingNonce))"

text \<open>The bytes fed to the MAC, update by update; \<open>expect\<close> panics on an absent nonce.\<close>

definition mac_updates :: "scheme \<Rightarrow> rstr \<Rightarrow> rstr option \<Rightarrow> bytes \<Rightarrow> bytes run" where
  "mac_updates scheme timestamp nonce body =
     (if scheme = Canonical then
        (case nonce of
           None \<Rightarrow> Panic ''canonical implies a nonce''
         | Some n \<Rightarrow> Ret (utf8 timestamp @ utf8 (lit ''.'') @ utf8 n @ utf8 (lit ''.'') @ body))
      else Ret (utf8 timestamp @ utf8 (lit ''.'') @ body))"

text \<open>What follows the MAC: the timestamp is trusted, parsed and compared with the clock.\<close>

definition check_freshness ::
  "bool \<Rightarrow> verifier \<Rightarrow> rstr \<Rightarrow> rstr option \<Rightarrow> scheme \<Rightarrow> i64 \<Rightarrow> (verify_error + verified) run" where
  "check_freshness checks v timestamp nonce scheme now =
     (case parse_i64 timestamp of
        None \<Rightarrow> Ret (Err MalformedTimestamp)
      | Some ts \<Rightarrow>
          run_bind (i64_sub checks now ts) (\<lambda>d.
          run_bind (i64_abs checks d) (\<lambda>skew.
            if sint skew > sint (vf_freshness_secs v) then Ret (Err (Stale ts now skew))
            else Ret (Ok \<lparr>ver_nonce = (case nonce of None \<Rightarrow> [] | Some n \<Rightarrow> n),
                          ver_timestamp = ts, ver_scheme = scheme\<rparr>))))"

definition present_nonce :: "presented \<Rightarrow> rstr option" where
  "present_nonce p = option_filter (\<lambda>n. n \<noteq> []) (map_option trim (pre_nonce p))"

definition verify ::
  "bool \<Rightarrow> mac_api \<Rightarrow> verifier \<Rightarrow> presented \<Rightarrow> i64 \<Rightarrow> (verify_error + verified) run" where
  "verify checks M v p now =
     (case pre_signature p of None \<Rightarrow> Ret (Err MissingSignature) | Some raw_signature \<Rightarrow>
     (case pre_timestamp p of None \<Rightarrow> Ret (Err MissingTimestamp) | Some raw_timestamp \<Rightarrow>
     (let signature = trim raw_signature;
          timestamp = trim raw_timestamp;
          nonce = present_nonce p
      in
     (case choose_scheme v nonce of Inl e \<Rightarrow> Ret (Err e) | Inr scheme \<Rightarrow>
     (case strip_prefix (lit ''sha256='') signature of
        None \<Rightarrow> Ret (Err MalformedSignature)
      | Some hex \<Rightarrow>
          run_bind (hex_decode hex) (\<lambda>decoded.
          (case decoded of
             None \<Rightarrow> Ret (Err MalformedSignature)
           | Some expected \<Rightarrow>
               if \<not> mac_new_ok M (vf_secret v) then Panic ''HMAC accepts any key length''
               else run_bind (mac_updates scheme timestamp nonce (pre_body p)) (\<lambda>message.
                 if \<not> mac_verify_slice M (vf_secret v) message expected
                 then Ret (Err SignatureMismatch)
                 else check_freshness checks v timestamp nonce scheme now))))))))"

section \<open>The signature header as a framed codec\<close>

text \<open>\<open>sha256=\<close> and the hex digits: what \<open>sign_with\<close> writes, \<open>verify\<close> reads back.\<close>

definition read_signature :: "rstr \<Rightarrow> bytes option" where
  "read_signature s =
     Option.bind (strip_prefix (lit ''sha256='') s) (\<lambda>h. hex_pairs (utf8 h))"

interpretation sigwire: framed_codec hex_lower "\<lambda>s. hex_pairs (utf8 s)" "\<lambda>_. True"
  "\<lambda>h. lit ''sha256='' @ h" "strip_prefix (lit ''sha256='')"
  by unfold_locales simp

lemma read_signature_written: "read_signature (lit ''sha256='' @ hex_lower tag) = Some tag"
  unfolding read_signature_def by (rule sigwire.framed_dec_enc) simp

lemma written_signature_trimmed: "trim (lit ''sha256='' @ hex_lower tag) = lit ''sha256='' @ hex_lower tag"
  by (rule trim_no_whitespace)
     (auto simp: lit_def is_whitespace_def dest: hex_lower_chars)

end
