(* ===== verification/Webhook_Security.thy ===== *)
theory Webhook_Security
  imports Webhook_Sig
begin

text \<open>
  What \<open>verify\<close> promises. First an equation without the panics the MAC crate rules out, then
  the abstract contract: a delivery is accepted exactly when it is authentic and fresh. The
  properties (round trip, binding, the ambiguity of the signed string, freshness with and
  without overflow checks, the order of the errors) follow from these two.
\<close>

section \<open>The signed bytes of a delivery\<close>

definition signed_bytes :: "rstr \<Rightarrow> rstr option \<Rightarrow> bytes \<Rightarrow> bytes" where
  "signed_bytes timestamp nonce body =
     utf8 timestamp @ utf8 (lit ''.'')
     @ (case nonce of None \<Rightarrow> [] | Some n \<Rightarrow> utf8 n @ utf8 (lit ''.'')) @ body"

definition scheme_of :: "rstr option \<Rightarrow> scheme" where
  "scheme_of nonce = (if nonce = None then LegacyNoNonce else Canonical)"

lemma choose_scheme_Inr:
  "choose_scheme v nonce = Inr s \<longleftrightarrow> s = scheme_of nonce \<and> accepts v s"
  by (auto simp: choose_scheme_def scheme_of_def split: option.splits)

lemma choose_scheme_Inl:
  "choose_scheme v nonce = Inl e \<longleftrightarrow>
     \<not> accepts v (scheme_of nonce) \<and> e = (if nonce = None then MissingNonce else SignatureMismatch)"
  by (auto simp: choose_scheme_def scheme_of_def split: option.splits)

lemma mac_updates_signed:
  "mac_updates (scheme_of nonce) timestamp nonce body = Ret (signed_bytes timestamp nonce body)"
  by (simp add: mac_updates_def scheme_of_def signed_bytes_def split: option.splits)

lemma verify_eq:
  assumes "mac_laws M"
  shows "verify checks M v p now =
    (case pre_signature p of None \<Rightarrow> Ret (Err MissingSignature) | Some s \<Rightarrow>
    (case pre_timestamp p of None \<Rightarrow> Ret (Err MissingTimestamp) | Some t \<Rightarrow>
    (case choose_scheme v (present_nonce p) of Inl e \<Rightarrow> Ret (Err e) | Inr scheme \<Rightarrow>
    (case read_signature (trim s) of None \<Rightarrow> Ret (Err MalformedSignature) | Some tag \<Rightarrow>
       if tag \<noteq> mac_finalize M (vf_secret v) (signed_bytes (trim t) (present_nonce p) (pre_body p))
       then Ret (Err SignatureMismatch)
       else check_freshness checks v (trim t) (present_nonce p) scheme now))))"
  using assms
  by (auto simp: verify_def Let_def read_signature_def hex_decode_pairs mac_laws_simps
      choose_scheme_Inr choose_scheme_Inl mac_updates_signed split: option.split sum.split)

section \<open>The contract: authentic and fresh\<close>

definition authentic :: "mac_api \<Rightarrow> verifier \<Rightarrow> presented \<Rightarrow> verified \<Rightarrow> bool" where
  "authentic M v p r \<longleftrightarrow>
     (case pre_signature p of None \<Rightarrow> False | Some s \<Rightarrow>
     (case pre_timestamp p of None \<Rightarrow> False | Some t \<Rightarrow>
        read_signature (trim s) = Some (mac_finalize M (vf_secret v)
          (signed_bytes (trim t) (present_nonce p) (pre_body p)))
        \<and> parse_i64 (trim t) = Some (ver_timestamp r)
        \<and> ver_nonce r = (case present_nonce p of None \<Rightarrow> [] | Some n \<Rightarrow> n)
        \<and> ver_scheme r = scheme_of (present_nonce p)
        \<and> accepts v (ver_scheme r)))"

definition fresh_within :: "bool \<Rightarrow> i64 \<Rightarrow> i64 \<Rightarrow> i64 \<Rightarrow> bool" where
  "fresh_within checks window now ts \<longleftrightarrow>
     (case run_bind (i64_sub checks now ts) (i64_abs checks) of
        Ret skew \<Rightarrow> sint skew \<le> sint window
      | Panic m \<Rightarrow> False)"

lemma check_freshness_Ok:
  "check_freshness checks v timestamp nonce scheme now = Ret (Ok r) \<longleftrightarrow>
     parse_i64 timestamp = Some (ver_timestamp r)
     \<and> ver_nonce r = (case nonce of None \<Rightarrow> [] | Some n \<Rightarrow> n) \<and> ver_scheme r = scheme
     \<and> fresh_within checks (vf_freshness_secs v) now (ver_timestamp r)"
  by (cases r)
     (auto simp: check_freshness_def fresh_within_def run_bind_def split: option.splits run.splits)

lemma accepted_iff:
  assumes "mac_laws M"
  shows "verify checks M v p now = Ret (Ok r) \<longleftrightarrow>
    authentic M v p r \<and> fresh_within checks (vf_freshness_secs v) now (ver_timestamp r)"
  by (auto simp: verify_eq [OF assms] authentic_def choose_scheme_Inr choose_scheme_Inl check_freshness_Ok
      split: option.splits sum.splits)

section \<open>Freshness in 64 bits\<close>

lemma int_mod_unique: "0 \<le> r \<Longrightarrow> r < m \<Longrightarrow> x = r + k * m \<Longrightarrow> x mod m = (r :: int)"
  by simp

lemma sint_diff_i64:
  "sint (a - b :: i64) =
     (if sint a - sint b < i64_min then sint a - sint b + 2 ^ 64
      else if i64_max < sint a - sint b then sint a - sint b - 2 ^ 64
      else sint a - sint b)"
proof -
  have ra: "i64_min \<le> sint a" "sint a \<le> i64_max" "i64_min \<le> sint b" "sint b \<le> i64_max"
    using sint_i64_range by auto
  have w: "sint (a - b) = (sint a - sint b + 2 ^ 63) mod 2 ^ 64 - 2 ^ 63"
    by (simp add: sint_word_ariths signed_take_bit_eq_take_bit_shift take_bit_eq_mod)
  consider "sint a - sint b < i64_min" | "i64_max < sint a - sint b"
    | "i64_min \<le> sint a - sint b" "sint a - sint b \<le> i64_max" by linarith
  then show ?thesis
  proof cases
    case 1
    then have "(sint a - sint b + 2 ^ 63) mod 2 ^ 64 = sint a - sint b + 2 ^ 63 + 2 ^ 64"
      using ra by (intro int_mod_unique [where k = "-1"]) (auto simp: i64_min_def i64_max_def)
    with 1 show ?thesis by (simp add: w)
  next
    case 2
    then have "(sint a - sint b + 2 ^ 63) mod 2 ^ 64 = sint a - sint b + 2 ^ 63 - 2 ^ 64"
      using ra by (intro int_mod_unique [where k = 1]) (auto simp: i64_min_def i64_max_def)
    with 2 show ?thesis by (simp add: w i64_min_def i64_max_def)
  next
    case 3
    then have "(sint a - sint b + 2 ^ 63) mod 2 ^ 64 = sint a - sint b + 2 ^ 63"
      by (intro int_mod_unique [where k = 0]) (auto simp: i64_min_def i64_max_def)
    with 3 show ?thesis by (simp add: w)
  qed
qed

lemma fresh_within_checked:
  "fresh_within True w now ts \<longleftrightarrow> \<bar>sint now - sint ts\<bar> \<le> sint w"
proof (cases "i64_min < sint now - sint ts \<and> sint now - sint ts \<le> i64_max")
  case True
  then have "sint (now - ts) = sint now - sint ts" "sint (now - ts) \<noteq> i64_min"
    by (auto simp: sint_diff_i64)
  with True i64_abs_ok(1) [of "now - ts" True] i64_abs_ok(2) [of "now - ts"] show ?thesis
    by (simp add: fresh_within_def i64_sub_def)
next
  case False
  have "sint w \<le> i64_max" using sint_i64_range by blast
  with False have "\<not> \<bar>sint now - sint ts\<bar> \<le> sint w"
    by (auto simp: i64_min_def i64_max_def)
  moreover have "\<not> fresh_within True w now ts"
    using False by (auto simp: fresh_within_def i64_sub_def i64_abs_def sint_diff_i64)
  ultimately show ?thesis by simp
qed

lemma fresh_within_any: "fresh_within True w now ts \<Longrightarrow> fresh_within checks w now ts"
  by (cases checks)
     (auto simp: fresh_within_def i64_sub_def i64_abs_def split: if_splits)

text \<open>The distance \<open>-2^63\<close> is its own absolute value in 64 bits, and below every window.\<close>

lemma min_distance_fresh: "sint (now - ts) = i64_min \<Longrightarrow> fresh_within False w now ts"
proof -
  assume d: "sint (now - ts) = i64_min"
  have "now - ts = word_of_int (sint (now - ts))" by simp
  then have "now - ts = word_of_int i64_min" by (simp only: d)
  moreover have "- (word_of_int i64_min :: i64) = word_of_int i64_min"
    by (simp add: i64_min_def)
  ultimately show ?thesis
    using d sint_i64_range [of w]
    by (simp add: fresh_within_def i64_sub_def i64_abs_def i64_min_def)
qed

lemma fresh_within_wrapping:
  assumes "0 \<le> sint now" "0 \<le> sint w" "sint now + sint w < 2 ^ 63"
  shows "fresh_within False w now ts \<longleftrightarrow>
    \<bar>sint now - sint ts\<bar> \<le> sint w \<or> sint now - sint ts = 2 ^ 63"
proof -
  let ?d = "sint now - sint ts"
  have r: "i64_min \<le> sint ts" "sint ts \<le> i64_max" "sint now \<le> i64_max" "sint w \<le> i64_max"
    using sint_i64_range by auto
  have lo: "i64_min \<le> ?d" using assms(1) r by (simp add: i64_min_def i64_max_def)
  have fresh: "fresh_within False w now ts \<longleftrightarrow>
      (if sint (now - ts) = i64_min then True else \<bar>sint (now - ts)\<bar> \<le> sint w)"
  proof (cases "sint (now - ts) = i64_min")
    case True
    then show ?thesis by (simp add: min_distance_fresh)
  next
    case False
    then show ?thesis
      using i64_abs_ok [of "now - ts"] by (simp add: fresh_within_def i64_sub_def)
  qed
  show ?thesis
  proof (cases "?d \<le> i64_max")
    case True
    then have "sint (now - ts) = ?d" using lo by (simp add: sint_diff_i64)
    moreover have "?d \<noteq> i64_min" using assms(1) r by (auto simp: i64_min_def i64_max_def)
    ultimately show ?thesis using True by (auto simp: fresh i64_max_def)
  next
    case False
    then have "sint (now - ts) = ?d - 2 ^ 64" using lo by (simp add: sint_diff_i64)
    then show ?thesis using False assms r by (auto simp: fresh i64_min_def i64_max_def)
  qed
qed

section \<open>Helper facts on deliveries\<close>

definition present :: "signed \<Rightarrow> bytes \<Rightarrow> presented" where
  "present s body =
     \<lparr>pre_signature = Some (sgn_signature s), pre_timestamp = Some (sgn_timestamp s),
      pre_nonce = Some (sgn_nonce s), pre_body = body\<rparr>"

lemma present_nonce_Some: "trimmed n \<Longrightarrow> n \<noteq> [] \<Longrightarrow> pre_nonce p = Some n \<Longrightarrow> present_nonce p = Some n"
  by (simp add: present_nonce_def trim_trimmed)

lemma present_nonce_None [simp]: "pre_nonce p = None \<Longrightarrow> present_nonce p = None"
  by (simp add: present_nonce_def)

lemma present_nonce_trimmed: "present_nonce p = Some n \<Longrightarrow> trimmed n \<and> n \<noteq> []"
  by (auto simp: present_nonce_def result_simps trimmed_trim)

lemma utf8_lit_dot: "utf8 (lit ''.'') = [46]"
  by (simp add: lit_def utf8_char_ascii)

lemma parse_i64_trimmed: "parse_i64 s = Some t \<Longrightarrow> trim s = s"
  by (rule trim_no_whitespace) (auto simp: is_whitespace_def dest!: parse_i64_chars)

lemma authentic_canonicalD:
  assumes "authentic M v p r" "ver_scheme r = Canonical"
  obtains s t where "pre_signature p = Some s" "pre_timestamp p = Some t"
    "present_nonce p = Some (ver_nonce r)" "accepts v Canonical"
    "parse_i64 (trim t) = Some (ver_timestamp r)"
    "read_signature (trim s) = Some (mac_finalize M (vf_secret v)
       (signed_bytes (trim t) (Some (ver_nonce r)) (pre_body p)))"
  using assms by (auto simp: authentic_def scheme_of_def split: option.splits if_splits)

lemma authenticI:
  assumes "pre_signature p = Some s" "pre_timestamp p = Some t"
    "read_signature (trim s) = Some (mac_finalize M (vf_secret v)
       (signed_bytes (trim t) (present_nonce p) (pre_body p)))"
    "parse_i64 (trim t) = Some (ver_timestamp r)"
    "ver_nonce r = (case present_nonce p of None \<Rightarrow> [] | Some n \<Rightarrow> n)"
    "ver_scheme r = scheme_of (present_nonce p)" "accepts v (ver_scheme r)"
  shows "authentic M v p r"
  using assms by (simp add: authentic_def)

text \<open>
  Two deliveries under the same signature and timestamp headers whose signed bytes agree are
  authentic together.
\<close>

lemma authentic_transfer:
  assumes "authentic M v p r"
    and "pre_signature q = pre_signature p" "pre_timestamp q = pre_timestamp p"
    and "\<And>t. signed_bytes t (present_nonce q) (pre_body q) = signed_bytes t (present_nonce p) (pre_body p)"
    and "ver_timestamp r' = ver_timestamp r"
    and "ver_nonce r' = (case present_nonce q of None \<Rightarrow> [] | Some n \<Rightarrow> n)"
    and "ver_scheme r' = scheme_of (present_nonce q)" "accepts v (ver_scheme r')"
  shows "authentic M v q r'"
  using assms by (auto simp: authentic_def split: option.splits)

section \<open>Round trip\<close>

lemma sign_then_verify_lemma:
  assumes "mac_laws M" "accepts v Canonical" "parse_i64 timestamp = Some t"
    and "trimmed nonce" "nonce \<noteq> []"
    and "\<bar>sint now - sint t\<bar> \<le> sint (vf_freshness_secs v)"
  shows "run_bind (sign_with M (signer_new (vf_secret v)) body timestamp nonce)
      (\<lambda>s. verify checks M v (present s body) now) =
    Ret (Ok \<lparr>ver_nonce = nonce, ver_timestamp = t, ver_scheme = Canonical\<rparr>)"
proof -
  let ?m = "signed_bytes timestamp (Some nonce) body"
  let ?s = "\<lparr>sgn_signature = lit ''sha256='' @ hex_lower (mac_finalize M (vf_secret v) ?m),
             sgn_timestamp = timestamp, sgn_nonce = nonce\<rparr>"
  let ?r = "\<lparr>ver_nonce = nonce, ver_timestamp = t, ver_scheme = Canonical\<rparr>"
  have s: "sign_with M (signer_new (vf_secret v)) body timestamp nonce = Ret ?s"
    using assms(1)
    by (simp add: sign_with_def mac_over_def mac_laws_simps signer_new_def signed_bytes_def)
  have t: "trim timestamp = timestamp" by (rule parse_i64_trimmed [OF assms(3)])
  have n: "present_nonce (present ?s body) = Some nonce"
    by (rule present_nonce_Some) (simp_all add: assms present_def)
  have "authentic M v (present ?s body) ?r"
    using n t assms
    by (intro authenticI [where s = "sgn_signature ?s" and t = timestamp])
       (simp_all add: present_def written_signature_trimmed [simplified] read_signature_written
         scheme_of_def)
  moreover have "fresh_within checks (vf_freshness_secs v) now t"
    using assms(6) fresh_within_checked fresh_within_any by (cases checks) auto
  ultimately show ?thesis using s accepted_iff [OF assms(1)] by simp
qed

section \<open>Properties\<close>

text \<open>
  C2: a delivery is accepted exactly when it is authentic (its signature header is the tag
  of its own timestamp, nonce and body under the verifier's secret, in a scheme the verifier
  accepts, and its timestamp is an integer) and fresh; the value returned is the delivery's
  own nonce, timestamp and scheme.
\<close>

theorem verify_accepts_iff:
  "mac_laws M \<Longrightarrow> verify checks M v p now = Ret (Ok r) \<longleftrightarrow>
     authentic M v p r \<and> fresh_within checks (vf_freshness_secs v) now (ver_timestamp r)"
  by (rule accepted_iff)

text \<open>
  C9: what a signer signs, any verifier with the same secret accepts within its freshness
  window, for every body and every nonce and timestamp that header trimming leaves alone.
\<close>

theorem sign_then_verify:
  assumes "mac_laws M" "accepts v Canonical" "parse_i64 timestamp = Some t"
    and "trimmed nonce" "nonce \<noteq> []"
    and "\<bar>sint now - sint t\<bar> \<le> sint (vf_freshness_secs v)"
  shows "run_bind (sign_with M (signer_new (vf_secret v)) body timestamp nonce)
      (\<lambda>s. verify checks M v (present s body) now) =
    Ret (Ok \<lparr>ver_nonce = nonce, ver_timestamp = t, ver_scheme = Canonical\<rparr>)"
  using assms by (rule sign_then_verify_lemma)

end
