(* ===== verification/Webhook_Properties.thy ===== *)
theory Webhook_Properties
  imports Webhook_Security
begin

text \<open>
  The properties of the webhook signature that go beyond the contract of
  \<open>Webhook_Security\<close>: what a signature binds and what it leaves open, freshness under both
  overflow regimes, panics, the reasons of every rejection, the invariant of the builder.
  \<open>concat_mac\<close> is the concrete MAC of the witnesses (the tag is key and message).
\<close>

section \<open>A concrete MAC for the witnesses\<close>

definition concat_mac :: mac_api where
  "concat_mac = \<lparr>mac_new_ok = (\<lambda>k. True), mac_finalize = (\<lambda>k m. k @ m),
                 mac_verify_slice = (\<lambda>k m t. t = k @ m)\<rparr>"

lemma concat_mac_laws: "mac_laws concat_mac"
  by (simp add: mac_laws_def concat_mac_def)

lemma concat_mac_finalize [simp]: "mac_finalize concat_mac k m = k @ m"
  by (simp add: concat_mac_def)

definition example_verifier :: verifier where
  "example_verifier = verifier_new (utf8 (lit ''k''))"

definition example_signed :: "rstr \<Rightarrow> rstr \<Rightarrow> bytes \<Rightarrow> signed" where
  "example_signed timestamp nonce body =
     \<lparr>sgn_signature = lit ''sha256='' @ hex_lower (utf8 (lit ''k'') @ signed_bytes timestamp (Some nonce) body),
      sgn_timestamp = timestamp, sgn_nonce = nonce\<rparr>"

lemma example_authentic:
  assumes "trimmed nonce" "nonce \<noteq> []" "parse_i64 timestamp = Some t"
    "accepts v Canonical" "vf_secret v = utf8 (lit ''k'')"
  shows "authentic concat_mac v (present (example_signed timestamp nonce body) body)
    \<lparr>ver_nonce = nonce, ver_timestamp = t, ver_scheme = Canonical\<rparr>"
proof -
  let ?p = "present (example_signed timestamp nonce body) body"
  have n: "present_nonce ?p = Some nonce"
    by (rule present_nonce_Some) (simp_all add: assms present_def example_signed_def)
  show ?thesis
    using n assms parse_i64_trimmed [OF assms(3)]
    by (intro authenticI [where s = "sgn_signature (example_signed timestamp nonce body)" and t = timestamp])
       (simp_all add: present_def example_signed_def written_signature_trimmed [simplified]
         read_signature_written scheme_of_def)
qed

lemma example_accepts: "accepts example_verifier Canonical" "vf_secret example_verifier = utf8 (lit ''k'')"
  by (simp_all add: example_verifier_def verifier_new_def accepts_def)

lemma example_accepted:
  assumes "trimmed nonce" "nonce \<noteq> []" "parse_i64 timestamp = Some t"
    "accepts v Canonical" "vf_secret v = utf8 (lit ''k'')"
    "fresh_within checks (vf_freshness_secs v) now t"
  shows "verify checks concat_mac v (present (example_signed timestamp nonce body) body) now =
    Ret (Ok \<lparr>ver_nonce = nonce, ver_timestamp = t, ver_scheme = Canonical\<rparr>)"
  using example_authentic [OF assms(1-5)] assms(6) by (simp add: accepted_iff [OF concat_mac_laws])

definition tolerant_verifier :: verifier where
  "tolerant_verifier = also_accept example_verifier LegacyNoNonce"

lemmas example_defs = example_verifier_def tolerant_verifier_def verifier_new_def also_accept_def
  accepts_def default_freshness_secs_def trimmed_def eval_str Let_def

lemma example_delivery:
  "verify True concat_mac tolerant_verifier
     (present (example_signed (lit ''1000'') (lit ''n'') body) body) 1000 =
   Ret (Ok \<lparr>ver_nonce = lit ''n'', ver_timestamp = 1000, ver_scheme = Canonical\<rparr>)"
  by (rule example_accepted) (simp_all add: example_defs fresh_within_checked)

theorem verify_accepts_iff_witness:
  "verify True concat_mac example_verifier
     (present (example_signed (lit ''1000'') (lit ''n'') [1]) [1]) 1300 =
   Ret (Ok \<lparr>ver_nonce = lit ''n'', ver_timestamp = 1000, ver_scheme = Canonical\<rparr>)"
proof -
  have "authentic concat_mac example_verifier
      (present (example_signed (lit ''1000'') (lit ''n'') [1]) [1])
      \<lparr>ver_nonce = lit ''n'', ver_timestamp = 1000, ver_scheme = Canonical\<rparr>"
    by (rule example_authentic)
       (simp_all add: example_accepts trimmed_def eval_str Let_def)
  then show ?thesis
    by (subst verify_accepts_iff [OF concat_mac_laws])
       (simp add: fresh_within_checked example_verifier_def verifier_new_def default_freshness_secs_def)
qed

theorem sign_then_verify_witness:
  "run_bind (sign_with concat_mac (signer_new (vf_secret example_verifier)) [1] (lit ''1000'') (lit ''n''))
     (\<lambda>s. verify False concat_mac example_verifier (present s [1]) 700) =
   Ret (Ok \<lparr>ver_nonce = lit ''n'', ver_timestamp = 1000, ver_scheme = Canonical\<rparr>)"
  by (rule sign_then_verify [OF concat_mac_laws])
     (simp_all add: accepts_def trimmed_def eval_str Let_def
       example_verifier_def verifier_new_def default_freshness_secs_def)

section \<open>What a signature binds\<close>

definition delivery_bytes :: "presented \<Rightarrow> bytes" where
  "delivery_bytes p =
     signed_bytes (case pre_timestamp p of None \<Rightarrow> [] | Some t \<Rightarrow> trim t) (present_nonce p) (pre_body p)"

definition no_collision :: "mac_api \<Rightarrow> bytes \<Rightarrow> bytes \<Rightarrow> bytes \<Rightarrow> bool" where
  "no_collision M k m m' \<longleftrightarrow> mac_finalize M k m \<noteq> mac_finalize M k m' \<or> m = m'"

lemma authentic_tag:
  "authentic M v p r \<Longrightarrow> pre_signature p = Some s \<Longrightarrow>
     read_signature (trim s) = Some (mac_finalize M (vf_secret v) (delivery_bytes p))"
  by (auto simp: authentic_def delivery_bytes_def split: option.splits)

lemma parse_i64_no_dot: "parse_i64 s = Some t \<Longrightarrow> (46 :: u8) \<notin> set (utf8 s)"
  using utf8_ascii_iff [of 46 s] valid_str_ascii [of s] parse_i64_chars [of s t] by fastforce

lemma parse_i64_valid: "parse_i64 s = Some t \<Longrightarrow> valid_str s"
  by (rule valid_str_ascii) (use parse_i64_chars in fastforce)

lemma dot_free_bytes: "valid_str n \<Longrightarrow> 46 \<notin> set n \<Longrightarrow> (46 :: u8) \<notin> set (utf8 n)"
  using utf8_ascii_iff [of 46 n] by simp

text \<open>
  Where a dot can stand when \<open>utf8 n' . b'\<close> is \<open>utf8 n . b\<close> and \<open>n\<close> has none: after \<open>n\<close>, or
  further on, inside \<open>b\<close>.
\<close>

lemma dotted_split:
  assumes "utf8 n' @ 46 # b' = utf8 n @ (46 :: u8) # b" "valid_str n" "valid_str n'" "46 \<notin> set n"
  shows "(n' = n \<and> b' = b) \<or> (\<exists>a. n' = n @ lit ''.'' @ a \<and> b = utf8 a @ utf8 (lit ''.'') @ b')"
proof (cases "46 \<in> set n'")
  case False
  have "utf8 n' = utf8 n \<and> b' = b"
    by (rule append_eq_at_separator [OF assms(1) dot_free_bytes [OF assms(3) False]
          dot_free_bytes [OF assms(2,4)]])
  then show ?thesis using utf8_inj [OF assms(3,2)] by simp
next
  case True
  obtain x a where n': "n' = x @ 46 # a" "46 \<notin> set x" using split_list_first [OF True] by blast
  then have "valid_str x" using assms(3) by (simp add: valid_str_def)
  have "utf8 x @ 46 # (utf8 a @ 46 # b') = utf8 n @ 46 # b"
    using assms(1) by (simp add: n' utf8_char_ascii)
  from append_eq_at_separator [OF this dot_free_bytes [OF \<open>valid_str x\<close> n'(2)] dot_free_bytes [OF assms(2,4)]]
  have "utf8 x = utf8 n \<and> utf8 a @ 46 # b' = b" .
  then have "x = n" "b = utf8 a @ 46 # b'" using utf8_inj [OF \<open>valid_str x\<close> assms(2)] by auto
  then show ?thesis unfolding n'(1) utf8_lit_dot by (auto simp: lit_def)
qed

text \<open>
  The deliveries that show the signed bytes of a given one, whose nonce has no dot: the same
  one, one with the nonce's boundary moved into the body, and, without a nonce, one whose
  body begins with the nonce.
\<close>

definition same_signed :: "rstr \<Rightarrow> bytes \<Rightarrow> rstr option \<Rightarrow> bytes \<Rightarrow> bool" where
  "same_signed nonce body nonce' body' \<longleftrightarrow>
     (case nonce' of
        None \<Rightarrow> body' = utf8 nonce @ utf8 (lit ''.'') @ body
      | Some n' \<Rightarrow> (n' = nonce \<and> body' = body) \<or>
          (\<exists>a. n' = nonce @ lit ''.'' @ a \<and> body = utf8 a @ utf8 (lit ''.'') @ body'))"

lemma signed_bytes_eq_iff:
  assumes "parse_i64 t = Some i" "parse_i64 t' = Some i'" "valid_str n" "46 \<notin> set n"
    and "\<forall>n'. nonce' = Some n' \<longrightarrow> valid_str n'"
  shows "signed_bytes t' nonce' b' = signed_bytes t (Some n) b \<longleftrightarrow> t' = t \<and> same_signed n b nonce' b'"
proof
  assume eq: "signed_bytes t' nonce' b' = signed_bytes t (Some n) b"
  let ?rest = "case nonce' of None \<Rightarrow> b' | Some n' \<Rightarrow> utf8 n' @ 46 # b'"
  have "utf8 t' @ 46 # ?rest = utf8 t @ 46 # (utf8 n @ 46 # b)"
    using eq by (simp add: signed_bytes_def utf8_lit_dot split: option.splits)
  from append_eq_at_separator [OF this parse_i64_no_dot [OF assms(2)] parse_i64_no_dot [OF assms(1)]]
  have split: "utf8 t' = utf8 t" "?rest = utf8 n @ 46 # b" by auto
  have "t' = t"
    using utf8_inj [OF parse_i64_valid [OF assms(2)] parse_i64_valid [OF assms(1)]] split(1) by simp
  moreover have "same_signed n b nonce' b'"
    using split(2) dotted_split [OF _ assms(3) _ assms(4)] assms(5)
    by (auto simp: same_signed_def utf8_lit_dot split: option.splits)
  ultimately show "t' = t \<and> same_signed n b nonce' b'" by simp
next
  assume "t' = t \<and> same_signed n b nonce' b'"
  then show "signed_bytes t' nonce' b' = signed_bytes t (Some n) b"
    by (auto simp: same_signed_def signed_bytes_def split: option.splits)
qed

lemma sign_with_signs:
  "mac_laws M \<Longrightarrow> sign_with M (signer_new secret) body timestamp nonce = Ret s \<Longrightarrow>
     s = \<lparr>sgn_signature = lit ''sha256='' @ hex_lower (mac_finalize M secret (signed_bytes timestamp (Some nonce) body)),
          sgn_timestamp = timestamp, sgn_nonce = nonce\<rparr>"
  by (simp add: sign_with_def mac_over_def mac_laws_simps signer_new_def signed_bytes_def)

text \<open>A delivery that shows a signature of given bytes is accepted if its own bytes are those.\<close>

lemma shown_signature_accepted:
  assumes "mac_laws M" "pre_signature p = Some sig"
    and "read_signature (trim sig) = Some (mac_finalize M (vf_secret v) message)"
    and "no_collision M (vf_secret v) (delivery_bytes p) message"
  shows "(\<exists>r. verify checks M v p now = Ret (Ok r)) \<longleftrightarrow> (\<exists>t j. pre_timestamp p = Some t \<and>
      parse_i64 (trim t) = Some j \<and> accepts v (scheme_of (present_nonce p)) \<and>
      fresh_within checks (vf_freshness_secs v) now j \<and>
      signed_bytes (trim t) (present_nonce p) (pre_body p) = message)" (is "?accepted \<longleftrightarrow> ?shown")
proof
  assume ?accepted
  then obtain r where r: "authentic M v p r" "fresh_within checks (vf_freshness_secs v) now (ver_timestamp r)"
    by (auto simp: accepted_iff [OF assms(1)])
  with assms(3,4) authentic_tag [OF r(1) assms(2)] show ?shown
    by (auto simp: authentic_def assms(2) delivery_bytes_def no_collision_def split: option.splits)
next
  assume ?shown
  then obtain t j where tj: "pre_timestamp p = Some t" "parse_i64 (trim t) = Some j"
    "accepts v (scheme_of (present_nonce p))" "fresh_within checks (vf_freshness_secs v) now j"
    "signed_bytes (trim t) (present_nonce p) (pre_body p) = message"
    by blast
  have "authentic M v p \<lparr>ver_nonce = (case present_nonce p of None \<Rightarrow> [] | Some n \<Rightarrow> n),
      ver_timestamp = j, ver_scheme = scheme_of (present_nonce p)\<rparr>"
    by (rule authenticI [OF assms(2) tj(1)]) (simp_all add: assms(3) tj)
  with tj(4) show ?accepted by (auto simp: accepted_iff [OF assms(1)])
qed

text \<open>
  C3: what a signature made by \<open>sign_with\<close> is good for. A delivery that shows this signature
  with any timestamp, nonce and body is accepted, short of a collision of its bytes with the
  signed ones under HMAC, exactly if its timestamp is the signed one and fresh, its scheme is
  accepted, and it is the signed delivery, or, with the dot of the signed bytes read
  elsewhere, one whose nonce reaches into the signed body, or a legacy one whose body is the
  signed nonce and body. In particular no other timestamp, no other body under the signed
  nonce, and no other nonce without a dot is ever accepted.
\<close>

theorem signature_binds_delivery:
  assumes "mac_laws M" "sign_with M (signer_new (vf_secret v)) body timestamp nonce = Ret s"
    and "parse_i64 timestamp = Some i" "valid_str nonce" "46 \<notin> set nonce"
    and "pre_signature p = Some (sgn_signature s)" "\<And>n. present_nonce p = Some n \<Longrightarrow> valid_str n"
    and "no_collision M (vf_secret v) (delivery_bytes p) (signed_bytes timestamp (Some nonce) body)"
  shows "(\<exists>r. verify checks M v p now = Ret (Ok r)) \<longleftrightarrow>
    map_option trim (pre_timestamp p) = Some timestamp \<and>
    fresh_within checks (vf_freshness_secs v) now i \<and>
    (case present_nonce p of
       None \<Rightarrow> accepts v LegacyNoNonce \<and> pre_body p = utf8 nonce @ utf8 (lit ''.'') @ body
     | Some n \<Rightarrow> accepts v Canonical \<and>
         ((n = nonce \<and> pre_body p = body) \<or>
          (\<exists>a. n = nonce @ lit ''.'' @ a \<and> body = utf8 a @ utf8 (lit ''.'') @ pre_body p)))"
proof -
  have tag: "read_signature (trim (sgn_signature s)) =
      Some (mac_finalize M (vf_secret v) (signed_bytes timestamp (Some nonce) body))"
    unfolding sign_with_signs [OF assms(1,2)] by (simp add: written_signature_trimmed read_signature_written)
  have "(\<exists>t j. pre_timestamp p = Some t \<and> parse_i64 (trim t) = Some j \<and>
      accepts v (scheme_of (present_nonce p)) \<and> fresh_within checks (vf_freshness_secs v) now j \<and>
      signed_bytes (trim t) (present_nonce p) (pre_body p) = signed_bytes timestamp (Some nonce) body) \<longleftrightarrow>
    (\<exists>t j. pre_timestamp p = Some t \<and> parse_i64 (trim t) = Some j \<and>
      accepts v (scheme_of (present_nonce p)) \<and> fresh_within checks (vf_freshness_secs v) now j \<and>
      trim t = timestamp \<and> same_signed nonce body (present_nonce p) (pre_body p))"
    using signed_bytes_eq_iff [OF assms(3) _ assms(4,5), of _ _ "present_nonce p" "pre_body p"] assms(7)
    by blast
  then show ?thesis
    unfolding shown_signature_accepted [OF assms(1,6) tag assms(8)]
    using assms(3) by (auto simp: same_signed_def scheme_of_def split: option.splits)
qed

section \<open>What it leaves open: the dots are part of the nonce and the body\<close>

text \<open>
  An accepted canonical delivery whose body has a dot can be presented again with the
  part before that dot moved into the nonce header. It is accepted under the same signature
  and timestamp, with a nonce never seen before and a shorter body: recording the nonces of
  accepted deliveries does not stop this replay.
\<close>

theorem nonce_boundary_can_move:
  assumes "mac_laws M" "verify checks M v p now = Ret (Ok r)" "ver_scheme r = Canonical"
    and "pre_body p = utf8 a @ utf8 (lit ''.'') @ b" "a = [] \<or> \<not> is_whitespace (last a)"
  shows "verify checks M v (p\<lparr>pre_nonce := Some (ver_nonce r @ lit ''.'' @ a), pre_body := b\<rparr>) now =
    Ret (Ok (r\<lparr>ver_nonce := ver_nonce r @ lit ''.'' @ a\<rparr>))"
proof -
  let ?n = "ver_nonce r @ lit ''.'' @ a"
  let ?q = "p\<lparr>pre_nonce := Some ?n, pre_body := b\<rparr>"
  have a: "authentic M v p r" and f: "fresh_within checks (vf_freshness_secs v) now (ver_timestamp r)"
    using assms(2) by (simp_all add: accepted_iff [OF assms(1)])
  have n: "present_nonce p = Some (ver_nonce r)" and acc: "accepts v Canonical"
    using authentic_canonicalD [OF a assms(3)] by metis+
  have "trimmed ?n"
    using present_nonce_trimmed [OF n] assms(5) by (auto simp: trimmed_def lit_def is_whitespace_def)
  then have q: "present_nonce ?q = Some ?n"
    by (intro present_nonce_Some) (auto simp: lit_def)
  have "authentic M v ?q (r\<lparr>ver_nonce := ?n\<rparr>)"
    using n q acc assms(3,4) by (intro authentic_transfer [OF a])
      (simp_all add: signed_bytes_def scheme_of_def)
  then show ?thesis using f by (simp add: accepted_iff [OF assms(1)])
qed

text \<open>
  C25: a verifier that still accepts the legacy scheme can be made to take a canonical
  delivery as a legacy one: drop the nonce header and put the nonce and a dot in front of
  the body. The signature verifies, the body is another one and no nonce is left to record.
\<close>

theorem canonical_downgrades_to_legacy:
  assumes "mac_laws M" "verify checks M v p now = Ret (Ok r)" "ver_scheme r = Canonical"
    and "accepts v LegacyNoNonce"
  shows "verify checks M v (p\<lparr>pre_nonce := None,
      pre_body := utf8 (ver_nonce r) @ utf8 (lit ''.'') @ pre_body p\<rparr>) now =
    Ret (Ok (r\<lparr>ver_nonce := [], ver_scheme := LegacyNoNonce\<rparr>))"
proof -
  let ?q = "p\<lparr>pre_nonce := None, pre_body := utf8 (ver_nonce r) @ utf8 (lit ''.'') @ pre_body p\<rparr>"
  have a: "authentic M v p r" and f: "fresh_within checks (vf_freshness_secs v) now (ver_timestamp r)"
    using assms(2) by (simp_all add: accepted_iff [OF assms(1)])
  have n: "present_nonce p = Some (ver_nonce r)"
    using authentic_canonicalD [OF a assms(3)] by metis
  have "authentic M v ?q (r\<lparr>ver_nonce := [], ver_scheme := LegacyNoNonce\<rparr>)"
    using n assms(4) by (intro authentic_transfer [OF a])
      (simp_all add: signed_bytes_def scheme_of_def)
  then show ?thesis using f by (simp add: accepted_iff [OF assms(1)])
qed

text \<open>The signed delivery with another body: refused, whatever the clock.\<close>

theorem signature_binds_delivery_witness:
  "\<forall>now. \<nexists>r. verify True concat_mac tolerant_verifier
     (present (example_signed (lit ''1000'') (lit ''n'') [7]) [8]) now = Ret (Ok r)"
proof
  fix now :: i64
  have signs: "sign_with concat_mac (signer_new (vf_secret tolerant_verifier)) [7] (lit ''1000'') (lit ''n'') =
      Ret (example_signed (lit ''1000'') (lit ''n'') [7])"
    by (simp add: sign_with_def mac_over_def concat_mac_def signer_new_def example_signed_def signed_bytes_def
        tolerant_verifier_def also_accept_def example_verifier_def verifier_new_def)
  have p: "parse_i64 (lit ''1000'') = Some 1000" "valid_str (lit ''n'')" "46 \<notin> set (lit ''n'')"
    by (simp_all add: eval_str valid_str_def valid_char_def)
  let ?p = "present (example_signed (lit ''1000'') (lit ''n'') [7]) [8]"
  have n: "present_nonce ?p = Some (lit ''n'')"
    by (rule present_nonce_Some) (simp_all add: present_def example_signed_def example_defs)
  have shown: "pre_signature ?p = Some (sgn_signature (example_signed (lit ''1000'') (lit ''n'') [7]))"
    "pre_body ?p = [8]" by (simp_all add: present_def)
  have valid: "valid_str m" if "present_nonce ?p = Some m" for m using that p(2) unfolding n by simp
  have "no_collision concat_mac (vf_secret tolerant_verifier) (delivery_bytes ?p) m" for m
    by (simp add: no_collision_def)
  note exact = signature_binds_delivery [OF concat_mac_laws signs p shown(1) valid this, where now = now]
  have "\<not> (lit ''n'' = lit ''n'' \<and> [8] = [7 :: u8])" "lit ''n'' \<noteq> lit ''n'' @ lit ''.'' @ a" for a
    by (simp_all add: lit_def)
  then show "\<nexists>r. verify True concat_mac tolerant_verifier ?p now = Ret (Ok r)"
    using exact [where checks = True] unfolding n shown(2) option.case by blast
qed

theorem nonce_boundary_can_move_witness:
  "verify True concat_mac tolerant_verifier
     (present (example_signed (lit ''1000'') (lit ''n'') (utf8 (lit ''price:1.5'')))
        (utf8 (lit ''price:1.5''))
      \<lparr>pre_nonce := Some (lit ''n.price:1''), pre_body := utf8 (lit ''5'')\<rparr>) 1000 =
   Ret (Ok \<lparr>ver_nonce = lit ''n.price:1'', ver_timestamp = 1000, ver_scheme = Canonical\<rparr>)"
  using nonce_boundary_can_move [OF concat_mac_laws
      example_delivery [of "utf8 (lit ''price:1.5'')"],
      of "lit ''price:1''" "utf8 (lit ''5'')"]
  by (simp add: present_def eval_str)

theorem canonical_downgrades_to_legacy_witness:
  "verify True concat_mac tolerant_verifier
     (present (example_signed (lit ''1000'') (lit ''n'') [7]) [7]
      \<lparr>pre_nonce := None, pre_body := utf8 (lit ''n.'') @ [7]\<rparr>) 1000 =
   Ret (Ok \<lparr>ver_nonce = [], ver_timestamp = 1000, ver_scheme = LegacyNoNonce\<rparr>)"
  using canonical_downgrades_to_legacy [OF concat_mac_laws example_delivery [of "[7]"]]
  by (simp add: example_defs present_def)

text \<open>
  C39: what the crate does stop: dropping only the nonce header of an accepted canonical
  delivery, with its body as it was. The legacy bytes are shorter, so unless they collide
  under HMAC the delivery is refused as a mismatch, or as lacking a nonce where legacy is
  not accepted.
\<close>

theorem stripped_nonce_rejected:
  assumes "mac_laws M" "verify checks M v p now = Ret (Ok r)" "ver_scheme r = Canonical"
    and "no_collision M (vf_secret v) (delivery_bytes p) (delivery_bytes (p\<lparr>pre_nonce := None\<rparr>))"
  shows "verify checks M v (p\<lparr>pre_nonce := None\<rparr>) now =
    Ret (Err (if accepts v LegacyNoNonce then SignatureMismatch else MissingNonce))"
proof -
  let ?q = "p\<lparr>pre_nonce := None\<rparr>"
  have a: "authentic M v p r" using assms(2) by (simp add: accepted_iff [OF assms(1)])
  obtain s t where p: "pre_signature p = Some s" "pre_timestamp p = Some t"
    "present_nonce p = Some (ver_nonce r)"
    "read_signature (trim s) = Some (mac_finalize M (vf_secret v) (delivery_bytes p))"
    using authentic_canonicalD [OF a assms(3)] by (metis a authentic_tag)
  have "length (delivery_bytes p) \<noteq> length (delivery_bytes ?q)"
    by (simp add: delivery_bytes_def signed_bytes_def p utf8_lit_dot)
  then have "delivery_bytes p \<noteq> delivery_bytes ?q" by metis
  with assms(4) have "mac_finalize M (vf_secret v) (delivery_bytes p) \<noteq>
      mac_finalize M (vf_secret v) (signed_bytes (trim t) None (pre_body p))"
    by (simp add: no_collision_def delivery_bytes_def p)
  then show ?thesis
    using p by (simp add: verify_eq [OF assms(1)] choose_scheme_def scheme_of_def)
qed

theorem stripped_nonce_rejected_witness:
  "verify True concat_mac tolerant_verifier
     (present (example_signed (lit ''1000'') (lit ''n'') [7]) [7]\<lparr>pre_nonce := None\<rparr>) 1000 =
   Ret (Err SignatureMismatch)"
proof -
  have "no_collision concat_mac (vf_secret tolerant_verifier)
      (delivery_bytes (present (example_signed (lit ''1000'') (lit ''n'') [7]) [7]))
      (delivery_bytes (present (example_signed (lit ''1000'') (lit ''n'') [7]) [7]\<lparr>pre_nonce := None\<rparr>))"
    by (auto simp: no_collision_def)
  from stripped_nonce_rejected [OF concat_mac_laws example_delivery [of "[7]"] _ this]
  show ?thesis by (simp add: example_defs)
qed

section \<open>Freshness and panics\<close>

text \<open>
  C26: in a build with overflow checks, an accepted delivery's timestamp is within the
  freshness window of the clock, in the integers, whatever the two 64-bit values are.
\<close>

theorem accepted_is_fresh:
  "mac_laws M \<Longrightarrow> verify True M v p now = Ret (Ok r) \<Longrightarrow>
     \<bar>sint now - sint (ver_timestamp r)\<bar> \<le> sint (vf_freshness_secs v)"
  by (simp add: accepted_iff fresh_within_checked)

theorem accepted_is_fresh_witness:
  "\<bar>sint (1000 :: i64) - sint (1000 :: i64)\<bar> \<le> sint (vf_freshness_secs tolerant_verifier)"
  using accepted_is_fresh [OF concat_mac_laws example_delivery] by simp

text \<open>
  C38: without overflow checks the same holds for any clock that is not within the window of
  the end of the 64-bit range, with one exception: a timestamp exactly 2^63 seconds behind
  the clock, whose distance has no absolute value in 64 bits, is accepted as fresh.
\<close>

theorem accepted_is_fresh_wrapping:
  "mac_laws M \<Longrightarrow> verify False M v p now = Ret (Ok r) \<Longrightarrow>
   0 \<le> sint now \<Longrightarrow> 0 \<le> sint (vf_freshness_secs v) \<Longrightarrow>
   sint now + sint (vf_freshness_secs v) < 2 ^ 63 \<Longrightarrow>
     \<bar>sint now - sint (ver_timestamp r)\<bar> \<le> sint (vf_freshness_secs v)
     \<or> sint now - sint (ver_timestamp r) = 2 ^ 63"
  by (simp add: accepted_iff fresh_within_wrapping)

lemma ancient_parse: "parse_i64 (lit ''-9223372036854774808'') = Some (- 9223372036854774808)"
  by (simp add: eval_str Let_def)

lemma ancient_fresh: "fresh_within False w 1000 (- 9223372036854774808)"
  using sint_i64_range [of w]
  by (simp add: fresh_within_def i64_sub_def i64_abs_def i64_min_def)

lemma ancient_accepted:
  "verify False concat_mac example_verifier
     (present (example_signed (lit ''-9223372036854774808'') (lit ''n'') [7]) [7]) 1000 =
   Ret (Ok \<lparr>ver_nonce = lit ''n'', ver_timestamp = - 9223372036854774808, ver_scheme = Canonical\<rparr>)"
  by (rule example_accepted [OF _ _ ancient_parse])
     (simp_all add: ancient_fresh example_verifier_def verifier_new_def accepts_def
       trimmed_def lit_def is_whitespace_def)

theorem accepted_is_fresh_wrapping_witness:
  "sint (1000 :: i64) - sint (- 9223372036854774808 :: i64) = 2 ^ 63"
  using accepted_is_fresh_wrapping [OF concat_mac_laws ancient_accepted]
  by (simp add: example_verifier_def verifier_new_def default_freshness_secs_def)

text \<open>
  C27: the exception is real. An authentic delivery whose timestamp is 2^63 seconds behind
  the clock is accepted for every freshness window by a release build, and makes a build
  with overflow checks panic.
\<close>

theorem ancient_timestamp_accepted:
  assumes "mac_laws M" "authentic M v p r" "sint now - sint (ver_timestamp r) = 2 ^ 63"
  shows "verify False M v p now = Ret (Ok r) \<and>
    verify True M v p now = Panic ''attempt to subtract with overflow''"
proof -
  let ?ts = "ver_timestamp r"
  have "sint (now - ?ts) = i64_min"
    using assms(3) by (simp add: sint_diff_i64 i64_min_def i64_max_def)
  then have "fresh_within False (vf_freshness_secs v) now ?ts"
    using min_distance_fresh by blast
  moreover have "verify True M v p now = Panic ''attempt to subtract with overflow''"
    using assms
    by (auto simp: verify_eq authentic_def choose_scheme_Inr choose_scheme_Inl check_freshness_def
        i64_sub_def i64_max_def split: option.splits sum.splits)
  ultimately show ?thesis using assms(1,2) by (simp add: accepted_iff)
qed

theorem ancient_timestamp_accepted_witness:
  "verify True concat_mac example_verifier
     (present (example_signed (lit ''-9223372036854774808'') (lit ''n'') [7]) [7]) 1000 =
   Panic ''attempt to subtract with overflow''"
proof -
  have "authentic concat_mac example_verifier
      (present (example_signed (lit ''-9223372036854774808'') (lit ''n'') [7]) [7])
      \<lparr>ver_nonce = lit ''n'', ver_timestamp = - 9223372036854774808, ver_scheme = Canonical\<rparr>"
    using ancient_accepted by (simp add: accepted_iff [OF concat_mac_laws])
  from ancient_timestamp_accepted [OF concat_mac_laws this, of 1000] show ?thesis by simp
qed

end
