(* ===== verification/Webhook_Verdicts.thy ===== *)
theory Webhook_Verdicts
  imports Webhook_Properties
begin

text \<open>
  Every other outcome of \<open>verify\<close>: which rejection is given when, that it panics only where
  the arithmetic overflows, what the verifier's builder keeps true, and the clock-driven
  \<open>sign\<close> against \<open>verify\<close>; then the hexadecimal loop.
\<close>

section \<open>The reason of a rejection\<close>

definition signature_of :: "presented \<Rightarrow> bytes option" where
  "signature_of p = (case pre_signature p of None \<Rightarrow> None | Some s \<Rightarrow> read_signature (trim s))"

definition timestamp_of :: "presented \<Rightarrow> i64 option" where
  "timestamp_of p = (case pre_timestamp p of None \<Rightarrow> None | Some t \<Rightarrow> parse_i64 (trim t))"

text \<open>\<open>verdict\<close>: the first check that fails, in the order the checks are made.\<close>

definition headers_present :: "presented \<Rightarrow> bool" where
  "headers_present p \<longleftrightarrow> pre_signature p \<noteq> None \<and> pre_timestamp p \<noteq> None"

definition tag_matches :: "mac_api \<Rightarrow> verifier \<Rightarrow> presented \<Rightarrow> bool" where
  "tag_matches M v p \<longleftrightarrow>
     signature_of p = Some (mac_finalize M (vf_secret v) (delivery_bytes p))"

definition verdict :: "mac_api \<Rightarrow> verifier \<Rightarrow> presented \<Rightarrow> verify_error option" where
  "verdict M v p =
     (if pre_signature p = None then Some MissingSignature
      else if pre_timestamp p = None then Some MissingTimestamp
      else if present_nonce p = None \<and> \<not> accepts v LegacyNoNonce then Some MissingNonce
      else if present_nonce p \<noteq> None \<and> \<not> accepts v Canonical then Some SignatureMismatch
      else if signature_of p = None then Some MalformedSignature
      else if \<not> tag_matches M v p then Some SignatureMismatch
      else if timestamp_of p = None then Some MalformedTimestamp
      else None)"

lemma verify_verdict:
  assumes "mac_laws M"
  shows "verify checks M v p now =
    (case verdict M v p of
       Some e \<Rightarrow> Ret (Err e)
     | None \<Rightarrow> check_freshness checks v (trim (the (pre_timestamp p))) (present_nonce p)
                 (scheme_of (present_nonce p)) now)"
  by (auto simp: verify_eq [OF assms] verdict_def choose_scheme_Inr choose_scheme_Inl scheme_of_def
      signature_of_def timestamp_of_def tag_matches_def delivery_bytes_def check_freshness_def
      split: option.splits sum.splits)

lemma verdict_None:
  "verdict M v p = None \<Longrightarrow> headers_present p \<and> tag_matches M v p \<and>
     accepts v (scheme_of (present_nonce p)) \<and> timestamp_of p \<noteq> None"
  by (auto simp: verdict_def headers_present_def scheme_of_def split: if_splits)

lemma timestamp_of_parse:
  "pre_timestamp p \<noteq> None \<Longrightarrow> timestamp_of p = Some ts \<longleftrightarrow> parse_i64 (trim (the (pre_timestamp p))) = Some ts"
  by (auto simp: timestamp_of_def)

lemma verdict_not_stale: "verdict M v p \<noteq> Some (Stale ts n skew)"
  by (simp add: verdict_def)

lemma check_freshness_Stale:
  "check_freshness checks v t nonce scheme now = Ret (Err (Stale ts n skew)) \<Longrightarrow>
     parse_i64 t = Some ts \<and> n = now"
  by (auto simp: check_freshness_def run_bind_def split: option.splits if_splits run.splits)

lemma check_freshness_decides:
  assumes "parse_i64 t = Some ts" "i64_min < sint now - sint ts" "sint now - sint ts \<le> i64_max"
  shows "check_freshness checks v t nonce scheme now =
    Ret (if \<bar>sint now - sint ts\<bar> \<le> sint (vf_freshness_secs v)
         then Ok \<lparr>ver_nonce = (case nonce of None \<Rightarrow> [] | Some n \<Rightarrow> n), ver_timestamp = ts, ver_scheme = scheme\<rparr>
         else Err (Stale ts now (word_of_int \<bar>sint now - sint ts\<bar>)))"
proof -
  have d: "sint (now - ts) = sint now - sint ts" using assms by (simp add: sint_diff_i64)
  obtain a where a: "i64_abs checks (now - ts) = Ret a" "sint a = \<bar>sint now - sint ts\<bar>"
    using i64_abs_ok [of "now - ts"] d assms(2) by auto
  have "a = word_of_int (sint a)" by simp
  then have "a = word_of_int \<bar>sint now - sint ts\<bar>" unfolding a(2) .
  with a show ?thesis
    using assms d by (simp add: check_freshness_def i64_sub_def)
qed

text \<open>
  C10: the error of every rejected delivery. The checks are made in one order, and the first
  that fails names the error: headers, scheme, form of the signature, tag, form of the
  timestamp. A delivery that passes all of them, and whose distance from the clock fits in 64
  bits, is accepted within the window and otherwise refused as \<open>Stale\<close>, with its timestamp, the
  clock and the distance; and no other delivery is ever refused as stale, so the timestamp is
  never judged before the tag.
\<close>

theorem rejection_order:
  "mac_laws M \<Longrightarrow>
     (\<forall>e. verdict M v p = Some e \<longrightarrow> verify checks M v p now = Ret (Err e)) \<and>
     (verdict M v p = None \<longrightarrow>
        (\<exists>ts. timestamp_of p = Some ts \<and>
          (i64_min < sint now - sint ts \<and> sint now - sint ts \<le> i64_max \<longrightarrow>
             verify checks M v p now =
               Ret (if \<bar>sint now - sint ts\<bar> \<le> sint (vf_freshness_secs v)
                    then Ok \<lparr>ver_nonce = (case present_nonce p of None \<Rightarrow> [] | Some n \<Rightarrow> n),
                             ver_timestamp = ts, ver_scheme = scheme_of (present_nonce p)\<rparr>
                    else Err (Stale ts now (word_of_int \<bar>sint now - sint ts\<bar>)))))) \<and>
     (\<forall>ts n skew. verify checks M v p now = Ret (Err (Stale ts n skew)) \<longrightarrow>
        verdict M v p = None \<and> tag_matches M v p \<and> timestamp_of p = Some ts \<and> n = now)"
proof -
  assume laws: "mac_laws M"
  show ?thesis
  proof (cases "verdict M v p")
    case None
    note passed = verdict_None [OF None]
    then obtain ts where ts: "timestamp_of p = Some ts" by blast
    then have parsed: "parse_i64 (trim (the (pre_timestamp p))) = Some ts"
      using timestamp_of_parse [of p ts] passed by (simp add: headers_present_def)
    show ?thesis
      using None passed ts parsed check_freshness_decides [OF parsed]
      by (auto simp: verify_verdict [OF laws] dest!: check_freshness_Stale)
  next
    case (Some e')
    then show ?thesis
      using verdict_not_stale [of M v p] by (auto simp: verify_verdict [OF laws])
  qed
qed

text \<open>A delivery signed at 1000, shown at 1301 to the default verifier: stale, by 301 seconds.\<close>

theorem rejection_order_witness:
  "verify True concat_mac example_verifier
     (present (example_signed (lit ''1000'') (lit ''n'') [7]) [7]) 1301 = Ret (Err (Stale 1000 1301 301))"
proof -
  let ?p = "present (example_signed (lit ''1000'') (lit ''n'') [7]) [7]"
  have n: "present_nonce ?p = Some (lit ''n'')"
    by (rule present_nonce_Some) (simp_all add: present_def example_signed_def example_defs)
  have shown: "pre_signature ?p = Some (sgn_signature (example_signed (lit ''1000'') (lit ''n'') [7]))"
    "pre_timestamp ?p = Some (lit ''1000'')"
    by (simp_all add: present_def example_signed_def)
  have "authentic concat_mac example_verifier ?p
      \<lparr>ver_nonce = lit ''n'', ver_timestamp = 1000, ver_scheme = Canonical\<rparr>"
    by (rule example_authentic) (simp_all add: example_defs)
  from authentic_tag [OF this shown(1)]
  have s: "signature_of ?p = Some (mac_finalize concat_mac (vf_secret example_verifier) (delivery_bytes ?p))"
    by (simp only: signature_of_def shown(1) option.case)
  have t: "timestamp_of ?p = Some 1000" by (simp add: timestamp_of_def present_def example_signed_def example_defs)
  have "verdict concat_mac example_verifier ?p = None"
    unfolding verdict_def tag_matches_def s t n shown by (simp add: example_accepts)
  then show ?thesis
    using rejection_order [OF concat_mac_laws, where v = example_verifier and p = ?p and checks = True and now = 1301,
      THEN conjunct2, THEN conjunct1]
    unfolding t by (simp add: example_verifier_def verifier_new_def default_freshness_secs_def i64_min_def i64_max_def)
qed

text \<open>
  C19: a release build always answers. A build with overflow checks answers unless the
  delivery passed every check and its timestamp is so far from the clock that the distance
  or its absolute value does not fit in 64 bits.
\<close>

theorem verify_panics_iff:
  "mac_laws M \<Longrightarrow>
     (\<exists>answer. verify False M v p now = Ret answer) \<and>
     ((\<exists>m. verify True M v p now = Panic m) \<longleftrightarrow>
        verdict M v p = None \<and>
        (\<exists>ts. timestamp_of p = Some ts \<and>
           \<not> (i64_min < sint now - sint ts \<and> sint now - sint ts \<le> i64_max)))"
proof -
  assume laws: "mac_laws M"
  have answers: "\<exists>answer. check_freshness False v t nonce scheme now = Ret answer" for t nonce scheme
    by (auto simp: check_freshness_def i64_sub_def i64_abs_def split: option.split)
  have panics: "(\<exists>m. check_freshness True v t nonce scheme now = Panic m) \<longleftrightarrow>
      (\<exists>ts. parse_i64 t = Some ts \<and> \<not> (i64_min < sint now - sint ts \<and> sint now - sint ts \<le> i64_max))"
    for t nonce scheme
    by (auto simp: check_freshness_def i64_sub_def i64_abs_def sint_diff_i64 split: option.split)
  have ts: "(\<exists>ts. parse_i64 (trim (the (pre_timestamp p))) = Some ts \<and> P ts) \<longleftrightarrow>
      (\<exists>ts. timestamp_of p = Some ts \<and> P ts)" if "verdict M v p = None" for P
    using timestamp_of_parse [of p] verdict_None [OF that] by (simp add: headers_present_def)
  show ?thesis
    using answers panics ts by (auto simp: verify_verdict [OF laws] split: option.split)
qed

theorem verify_panics_iff_witness:
  "\<exists>answer. verify False concat_mac example_verifier
     (present (example_signed (lit ''-9223372036854774808'') (lit ''n'') [7]) [7]) 1000 = Ret answer"
  using verify_panics_iff [OF concat_mac_laws] by blast

section \<open>The verifier's builder\<close>

datatype builder_call = WithFreshnessSecs i64 | AlsoAccept scheme

fun builder_step :: "verifier \<Rightarrow> builder_call \<Rightarrow> verifier" where
  "builder_step v (WithFreshnessSecs secs) = with_freshness_secs v secs"
| "builder_step v (AlsoAccept scheme) = also_accept v scheme"

definition wf_verifier :: "bytes \<Rightarrow> verifier \<Rightarrow> bool" where
  "wf_verifier secret v \<longleftrightarrow> vf_secret v = secret \<and> distinct (vf_accepted v)
     \<and> vf_accepted v \<noteq> [] \<and> hd (vf_accepted v) = Canonical"

interpretation builder: kept_invariant builder_step "wf_verifier secret" for secret
proof unfold_locales
  show "wf_verifier secret v \<Longrightarrow> wf_verifier secret (builder_step v c)" for v c
    by (cases c) (auto simp: wf_verifier_def with_freshness_secs_def also_accept_def)
qed

text \<open>
  C37: a verifier built through the crate's own calls, however many and in whatever order,
  keeps its secret, lists each scheme at most once and always accepts the canonical one; so
  a delivery with a nonce is never refused for its scheme, and one without a nonce is taken
  exactly when some call added the legacy scheme.
\<close>

theorem built_verifier_canonical:
  "wf_verifier secret (foldl builder_step (verifier_new secret) calls) \<and>
   choose_scheme (foldl builder_step (verifier_new secret) calls) (Some n) = Ok Canonical \<and>
   choose_scheme (foldl builder_step (verifier_new secret) calls) None =
     (if AlsoAccept LegacyNoNonce \<in> set calls then Ok LegacyNoNonce else Err MissingNonce)"
proof -
  have wf: "wf_verifier secret (foldl builder_step (verifier_new secret) calls)"
    by (rule builder.inv_run) (simp add: wf_verifier_def verifier_new_def)
  have acc: "set (vf_accepted (foldl builder_step v calls)) =
      set (vf_accepted v) \<union> {s. AlsoAccept s \<in> set calls}" for v
  proof (induction calls arbitrary: v)
    case (Cons c calls)
    then show ?case by (cases c) (auto simp: with_freshness_secs_def also_accept_def)
  qed simp
  show ?thesis
    using wf acc [of "verifier_new secret"]
    by (simp add: choose_scheme_def accepts_def verifier_new_def)
qed

text \<open>Builder calls only widen a verifier: no call takes an accepted scheme back.\<close>

interpretation widening: monotone_steps builder_step
  "\<lambda>v w. vf_secret w = vf_secret v \<and> set (vf_accepted v) \<subseteq> set (vf_accepted w)"
proof unfold_locales
  show "vf_secret (builder_step v c) = vf_secret v \<and> set (vf_accepted v) \<subseteq> set (vf_accepted (builder_step v c))"
    for v c by (cases c) (auto simp: with_freshness_secs_def also_accept_def)
qed auto

text \<open>
  A scheme a verifier accepts stays accepted, under the same secret, whatever builder
  calls follow: the contract half of a rollout needs a verifier built anew.
\<close>

theorem acceptance_only_grows:
  "accepts v s \<Longrightarrow> accepts (foldl builder_step v calls) s \<and>
     vf_secret (foldl builder_step v calls) = vf_secret v"
  using widening.le_run [of v calls] by (auto simp: accepts_def)

theorem acceptance_only_grows_witness:
  "accepts (foldl builder_step (also_accept (verifier_new [1]) LegacyNoNonce)
     [WithFreshnessSecs 60, AlsoAccept Canonical]) LegacyNoNonce"
proof -
  have "accepts (also_accept (verifier_new [1]) LegacyNoNonce) LegacyNoNonce"
    by (simp add: accepts_def also_accept_def verifier_new_def)
  from acceptance_only_grows [OF this] show ?thesis by blast
qed

section \<open>Signing by the clock\<close>

lemma sint_now_unix_secs:
  "0 \<le> nanos \<Longrightarrow> nanos div 10 ^ 9 < 2 ^ 63 \<Longrightarrow> sint (now_unix_secs nanos) = nanos div 10 ^ 9"
  using sint_of_int_i64 [of "nanos div 10 ^ 9"]
  by (simp add: now_unix_secs_def i64_min_def i64_max_def pos_imp_zdiv_nonneg_iff)

text \<open>
  C34: a delivery signed by the system clock with a fresh UUID is accepted by the default
  verifier with the same secret for the next five minutes of that clock, in every build.
\<close>

theorem clock_signed_accepted:
  assumes "mac_laws M" "trimmed uuid" "uuid \<noteq> []"
    and "0 \<le> nanos" "nanos \<le> later" "later \<le> nanos + 300 * 10 ^ 9" "later < 2 ^ 63 * 10 ^ 9"
  shows "run_bind (sign M (signer_new secret) nanos uuid body)
      (\<lambda>s. verify checks M (verifier_new secret) (present s body) (now_unix_secs later)) =
    Ret (Ok \<lparr>ver_nonce = uuid, ver_timestamp = now_unix_secs nanos, ver_scheme = Canonical\<rparr>)"
proof -
  have secs: "x div 10 ^ 9 < 2 ^ 63" if "x \<le> later" for x :: int
    using that assms(7) by simp
  have s: "sint (now_unix_secs nanos) = nanos div 10 ^ 9" "sint (now_unix_secs later) = later div 10 ^ 9"
    using sint_now_unix_secs [OF assms(4) secs [OF assms(5)]]
      sint_now_unix_secs [OF order_trans [OF assms(4,5)] secs [OF order_refl]] by blast+
  have "nanos div 10 ^ 9 \<le> later div 10 ^ 9" "later div 10 ^ 9 \<le> nanos div 10 ^ 9 + 300"
    using assms(5,6) by simp_all
  then have d: "\<bar>sint (now_unix_secs later) - sint (now_unix_secs nanos)\<bar>
      \<le> sint (vf_freshness_secs (verifier_new secret))"
    by (simp add: s verifier_new_def default_freshness_secs_def)
  have "run_bind (sign_with M (signer_new (vf_secret (verifier_new secret))) body
        (show_i64 (now_unix_secs nanos)) uuid)
      (\<lambda>s. verify checks M (verifier_new secret) (present s body) (now_unix_secs later)) =
    Ret (Ok \<lparr>ver_nonce = uuid, ver_timestamp = now_unix_secs nanos, ver_scheme = Canonical\<rparr>)"
    by (rule sign_then_verify_lemma [OF assms(1) _ parse_i64_show_i64 assms(2,3) d])
       (simp add: verifier_new_def accepts_def)
  then show ?thesis by (simp add: sign_def verifier_new_def)
qed

theorem clock_signed_accepted_witness:
  "run_bind (sign concat_mac (signer_new [1]) (1700000000 * 10 ^ 9) (lit ''u'') [2])
     (\<lambda>s. verify True concat_mac (verifier_new [1]) (present s [2])
            (now_unix_secs (1700000300 * 10 ^ 9))) =
   Ret (Ok \<lparr>ver_nonce = lit ''u'', ver_timestamp = now_unix_secs (1700000000 * 10 ^ 9),
            ver_scheme = Canonical\<rparr>)"
  by (rule clock_signed_accepted [OF concat_mac_laws])
     (simp_all add: trimmed_def lit_def is_whitespace_def)

section \<open>The hexadecimal loop\<close>

text \<open>
  C24: the index loop of \<open>hex_decode\<close> ends, never reads out of range (so never panics) and
  computes the digit-pair decoder on the bytes of the string; on what \<open>hex_lower\<close> wrote it
  returns the bytes that were written.
\<close>

theorem hex_decode_correct:
  "hex_decode s = Ret (hex_pairs (utf8 s)) \<and> hex_decode (hex_lower bs) = Ret (Some bs)"
  by (simp add: hex_decode_pairs hex_pairs_hex_lower)

section \<open>What a sender may put in a header\<close>

text \<open>The characters of a header value: visible ASCII and the space.\<close>

definition header_text_ok :: "rstr \<Rightarrow> bool" where
  "header_text_ok s \<longleftrightarrow> s \<noteq> [] \<and> list_all (\<lambda>c. 32 \<le> c \<and> c < 127) s \<and> trim s = s"

lemma header_text_show_i64: "header_text_ok (show_i64 w)"
  using show_i64_chars [of _ w] by (fastforce simp: header_text_ok_def list_all_iff)

lemma header_text_signature: "header_text_ok (lit ''sha256='' @ hex_lower tag)"
  using hex_lower_chars [of _ tag] written_signature_trimmed [of tag]
  by (fastforce simp: header_text_ok_def list_all_iff lit_def)

text \<open>
  C16: whatever the key, the clock and the body, the signature and the timestamp that \<open>sign\<close>
  returns are texts a header value may hold, without white space at the ends; the signature is
  the marker and two lower-case hex digits for each byte of the tag, the timestamp reads back as
  the clock's seconds, and the nonce is the v4 UUID as it is.
\<close>

theorem signed_headers_wellformed:
  assumes "mac_laws M"
  shows "\<exists>sg tag. sign M s nanos uuid body = Ret sg \<and>
    sgn_signature sg = lit ''sha256='' @ hex_lower tag \<and> length (hex_lower tag) = 2 * length tag \<and>
    header_text_ok (sgn_signature sg) \<and> header_text_ok (sgn_timestamp sg) \<and>
    parse_i64 (sgn_timestamp sg) = Some (now_unix_secs nanos) \<and> sgn_nonce sg = uuid"
  using assms
  by (auto simp: sign_def sign_with_def mac_over_def mac_laws_simps run_bind_simps Let_def
      header_text_signature header_text_show_i64 length_hex_lower)

theorem signed_headers_wellformed_witness:
  "\<exists>sg tag. sign concat_mac (signer_new []) 0 (lit ''u'') [] = Ret sg \<and>
     sgn_signature sg = lit ''sha256='' @ hex_lower tag \<and> sgn_nonce sg = lit ''u''"
  using signed_headers_wellformed [OF concat_mac_laws, of "signer_new []" 0 "lit ''u''" "[]"] by blast

end
