(* ===== verification/Rust_Test.thy ===== *)
theory Rust_Test
  imports Rust_Str
begin

text \<open>
  Rust's test assertions: a test is a run without a value, which passes when it does not
  panic. The theories \<open>Webhook_Tests\<close>, \<open>Auth_Tests\<close>, \<open>Guard_Tests\<close> and
  \<open>Crate_Tests\<close> hold the crates' own
  tests in these terms, and show that the model passes them.
\<close>

definition assert_that :: "bool \<Rightarrow> unit run" where
  "assert_that b = (if b then Ret () else Panic ''assertion failed'')"

definition unwrap :: "'e + 'a \<Rightarrow> 'a run" where
  "unwrap r = (case r of Inl e \<Rightarrow> Panic ''called Result::unwrap() on an Err value'' | Inr x \<Rightarrow> Ret x)"

definition unwrap_err :: "'e + 'a \<Rightarrow> 'e run" where
  "unwrap_err r = (case r of Inl e \<Rightarrow> Ret e | Inr x \<Rightarrow> Panic ''called Result::unwrap_err() on an Ok value'')"

definition unwrap_some :: "'a option \<Rightarrow> 'a run" where
  "unwrap_some r = (case r of None \<Rightarrow> Panic ''called Option::unwrap() on a None value'' | Some x \<Rightarrow> Ret x)"

text \<open>One statement after another.\<close>

definition then_test :: "unit run \<Rightarrow> unit run \<Rightarrow> unit run" where
  "then_test a b = run_bind a (\<lambda>_. b)"

primrec all_of :: "unit run list \<Rightarrow> unit run" where
  "all_of [] = Ret ()"
| "all_of (t # ts) = then_test t (all_of ts)"

text \<open>\<open>str::contains\<close>.\<close>

fun contains :: "rstr \<Rightarrow> rstr \<Rightarrow> bool" where
  "contains [] needle = (needle = [])"
| "contains (c # cs) needle = (strip_prefix needle (c # cs) \<noteq> None \<or> contains cs needle)"

named_theorems test_simps \<open>rules that run a test\<close>

lemma assertions [test_simps]:
  "assert_that p = Ret () \<longleftrightarrow> p" "unwrap (Inr x) = Ret x" "unwrap_err (Inl e) = Ret e"
  "unwrap_some (Some x) = Ret x" "then_test a b = Ret () \<longleftrightarrow> a = Ret () \<and> b = Ret ()"
  "run_bind (Ret x) f = f x"
  by (auto simp: assert_that_def unwrap_def unwrap_err_def unwrap_some_def then_test_def run_bind_def
      split: run.splits)

lemma all_of_iff [test_simps]: "all_of ts = Ret () \<longleftrightarrow> (\<forall>t \<in> set ts. t = Ret ())"
  by (induction ts) (simp_all add: test_simps)

end
