(* ===== verification/Webhook_Tests.thy ===== *)
theory Webhook_Tests
  imports Webhook_Verdicts Rust_Test
begin

text \<open>
  The tests of \<open>platform-webhook-sig\<close>, each as the run its body is, and the proof that the
  model passes them with any MAC that tells the suite's inputs apart. Builds of tests have
  overflow checks. The clock and the v4 UUID of \<open>sign\<close> are arguments.
\<close>

section \<open>The suite\<close>

definition test_secret :: bytes where
  "test_secret = utf8 (lit ''a-shared-webhook-secret'')"

abbreviation body_text :: bytes where
  "body_text \<equiv> utf8 (lit ''body'')"

definition sign_then_verify_roundtrips :: "mac_api \<Rightarrow> int \<Rightarrow> rstr \<Rightarrow> unit run" where
  "sign_then_verify_roundtrips M nanos uuid =
     (let body = utf8 ([123, 34] @ lit ''event'' @ [34, 58, 34] @ lit ''x'' @ [34, 125]) in
      run_bind (sign M (signer_new test_secret) nanos uuid body) (\<lambda>signed.
      run_bind (unwrap_some (parse_i64 (sgn_timestamp signed))) (\<lambda>now.
      run_bind (verify True M (verifier_new test_secret) (present signed body) now) (\<lambda>r.
      run_bind (unwrap r) (\<lambda>v.
        then_test (assert_that (ver_nonce v = sgn_nonce signed))
                  (assert_that (ver_timestamp v = now)))))))"

definition signature_binds_timestamp_and_nonce :: "mac_api \<Rightarrow> unit run" where
  "signature_binds_timestamp_and_nonce M =
     (let body = body_text; signer = signer_new test_secret in
      run_bind (sign_with M signer body (lit ''1000'') (lit ''nonce-a'')) (\<lambda>a.
      run_bind (sign_with M signer body (lit ''1000'') (lit ''nonce-b'')) (\<lambda>b.
      then_test (assert_that (sgn_signature a \<noteq> sgn_signature b))
        (run_bind (sign_with M signer body (lit ''2000'') (lit ''nonce-a'')) (\<lambda>c.
           assert_that (sgn_signature a \<noteq> sgn_signature c))))))"

definition wrong_secret_is_rejected :: "mac_api \<Rightarrow> unit run" where
  "wrong_secret_is_rejected M =
     (let body = body_text in
      run_bind (sign_with M (signer_new test_secret) body (lit ''1000'') (lit ''n'')) (\<lambda>signed.
      run_bind (verify True M (verifier_new (utf8 (lit ''other-secret''))) (present signed body) 1000) (\<lambda>r.
      run_bind (unwrap_err r) (\<lambda>err. assert_that (err = SignatureMismatch)))))"

definition tampered_body_is_rejected :: "mac_api \<Rightarrow> unit run" where
  "tampered_body_is_rejected M =
     run_bind (sign_with M (signer_new test_secret) (utf8 (lit ''original'')) (lit ''1000'') (lit ''n'')) (\<lambda>signed.
     run_bind (verify True M (verifier_new test_secret) (present signed (utf8 (lit ''tampered''))) 1000) (\<lambda>r.
     run_bind (unwrap_err r) (\<lambda>err. assert_that (err = SignatureMismatch))))"

definition is_ok :: "'e + 'a \<Rightarrow> bool" where
  "is_ok r = (case r of Inl e \<Rightarrow> False | Inr x \<Rightarrow> True)"

definition stale_timestamp_is_rejected_but_a_fresh_one_passes :: "mac_api \<Rightarrow> unit run" where
  "stale_timestamp_is_rejected_but_a_fresh_one_passes M =
     (let body = body_text in
      run_bind (sign_with M (signer_new test_secret) body (lit ''1000'') (lit ''n'')) (\<lambda>signed.
      run_bind (verify True M (verifier_new test_secret) (present signed body)
                  (1000 + default_freshness_secs)) (\<lambda>fresh.
      then_test (assert_that (is_ok fresh))
        (run_bind (verify True M (verifier_new test_secret) (present signed body)
                     (1000 + default_freshness_secs + 1)) (\<lambda>r.
         run_bind (unwrap_err r) (\<lambda>err.
           assert_that (case err of Stale ts now skew \<Rightarrow> True | _ \<Rightarrow> False)))))))"

definition missing_headers_are_rejected :: "mac_api \<Rightarrow> unit run" where
  "missing_headers_are_rejected M =
     (let body = body_text; v = verifier_new test_secret in
      run_bind (sign_with M (signer_new test_secret) body (lit ''1000'') (lit ''n'')) (\<lambda>base.
      let p = present base body;
          reject = (\<lambda>q e. run_bind (verify True M v q 1000) (\<lambda>r.
            run_bind (unwrap_err r) (\<lambda>err. assert_that (err = e))))
      in then_test (reject (p\<lparr>pre_signature := None\<rparr>) MissingSignature)
           (then_test (reject (p\<lparr>pre_timestamp := None\<rparr>) MissingTimestamp)
             (reject (p\<lparr>pre_nonce := None\<rparr>) MissingNonce))))"

definition malformed_signature_is_rejected :: "mac_api \<Rightarrow> unit run" where
  "malformed_signature_is_rejected M =
     (let body = body_text in
      run_bind (sign_with M (signer_new test_secret) body (lit ''1000'') (lit ''n'')) (\<lambda>signed.
      let p = present signed body;
          malformed = (\<lambda>s. run_bind (verify True M (verifier_new test_secret) (p\<lparr>pre_signature := Some s\<rparr>) 1000)
            (\<lambda>r. run_bind (unwrap_err r) (\<lambda>err. assert_that (err = MalformedSignature))))
      in then_test (malformed (lit ''not-prefixed'')) (malformed (lit ''sha256=zzzz''))))"

definition hex_decode_roundtrips_encoding :: "unit run" where
  "hex_decode_roundtrips_encoding =
     (let bs = [0x00, 0x0f, 0xa1, 0xff] in
      run_bind (hex_decode (hex_lower bs)) (\<lambda>d.
      run_bind (unwrap_some d) (\<lambda>decoded.
      then_test (assert_that (decoded = bs))
        (run_bind (hex_decode (lit ''abc'')) (\<lambda>odd_length.
         then_test (assert_that (odd_length = None))
           (run_bind (hex_decode (lit ''zz'')) (\<lambda>non_hex. assert_that (non_hex = None))))))))"

text \<open>A sender of the older scheme, which the crate never produces.\<close>

definition legacy_sign :: "mac_api \<Rightarrow> bytes \<Rightarrow> rstr \<Rightarrow> bytes \<Rightarrow> rstr run" where
  "legacy_sign M secret timestamp body =
     (if \<not> mac_new_ok M secret then Panic ''called Result::unwrap() on an Err value''
      else Ret (lit ''sha256='' @ hex_lower (mac_finalize M secret
             (utf8 timestamp @ utf8 (lit ''.'') @ body))))"

definition tolerant_verifier_accepts_canonical_and_legacy :: "mac_api \<Rightarrow> unit run" where
  "tolerant_verifier_accepts_canonical_and_legacy M =
     (let body = body_text; tolerant = also_accept (verifier_new test_secret) LegacyNoNonce in
      run_bind (sign_with M (signer_new test_secret) body (lit ''1000'') (lit ''n'')) (\<lambda>signed.
      run_bind (verify True M tolerant (present signed body) 1000) (\<lambda>r.
      run_bind (unwrap r) (\<lambda>v.
      then_test (assert_that (ver_scheme v = Canonical))
      (then_test (assert_that (ver_nonce v = lit ''n''))
        (run_bind (legacy_sign M test_secret (lit ''1000'') body) (\<lambda>sig.
         run_bind (verify True M tolerant
           \<lparr>pre_signature = Some sig, pre_timestamp = Some (lit ''1000''), pre_nonce = None, pre_body = body\<rparr>
           1000) (\<lambda>r'.
         run_bind (unwrap r') (\<lambda>v'.
           then_test (assert_that (ver_scheme v' = LegacyNoNonce)) (assert_that (ver_nonce v' = [])))))))))))"

definition canonical_only_verifier_rejects_legacy :: "mac_api \<Rightarrow> unit run" where
  "canonical_only_verifier_rejects_legacy M =
     (let body = body_text in
      run_bind (legacy_sign M test_secret (lit ''1000'') body) (\<lambda>sig.
      run_bind (verify True M (verifier_new test_secret)
        \<lparr>pre_signature = Some sig, pre_timestamp = Some (lit ''1000''), pre_nonce = None, pre_body = body\<rparr>
        1000) (\<lambda>r.
      run_bind (unwrap_err r) (\<lambda>err. assert_that (err = MissingNonce)))))"

definition downgrade_canonical_to_legacy_is_rejected :: "mac_api \<Rightarrow> unit run" where
  "downgrade_canonical_to_legacy_is_rejected M =
     (let body = body_text in
      run_bind (sign_with M (signer_new test_secret) body (lit ''1000'') (lit ''n'')) (\<lambda>signed.
      let stripped = \<lparr>pre_signature = Some (sgn_signature signed), pre_timestamp = Some (sgn_timestamp signed),
            pre_nonce = None, pre_body = body\<rparr>;
          tolerant = also_accept (verifier_new test_secret) LegacyNoNonce
      in run_bind (verify True M tolerant stripped 1000) (\<lambda>r.
         run_bind (unwrap_err r) (\<lambda>err. assert_that (err = SignatureMismatch)))))"

definition webhook_suite :: "mac_api \<Rightarrow> int \<Rightarrow> rstr \<Rightarrow> unit run" where
  "webhook_suite M nanos uuid = all_of
     [sign_then_verify_roundtrips M nanos uuid, signature_binds_timestamp_and_nonce M,
      wrong_secret_is_rejected M, tampered_body_is_rejected M,
      stale_timestamp_is_rejected_but_a_fresh_one_passes M, missing_headers_are_rejected M,
      malformed_signature_is_rejected M, hex_decode_roundtrips_encoding,
      tolerant_verifier_accepts_canonical_and_legacy M, canonical_only_verifier_rejects_legacy M,
      downgrade_canonical_to_legacy_is_rejected M]"

section \<open>The model passes it\<close>

text \<open>
  The keys and messages of the suite, and what the suite expects of HMAC-SHA256: different
  ones have different tags.
\<close>

definition suite_inputs :: "(bytes \<times> bytes) list" where
  "suite_inputs =
     [(test_secret, signed_bytes (lit ''1000'') (Some (lit ''nonce-a'')) body_text),
      (test_secret, signed_bytes (lit ''1000'') (Some (lit ''nonce-b'')) body_text),
      (test_secret, signed_bytes (lit ''2000'') (Some (lit ''nonce-a'')) body_text),
      (test_secret, signed_bytes (lit ''1000'') (Some (lit ''n'')) body_text),
      (utf8 (lit ''other-secret''), signed_bytes (lit ''1000'') (Some (lit ''n'')) body_text),
      (test_secret, signed_bytes (lit ''1000'') (Some (lit ''n'')) (utf8 (lit ''original''))),
      (test_secret, signed_bytes (lit ''1000'') (Some (lit ''n'')) (utf8 (lit ''tampered''))),
      (test_secret, signed_bytes (lit ''1000'') None body_text)]"

definition tells_apart :: "mac_api \<Rightarrow> bool" where
  "tells_apart M \<longleftrightarrow> inj_on (\<lambda>i. mac_finalize M (fst i) (snd i)) (set suite_inputs)"

lemma tags_differ:
  assumes "tells_apart M"
  shows "(k, m) \<in> set suite_inputs \<Longrightarrow> (k', m') \<in> set suite_inputs \<Longrightarrow> (k, m) \<noteq> (k', m') \<Longrightarrow>
    mac_finalize M k m \<noteq> mac_finalize M k' m'"
  using inj_onD [OF assms [unfolded tells_apart_def], of "(k, m)" "(k', m')"] by auto

lemma sign_with_run:
  "mac_laws M \<Longrightarrow> sign_with M s body t n =
     Ret \<lparr>sgn_signature = lit ''sha256='' @ hex_lower (mac_finalize M (signer_secret s) (signed_bytes t (Some n) body)),
          sgn_timestamp = t, sgn_nonce = n\<rparr>"
  by (simp add: sign_with_def mac_over_def mac_laws_simps signed_bytes_def run_bind_simps)

lemma legacy_sign_run:
  "mac_laws M \<Longrightarrow> legacy_sign M k t body =
     Ret (lit ''sha256='' @ hex_lower (mac_finalize M k (signed_bytes t None body)))"
  by (simp add: legacy_sign_def mac_laws_simps signed_bytes_def)

lemma suite_texts:
  "trim (lit ''1000'') = lit ''1000''" "parse_i64 (lit ''1000'') = Some 1000" "trim (lit ''n'') = lit ''n''"
  "lit ''n'' \<noteq> []" "trim (lit ''not-prefixed'') = lit ''not-prefixed''"
  "trim (lit ''sha256=zzzz'') = lit ''sha256=zzzz''"
  by (simp_all add: eval_str Let_def)

lemma suite_unreadable:
  "read_signature (lit ''not-prefixed'') = None" "read_signature (lit ''sha256=zzzz'') = None"
  "hex_pairs (utf8 (lit ''abc'')) = None" "hex_pairs (utf8 (lit ''zz'')) = None"
  by (simp_all add: read_signature_def lit_def utf8_char_ascii nibble_def)

lemmas suite_simps = sign_with_run legacy_sign_run verify_eq test_simps suite_texts suite_unreadable
  choose_scheme_def accepts_def also_accept_def verifier_new_def signer_new_def present_def present_nonce_def
  read_signature_written written_signature_trimmed is_ok_def

lemma suite_apart:
  assumes "tells_apart M"
  shows
    "mac_finalize M test_secret (signed_bytes (lit ''1000'') (Some (lit ''n'')) body_text) \<noteq>
     mac_finalize M (utf8 (lit ''other-secret'')) (signed_bytes (lit ''1000'') (Some (lit ''n'')) body_text)"
    "mac_finalize M test_secret (signed_bytes (lit ''1000'') (Some (lit ''n'')) (utf8 (lit ''original''))) \<noteq>
     mac_finalize M test_secret (signed_bytes (lit ''1000'') (Some (lit ''n'')) (utf8 (lit ''tampered'')))"
    "mac_finalize M test_secret (signed_bytes (lit ''1000'') (Some (lit ''nonce-a'')) body_text) \<noteq>
     mac_finalize M test_secret (signed_bytes (lit ''1000'') (Some (lit ''nonce-b'')) body_text)"
    "mac_finalize M test_secret (signed_bytes (lit ''1000'') (Some (lit ''nonce-a'')) body_text) \<noteq>
     mac_finalize M test_secret (signed_bytes (lit ''2000'') (Some (lit ''nonce-a'')) body_text)"
    "mac_finalize M test_secret (signed_bytes (lit ''1000'') (Some (lit ''n'')) body_text) \<noteq>
     mac_finalize M test_secret (signed_bytes (lit ''1000'') None body_text)"
  by (rule tags_differ [OF assms];
      simp add: suite_inputs_def; simp add: test_secret_def signed_bytes_def lit_def utf8_char_ascii)+

lemma suite_fresh:
  "parse_i64 t = Some w \<Longrightarrow>
     check_freshness True \<lparr>vf_secret = k, vf_freshness_secs = default_freshness_secs, vf_accepted = l\<rparr> t n c w =
     Ret (Ok \<lparr>ver_nonce = (case n of None \<Rightarrow> [] | Some x \<Rightarrow> x), ver_timestamp = w, ver_scheme = c\<rparr>)"
  by (simp add: check_freshness_def default_freshness_secs_def i64_sub_def i64_abs_def
      run_bind_simps i64_min_def i64_max_def)

lemma stale_run:
  "mac_laws M \<Longrightarrow> stale_timestamp_is_rejected_but_a_fresh_one_passes M = Ret ()"
  by (simp add: stale_timestamp_is_rejected_but_a_fresh_one_passes_def Let_def suite_simps)
     (simp add: check_freshness_def suite_simps default_freshness_secs_def i64_sub_def i64_abs_def
       i64_min_def i64_max_def)

lemma roundtrip_run:
  "mac_laws M \<Longrightarrow> trimmed uuid \<Longrightarrow> uuid \<noteq> [] \<Longrightarrow> sign_then_verify_roundtrips M nanos uuid = Ret ()"
  by (simp add: sign_then_verify_roundtrips_def sign_def Let_def suite_simps suite_fresh trim_trimmed)

lemma rejection_runs:
  assumes "mac_laws M" "tells_apart M"
  shows "wrong_secret_is_rejected M = Ret ()" "tampered_body_is_rejected M = Ret ()"
    "missing_headers_are_rejected M = Ret ()" "malformed_signature_is_rejected M = Ret ()"
    "canonical_only_verifier_rejects_legacy M = Ret ()"
    "downgrade_canonical_to_legacy_is_rejected M = Ret ()"
  using assms
  by (simp_all add: wrong_secret_is_rejected_def tampered_body_is_rejected_def
      missing_headers_are_rejected_def malformed_signature_is_rejected_def
      canonical_only_verifier_rejects_legacy_def downgrade_canonical_to_legacy_is_rejected_def
      Let_def suite_simps suite_apart)

lemma binding_run:
  "mac_laws M \<Longrightarrow> tells_apart M \<Longrightarrow> signature_binds_timestamp_and_nonce M = Ret ()"
  by (simp add: signature_binds_timestamp_and_nonce_def Let_def suite_simps suite_apart hex_lower_inj)

lemma tolerant_run:
  "mac_laws M \<Longrightarrow> tolerant_verifier_accepts_canonical_and_legacy M = Ret ()"
  by (simp add: tolerant_verifier_accepts_canonical_and_legacy_def Let_def suite_simps suite_fresh)

lemma hex_run: "hex_decode_roundtrips_encoding = Ret ()"
  by (simp add: hex_decode_roundtrips_encoding_def Let_def suite_simps hex_decode_pairs hex_pairs_hex_lower)

text \<open>
  The model passes the crate's test suite: with any MAC that gives the suite's keys and
  messages different tags, on every clock and with every v4 UUID (trimmed, not empty), each of
  the eleven tests runs to its end without a failed assertion.
\<close>

theorem webhook_suite_passes:
  "mac_laws M \<Longrightarrow> tells_apart M \<Longrightarrow> trimmed uuid \<Longrightarrow> uuid \<noteq> [] \<Longrightarrow>
     webhook_suite M nanos uuid = Ret ()"
  unfolding webhook_suite_def all_of_iff
  by (simp add: roundtrip_run binding_run rejection_runs stale_run hex_run tolerant_run)

lemma concat_mac_tells_apart: "tells_apart concat_mac"
  by (simp add: tells_apart_def suite_inputs_def test_secret_def signed_bytes_def lit_def utf8_char_ascii)

theorem webhook_suite_passes_witness: "webhook_suite concat_mac 0 (lit ''uuid'') = Ret ()"
  by (rule webhook_suite_passes [OF concat_mac_laws concat_mac_tells_apart])
     (simp_all add: trimmed_def lit_def is_whitespace_def)

end
