(* ===== verification/Rust_Net.thy ===== *)
theory Rust_Net
  imports Rust_Str
begin

unbundle bit_operations_syntax

text \<open>
  The address types of \<open>std::net\<close> the source uses: \<open>Ipv4Addr\<close> as its four octets,
  \<open>Ipv6Addr\<close> as its eight segments, \<open>IpAddr\<close> and \<open>SocketAddr\<close>; \<open>to_ipv4\<close>, the derived
  order of socket addresses (what \<open>sort_unstable\<close> sorts by) and \<open>Display\<close>. An address is
  also a number, of which a CIDR block fixes the leading bits.
\<close>

section \<open>Addresses\<close>

datatype ipv4 = V4 u8 u8 u8 u8

datatype ipv6 = V6 u16 u16 u16 u16 u16 u16 u16 u16

datatype ip_addr = IpV4 ipv4 | IpV6 ipv6

datatype socket_addr =
    SockV4 ipv4 u16
  | SockV6 ipv6 u16 u32 u32

fun octets :: "ipv4 \<Rightarrow> u8 list" where
  "octets (V4 a b c d) = [a, b, c, d]"

fun segments :: "ipv6 \<Rightarrow> u16 list" where
  "segments (V6 a b c d e f g h) = [a, b, c, d, e, f, g, h]"

fun sock_ip :: "socket_addr \<Rightarrow> ip_addr" where
  "sock_ip (SockV4 ip port) = IpV4 ip"
| "sock_ip (SockV6 ip port flowinfo scope_id) = IpV6 ip"

text \<open>\<open>u16::to_be_bytes\<close>.\<close>

definition be_bytes :: "u16 \<Rightarrow> u8 \<times> u8" where
  "be_bytes w = (of_nat (unat w div 256), of_nat (unat w mod 256))"

text \<open>
  \<open>Ipv6Addr::to_ipv4\<close>: the embedded address of \<open>::a.b.c.d\<close> and of \<open>::ffff:a.b.c.d\<close>; and
  \<open>to_ipv4_mapped\<close>, of the second form only.
\<close>

fun to_ipv4 :: "ipv6 \<Rightarrow> ipv4 option" where
  "to_ipv4 (V6 s0 s1 s2 s3 s4 s5 ab cd) =
     (if s0 = 0 \<and> s1 = 0 \<and> s2 = 0 \<and> s3 = 0 \<and> s4 = 0 \<and> (s5 = 0 \<or> s5 = 0xffff)
      then Some (V4 (fst (be_bytes ab)) (snd (be_bytes ab)) (fst (be_bytes cd)) (snd (be_bytes cd)))
      else None)"

fun to_ipv4_mapped :: "ipv6 \<Rightarrow> ipv4 option" where
  "to_ipv4_mapped (V6 s0 s1 s2 s3 s4 s5 ab cd) =
     (if s0 = 0 \<and> s1 = 0 \<and> s2 = 0 \<and> s3 = 0 \<and> s4 = 0 \<and> s5 = 0xffff
      then Some (V4 (fst (be_bytes ab)) (snd (be_bytes ab)) (fst (be_bytes cd)) (snd (be_bytes cd)))
      else None)"

text \<open>The v6 forms that carry a v4 address.\<close>

definition be_join :: "u8 \<Rightarrow> u8 \<Rightarrow> u16" where
  "be_join a b = of_nat (256 * unat a + unat b)"

fun v4_mapped :: "ipv4 \<Rightarrow> ipv6" where
  "v4_mapped (V4 a b c d) = V6 0 0 0 0 0 0xffff (be_join a b) (be_join c d)"

fun v4_compatible :: "ipv4 \<Rightarrow> ipv6" where
  "v4_compatible (V4 a b c d) = V6 0 0 0 0 0 0 (be_join a b) (be_join c d)"

lemma unat_u8_lt: "unat (a :: u8) < 256"
  using unsigned_less [of a] by simp

lemma unat_u16_lt: "unat (a :: u16) < 65536"
  using unsigned_less [of a] by simp

lemma unat_be_join: "unat (be_join a b) = 256 * unat a + unat b"
  unfolding be_join_def unat_of_nat using unat_u8_lt [of a] unat_u8_lt [of b] by simp

lemma be_bytes_join: "be_bytes (be_join a b) = (a, b)"
  using unat_u8_lt [of b] by (simp add: be_bytes_def unat_be_join word_unat_eq_iff)

lemma to_ipv4_mapped_form: "to_ipv4 (v4_mapped ip) = Some ip"
  by (cases ip) (simp add: be_bytes_join)

lemma to_ipv4_compatible_form: "to_ipv4 (v4_compatible ip) = Some ip"
  by (cases ip) (simp add: be_bytes_join)

interpretation mapped: codec v4_mapped to_ipv4 "\<lambda>_. True"
  by unfold_locales (simp add: to_ipv4_mapped_form)

section \<open>The order of socket addresses\<close>

text \<open>
  The derived order compares the variant, then the fields in turn: the octets or segments of
  the address, the port and, for v6, flow label and scope. Each address is a list of
  numbers, compared lexicographically.
\<close>

fun ipv4_key :: "ipv4 \<Rightarrow> nat list" where
  "ipv4_key (V4 a b c d) = [unat a, unat b, unat c, unat d]"

fun ipv6_key :: "ipv6 \<Rightarrow> nat list" where
  "ipv6_key (V6 a b c d e f g h) =
     [unat a, unat b, unat c, unat d, unat e, unat f, unat g, unat h]"

fun sock_key :: "socket_addr \<Rightarrow> nat list" where
  "sock_key (SockV4 ip port) = 0 # ipv4_key ip @ [unat port]"
| "sock_key (SockV6 ip port flowinfo scope_id) =
     1 # ipv6_key ip @ [unat port, unat flowinfo, unat scope_id]"

lemma ipv4_key_inj: "ipv4_key x = ipv4_key y \<longleftrightarrow> x = y"
  by (cases x; cases y) (auto simp: word_unat_eq_iff)

lemma ipv6_key_inj: "ipv6_key x = ipv6_key y \<longleftrightarrow> x = y"
  by (cases x; cases y) (auto simp: word_unat_eq_iff)

lemma length_keys [simp]: "length (ipv4_key x) = 4" "length (ipv6_key y) = 8"
  by (cases x; simp) (cases y; simp)

lemma sock_key_inj: "sock_key x = sock_key y \<longleftrightarrow> x = y"
  by (cases x; cases y) (auto simp: ipv4_key_inj ipv6_key_inj word_unat_eq_iff)

instantiation socket_addr :: linorder
begin

definition less_eq_socket_addr :: "socket_addr \<Rightarrow> socket_addr \<Rightarrow> bool" where
  "less_eq_socket_addr x y \<longleftrightarrow> sock_key x \<le> sock_key y"

definition less_socket_addr :: "socket_addr \<Rightarrow> socket_addr \<Rightarrow> bool" where
  "less_socket_addr x y \<longleftrightarrow> sock_key x < sock_key y"

instance
  by standard (auto simp: less_eq_socket_addr_def less_socket_addr_def sock_key_inj [symmetric])

end

section \<open>Addresses as numbers, CIDR blocks\<close>

fun ipv4_num :: "ipv4 \<Rightarrow> nat" where
  "ipv4_num (V4 a b c d) = ((unat a * 256 + unat b) * 256 + unat c) * 256 + unat d"

fun ipv6_num :: "ipv6 \<Rightarrow> nat" where
  "ipv6_num ip = foldl (\<lambda>n s. n * 65536 + unat s) 0 (segments ip)"

text \<open>\<open>base/len\<close> holds the addresses whose first \<open>len\<close> bits are those of \<open>base\<close>.\<close>

definition in_v4_block :: "ipv4 \<Rightarrow> ipv4 \<times> nat \<Rightarrow> bool" where
  "in_v4_block ip blk \<longleftrightarrow>
     ipv4_num ip div 2 ^ (32 - snd blk) = ipv4_num (fst blk) div 2 ^ (32 - snd blk)"

definition in_v6_block :: "ipv6 \<Rightarrow> ipv6 \<times> nat \<Rightarrow> bool" where
  "in_v6_block ip blk \<longleftrightarrow>
     ipv6_num ip div 2 ^ (128 - snd blk) = ipv6_num (fst blk) div 2 ^ (128 - snd blk)"

section \<open>Display\<close>

fun show_ipv4 :: "ipv4 \<Rightarrow> rstr" where
  "show_ipv4 (V4 a b c d) =
     show_nat (unat a) @ lit ''.'' @ show_nat (unat b) @ lit ''.''
     @ show_nat (unat c) @ lit ''.'' @ show_nat (unat d)"

fun show_hex :: "nat \<Rightarrow> rstr" where
  "show_hex n =
     (let d = (if n mod 16 < 10 then 48 + n mod 16 else 87 + n mod 16)
      in if n < 16 then [d] else show_hex (n div 16) @ [d])"

declare show_hex.simps [simp del]

text \<open>The longest run of zero segments, the first of equal ones: start and length.\<close>

fun zero_runs :: "nat \<Rightarrow> nat \<times> nat \<Rightarrow> nat \<times> nat \<Rightarrow> u16 list \<Rightarrow> nat \<times> nat" where
  "zero_runs i current longest [] = longest"
| "zero_runs i current longest (s # ss) =
     (if s = 0 then
        (let current = ((if snd current = 0 then i else fst current), snd current + 1);
             longest = (if snd current > snd longest then current else longest)
         in zero_runs (i + 1) current longest ss)
      else zero_runs (i + 1) (0, 0) longest ss)"

fun show_segments :: "u16 list \<Rightarrow> rstr" where
  "show_segments [] = []"
| "show_segments [s] = show_hex (unat s)"
| "show_segments (s # ss) = show_hex (unat s) @ lit '':'' @ show_segments ss"

definition show_ipv6 :: "ipv6 \<Rightarrow> rstr" where
  "show_ipv6 ip =
     (case to_ipv4_mapped ip of
        Some v4 \<Rightarrow> lit ''::ffff:'' @ show_ipv4 v4
      | None \<Rightarrow>
          (let (start, len) = zero_runs 0 (0, 0) (0, 0) (segments ip)
           in if len > 1
              then show_segments (take start (segments ip)) @ lit ''::''
                   @ show_segments (drop (start + len) (segments ip))
              else show_segments (segments ip)))"

lemma show_ip_examples:
  "show_ipv4 (V4 1 1 1 1) = lit ''1.1.1.1''"
  "show_ipv6 (V6 0x2606 0x4700 0x4700 0 0 0 0 0x1111) = lit ''2606:4700:4700::1111''"
  "show_ipv6 (V6 0 0 0 0 0 0 0 1) = lit ''::1''"
  by (simp_all add: show_ipv6_def eval_str show_hex.simps be_bytes_def Let_def)

end
