(* ===== verification/Outbound_Guard.thy ===== *)
theory Outbound_Guard
  imports Rust_Net
begin

unbundle bit_operations_syntax

text \<open>
  The SSRF and DNS-rebinding guard of \<open>platform-outbound-guard\<close>. \<open>url::Url\<close> is third-party:
  a URL is the record of what its accessors return, and \<open>Url::parse\<close> is a parameter, as is
  the resolver \<open>tokio::net::lookup_host\<close> (an argument of every call, since its answers
  change). \<open>reqwest\<close>'s \<open>ClientBuilder\<close> is the record of the settings asked for.
\<close>

section \<open>Errors and URLs\<close>

datatype guard_error = GuardError (guard_message: rstr)

definition guard_error_new :: "rstr \<Rightarrow> guard_error" where
  "guard_error_new message = GuardError message"

definition guard_error_display :: "guard_error \<Rightarrow> rstr" where
  "guard_error_display e = guard_message e"

datatype url_host = DomainHost rstr | Ipv4Host ipv4 | Ipv6Host ipv6

record url =
  url_scheme :: rstr
  url_host :: "url_host option"
  url_username :: rstr
  url_password :: "rstr option"
  url_port_or_known_default :: "u16 option"

section \<open>Public addresses\<close>

text \<open>The patterns of the source's \<open>matches!\<close>, in its order.\<close>

definition non_public_prefix :: "u8 \<Rightarrow> u8 \<Rightarrow> u8 \<Rightarrow> bool" where
  "non_public_prefix a b c \<longleftrightarrow>
     a = 0
     \<or> a = 10
     \<or> (a = 100 \<and> 64 \<le> b \<and> b \<le> 127)
     \<or> a = 127
     \<or> (a = 169 \<and> b = 254)
     \<or> (a = 172 \<and> 16 \<le> b \<and> b \<le> 31)
     \<or> (a = 192 \<and> b = 0 \<and> c = 0)
     \<or> (a = 192 \<and> b = 0 \<and> c = 2)
     \<or> (a = 192 \<and> b = 88 \<and> c = 99)
     \<or> (a = 192 \<and> b = 168)
     \<or> (a = 198 \<and> 18 \<le> b \<and> b \<le> 19)
     \<or> (a = 198 \<and> b = 51 \<and> c = 100)
     \<or> (a = 203 \<and> b = 0 \<and> c = 113)
     \<or> 224 \<le> a"

fun is_public_ipv4 :: "ipv4 \<Rightarrow> bool" where
  "is_public_ipv4 (V4 a b c d) = (\<not> non_public_prefix a b c)"

definition is_public_ipv6 :: "ipv6 \<Rightarrow> bool" where
  "is_public_ipv6 ip =
     (case to_ipv4 ip of
        Some v4 \<Rightarrow> is_public_ipv4 v4
      | None \<Rightarrow>
          (let segs = segments ip
           in (segs ! 0 AND 0xe000) = 0x2000 \<and> \<not> (segs ! 0 = 0x2001 \<and> segs ! 1 = 0x0db8)))"

fun is_public :: "ip_addr \<Rightarrow> bool" where
  "is_public (IpV4 ip) = is_public_ipv4 ip"
| "is_public (IpV6 ip) = is_public_ipv6 ip"

definition ensure_public_ip :: "ip_addr \<Rightarrow> guard_error + unit" where
  "ensure_public_ip ip =
     (if is_public ip then Ok ()
      else Err (guard_error_new (lit ''destination resolves to a non-public address'')))"

section \<open>Checking a URL\<close>

definition literal_host_ip :: "url \<Rightarrow> ip_addr option" where
  "literal_host_ip u =
     (case url_host u of
        None \<Rightarrow> None
      | Some (Ipv4Host ip) \<Rightarrow> Some (IpV4 ip)
      | Some (Ipv6Host ip) \<Rightarrow> Some (IpV6 ip)
      | Some (DomainHost d) \<Rightarrow> None)"

definition check_url :: "url \<Rightarrow> guard_error + unit" where
  "check_url u =
     (if url_scheme u \<noteq> lit ''https'' then Err (guard_error_new (lit ''URL must use https''))
      else if url_host u = None then Err (guard_error_new (lit ''URL must include a host''))
      else if url_username u \<noteq> [] \<or> url_password u \<noteq> None
      then Err (guard_error_new (lit ''URL must not contain userinfo''))
      else if url_port_or_known_default u = None
      then Err (guard_error_new (lit ''URL must include a valid port''))
      else (case literal_host_ip u of
              None \<Rightarrow> Ok ()
            | Some ip \<Rightarrow> result_bind (ensure_public_ip ip) (\<lambda>_. Ok ())))"

text \<open>\<open>parse\<close> is \<open>Url::parse\<close>; its error is the text its \<open>Display\<close> prints.\<close>

definition validate_url :: "(rstr \<Rightarrow> rstr + url) \<Rightarrow> rstr \<Rightarrow> guard_error + url" where
  "validate_url parse raw =
     result_bind (map_err (\<lambda>e. guard_error_new (lit ''invalid URL: '' @ e)) (parse raw))
       (\<lambda>u. result_bind (check_url u) (\<lambda>_. Ok u))"

section \<open>Resolving and pinning\<close>

record destination =
  dst_host :: rstr
  dst_addrs :: "socket_addr list"

type_synonym resolver = "rstr \<Rightarrow> u16 \<Rightarrow> rstr + socket_addr list"

text \<open>The \<open>for\<close> loop over the addresses: the first refusal ends it.\<close>

fun ensure_all_public :: "socket_addr list \<Rightarrow> guard_error + unit" where
  "ensure_all_public [] = Ok ()"
| "ensure_all_public (a # as) =
     result_bind (ensure_public_ip (sock_ip a)) (\<lambda>_. ensure_all_public as)"

definition resolve_pinned :: "resolver \<Rightarrow> url \<Rightarrow> guard_error + destination" where
  "resolve_pinned lookup_host u =
     result_bind (check_url u) (\<lambda>_.
     (case url_host u of
        Some (Ipv4Host ip) \<Rightarrow> Ok \<lparr>dst_host = show_ipv4 ip, dst_addrs = []\<rparr>
      | Some (Ipv6Host ip) \<Rightarrow> Ok \<lparr>dst_host = show_ipv6 ip, dst_addrs = []\<rparr>
      | None \<Rightarrow> Err (guard_error_new (lit ''URL must include a host''))
      | Some (DomainHost host) \<Rightarrow>
          result_bind (ok_or (url_port_or_known_default u)
                         (guard_error_new (lit ''URL must include a valid port''))) (\<lambda>port.
          result_bind (map_err (\<lambda>e. guard_error_new (lit ''DNS resolution failed: '' @ e))
                         (lookup_host host port)) (\<lambda>found.
          (let addrs = sort_dedup found
           in if addrs = [] then Err (guard_error_new (lit ''host resolved to no addresses''))
              else result_bind (ensure_all_public addrs)
                     (\<lambda>_. Ok \<lparr>dst_host = host, dst_addrs = addrs\<rparr>))))))"

section \<open>The pinned client\<close>

datatype redirect_policy = RedirectDefault | RedirectNone

record client_config =
  cc_redirect :: redirect_policy
  cc_proxies :: bool
  cc_resolve :: "rstr \<rightharpoonup> socket_addr list"

text \<open>\<open>reqwest::Client::builder()\<close>: redirects followed, system proxies used, no overrides.\<close>

definition client_builder_default :: client_config where
  "client_builder_default = \<lparr>cc_redirect = RedirectDefault, cc_proxies = True, cc_resolve = Map.empty\<rparr>"

definition client_builder :: "destination \<Rightarrow> client_config" where
  "client_builder d =
     (let builder = client_builder_default\<lparr>cc_redirect := RedirectNone, cc_proxies := False\<rparr>
      in if dst_addrs d \<noteq> []
         then builder\<lparr>cc_resolve := (cc_resolve builder)(dst_host d \<mapsto> dst_addrs d)\<rparr>
         else builder)"

text \<open>
  \<open>connects cfg u dns ip\<close>: a request for \<open>u\<close> by a client with settings \<open>cfg\<close> may open a
  connection to \<open>ip\<close> while DNS answers \<open>dns\<close>. \<open>reqwest_laws\<close> is what that crate documents
  for a client without redirects and proxies: a literal host is connected to directly, an
  overridden domain at the override's addresses, any other domain at what DNS returns.
\<close>

type_synonym connector = "client_config \<Rightarrow> url \<Rightarrow> (rstr \<Rightarrow> socket_addr list) \<Rightarrow> ip_addr \<Rightarrow> bool"

definition reqwest_targets :: "client_config \<Rightarrow> url \<Rightarrow> (rstr \<Rightarrow> socket_addr list) \<Rightarrow> ip_addr list" where
  "reqwest_targets cfg u dns =
     (case url_host u of
        None \<Rightarrow> []
      | Some (Ipv4Host ip) \<Rightarrow> [IpV4 ip]
      | Some (Ipv6Host ip) \<Rightarrow> [IpV6 ip]
      | Some (DomainHost h) \<Rightarrow>
          map sock_ip (case cc_resolve cfg h of Some addrs \<Rightarrow> addrs | None \<Rightarrow> dns h))"

definition reqwest_laws :: "connector \<Rightarrow> bool" where
  "reqwest_laws connects \<longleftrightarrow>
     (\<forall>cfg u dns ip. cc_redirect cfg = RedirectNone \<longrightarrow> \<not> cc_proxies cfg \<longrightarrow>
        connects cfg u dns ip \<longrightarrow> ip \<in> set (reqwest_targets cfg u dns))"

text \<open>
  A delivery is a run of attempts, each with its own resolution and its own client, as the
  documentation of \<open>resolve_pinned\<close> and \<open>client_builder\<close> asks: either the guard refuses, or the
  request is sent and opens some connections. Every attempt meets a resolver and a DNS of its
  own choosing. The state is the number of attempts and the addresses connected to so far.
\<close>

type_synonym delivery_state = "nat \<times> ip_addr list"

inductive delivery_step :: "connector \<Rightarrow> url \<Rightarrow> delivery_state \<Rightarrow> delivery_state \<Rightarrow> bool"
  for connects :: connector and u :: url where
  refused: "resolve_pinned lookup_host u = Inl e \<Longrightarrow> delivery_step connects u (n, ips) (Suc n, ips)"
| sent: "resolve_pinned lookup_host u = Inr d \<Longrightarrow>
     list_all (\<lambda>ip. connects (client_builder d) u dns ip) opened \<Longrightarrow>
     delivery_step connects u (n, ips) (Suc n, ips @ opened)"

inductive_cases delivery_stepE: "delivery_step connects u s s'"

inductive delivered :: "connector \<Rightarrow> url \<Rightarrow> delivery_state \<Rightarrow> bool"
  for connects :: connector and u :: url where
  idle: "delivered connects u (0, [])"
| attempt: "delivered connects u s \<Longrightarrow> delivery_step connects u s s' \<Longrightarrow> delivered connects u s'"

section \<open>Facts about the checks\<close>

lemma ensure_public_ip_Inr [simp]: "ensure_public_ip ip = Inr u \<longleftrightarrow> is_public ip"
  by (simp add: ensure_public_ip_def)

lemma ensure_all_public_Inr: "ensure_all_public as = Inr u \<longleftrightarrow> list_all (\<lambda>a. is_public (sock_ip a)) as"
  by (induction as) (auto simp: result_simps)

lemma ensure_all_public_Inl:
  "\<not> list_all (\<lambda>a. is_public (sock_ip a)) as \<Longrightarrow>
     ensure_all_public as = Err (GuardError (lit ''destination resolves to a non-public address''))"
  by (induction as) (auto simp: ensure_public_ip_def guard_error_new_def result_bind_def)

lemma check_url_Inr:
  "check_url u = Inr x \<longleftrightarrow>
     url_scheme u = lit ''https'' \<and> url_host u \<noteq> None \<and> url_username u = [] \<and> url_password u = None
     \<and> url_port_or_known_default u \<noteq> None
     \<and> (case literal_host_ip u of None \<Rightarrow> True | Some ip \<Rightarrow> is_public ip)"
  by (auto simp: check_url_def result_simps split: option.splits)

lemma resolve_pinned_domain:
  assumes "url_host u = Some (DomainHost host)"
  shows "resolve_pinned lookup_host u = Inr d \<longleftrightarrow>
    (\<exists>x port found. check_url u = Inr x \<and> url_port_or_known_default u = Some port
       \<and> lookup_host host port = Inr found \<and> found \<noteq> []
       \<and> list_all (\<lambda>a. is_public (sock_ip a)) found
       \<and> d = \<lparr>dst_host = host, dst_addrs = sort_dedup found\<rparr>)"
  using assms
  by (auto simp: resolve_pinned_def result_simps Let_def
      ensure_all_public_Inr list_all_iff)

lemma resolve_pinned_literal:
  assumes "url_host u = Some (Ipv4Host ip4) \<or> url_host u = Some (Ipv6Host ip6)"
  shows "resolve_pinned lookup_host u = Inr d \<longrightarrow> dst_addrs d = []"
  using assms by (auto simp: resolve_pinned_def result_simps)

end
