(* ===== verification/Outbound_Blocks.thy ===== *)
theory Outbound_Blocks
  imports Outbound_Guard
begin

unbundle bit_operations_syntax

text \<open>
  The address predicates against their specification in CIDR blocks: the octet patterns of
  \<open>is_public_ipv4\<close> are the blocks its documentation lists, and the masks and comparisons of
  \<open>is_public_ipv6\<close> are \<open>2000::/3\<close> without \<open>2001:db8::/32\<close> plus the embedded v4 forms.
\<close>

section \<open>IPv4\<close>

definition reserved_v4 :: "(ipv4 \<times> nat) list" where
  "reserved_v4 =
     [(V4 0 0 0 0, 8), (V4 10 0 0 0, 8), (V4 100 64 0 0, 10), (V4 127 0 0 0, 8),
      (V4 169 254 0 0, 16), (V4 172 16 0 0, 12), (V4 192 0 0 0, 24), (V4 192 0 2 0, 24),
      (V4 192 88 99 0, 24), (V4 192 168 0 0, 16), (V4 198 18 0 0, 15), (V4 198 51 100 0, 24),
      (V4 203 0 113 0, 24), (V4 224 0 0 0, 3)]"

lemma ipv4_num_div:
  "ipv4_num (V4 a b c d) div 256 = (unat a * 256 + unat b) * 256 + unat c"
  "ipv4_num (V4 a b c d) div 65536 = unat a * 256 + unat b"
  "ipv4_num (V4 a b c d) div 16777216 = unat a"
  "ipv4_num (V4 a b c d) div 131072 = (unat a * 256 + unat b) div 2"
  "ipv4_num (V4 a b c d) div 1048576 = (unat a * 256 + unat b) div 16"
  "ipv4_num (V4 a b c d) div 4194304 = (unat a * 256 + unat b) div 64"
  "ipv4_num (V4 a b c d) div 536870912 = unat a div 32"
proof -
  let ?n = "ipv4_num (V4 a b c d)"
  have lt: "unat b < 256" "unat c < 256" "unat d < 256" by (rule unat_u8_lt)+
  show 1: "?n div 256 = (unat a * 256 + unat b) * 256 + unat c" using lt by simp
  have s: "?n div (256 * k) = (?n div 256) div k" for k by (rule div_mult2_eq)
  have s2: "?n div (256 * (256 * k)) = (unat a * 256 + unat b) div k" for k
    using lt by (simp only: s 1 div_mult2_eq) (simp del: distrib_right_numeral)
  show 2: "?n div 65536 = unat a * 256 + unat b" using s2 [of 1] by simp
  have s3: "?n div (256 * (256 * (256 * k))) = unat a div k" for k
    using lt by (simp only: s2 div_mult2_eq) (simp del: distrib_right_numeral)
  show "?n div 16777216 = unat a" using s3 [of 1] by simp
  show "?n div 131072 = (unat a * 256 + unat b) div 2" using s2 [of 2] by simp
  show "?n div 1048576 = (unat a * 256 + unat b) div 16" using s2 [of 16] by simp
  show "?n div 4194304 = (unat a * 256 + unat b) div 64" using s2 [of 64] by simp
  show "?n div 536870912 = unat a div 32" using s3 [of 32] by simp
qed

lemma byte_digit: "c < 256 \<Longrightarrow> x * 256 + c = n \<longleftrightarrow> x = n div 256 \<and> c = n mod 256" for c x n :: nat
proof
  assume "c < 256" "x * 256 + c = n"
  then show "x = n div 256 \<and> c = n mod 256" by (simp add: \<open>x * 256 + c = n\<close> [symmetric])
next
  assume "x = n div 256 \<and> c = n mod 256"
  then show "x * 256 + c = n" by (simp add: div_mult_mod_eq)
qed

lemma two_octets:
  fixes a b :: nat
  assumes "b < 256"
  shows "a * 256 + b = 43518 \<longleftrightarrow> a = 169 \<and> b = 254"
    "a * 256 + b = 49320 \<longleftrightarrow> a = 192 \<and> b = 168"
  using assms by (simp_all add: byte_digit)

lemma three_octets:
  fixes a b c :: nat
  assumes "b < 256" "c < 256"
  shows "(a * 256 + b) * 256 + c = 12582912 \<longleftrightarrow> a = 192 \<and> b = 0 \<and> c = 0"
    "(a * 256 + b) * 256 + c = 12582914 \<longleftrightarrow> a = 192 \<and> b = 0 \<and> c = 2"
    "(a * 256 + b) * 256 + c = 12605539 \<longleftrightarrow> a = 192 \<and> b = 88 \<and> c = 99"
    "(a * 256 + b) * 256 + c = 12989284 \<longleftrightarrow> a = 198 \<and> b = 51 \<and> c = 100"
    "(a * 256 + b) * 256 + c = 13303921 \<longleftrightarrow> a = 203 \<and> b = 0 \<and> c = 113"
  using assms by (simp_all add: byte_digit del: distrib_right_numeral)

lemma div_eq_range:
  fixes x k q :: nat
  assumes "0 < k"
  shows "x div k = q \<longleftrightarrow> q * k \<le> x \<and> x < q * k + k"
proof
  assume "x div k = q"
  then have "x = q * k + x mod k" by (metis div_mult_mod_eq)
  then show "q * k \<le> x \<and> x < q * k + k" using mod_less_divisor [OF assms, of x] by linarith
next
  assume r: "q * k \<le> x \<and> x < q * k + k"
  then obtain m where "x = q * k + m" using le_iff_add by blast
  with r assms show "x div k = q" by simp
qed

lemma octet_range:
  fixes a b A lo hi :: nat
  assumes "b < 256" "hi \<le> 256"
  shows "A * 256 + lo \<le> a * 256 + b \<and> a * 256 + b < A * 256 + hi \<longleftrightarrow> a = A \<and> lo \<le> b \<and> b < hi"
proof
  assume r: "A * 256 + lo \<le> a * 256 + b \<and> a * 256 + b < A * 256 + hi"
  with assms have "a = A" by linarith
  with r show "a = A \<and> lo \<le> b \<and> b < hi" by simp
qed auto

lemma octet_ranges:
  fixes a b :: nat
  assumes "b < 256"
  shows "(a * 256 + b) div 2 = 25353 \<longleftrightarrow> a = 198 \<and> 18 \<le> b \<and> b < 20"
    "(a * 256 + b) div 16 = 2753 \<longleftrightarrow> a = 172 \<and> 16 \<le> b \<and> b < 32"
    "(a * 256 + b) div 64 = 401 \<longleftrightarrow> a = 100 \<and> 64 \<le> b \<and> b < 128"
  using octet_range [OF assms, of 20 198 18 a] octet_range [OF assms, of 32 172 16 a]
    octet_range [OF assms, of 128 100 64 a]
  by (simp_all add: div_eq_range)

lemma octet_le: "b \<le> 19 \<longleftrightarrow> b < 20" "b \<le> 31 \<longleftrightarrow> b < 32" "b \<le> 127 \<longleftrightarrow> b < 128" for b :: nat
  by auto

lemma top_range: "unat (a :: u8) div 32 = 7 \<longleftrightarrow> 224 \<le> unat a"
  using unat_u8_lt [of a] by (simp add: div_eq_range)

lemma non_public_prefix_nat:
  "non_public_prefix a b c \<longleftrightarrow>
     unat a = 0 \<or> unat a = 10 \<or> (unat a = 100 \<and> 64 \<le> unat b \<and> unat b \<le> 127) \<or> unat a = 127
     \<or> (unat a = 169 \<and> unat b = 254) \<or> (unat a = 172 \<and> 16 \<le> unat b \<and> unat b \<le> 31)
     \<or> (unat a = 192 \<and> unat b = 0 \<and> unat c = 0) \<or> (unat a = 192 \<and> unat b = 0 \<and> unat c = 2)
     \<or> (unat a = 192 \<and> unat b = 88 \<and> unat c = 99) \<or> (unat a = 192 \<and> unat b = 168)
     \<or> (unat a = 198 \<and> 18 \<le> unat b \<and> unat b \<le> 19)
     \<or> (unat a = 198 \<and> unat b = 51 \<and> unat c = 100)
     \<or> (unat a = 203 \<and> unat b = 0 \<and> unat c = 113) \<or> 224 \<le> unat a"
  by (simp add: non_public_prefix_def word_unat_eq_iff word_le_nat_alt)

lemma reserved_v4_octets:
  "list_ex (in_v4_block (V4 a b c d)) reserved_v4 \<longleftrightarrow> non_public_prefix a b c"
  unfolding reserved_v4_def non_public_prefix_nat
  by (simp add: in_v4_block_def ipv4_num_div two_octets three_octets octet_ranges top_range
      octet_le unat_u8_lt
      del: ipv4_num.simps distrib_right_numeral)

section \<open>IPv6\<close>

lemma seg_div: "(n * 65536 + unat (s :: u16)) div (65536 * k) = n div k"
  using unat_u16_lt [of s] by (simp add: div_mult2_eq)

lemma seg_digit: "n * 65536 + unat (s :: u16) = m * 65536 + unat t \<longleftrightarrow> n = m \<and> s = t"
proof
  assume eq: "n * 65536 + unat s = m * 65536 + unat t"
  have "n = m" using eq unat_u16_lt [of s] unat_u16_lt [of t] by linarith
  with eq show "n = m \<and> s = t" by (simp add: word_unat_eq_iff)
qed simp

lemma ipv6_num_horner:
  "ipv6_num (V6 s0 s1 s2 s3 s4 s5 s6 s7) =
     ((((((unat s0 * 65536 + unat s1) * 65536 + unat s2) * 65536 + unat s3) * 65536 + unat s4)
       * 65536 + unat s5) * 65536 + unat s6) * 65536 + unat s7"
  by (simp del: distrib_right_numeral)

lemma ipv6_num_div:
  "ipv6_num (V6 s0 s1 s2 s3 s4 s5 s6 s7) div (65536 * (65536 * (65536 * (65536 * (65536 * (65536 * (65536 * k))))))) =
     unat s0 div k"
  "ipv6_num (V6 s0 s1 s2 s3 s4 s5 s6 s7) div (65536 * (65536 * (65536 * (65536 * (65536 * (65536 * 1)))))) =
     unat s0 * 65536 + unat s1"
  "ipv6_num (V6 s0 s1 s2 s3 s4 s5 s6 s7) div (65536 * (65536 * 1)) =
     ((((unat s0 * 65536 + unat s1) * 65536 + unat s2) * 65536 + unat s3) * 65536 + unat s4)
       * 65536 + unat s5"
  unfolding ipv6_num_horner seg_div by (simp_all only: div_by_1)

text \<open>A block of at most 16 bits is a condition on the first segment.\<close>

lemma v6_block_first:
  assumes "len \<le> 16"
  shows "in_v6_block (V6 s0 s1 s2 s3 s4 s5 s6 s7) (V6 t0 t1 t2 t3 t4 t5 t6 t7, len) \<longleftrightarrow>
    unat s0 div 2 ^ (16 - len) = unat t0 div 2 ^ (16 - len)"
proof -
  have "(2 :: nat) ^ (128 - len) = 2 ^ (112 + (16 - len))" using assms by simp
  also have "\<dots> = 65536 * (65536 * (65536 * (65536 * (65536 * (65536 * (65536 * 2 ^ (16 - len)))))))"
    by (simp only: power_add) simp
  finally show ?thesis by (simp only: in_v6_block_def ipv6_num_div fst_conv snd_conv)
qed

lemma v6_block_32:
  "in_v6_block (V6 s0 s1 s2 s3 s4 s5 s6 s7) (V6 t0 t1 t2 t3 t4 t5 t6 t7, 32) \<longleftrightarrow> s0 = t0 \<and> s1 = t1"
proof -
  have "(2 :: nat) ^ (128 - 32) = 65536 * (65536 * (65536 * (65536 * (65536 * (65536 * 1)))))" by simp
  then show ?thesis
    by (simp only: in_v6_block_def ipv6_num_div fst_conv snd_conv seg_digit word_unat_eq_iff)
qed

lemma v6_block_96:
  "in_v6_block (V6 s0 s1 s2 s3 s4 s5 s6 s7) (V6 t0 t1 t2 t3 t4 t5 t6 t7, 96) \<longleftrightarrow>
     s0 = t0 \<and> s1 = t1 \<and> s2 = t2 \<and> s3 = t3 \<and> s4 = t4 \<and> s5 = t5"
proof -
  have "(2 :: nat) ^ (128 - 96) = 65536 * (65536 * 1)" by simp
  then show ?thesis
    by (simp only: in_v6_block_def ipv6_num_div fst_conv snd_conv seg_digit word_unat_eq_iff conj_assoc)
qed

text \<open>The mask \<open>0xe000\<close> keeps the first three bits of a segment.\<close>

lemma bit_u16_lt: "bit (s :: u16) (13 + n) \<Longrightarrow> n < 3"
  using bit_imp_le_length [of s "13 + n"] by simp

lemma mask_top3: "(s AND 0xe000) = 0x2000 \<longleftrightarrow> unat (s :: u16) div 8192 = 1"
proof -
  have m: "(0xe000 :: u16) = push_bit 13 (mask 3)" and t: "(0x2000 :: u16) = push_bit 13 1"
    by (simp_all add: mask_eq_exp_minus_1 push_bit_eq_mult)
  have "s AND 0xe000 = push_bit 13 (drop_bit 13 s)"
    unfolding m by (rule bit_word_eqI) (auto simp: bit_simps dest: bit_u16_lt)
  moreover have "push_bit 13 (drop_bit 13 s) = push_bit 13 (1 :: u16) \<longleftrightarrow> drop_bit 13 s = 1"
  proof
    assume "push_bit 13 (drop_bit 13 s) = push_bit 13 (1 :: u16)"
    then have "drop_bit 13 (push_bit 13 (drop_bit 13 s)) = drop_bit 13 (push_bit 13 (1 :: u16))" by simp
    moreover have "drop_bit 13 (push_bit 13 (drop_bit 13 s)) = drop_bit 13 s"
      by (rule bit_word_eqI) (auto simp: bit_simps dest: bit_u16_lt)
    ultimately show "drop_bit 13 s = 1" by simp
  qed simp
  ultimately have "(s AND 0xe000) = 0x2000 \<longleftrightarrow> drop_bit 13 s = 1" unfolding t by metis
  also have "\<dots> \<longleftrightarrow> unat (drop_bit 13 s) = 1" by (simp only: word_unat_eq_iff unat_1)
  also have "unat (drop_bit 13 s) = drop_bit 13 (unat s)" by (rule unat_drop_bit_eq)
  also have "drop_bit 13 (unat s) = unat s div 8192" by (simp add: drop_bit_eq_div)
  finally show ?thesis .
qed

definition low_v4 :: "ipv6 \<Rightarrow> ipv4" where
  "low_v4 ip =
     (let ab = be_bytes (segments ip ! 6); cd = be_bytes (segments ip ! 7)
      in V4 (fst ab) (snd ab) (fst cd) (snd cd))"

lemma to_ipv4_block:
  "to_ipv4 ip =
     (if in_v6_block ip (V6 0 0 0 0 0 0 0 0, 96) \<or> in_v6_block ip (V6 0 0 0 0 0 0xffff 0 0, 96)
      then Some (low_v4 ip) else None)"
  by (cases ip) (auto simp: v6_block_96 low_v4_def Let_def)

lemma is_public_ipv6_blocks:
  "is_public_ipv6 ip =
     (if in_v6_block ip (V6 0 0 0 0 0 0 0 0, 96) \<or> in_v6_block ip (V6 0 0 0 0 0 0xffff 0 0, 96)
      then is_public_ipv4 (low_v4 ip)
      else in_v6_block ip (V6 0x2000 0 0 0 0 0 0 0, 3)
           \<and> \<not> in_v6_block ip (V6 0x2001 0x0db8 0 0 0 0 0 0, 32))"
  by (cases ip)
     (simp add: is_public_ipv6_def to_ipv4_block mask_top3 v6_block_first v6_block_32)

end
