(* ===== verification/Outbound_Properties.thy ===== *)
theory Outbound_Properties
  imports Outbound_Blocks
begin

text \<open>
  What the guard promises its callers. The locale \<open>guarded_resolver\<close> is the interface a
  delivery relies on (a resolver that only hands out checked addresses); its client lemma is
  that no connection leaves for a non-public address. The code's \<open>resolve_pinned\<close> is its
  interpretation. The test vectors of the crate are evaluated at the end.
\<close>

section \<open>The interface a delivery relies on\<close>

locale guarded_resolver =
  fixes resolve :: "resolver \<Rightarrow> url \<Rightarrow> 'e + destination"
    and good :: "ip_addr \<Rightarrow> bool"
  assumes resolve_hosted: "resolve lookup_host u = Inr d \<Longrightarrow> url_host u \<noteq> None"
    and literal_good: "resolve lookup_host u = Inr d \<Longrightarrow> literal_host_ip u = Some ip \<Longrightarrow> good ip"
    and domain_pinned: "resolve lookup_host u = Inr d \<Longrightarrow> url_host u = Some (DomainHost h) \<Longrightarrow>
      dst_host d = h \<and> dst_addrs d \<noteq> [] \<and> list_all (\<lambda>a. good (sock_ip a)) (dst_addrs d)"
begin

lemma targets_good:
  assumes "resolve lookup_host u = Inr d"
    and "ip \<in> set (reqwest_targets (client_builder d) u dns)"
  shows "good ip"
proof (cases "url_host u")
  case None
  with resolve_hosted [OF assms(1)] show ?thesis by simp
next
  case (Some host)
  then show ?thesis
    using assms(2) literal_good [OF assms(1)] domain_pinned [OF assms(1)]
    by (cases host)
       (auto simp: reqwest_targets_def client_builder_def client_builder_default_def
         literal_host_ip_def list_all_iff Let_def)
qed

lemma connects_good:
  assumes "reqwest_laws connects" "resolve lookup_host u = Inr d"
    and "connects (client_builder d) u dns ip"
  shows "good ip"
proof -
  have "cc_redirect (client_builder d) = RedirectNone" "\<not> cc_proxies (client_builder d)"
    by (simp_all add: client_builder_def Let_def)
  with assms(1,3) have "ip \<in> set (reqwest_targets (client_builder d) u dns)"
    by (simp add: reqwest_laws_def)
  then show ?thesis by (rule targets_good [OF assms(2)])
qed

end

lemma resolve_pinned_check: "resolve_pinned lookup_host u = Inr d \<Longrightarrow> check_url u = Inr ()"
  by (auto simp: resolve_pinned_def result_simps)

interpretation pinned: guarded_resolver resolve_pinned is_public
proof unfold_locales
  fix lookup_host u d ip h
  assume r: "resolve_pinned lookup_host u = Inr d"
  show "url_host u \<noteq> None" and "literal_host_ip u = Some ip \<Longrightarrow> is_public ip"
    using resolve_pinned_check [OF r] by (auto simp: check_url_Inr)
  assume h: "url_host u = Some (DomainHost h)"
  show "dst_host d = h \<and> dst_addrs d \<noteq> [] \<and> list_all (\<lambda>a. is_public (sock_ip a)) (dst_addrs d)"
    using r resolve_pinned_domain [OF h, of lookup_host d] by (auto simp: list_all_iff)
qed

section \<open>Concrete values for the witnesses\<close>

definition example_url :: url where
  "example_url = \<lparr>url_scheme = lit ''https'', url_host = Some (DomainHost (lit ''app.example'')),
     url_username = [], url_password = None, url_port_or_known_default = Some 443\<rparr>"

lemma example_url_simps [simp]:
  "url_scheme example_url = lit ''https''" "url_host example_url = Some (DomainHost (lit ''app.example''))"
  "url_username example_url = []" "url_password example_url = None"
  "url_port_or_known_default example_url = Some 443"
  by (simp_all add: example_url_def)

definition example_lookup :: "resolver" where
  "example_lookup host port = Ok [SockV4 (V4 93 184 216 34) port, SockV4 (V4 1 1 1 1) port,
     SockV4 (V4 93 184 216 34) port]"

definition direct_connector :: connector where
  "direct_connector cfg u dns ip \<longleftrightarrow> ip \<in> set (reqwest_targets cfg u dns)"

lemma direct_connector_laws: "reqwest_laws direct_connector"
  by (simp add: reqwest_laws_def direct_connector_def)

lemma example_check: "check_url example_url = Inr x"
  by (simp add: check_url_Inr literal_host_ip_def)

lemma example_destination:
  "resolve_pinned example_lookup example_url =
     Ok \<lparr>dst_host = lit ''app.example'',
         dst_addrs = [SockV4 (V4 1 1 1 1) 443, SockV4 (V4 93 184 216 34) 443]\<rparr>"
proof -
  have "sort_dedup [SockV4 (V4 93 184 216 34) 443, SockV4 (V4 1 1 1 1) 443,
      SockV4 (V4 93 184 216 34) 443] = [SockV4 (V4 1 1 1 1) 443, SockV4 (V4 93 184 216 34) 443]"
    by (rule sort_dedup_unique [symmetric])
       (auto simp: less_eq_socket_addr_def)
  then show ?thesis
    by (subst resolve_pinned_domain [of _ "lit ''app.example''"])
       (simp_all add: example_lookup_def example_check non_public_prefix_nat)
qed

section \<open>Properties\<close>

lemma delivery_step_public:
  assumes "reqwest_laws connects" "delivery_step connects u s s'" "list_all is_public (snd s)"
  shows "list_all is_public (snd s')"
  using assms(2,3) pinned.connects_good [OF assms(1)]
  by (elim delivery_stepE) (auto simp: list_all_iff)

lemma delivered_public:
  assumes "reqwest_laws connects" "delivered connects u s"
  shows "list_all is_public (snd s)"
  using assms(2) by induction (auto intro: delivery_step_public [OF assms(1)])

text \<open>
  C1: no delivery ever connects to a non-public address: after any number of attempts, every
  address a connection was opened to is public, whatever each attempt's resolver and DNS
  answer; \<open>reqwest\<close> is only assumed to honour the redirect, proxy and override settings.
\<close>

theorem connections_public:
  assumes "reqwest_laws connects" "delivered connects u s"
  shows "list_all is_public (snd s)"
  by (rule delivered_public [OF assms])

theorem connections_public_witness:
  "delivered direct_connector example_url (2, [IpV4 (V4 1 1 1 1)]) \<and> is_public (IpV4 (V4 1 1 1 1))"
proof -
  have s: "delivery_step direct_connector example_url (n, ips) (Suc n, ips @ [IpV4 (V4 1 1 1 1)])" for n ips
    by (rule sent [OF example_destination, where dns = "\<lambda>h. [SockV4 (V4 169 254 169 254) 443]"])
       (simp add: direct_connector_def reqwest_targets_def client_builder_def client_builder_default_def
         Let_def)
  have "delivery_step direct_connector example_url (0, []) (Suc 0, [])"
    by (rule refused [where lookup_host = "\<lambda>h p. Inl []" and e = "GuardError (lit ''DNS resolution failed: '')"])
       (simp add: resolve_pinned_def example_check [of "()"] guard_error_new_def)
  then have "delivered direct_connector example_url (Suc 0, [])" by (rule attempt [OF idle])
  then have d: "delivered direct_connector example_url (2, [IpV4 (V4 1 1 1 1)])"
    using attempt [OF _ s [of "Suc 0" "[]"]] by (simp add: numeral_2_eq_2)
  with connections_public [OF direct_connector_laws d] show ?thesis by simp
qed

text \<open>
  C14: what \<open>resolve_pinned\<close> answers for a domain that passes the URL check, for every answer
  of the resolver: the resolver's failure, a refusal of the empty answer, a refusal if any
  one address is not public, and otherwise the destination pinned to exactly the addresses
  returned, sorted and without repetition.
\<close>

theorem resolve_domain_outcome:
  assumes "check_url u = Ok ()" "url_host u = Some (DomainHost h)"
    and "url_port_or_known_default u = Some port"
  shows "resolve_pinned lookup_host u =
    (case lookup_host h port of
       Inl e \<Rightarrow> Err (GuardError (lit ''DNS resolution failed: '' @ e))
     | Inr found \<Rightarrow>
         if found = [] then Err (GuardError (lit ''host resolved to no addresses''))
         else if list_all (\<lambda>a. is_public (sock_ip a)) found
         then Ok \<lparr>dst_host = h, dst_addrs = sort_dedup found\<rparr>
         else Err (GuardError (lit ''destination resolves to a non-public address'')))"
proof (cases "lookup_host h port")
  case (Inl e)
  with assms show ?thesis by (simp add: resolve_pinned_def guard_error_new_def)
next
  case (Inr found)
  have same: "list_all (\<lambda>a. is_public (sock_ip a)) (sort_dedup found) =
      list_all (\<lambda>a. is_public (sock_ip a)) found"
    by (simp add: list_all_iff)
  show ?thesis
  proof (cases "list_all (\<lambda>a. is_public (sock_ip a)) found")
    case True
    then have "ensure_all_public (sort_dedup found) = Inr ()"
      by (simp add: ensure_all_public_Inr same)
    with assms Inr True show ?thesis by (simp add: resolve_pinned_def guard_error_new_def Let_def)
  next
    case False
    then have "ensure_all_public (sort_dedup found) =
        Err (GuardError (lit ''destination resolves to a non-public address''))"
      by (intro ensure_all_public_Inl) (simp add: same)
    with assms Inr False show ?thesis
      by (auto simp: resolve_pinned_def guard_error_new_def Let_def)
  qed
qed

theorem resolve_domain_outcome_witness:
  "resolve_pinned (\<lambda>h p. Ok [SockV4 (V4 1 1 1 1) p, SockV4 (V4 10 0 0 7) p]) example_url =
     Err (GuardError (lit ''destination resolves to a non-public address''))"
  by (subst resolve_domain_outcome [of _ "lit ''app.example''" 443])
     (simp_all add: example_check non_public_prefix_nat)

text \<open>
  The pinned addresses are in the order of \<open>SocketAddr\<close>, each once, and are exactly the
  addresses the resolver returned; so the destination does not depend on the order or the
  repetitions of a DNS answer.
\<close>

theorem pinned_addresses_canonical:
  assumes "resolve_pinned lookup_host u = Ok d" "url_host u = Some (DomainHost h)"
    and "url_port_or_known_default u = Some port" "lookup_host h port = Ok found"
  shows "sorted (dst_addrs d) \<and> distinct (dst_addrs d) \<and> set (dst_addrs d) = set found \<and>
    (\<forall>lookup' found'. lookup' h port = Ok found' \<longrightarrow> set found' = set found \<longrightarrow>
       resolve_pinned lookup' u = Ok d)"
proof -
  have d: "d = \<lparr>dst_host = h, dst_addrs = sort_dedup found\<rparr>"
    using assms resolve_pinned_domain [OF assms(2), of lookup_host d] by auto
  have "resolve_pinned lookup' u = Ok d"
    if "lookup' h port = Ok found'" "set found' = set found" for lookup' found'
  proof -
    have "sort_dedup found' = sort_dedup found"
      by (rule sort_dedup_unique) (simp_all add: sort_dedup_sorted that(2))
    moreover have "found' \<noteq> [] \<longleftrightarrow> found \<noteq> []" using that(2) by auto
    ultimately show ?thesis
      using assms resolve_pinned_domain [OF assms(2)] d that by (auto simp: list_all_iff)
  qed
  then show ?thesis using d by (simp add: sort_dedup_sorted)
qed

theorem pinned_addresses_canonical_witness:
  "resolve_pinned (\<lambda>h p. Ok [SockV4 (V4 1 1 1 1) p, SockV4 (V4 93 184 216 34) p]) example_url =
     Ok \<lparr>dst_host = lit ''app.example'',
         dst_addrs = [SockV4 (V4 1 1 1 1) 443, SockV4 (V4 93 184 216 34) 443]\<rparr>"
  using pinned_addresses_canonical [OF example_destination, of "lit ''app.example''" 443
      "[SockV4 (V4 93 184 216 34) 443, SockV4 (V4 1 1 1 1) 443, SockV4 (V4 93 184 216 34) 443]"]
  by (auto simp: example_lookup_def)

text \<open>
  C20: \<open>is_public_ipv4\<close>, a match on octets, accepts exactly the addresses outside the fourteen
  CIDR blocks of its documentation.
\<close>

theorem public_v4_blocks:
  "is_public_ipv4 ip = (\<not> list_ex (in_v4_block ip) reserved_v4)"
proof (cases ip)
  case (V4 a b c d)
  then show ?thesis by (simp only: is_public_ipv4.simps reserved_v4_octets)
qed

text \<open>
  C21: \<open>is_public_ipv6\<close>, a mask and two comparisons, is: an address with an embedded v4 one
  (\<open>::/96\<close> or \<open>::ffff:0:0/96\<close>) is judged by that address, and any other is accepted exactly
  inside \<open>2000::/3\<close> and outside \<open>2001:db8::/32\<close>.
\<close>

theorem public_v6_blocks:
  "is_public_ipv6 ip =
     (if list_ex (in_v6_block ip) [(V6 0 0 0 0 0 0 0 0, 96), (V6 0 0 0 0 0 0xffff 0 0, 96)]
      then is_public_ipv4 (low_v4 ip)
      else in_v6_block ip (V6 0x2000 0 0 0 0 0 0 0, 3)
           \<and> \<not> in_v6_block ip (V6 0x2001 0x0db8 0 0 0 0 0 0, 32))"
  by (simp add: is_public_ipv6_blocks)

lemma low_v4_forms: "low_v4 (v4_mapped v4) = v4" "low_v4 (v4_compatible v4) = v4"
  using to_ipv4_mapped_form [of v4] to_ipv4_compatible_form [of v4]
  by (simp_all add: to_ipv4_block split: if_splits)

text \<open>
  A v4 address judged through its mapped or compatible v6 form gets the same verdict,
  and the unspecified, loopback, unique-local, link-local and multicast v6 addresses are all
  refused.
\<close>

theorem v6_verdicts:
  "is_public_ipv6 (v4_mapped v4) = is_public_ipv4 v4 \<and>
   is_public_ipv6 (v4_compatible v4) = is_public_ipv4 v4 \<and>
   \<not> is_public_ipv6 (V6 0 0 0 0 0 0 0 0) \<and> \<not> is_public_ipv6 (V6 0 0 0 0 0 0 0 1) \<and>
   \<not> (is_public_ipv6 ip \<and> list_ex (in_v6_block ip)
        [(V6 0xfc00 0 0 0 0 0 0 0, 7), (V6 0xfe80 0 0 0 0 0 0 0, 10), (V6 0xff00 0 0 0 0 0 0 0, 8)])"
proof -
  have forms: "is_public_ipv6 (v4_mapped v4) = is_public_ipv4 v4"
    "is_public_ipv6 (v4_compatible v4) = is_public_ipv4 v4"
    by (simp_all add: is_public_ipv6_def to_ipv4_mapped_form to_ipv4_compatible_form)
  have low: "\<not> is_public_ipv6 (V6 0 0 0 0 0 0 0 0)" "\<not> is_public_ipv6 (V6 0 0 0 0 0 0 0 1)"
    by (simp_all add: is_public_ipv6_def be_bytes_def non_public_prefix_nat)
  have "\<not> list_ex (in_v6_block ip)
      [(V6 0xfc00 0 0 0 0 0 0 0, 7), (V6 0xfe80 0 0 0 0 0 0 0, 10), (V6 0xff00 0 0 0 0 0 0 0, 8)]"
    if "is_public_ipv6 ip"
  proof (cases ip)
    case (V6 s0 s1 s2 s3 s4 s5 s6 s7)
    have "unat s0 div 8192 = 1 \<or> s0 = 0"
      using that unfolding V6 is_public_ipv6_blocks
      by (auto simp: v6_block_first v6_block_96 split: if_splits)
    then have "unat s0 < 16384" by (auto simp: div_eq_range)
    then show ?thesis unfolding V6 by (simp add: v6_block_first div_eq_range)
  qed
  with forms low show ?thesis by blast
qed

text \<open>
  A v4 address carried in a 6to4 address (\<open>2002:a.b.c.d::/48\<close>) is not judged: every such
  address is accepted, the one that carries the metadata endpoint 169.254.169.254 included,
  and so is the documentation block \<open>3fff::/20\<close>.
\<close>

theorem embedded_v4_not_judged:
  "is_public_ipv6 (V6 0x2002 (be_join a b) (be_join c d) s3 s4 s5 s6 s7) \<and>
   \<not> is_public_ipv4 (V4 169 254 169 254) \<and>
   is_public_ipv6 (V6 0x3fff s1 s2 s3 s4 s5 s6 s7)"
  by (simp add: is_public_ipv6_def non_public_prefix_nat)

text \<open>
  C35: the URL check accepts exactly the https URLs with a host, without userinfo, with a
  port, whose literal host (if any) is public; a domain is accepted whatever it resolves to,
  so only \<open>resolve_pinned\<close> judges it, and a URL that \<open>resolve_pinned\<close> takes has passed the
  check.
\<close>

theorem check_url_exact:
  "(check_url u = Ok ()) =
     (url_scheme u = lit ''https'' \<and> url_host u \<noteq> None \<and> url_username u = [] \<and> url_password u = None
      \<and> url_port_or_known_default u \<noteq> None
      \<and> (case url_host u of Some (Ipv4Host ip) \<Rightarrow> is_public_ipv4 ip
           | Some (Ipv6Host ip) \<Rightarrow> is_public_ipv6 ip | _ \<Rightarrow> True)) \<and>
   (\<exists>e. check_url u = Err e \<and> resolve_pinned lookup_host u = Err e) = (check_url u \<noteq> Ok ())"
proof -
  have "(case literal_host_ip u of None \<Rightarrow> True | Some ip \<Rightarrow> is_public ip) =
      (case url_host u of Some (Ipv4Host ip) \<Rightarrow> is_public_ipv4 ip
         | Some (Ipv6Host ip) \<Rightarrow> is_public_ipv6 ip | _ \<Rightarrow> True)"
    by (simp add: literal_host_ip_def split: option.split url_host.split)
  moreover have "(\<exists>e. check_url u = Err e \<and> resolve_pinned lookup_host u = Err e) =
      (check_url u \<noteq> Ok ())"
    by (cases "check_url u") (auto simp: resolve_pinned_def)
  ultimately show ?thesis by (simp only: check_url_Inr)
qed

section \<open>The crate's test vectors\<close>

definition vectors_private :: "ipv4 list" where
  "vectors_private =
     [V4 0 0 0 0, V4 0 1 2 3, V4 10 0 0 5, V4 10 255 255 255, V4 100 64 0 1, V4 100 127 255 255,
      V4 127 0 0 1, V4 169 254 169 254, V4 172 16 0 1, V4 172 31 255 255, V4 192 168 1 1]"

definition vectors_forgotten :: "ipv4 list" where
  "vectors_forgotten =
     [V4 192 0 0 1, V4 192 0 2 5, V4 192 88 99 1, V4 198 18 0 1, V4 198 19 255 254,
      V4 198 51 100 7, V4 203 0 113 7, V4 224 0 0 1, V4 239 255 255 250, V4 240 0 0 1,
      V4 255 255 255 255]"

definition vectors_v6 :: "ipv6 list" where
  "vectors_v6 =
     [V6 0 0 0 0 0 0 0 1, V6 0 0 0 0 0 0 0 0, V6 0xfc00 0 0 0 0 0 0 1, V6 0xfd00 0 0 0 0 0 0 1,
      V6 0xfe80 0 0 0 0 0 0 1, V6 0xff02 0 0 0 0 0 0 1, v4_mapped (V4 127 0 0 1),
      v4_mapped (V4 10 0 0 1), v4_mapped (V4 169 254 169 254), V6 0x2001 0x0db8 0 0 0 0 0 1]"

definition vectors_public :: "ip_addr list" where
  "vectors_public =
     [IpV4 (V4 1 1 1 1), IpV4 (V4 8 8 8 8), IpV4 (V4 172 32 0 1), IpV4 (V4 100 128 0 1),
      IpV6 (V6 0x2606 0x4700 0x4700 0 0 0 0 0x1111), IpV6 (V6 0x2001 0x4860 0x4860 0 0 0 0 0x8888)]"

text \<open>The guard gives the verdicts of the crate's tests on all their addresses.\<close>

theorem test_vectors:
  "list_all (\<lambda>ip. ensure_public_ip ip =
       Err (GuardError (lit ''destination resolves to a non-public address'')))
     (map IpV4 (vectors_private @ vectors_forgotten) @ map IpV6 vectors_v6) \<and>
   list_all (\<lambda>ip. ensure_public_ip ip = Ok ()) vectors_public"
  by (simp add: ensure_public_ip_def guard_error_new_def vectors_private_def vectors_forgotten_def
      vectors_v6_def vectors_public_def is_public_ipv6_def be_bytes_def non_public_prefix_nat be_join_def)

end
