(* ===== verification/Socket_Parse.thy ===== *)
theory Socket_Parse
  imports Rust_Net
begin

text \<open>
  \<open>SocketAddr::from_str\<close> and \<open>Display\<close> of the standard library, which the Lambda entry point
  calls on the configured address: the library's recursive descent over the characters, with
  its limits on digits, leading zeros, the \<open>::\<close> run and an embedded dotted address.
\<close>

section \<open>The parser\<close>

type_synonym 'a reader = "rstr \<Rightarrow> ('a \<times> rstr) option"

definition read_given_char :: "rchar \<Rightarrow> unit reader" where
  "read_given_char c s = (case s of [] \<Rightarrow> None | x # xs \<Rightarrow> if x = c then Some ((), xs) else None)"

definition read_then :: "'a reader \<Rightarrow> ('a \<Rightarrow> 'b reader) \<Rightarrow> 'b reader" where
  "read_then p f s = (case p s of None \<Rightarrow> None | Some (x, r) \<Rightarrow> f x r)"

definition to_digit :: "nat \<Rightarrow> rchar \<Rightarrow> nat option" where
  "to_digit radix c =
     (let d = (if 48 \<le> c \<and> c \<le> 57 then c - 48
               else if 97 \<le> c \<and> c \<le> 122 then c - 97 + 10
               else if 65 \<le> c \<and> c \<le> 90 then c - 65 + 10 else radix)
      in if d < radix then Some d else None)"

text \<open>
  A number in the given radix: the limit on its digits, whether a zero may lead, and the
  largest value of the type it is read into.
\<close>

definition read_number :: "nat \<Rightarrow> nat option \<Rightarrow> bool \<Rightarrow> nat \<Rightarrow> nat reader" where
  "read_number radix max_digits allow_zero_prefix max_value s =
     (let is_digit = (\<lambda>c. to_digit radix c \<noteq> None);
          digits = takeWhile is_digit s;
          count = length digits;
          value = foldl (\<lambda>acc c. acc * radix + (case to_digit radix c of None \<Rightarrow> 0 | Some d \<Rightarrow> d)) 0 digits
      in if (case max_digits of None \<Rightarrow> False | Some m \<Rightarrow> count > m) then None
         else if count = 0 then None
         else if \<not> allow_zero_prefix \<and> hd s = 48 \<and> count > 1 then None
         else if value > max_value then None
         else Some (value, dropWhile is_digit s))"

definition read_separator :: "rchar \<Rightarrow> bool \<Rightarrow> 'a reader \<Rightarrow> 'a reader" where
  "read_separator sep first p =
     (if first then p else read_then (read_given_char sep) (\<lambda>_. p))"

definition read_octet :: "nat reader" where
  "read_octet = read_number 10 (Some 3) False 255"

definition read_ipv4 :: "ipv4 reader" where
  "read_ipv4 =
     read_then read_octet (\<lambda>a.
     read_then (read_separator 46 False read_octet) (\<lambda>b.
     read_then (read_separator 46 False read_octet) (\<lambda>c.
     read_then (read_separator 46 False read_octet) (\<lambda>d s.
       Some (V4 (of_nat a) (of_nat b) (of_nat c) (of_nat d), s)))))"

text \<open>
  Groups of an IPv6 address while room is left, and whether a dotted address ended them; it
  takes two groups.
\<close>

fun read_groups :: "nat \<Rightarrow> bool \<Rightarrow> rstr \<Rightarrow> u16 list \<times> bool \<times> rstr" where
  "read_groups 0 first s = ([], False, s)"
| "read_groups (Suc room) first s =
     (case (if room \<ge> 1 then read_separator 58 first read_ipv4 s else None) of
        Some (V4 a b c d, r) \<Rightarrow> ([be_join a b, be_join c d], True, r)
      | None \<Rightarrow>
          (case read_separator 58 first (read_number 16 (Some 4) True 65535) s of
             None \<Rightarrow> ([], False, s)
           | Some (g, r) \<Rightarrow>
               (let (gs, v4, r') = read_groups room False r in (of_nat g # gs, v4, r'))))"

fun ipv6_of_segments :: "u16 list \<Rightarrow> ipv6 option" where
  "ipv6_of_segments [a, b, c, d, e, f, g, h] = Some (V6 a b c d e f g h)"
| "ipv6_of_segments _ = None"

definition read_ipv6 :: "ipv6 reader" where
  "read_ipv6 s =
     (let (head, head_v4, r) = read_groups 8 True s
      in if length head = 8 then map_option (\<lambda>ip. (ip, r)) (ipv6_of_segments head)
         else if head_v4 then None
         else read_then (read_given_char 58) (\<lambda>_. read_then (read_given_char 58) (\<lambda>_ s'.
           (let (tail, tail_v4, r') = read_groups (8 - (length head + 1)) True s'
            in map_option (\<lambda>ip. (ip, r'))
                 (ipv6_of_segments (head @ replicate (8 - length head - length tail) 0 @ tail))))) r)"

definition read_port :: "nat reader" where
  "read_port = read_then (read_given_char 58) (\<lambda>_. read_number 10 None True 65535)"

definition read_scope :: "nat reader" where
  "read_scope s =
     (case read_then (read_given_char 37) (\<lambda>_. read_number 10 None True 4294967295) s of
        None \<Rightarrow> Some (0, s)
      | Some x \<Rightarrow> Some x)"

definition read_socket_v4 :: "socket_addr reader" where
  "read_socket_v4 =
     read_then read_ipv4 (\<lambda>ip. read_then read_port (\<lambda>port s. Some (SockV4 ip (of_nat port), s)))"

definition read_socket_v6 :: "socket_addr reader" where
  "read_socket_v6 =
     read_then (read_given_char 91) (\<lambda>_.
     read_then read_ipv6 (\<lambda>ip.
     read_then read_scope (\<lambda>scope.
     read_then (read_given_char 93) (\<lambda>_.
     read_then read_port (\<lambda>port s. Some (SockV6 ip (of_nat port) 0 (of_nat scope), s))))))"

definition parse_socket_addr :: "rstr \<Rightarrow> socket_addr option" where
  "parse_socket_addr s =
     (case (case read_socket_v4 s of Some x \<Rightarrow> Some x | None \<Rightarrow> read_socket_v6 s) of
        Some (a, []) \<Rightarrow> Some a
      | _ \<Rightarrow> None)"

fun show_socket_addr :: "socket_addr \<Rightarrow> rstr" where
  "show_socket_addr (SockV4 ip port) = show_ipv4 ip @ [58] @ show_nat (unat port)"
| "show_socket_addr (SockV6 ip port flowinfo scope_id) =
     [91] @ show_ipv6 ip @ (if scope_id = 0 then [] else [37] @ show_nat (unat scope_id))
       @ [93, 58] @ show_nat (unat port)"

lemmas reader_defs =
  read_given_char_def read_then_def read_separator_def read_port_def read_scope_def
  read_socket_v4_def read_socket_v6_def read_ipv4_def read_ipv6_def read_octet_def

section \<open>Numbers read back\<close>

lemma to_digit_10: "to_digit 10 c = digit_value c"
  by (auto simp: to_digit_def digit_value_def Let_def)

lemma parse_digits_foldl:
  "\<forall>c \<in> set s. 48 \<le> c \<and> c \<le> 57 \<Longrightarrow>
     parse_digits acc s = Some (foldl (\<lambda>acc c. acc * 10 + (case digit_value c of None \<Rightarrow> 0 | Some d \<Rightarrow> d)) acc s)"
  by (induction s arbitrary: acc) (auto simp: digit_value_def mult.commute)

lemma takeWhile_digits:
  assumes "\<forall>c \<in> set s. P c" "r = [] \<or> \<not> P (hd r)"
  shows "takeWhile P (s @ r) = s" "dropWhile P (s @ r) = r"
  using assms by (cases r; simp add: takeWhile_append dropWhile_append)+

lemma show_nat_leading_zero: "hd (show_nat n) = 48 \<Longrightarrow> n = 0"
proof (induction n rule: show_nat.induct)
  case (1 n)
  then show ?case by (subst (asm) (2) show_nat.simps) (auto split: if_splits)
qed

lemma length_show_nat: "n < 10 ^ k \<Longrightarrow> 0 < k \<Longrightarrow> length (show_nat n) \<le> k"
proof (induction k arbitrary: n)
  case (Suc k)
  show ?case
  proof (cases "n < 10")
    case True
    then show ?thesis by (subst show_nat.simps) simp
  next
    case False
    then have "n div 10 < 10 ^ k" "0 < k" using Suc.prems by (auto intro: gr0I)
    with Suc.IH False show ?thesis by (subst show_nat.simps) simp
  qed
qed simp

lemma read_number_show_nat:
  assumes "n \<le> max_value" "r = [] \<or> digit_value (hd r) = None"
    and "\<And>m. max_digits = Some m \<Longrightarrow> length (show_nat n) \<le> m"
  shows "read_number 10 max_digits allow (max_value) (show_nat n @ r) = Some (n, r)"
proof -
  have d: "\<forall>c \<in> set (show_nat n). digit_value c \<noteq> None"
    using show_nat_digits by (auto simp: digit_value_def)
  have tw: "takeWhile (\<lambda>c. digit_value c \<noteq> None) (show_nat n @ r) = show_nat n"
    "dropWhile (\<lambda>c. digit_value c \<noteq> None) (show_nat n @ r) = r"
    using takeWhile_digits [OF d] assms(2) by auto
  have v: "foldl (\<lambda>acc c. acc * 10 + (case digit_value c of None \<Rightarrow> 0 | Some d \<Rightarrow> d)) 0 (show_nat n) = n"
    using parse_digits_foldl [of "show_nat n" 0] show_nat_digits parse_digits_show_nat [of n] by auto
  have z: "hd (show_nat n @ r) = 48 \<Longrightarrow> length (show_nat n) = 1"
    using show_nat_leading_zero [of n] by (simp add: show_nat.simps)
  show ?thesis
    unfolding read_number_def to_digit_10 Let_def tw v
    using assms(1,3) z by (auto split: option.splits)
qed

lemma read_octet_show:
  assumes "r = [] \<or> digit_value (hd r) = None"
  shows "read_octet (show_nat (unat (b :: u8)) @ r) = Some (unat b, r)"
proof -
  have "unat b \<le> 255" using unat_u8_lt [of b] by simp
  then show ?thesis
    unfolding read_octet_def using assms length_show_nat [of "unat b" 3]
    by (intro read_number_show_nat) auto
qed

lemma read_ipv4_show:
  assumes "r = [] \<or> digit_value (hd r) = None"
  shows "read_ipv4 (show_ipv4 ip @ r) = Some (ip, r)"
proof (cases ip)
  case (V4 a b c d)
  have dot: "digit_value 46 = None" by (simp add: digit_value_def)
  show ?thesis
    unfolding V4 read_ipv4_def
    by (simp add: lit_def read_then_def read_separator_def read_given_char_def
        read_octet_show [where r = "46 # _"] dot read_octet_show [OF assms])
qed

lemma parse_show_v4: "parse_socket_addr (show_socket_addr (SockV4 ip port)) = Some (SockV4 ip port)"
proof -
  have p: "unat port \<le> 65535" using unat_u16_lt [of port] by simp
  have n: "read_number 10 None True 65535 (show_nat (unat port)) = Some (unat port, [])"
    using read_number_show_nat [of "unat port" 65535 "[]" None True] p by simp
  have i: "read_ipv4 (show_ipv4 ip @ 58 # show_nat (unat port)) = Some (ip, 58 # show_nat (unat port))"
    by (rule read_ipv4_show) (simp add: digit_value_def)
  show ?thesis
    by (simp add: parse_socket_addr_def read_socket_v4_def read_port_def read_then_def
        read_given_char_def i n)
qed

end
