(* ===== verification/Socket_Roundtrip.thy ===== *)
theory Socket_Roundtrip
  imports Socket_Parse
begin

text \<open>
  What \<open>Display\<close> prints, \<open>from_str\<close> reads back: for every IPv4 and IPv6 socket address whose flow
  information is zero (it is not printed), through the compression of the longest run of zero
  segments and the dotted form of mapped addresses.
\<close>

section \<open>Hexadecimal numbers\<close>

definition hex_char :: "rchar \<Rightarrow> bool" where
  "hex_char c \<longleftrightarrow> to_digit 16 c \<noteq> None"

definition hex_value :: "nat \<Rightarrow> rstr \<Rightarrow> nat" where
  "hex_value acc s = foldl (\<lambda>acc c. acc * 16 + (case to_digit 16 c of None \<Rightarrow> 0 | Some d \<Rightarrow> d)) acc s"

lemma hex_digit_of: "d < 16 \<Longrightarrow> to_digit 16 (if d < 10 then 48 + d else 87 + d) = Some d"
  by (auto simp: to_digit_def Let_def)

lemma show_hex_chars: "c \<in> set (show_hex n) \<Longrightarrow> hex_char c"
proof (induction n rule: show_hex.induct)
  case (1 n)
  have d: "hex_char (if n mod 16 < 10 then 48 + n mod 16 else 87 + n mod 16)"
    unfolding hex_char_def using hex_digit_of [of "n mod 16"] by simp
  show ?case
  proof (cases "n < 16")
    case True
    with 1(2) d show ?thesis by (subst (asm) show_hex.simps) (simp add: Let_def split: if_splits)
  next
    case False
    with 1 d show ?thesis by (subst (asm) (2) show_hex.simps) (auto simp: Let_def split: if_splits)
  qed
qed

lemma hex_value_show: "hex_value 0 (show_hex n) = n"
proof (induction n rule: show_hex.induct)
  case (1 n)
  let ?d = "if n mod 16 < 10 then 48 + n mod 16 else 87 + n mod 16"
  have d: "to_digit 16 ?d = Some (n mod 16)" by (rule hex_digit_of) simp
  show ?case
  proof (cases "n < 16")
    case True
    then show ?thesis using d by (subst show_hex.simps) (simp add: Let_def hex_value_def)
  next
    case False
    then have "hex_value 0 (show_hex n) = hex_value 0 (show_hex (n div 16)) * 16 + n mod 16"
      using d by (subst show_hex.simps) (simp add: Let_def hex_value_def)
    also have "\<dots> = n" using 1 False by (simp add: Let_def)
    finally show ?thesis .
  qed
qed

lemma show_hex_nonempty [simp]: "show_hex n \<noteq> []"
  by (subst show_hex.simps) (simp add: Let_def)

lemma length_show_hex: "n < 16 ^ k \<Longrightarrow> 0 < k \<Longrightarrow> length (show_hex n) \<le> k"
proof (induction k arbitrary: n)
  case (Suc k)
  show ?case
  proof (cases "n < 16")
    case True
    then show ?thesis by (subst show_hex.simps) (simp add: Let_def)
  next
    case False
    then have "n div 16 < 16 ^ k" "0 < k" using Suc.prems by (auto intro: gr0I)
    with Suc.IH False show ?thesis by (subst show_hex.simps) (simp add: Let_def)
  qed
qed simp

lemma read_group_show:
  assumes "r = [] \<or> \<not> hex_char (hd r)"
  shows "read_number 16 (Some 4) True 65535 (show_hex (unat (g :: u16)) @ r) = Some (unat g, r)"
proof -
  have h: "(\<lambda>c. to_digit 16 c \<noteq> None) = hex_char" by (simp add: hex_char_def fun_eq_iff)
  have tw: "takeWhile hex_char (show_hex (unat g) @ r) = show_hex (unat g)"
    "dropWhile hex_char (show_hex (unat g) @ r) = r"
    using takeWhile_digits [of "show_hex (unat g)" hex_char] show_hex_chars assms by auto
  have "length (show_hex (unat g)) \<le> 4" using unat_u16_lt [of g] by (intro length_show_hex) auto
  moreover have "unat g \<le> 65535" using unat_u16_lt [of g] by simp
  ultimately show ?thesis
    unfolding read_number_def h Let_def tw hex_value_def [symmetric] hex_value_show by simp
qed

section \<open>Groups\<close>

text \<open>Where a list of groups ends: at the end, at a character of another kind, or at \<open>::\<close>.\<close>

definition ends_groups :: "rstr \<Rightarrow> bool" where
  "ends_groups r \<longleftrightarrow> r = [] \<or> (\<not> hex_char (hd r) \<and> hd r \<noteq> 46 \<and> hd r \<noteq> 58) \<or> (\<exists>r'. r = 58 # 58 # r')"

lemma digit_hex: "to_digit 10 c \<noteq> None \<Longrightarrow> hex_char c"
  by (auto simp: hex_char_def to_digit_def Let_def split: if_splits)

lemma not_hex_punct: "\<not> hex_char 58" "\<not> hex_char 46" "\<not> hex_char 93" "\<not> hex_char 37"
  by (simp_all add: hex_char_def to_digit_def)

lemma ends_groups_hex: "ends_groups r \<Longrightarrow> r = [] \<or> (\<not> hex_char (hd r) \<and> hd r \<noteq> 46)"
  by (auto simp: ends_groups_def not_hex_punct)

text \<open>A text of hex digits with no dot after them is not a dotted address.\<close>

lemma read_octet_rest:
  assumes "read_octet s = Some (n, r)"
  shows "r = dropWhile (\<lambda>c. to_digit 10 c \<noteq> None) s"
  using assms by (auto simp: read_octet_def read_number_def Let_def split: if_splits)

lemma dropWhile_digits_head:
  assumes "\<forall>c \<in> set p. hex_char c" "r = [] \<or> (\<not> hex_char (hd r) \<and> hd r \<noteq> 46)"
  shows "dropWhile (\<lambda>c. to_digit 10 c \<noteq> None) (p @ r) = [] \<or>
    hd (dropWhile (\<lambda>c. to_digit 10 c \<noteq> None) (p @ r)) \<noteq> 46"
  using assms
proof (induction p)
  case Nil
  then show ?case using digit_hex [of "hd r"] by (cases r) auto
next
  case (Cons c p)
  then show ?case using not_hex_punct by auto
qed

lemma read_ipv4_none:
  assumes "\<forall>c \<in> set p. hex_char c" "r = [] \<or> (\<not> hex_char (hd r) \<and> hd r \<noteq> 46)"
  shows "read_ipv4 (p @ r) = None"
proof (cases "read_octet (p @ r)")
  case None
  then show ?thesis by (simp add: read_ipv4_def read_then_def)
next
  case (Some x)
  then obtain n s where x: "read_octet (p @ r) = Some (n, s)" by (cases x) auto
  have "s = [] \<or> hd s \<noteq> 46"
    using dropWhile_digits_head [OF assms] read_octet_rest [OF x] by simp
  then show ?thesis
    by (cases s) (simp_all add: read_ipv4_def read_then_def x read_separator_def read_given_char_def)
qed

lemma read_ends_none:
  assumes "ends_groups r"
  shows "read_separator 58 first read_ipv4 r = None"
    "read_separator 58 first (read_number 16 (Some 4) True 65535) r = None"
proof -
  have e: "read_ipv4 s = None \<and> read_number 16 (Some 4) True 65535 s = None"
    if "s = [] \<or> (\<not> hex_char (hd s) \<and> hd s \<noteq> 46)" for s
  proof
    show "read_ipv4 s = None" using read_ipv4_none [of "[]" s] that by simp
    show "read_number 16 (Some 4) True 65535 s = None"
      using that by (cases s) (simp_all add: read_number_def Let_def hex_char_def)
  qed
  show "read_separator 58 first read_ipv4 r = None"
    using assms e [OF ends_groups_hex [OF assms]] e not_hex_punct(1)
    by (cases r) (auto simp: read_separator_def read_then_def read_given_char_def ends_groups_def)
  show "read_separator 58 first (read_number 16 (Some 4) True 65535) r = None"
    using assms e [OF ends_groups_hex [OF assms]] e not_hex_punct(1)
    by (cases r) (auto simp: read_separator_def read_then_def read_given_char_def ends_groups_def)
qed

lemma read_separator_skips: "read_separator c first p ((if first then [] else [c]) @ s) = p s"
  by (simp add: read_separator_def read_then_def read_given_char_def)

text \<open>A printed list of groups is read as those groups, up to where it ends.\<close>

lemma show_segments_Cons:
  "show_segments (g # gs) @ r = show_hex (unat g) @ (if gs = [] then [] else [58]) @ show_segments gs @ r"
  by (cases gs) (simp_all add: lit_def)

lemma read_groups_show:
  assumes "ends_groups r"
  shows "length gs \<le> room \<Longrightarrow>
    read_groups room first ((if first \<or> gs = [] then [] else [58]) @ show_segments gs @ r) = (gs, False, r)"
proof (induction gs arbitrary: room first)
  case Nil
  show ?case using read_ends_none [OF assms] by (cases room) simp_all
next
  case (Cons g gs)
  then obtain room' where room: "room = Suc room'" by (cases room) auto
  let ?rest = "(if gs = [] then [] else [58]) @ show_segments gs @ r"
  let ?s = "(if first then [] else [58]) @ show_hex (unat g) @ ?rest"
  have rest: "?rest = [] \<or> (\<not> hex_char (hd ?rest) \<and> hd ?rest \<noteq> 46)"
    using ends_groups_hex [OF assms] not_hex_punct(1) by simp
  have "read_ipv4 (show_hex (unat g) @ ?rest) = None"
    using show_hex_chars rest by (intro read_ipv4_none) auto
  then have v4: "read_separator 58 first read_ipv4 ?s = None" by (simp only: read_separator_skips)
  have "read_number 16 (Some 4) True 65535 (show_hex (unat g) @ ?rest) = Some (unat g, ?rest)"
    using rest by (intro read_group_show) auto
  then have num: "read_separator 58 first (read_number 16 (Some 4) True 65535) ?s = Some (unat g, ?rest)"
    by (simp only: read_separator_skips)
  have ih: "read_groups room' False ?rest = (gs, False, r)"
    using Cons.IH [of room' False] Cons.prems room by simp
  have "read_groups room first ?s = (g # gs, False, r)"
    unfolding room read_groups.simps v4 num by (simp add: ih)
  then show ?case unfolding show_segments_Cons by simp
qed

section \<open>The run of zeros\<close>

definition zero_run :: "u16 list \<Rightarrow> nat \<times> nat \<Rightarrow> bool" where
  "zero_run full run \<longleftrightarrow> fst run + snd run \<le> length full \<and> (\<forall>k < snd run. full ! (fst run + k) = 0)"

lemma zero_run_split:
  assumes "zero_run full (s, l)"
  shows "full = take s full @ replicate l 0 @ drop (s + l) full"
proof -
  have "take l (drop s full) = replicate l 0"
    using assms by (intro nth_equalityI) (auto simp: zero_run_def)
  then show ?thesis by (metis append_take_drop_id drop_drop add.commute)
qed

lemma zero_runs_correct:
  assumes "full = don @ rest" "i = length don" "zero_run full cur" "zero_run full longest"
    and "0 < snd cur \<Longrightarrow> fst cur + snd cur = i"
  shows "zero_run full (zero_runs i cur longest rest)"
  using assms
proof (induction rest arbitrary: don i cur longest)
  case Nil
  then show ?case by simp
next
  case (Cons g rest)
  have full: "full = (don @ [g]) @ rest" and i: "i + 1 = length (don @ [g])"
    using Cons.prems(1,2) by simp_all
  show ?case
  proof (cases "g = 0")
    case False
    have "zero_run full (0, 0)" by (simp add: zero_run_def)
    then have "zero_run full (zero_runs (i + 1) (0, 0) longest rest)"
      by (rule Cons.IH [OF full i _ Cons.prems(4)]) simp
    with False show ?thesis by simp
  next
    case True
    let ?cur = "(if snd cur = 0 then i else fst cur, snd cur + 1)"
    have g: "full ! i = 0" using Cons.prems(1,2) True by simp
    have cur: "zero_run full ?cur"
    proof (cases "snd cur = 0")
      case True
      then show ?thesis using g Cons.prems(1,2) by (simp add: zero_run_def)
    next
      case False
      then have "fst cur + snd cur = i" using Cons.prems(5) by simp
      with False g Cons.prems(1,2,3) show ?thesis by (auto simp: zero_run_def less_Suc_eq)
    qed
    have e: "0 < snd ?cur \<Longrightarrow> fst ?cur + snd ?cur = i + 1" using Cons.prems(5) by simp
    have "zero_run full (if snd ?cur > snd longest then ?cur else longest)"
      using cur Cons.prems(4) by simp
    from Cons.IH [OF full i cur this e] show ?thesis
      unfolding zero_runs.simps(2) Let_def using True by simp
  qed
qed

section \<open>IPv6 addresses\<close>

lemma be_join_bytes: "be_join (fst (be_bytes w)) (snd (be_bytes w)) = w"
proof -
  have "unat w div 256 < 256" using unat_u16_lt [of w] by (simp add: less_mult_imp_div_less)
  then show ?thesis
    by (simp add: word_unat_eq_iff unat_be_join be_bytes_def unat_of_nat)
qed

lemma mapped_form: "to_ipv4_mapped ip = Some v4 \<Longrightarrow> v4_mapped v4 = ip"
  by (cases ip) (auto simp: be_join_bytes split: if_splits)

lemma ipv6_of_segments_segments: "ipv6_of_segments (segments ip) = Some ip"
  by (cases ip) simp

lemma length_segments: "length (segments ip) = 8"
  by (cases ip) simp

text \<open>What may follow an address: nothing of an address.\<close>

definition closes_addr :: "rstr \<Rightarrow> bool" where
  "closes_addr r \<longleftrightarrow> r = [] \<or> (\<not> hex_char (hd r) \<and> hd r \<noteq> 46 \<and> hd r \<noteq> 58)"

lemma closes_ends: "closes_addr r \<Longrightarrow> ends_groups r"
  by (auto simp: closes_addr_def ends_groups_def)

lemma seven_Suc: "(7 :: nat) = Suc (Suc 5)"
  by simp

lemma five_zeros: "ipv6_of_segments (replicate 5 0 @ [f, g, h]) = Some (V6 0 0 0 0 0 f g h)"
  by (simp add: eval_nat_numeral)

lemma read_ipv6_mapped:
  assumes "closes_addr r"
  shows "read_ipv6 (lit ''::ffff:'' @ show_ipv4 v4 @ r) = Some (v4_mapped v4, r)"
proof -
  obtain a b c d where v4: "v4 = V4 a b c d" by (cases v4)
  let ?dotted = "58 # show_ipv4 v4 @ r"
  have r: "r = [] \<or> digit_value (hd r) = None"
    using assms digit_hex [of "hd r"] by (auto simp: closes_addr_def to_digit_10)
  have l: "lit ''::ffff:'' @ show_ipv4 v4 @ r = 58 # 58 # show_hex (unat (0xffff :: u16)) @ ?dotted"
    by (simp add: lit_def show_hex.simps)
  have head: "read_groups 8 True (58 # 58 # s) = ([], False, 58 # 58 # s)" for s
    using read_groups_show [of "58 # 58 # s" "[]" 8 True] by (simp add: ends_groups_def)
  have "read_ipv4 (show_hex (unat (0xffff :: u16)) @ ?dotted) = None"
    using show_hex_chars not_hex_punct by (intro read_ipv4_none) auto
  then have n: "read_separator 58 True read_ipv4 (show_hex (unat (0xffff :: u16)) @ ?dotted) = None"
    by (simp add: read_separator_def)
  have g: "read_separator 58 True (read_number 16 (Some 4) True 65535) (show_hex (unat (0xffff :: u16)) @ ?dotted)
      = Some (unat (0xffff :: u16), ?dotted)"
    using read_group_show [of ?dotted "0xffff"] not_hex_punct by (simp add: read_separator_def)
  have i: "read_separator 58 False read_ipv4 ?dotted = Some (v4, r)"
    using read_separator_skips [of 58 False read_ipv4 "show_ipv4 v4 @ r"] read_ipv4_show [OF r] by simp
  have "read_groups (Suc 5) False ?dotted = ([be_join a b, be_join c d], True, r)"
    unfolding read_groups.simps(2) i by (simp add: v4)
  then have tail: "read_groups (Suc (Suc 5)) True (show_hex (unat (0xffff :: u16)) @ ?dotted) =
      ([0xffff, be_join a b, be_join c d], True, r)"
    unfolding read_groups.simps(2) [of "Suc 5"] n g by simp
  then have seven: "read_groups 7 True (show_hex (unat (0xffff :: u16)) @ ?dotted) =
      ([0xffff, be_join a b, be_join c d], True, r)"
    by (simp only: seven_Suc)
  show ?thesis
    unfolding read_ipv6_def l head using seven
    by (simp add: read_then_def read_given_char_def v4 five_zeros del: show_ipv4.simps)
qed

lemma read_ipv6_show:
  assumes "closes_addr r"
  shows "read_ipv6 (show_ipv6 ip @ r) = Some (ip, r)"
proof (cases "to_ipv4_mapped ip")
  case (Some v4)
  then show ?thesis
    using read_ipv6_mapped [OF assms, of v4] mapped_form [OF Some] by (simp add: show_ipv6_def)
next
  case None
  obtain s l where run: "zero_runs 0 (0, 0) (0, 0) (segments ip) = (s, l)" by fastforce
  have z: "zero_run (segments ip) (s, l)"
    using zero_runs_correct [of "segments ip" "[]" "segments ip" 0 "(0, 0)" "(0, 0)"]
    by (simp add: run zero_run_def)
  show ?thesis
  proof (cases "l > 1")
    case False
    have "read_groups 8 True (show_segments (segments ip) @ r) = (segments ip, False, r)"
      using read_groups_show [OF closes_ends [OF assms], of "segments ip" 8 True]
      by (simp add: length_segments)
    with None run False show ?thesis
      by (simp add: show_ipv6_def read_ipv6_def length_segments ipv6_of_segments_segments)
  next
    case True
    let ?head = "take s (segments ip)"
    let ?tail = "drop (s + l) (segments ip)"
    have sl: "s + l \<le> 8" using z by (simp add: zero_run_def length_segments)
    then have lh: "length ?head = s" and lt: "length ?tail = 8 - (s + l)" by (simp_all add: length_segments)
    have shown: "show_ipv6 ip @ r = show_segments ?head @ 58 # 58 # show_segments ?tail @ r"
      using None run True by (simp add: show_ipv6_def lit_def)
    have h: "read_groups 8 True (show_segments ?head @ 58 # 58 # show_segments ?tail @ r) =
        (?head, False, 58 # 58 # show_segments ?tail @ r)"
      using read_groups_show [of "58 # 58 # show_segments ?tail @ r" ?head 8 True] sl lh
      by (simp add: ends_groups_def)
    have t: "read_groups (8 - (s + 1)) True (show_segments ?tail @ r) = (?tail, False, r)"
      using read_groups_show [OF closes_ends [OF assms], of ?tail "8 - (s + 1)" True] True lt by simp
    have e: "8 - s - (8 - (s + l)) = l" using sl by simp
    have "?head @ replicate l 0 @ ?tail = segments ip" using zero_run_split [OF z] by simp
    then have o: "ipv6_of_segments (?head @ replicate (8 - length ?head - length ?tail) 0 @ ?tail) = Some ip"
      unfolding lh lt e by (simp add: ipv6_of_segments_segments)
    have "s \<noteq> 8" using sl True by simp
    with t o show ?thesis
      unfolding read_ipv6_def shown h
      by (simp add: lh read_then_def read_given_char_def del: length_take length_drop)
  qed
qed

section \<open>Socket addresses\<close>

definition good_sock :: "socket_addr \<Rightarrow> bool" where
  "good_sock a \<longleftrightarrow> (case a of SockV4 ip port \<Rightarrow> True | SockV6 ip port flowinfo scope_id \<Rightarrow> flowinfo = 0)"

lemma unat_u32_le: "unat (w :: u32) \<le> 4294967295"
proof -
  have "unat w < 4294967296" using unsigned_less [of w] by simp
  then show ?thesis by simp
qed

lemma read_port_show: "read_port (58 # show_nat (unat (port :: u16))) = Some (unat port, [])"
proof -
  have "unat port \<le> 65535" using unat_u16_lt [of port] by simp
  then have "read_number 10 None True 65535 (show_nat (unat port) @ []) = Some (unat port, [])"
    by (intro read_number_show_nat) auto
  then show ?thesis by (simp add: read_port_def read_then_def read_given_char_def)
qed

lemma read_scope_show:
  "read_scope ((if scope = 0 then [] else 37 # show_nat (unat (scope :: u32))) @ 93 # s) = Some (unat scope, 93 # s)"
proof (cases "scope = 0")
  case True
  then show ?thesis by (simp add: read_scope_def read_then_def read_given_char_def)
next
  case False
  have "read_number 10 None True 4294967295 (show_nat (unat scope) @ 93 # s) = Some (unat scope, 93 # s)"
    using unat_u32_le by (intro read_number_show_nat) (auto simp: digit_value_def)
  with False show ?thesis by (simp add: read_scope_def read_then_def read_given_char_def)
qed

lemma read_socket_v6_parts:
  assumes "read_ipv6 t = Some (ip, s)" "read_scope s = Some (scope, 93 # p)" "read_port p = Some (port, r)"
  shows "read_socket_v6 (91 # t) = Some (SockV6 ip (of_nat port) 0 (of_nat scope), r)"
  using assms by (simp add: read_socket_v6_def read_then_def read_given_char_def)

lemma parse_show_v6: "parse_socket_addr (show_socket_addr (SockV6 ip port 0 scope)) = Some (SockV6 ip port 0 scope)"
proof -
  let ?tail = "93 # 58 # show_nat (unat port)"
  let ?scope = "(if scope = 0 then [] else 37 # show_nat (unat scope)) @ ?tail"
  have "closes_addr ?scope" using not_hex_punct by (simp add: closes_addr_def)
  then have ip: "read_ipv6 (show_ipv6 ip @ ?scope) = Some (ip, ?scope)" by (rule read_ipv6_show)
  have t: "show_socket_addr (SockV6 ip port 0 scope) = 91 # show_ipv6 ip @ ?scope" by simp
  have v4: "read_socket_v4 (91 # s) = None" for s
    by (simp add: read_socket_v4_def read_ipv4_def read_octet_def read_then_def read_number_def
        to_digit_def Let_def)
  have "read_socket_v6 (91 # show_ipv6 ip @ ?scope) = Some (SockV6 ip port 0 scope, [])"
    by (rule read_socket_v6_parts [OF ip read_scope_show read_port_show, simplified])
  then show ?thesis unfolding t parse_socket_addr_def v4 by simp
qed

lemma parse_show: "good_sock a \<Longrightarrow> parse_socket_addr (show_socket_addr a) = Some a"
  by (cases a) (simp_all add: good_sock_def parse_show_v4 parse_show_v6 del: show_socket_addr.simps)

interpretation sockwire: codec show_socket_addr parse_socket_addr good_sock
  by unfold_locales (rule parse_show)

end
