(* ===== verification/Address_Tests.thy ===== *)
theory Address_Tests
  imports Outbound_Properties Socket_Roundtrip Rust_Test
begin

text \<open>
  The tests of the guard's address tables, with the addresses as the texts the source writes and
  \<open>Ipv4Addr::from_str\<close> and \<open>Ipv6Addr::from_str\<close> of the standard library to read them: these take
  the whole text, and for IPv4 no more than 15 bytes. Every address reads back from its \<open>Display\<close>.
\<close>

section \<open>Parsing an address\<close>

definition whole :: "'a reader \<Rightarrow> rstr \<Rightarrow> 'a option" where
  "whole p s = (case p s of Some (x, []) \<Rightarrow> Some x | _ \<Rightarrow> None)"

definition parse_ipv4 :: "rstr \<Rightarrow> ipv4 option" where
  "parse_ipv4 s = (if length (utf8 s) > 15 then None else whole read_ipv4 s)"

definition parse_ipv6 :: "rstr \<Rightarrow> ipv6 option" where
  "parse_ipv6 s = whole read_ipv6 s"

lemma show_octet_length: "length (show_nat (unat (b :: u8))) \<le> 3"
proof -
  have "unat b < 256" using unsigned_less [of b] by simp
  then show ?thesis by (intro length_show_nat) simp_all
qed

lemma utf8_show_ipv4: "length (utf8 (show_ipv4 ip)) \<le> 15"
proof -
  have ascii: "length (utf8 (show_nat n)) = length (show_nat n)" for n
    by (subst utf8_ascii) (auto dest: show_nat_digits)
  obtain a b c d where ip: "ip = V4 a b c d" by (cases ip)
  have "length (utf8 (lit ''.'')) = 1" by (simp add: lit_def utf8_char_ascii)
  then show ?thesis
    using show_octet_length [of a] show_octet_length [of b] show_octet_length [of c] show_octet_length [of d]
    by (simp add: ip ascii)
qed

interpretation v4text: codec show_ipv4 parse_ipv4 "\<lambda>_. True"
proof
  fix ip
  have "read_ipv4 (show_ipv4 ip @ []) = Some (ip, [])" by (rule read_ipv4_show) simp
  then show "parse_ipv4 (show_ipv4 ip) = Some ip"
    using utf8_show_ipv4 [of ip] by (simp add: parse_ipv4_def whole_def)
qed

interpretation v6text: codec show_ipv6 parse_ipv6 "\<lambda>_. True"
proof
  fix ip
  have "read_ipv6 (show_ipv6 ip @ []) = Some (ip, [])" by (rule read_ipv6_show) (simp add: closes_addr_def)
  then show "parse_ipv6 (show_ipv6 ip) = Some ip" by (simp add: parse_ipv6_def whole_def)
qed

section \<open>The tests\<close>

definition addr_v4 :: "rstr \<Rightarrow> ip_addr run" where
  "addr_v4 s = run_bind (unwrap (ok_or (parse_ipv4 s) ())) (\<lambda>ip. Ret (IpV4 ip))"

definition addr_v6 :: "rstr \<Rightarrow> ip_addr run" where
  "addr_v6 s = run_bind (unwrap (ok_or (parse_ipv6 s) ())) (\<lambda>ip. Ret (IpV6 ip))"

definition refused :: "ip_addr run \<Rightarrow> unit run" where
  "refused ip = run_bind ip (\<lambda>a. assert_that (isl (ensure_public_ip a)))"

definition accepted :: "ip_addr run \<Rightarrow> unit run" where
  "accepted ip = run_bind ip (\<lambda>a. assert_that (\<not> isl (ensure_public_ip a)))"

definition rejects_private_loopback_linklocal_and_cgnat :: "unit run" where
  "rejects_private_loopback_linklocal_and_cgnat = all_of (map (\<lambda>ip. refused (addr_v4 (lit ip)))
     [''0.0.0.0'', ''0.1.2.3'', ''10.0.0.5'', ''10.255.255.255'', ''100.64.0.1'', ''100.127.255.255'',
      ''127.0.0.1'', ''169.254.169.254'', ''172.16.0.1'', ''172.31.255.255'', ''192.168.1.1''])"

definition rejects_the_ranges_a_denylist_forgets :: "unit run" where
  "rejects_the_ranges_a_denylist_forgets = then_test (all_of (map (\<lambda>ip. refused (addr_v4 (lit ip)))
     [''192.0.0.1'', ''192.0.2.5'', ''192.88.99.1'', ''198.18.0.1'', ''198.19.255.254'', ''198.51.100.7'',
      ''203.0.113.7'', ''224.0.0.1'', ''239.255.255.250'', ''240.0.0.1'', ''255.255.255.255'']))
     (refused (addr_v6 (lit ''2001:db8::1'')))"

definition rejects_non_public_ipv6_including_mapped_v4 :: "unit run" where
  "rejects_non_public_ipv6_including_mapped_v4 = all_of (map (\<lambda>ip. refused (addr_v6 (lit ip)))
     [''::1'', ''::'', ''fc00::1'', ''fd00::1'', ''fe80::1'', ''ff02::1'', ''::ffff:127.0.0.1'',
      ''::ffff:10.0.0.1'', ''::ffff:169.254.169.254'', ''2001:db8::1''])"

definition accepts_ordinary_public_addresses :: "unit run" where
  "accepts_ordinary_public_addresses = then_test
     (all_of (map (\<lambda>ip. accepted (addr_v4 (lit ip))) [''1.1.1.1'', ''8.8.8.8'', ''172.32.0.1'', ''100.128.0.1'']))
     (all_of (map (\<lambda>ip. accepted (addr_v6 (lit ip))) [''2606:4700:4700::1111'', ''2001:4860:4860::8888'']))"

section \<open>The model passes them\<close>

text \<open>A text that is the \<open>Display\<close> of an address reads as that address.\<close>

lemma v4_read: "addr_v4 (show_ipv4 ip) = Ret (IpV4 ip)"
  by (simp add: addr_v4_def v4text.dec_enc ok_or_def test_simps del: show_ipv4.simps)

lemma v6_read: "addr_v6 (show_ipv6 ip) = Ret (IpV6 ip)"
  by (simp add: addr_v6_def v6text.dec_enc ok_or_def test_simps)

text \<open>The texts of the tests, in their order, are the crate's vectors.\<close>

lemma private_texts:
  "map lit [''0.0.0.0'', ''0.1.2.3'', ''10.0.0.5'', ''10.255.255.255'', ''100.64.0.1'', ''100.127.255.255'',
      ''127.0.0.1'', ''169.254.169.254'', ''172.16.0.1'', ''172.31.255.255'', ''192.168.1.1''] =
   map show_ipv4 vectors_private"
  by (simp add: vectors_private_def eval_str)

lemma forgotten_texts:
  "map lit [''192.0.0.1'', ''192.0.2.5'', ''192.88.99.1'', ''198.18.0.1'', ''198.19.255.254'', ''198.51.100.7'',
      ''203.0.113.7'', ''224.0.0.1'', ''239.255.255.250'', ''240.0.0.1'', ''255.255.255.255''] =
   map show_ipv4 vectors_forgotten"
  by (simp add: vectors_forgotten_def eval_str)

lemma v6_texts:
  "map lit [''::1'', ''::'', ''fc00::1'', ''fd00::1'', ''fe80::1'', ''ff02::1'', ''::ffff:127.0.0.1'',
      ''::ffff:10.0.0.1'', ''::ffff:169.254.169.254'', ''2001:db8::1''] = map show_ipv6 vectors_v6"
  by (simp add: vectors_v6_def show_ipv6_def eval_str show_hex.simps be_bytes_def Let_def be_join_def)

lemma public_texts:
  "map lit [''1.1.1.1'', ''8.8.8.8'', ''172.32.0.1'', ''100.128.0.1''] =
     map show_ipv4 [V4 1 1 1 1, V4 8 8 8 8, V4 172 32 0 1, V4 100 128 0 1]"
  "map lit [''2606:4700:4700::1111'', ''2001:4860:4860::8888''] =
     map show_ipv6 [V6 0x2606 0x4700 0x4700 0 0 0 0 0x1111, V6 0x2001 0x4860 0x4860 0 0 0 0 0x8888]"
  "map lit [''2001:db8::1''] = map show_ipv6 [V6 0x2001 0x0db8 0 0 0 0 0 1]"
  by (simp_all add: show_ipv6_def eval_str show_hex.simps be_bytes_def Let_def)

lemma texts_tested:
  "map lit ss = map show_ipv4 ips \<Longrightarrow> list_all (\<lambda>ip. P (ensure_public_ip (IpV4 ip))) ips \<Longrightarrow>
     all_of (map (\<lambda>s. run_bind (addr_v4 (lit s)) (\<lambda>a. assert_that (P (ensure_public_ip a)))) ss) = Ret ()"
  "map lit ss = map show_ipv6 ips6 \<Longrightarrow> list_all (\<lambda>ip. P (ensure_public_ip (IpV6 ip))) ips6 \<Longrightarrow>
     all_of (map (\<lambda>s. run_bind (addr_v6 (lit s)) (\<lambda>a. assert_that (P (ensure_public_ip a)))) ss) = Ret ()"
proof -
  show "map lit ss = map show_ipv4 ips \<Longrightarrow> list_all (\<lambda>ip. P (ensure_public_ip (IpV4 ip))) ips \<Longrightarrow>
     all_of (map (\<lambda>s. run_bind (addr_v4 (lit s)) (\<lambda>a. assert_that (P (ensure_public_ip a)))) ss) = Ret ()"
    by (induction ss arbitrary: ips) (auto simp: Cons_eq_map_conv v4_read test_simps)
  show "map lit ss = map show_ipv6 ips6 \<Longrightarrow> list_all (\<lambda>ip. P (ensure_public_ip (IpV6 ip))) ips6 \<Longrightarrow>
     all_of (map (\<lambda>s. run_bind (addr_v6 (lit s)) (\<lambda>a. assert_that (P (ensure_public_ip a)))) ss) = Ret ()"
    by (induction ss arbitrary: ips6) (auto simp: Cons_eq_map_conv v6_read test_simps)
qed

lemma vectors_tested:
  "list_all (\<lambda>ip. isl (ensure_public_ip (IpV4 ip))) vectors_private"
  "list_all (\<lambda>ip. isl (ensure_public_ip (IpV4 ip))) vectors_forgotten"
  "list_all (\<lambda>ip. isl (ensure_public_ip (IpV6 ip))) vectors_v6"
  using test_vectors by (auto simp: list_all_iff)

lemma isl_ensure: "isl (ensure_public_ip a) \<longleftrightarrow> \<not> is_public a"
  by (simp add: ensure_public_ip_def)

lemma public_tested:
  "list_all (\<lambda>ip. isl (ensure_public_ip (IpV6 ip))) [V6 0x2001 0x0db8 0 0 0 0 0 1]"
  "list_all (\<lambda>ip. \<not> isl (ensure_public_ip (IpV4 ip))) [V4 1 1 1 1, V4 8 8 8 8, V4 172 32 0 1, V4 100 128 0 1]"
  "list_all (\<lambda>ip. \<not> isl (ensure_public_ip (IpV6 ip)))
     [V6 0x2606 0x4700 0x4700 0 0 0 0 0x1111, V6 0x2001 0x4860 0x4860 0 0 0 0 0x8888]"
  by (simp_all add: isl_ensure is_public_ipv6_def be_bytes_def non_public_prefix_nat)

text \<open>The model passes the tests of the address tables, from the texts the source writes.\<close>

definition address_suite :: "unit run" where
  "address_suite = all_of
     [rejects_private_loopback_linklocal_and_cgnat, rejects_the_ranges_a_denylist_forgets,
      rejects_non_public_ipv6_including_mapped_v4, accepts_ordinary_public_addresses]"

theorem address_suite_passes: "address_suite = Ret ()"
proof -
  have "rejects_private_loopback_linklocal_and_cgnat = Ret ()"
    unfolding rejects_private_loopback_linklocal_and_cgnat_def refused_def
    by (rule texts_tested(1) [OF private_texts vectors_tested(1)])
  moreover have "rejects_the_ranges_a_denylist_forgets = Ret ()"
    unfolding rejects_the_ranges_a_denylist_forgets_def refused_def assertions(5)
    using texts_tested(1) [OF forgotten_texts vectors_tested(2)]
      texts_tested(2) [OF public_texts(3) public_tested(1)] by (simp only: list.map all_of.simps assertions(5))
  moreover have "rejects_non_public_ipv6_including_mapped_v4 = Ret ()"
    unfolding rejects_non_public_ipv6_including_mapped_v4_def refused_def
    by (rule texts_tested(2) [OF v6_texts vectors_tested(3)])
  moreover have "accepts_ordinary_public_addresses = Ret ()"
    unfolding accepts_ordinary_public_addresses_def accepted_def assertions(5)
    by (rule conjI texts_tested(1) [OF public_texts(1) public_tested(2)]
        texts_tested(2) [OF public_texts(2) public_tested(3)])+
  ultimately show ?thesis unfolding address_suite_def all_of_iff by simp
qed

end
