(* ===== verification/Http_Error.thy ===== *)
theory Http_Error
  imports Rust_Str
begin

text \<open>
  The canonical error type of \<open>platform-http-error\<close> and the one way it becomes a response.
  A response is its status and the \<open>ErrorBody\<close> that \<open>axum::Json\<close> serialises; the log is the
  list of events \<open>tracing::error!\<close> emits. \<open>StatusCode::is_server_error\<close> belongs to the
  \<open>http\<close> crate: it is the parameter \<open>is5xx\<close>, and \<open>documented_5xx\<close> is what that crate
  documents of it.
\<close>

section \<open>The error and the response\<close>

datatype api_error =
    BadRequest rstr
  | Unauthorized
  | Forbidden
  | NotFound rstr
  | Conflict rstr
  | PayloadTooLarge rstr
  | RateLimited rstr
  | NotImplemented rstr
  | ServiceUnavailable rstr
  | Internal rstr

record error_body =
  eb_error :: rstr

record response =
  resp_status :: nat
  resp_body :: error_body

datatype log_event = LogError (log_status: nat) (log_detail: rstr)

definition redacted_internal_body :: rstr where
  "redacted_internal_body = lit ''internal error''"

text \<open>The codes are those the source's own comments on the variants give.\<close>

fun api_status :: "api_error \<Rightarrow> nat" where
  "api_status (BadRequest m) = 400"
| "api_status Unauthorized = 401"
| "api_status Forbidden = 403"
| "api_status (NotFound m) = 404"
| "api_status (Conflict m) = 409"
| "api_status (PayloadTooLarge m) = 413"
| "api_status (RateLimited m) = 429"
| "api_status (NotImplemented m) = 501"
| "api_status (ServiceUnavailable m) = 503"
| "api_status (Internal m) = 500"

fun api_detail :: "api_error \<Rightarrow> rstr" where
  "api_detail (BadRequest m) = m"
| "api_detail (NotFound m) = m"
| "api_detail (Conflict m) = m"
| "api_detail (PayloadTooLarge m) = m"
| "api_detail (RateLimited m) = m"
| "api_detail (NotImplemented m) = m"
| "api_detail (ServiceUnavailable m) = m"
| "api_detail (Internal m) = m"
| "api_detail Unauthorized = lit ''unauthorized''"
| "api_detail Forbidden = lit ''forbidden''"

definition into_response :: "(nat \<Rightarrow> bool) \<Rightarrow> api_error \<Rightarrow> log_event list \<times> response" where
  "into_response is5xx e =
     (let status = api_status e
      in if is5xx status
         then ([LogError status (api_detail e)],
               \<lparr>resp_status = status, resp_body = \<lparr>eb_error = redacted_internal_body\<rparr>\<rparr>)
         else ([], \<lparr>resp_status = status, resp_body = \<lparr>eb_error = api_detail e\<rparr>\<rparr>))"

definition documented_5xx :: "(nat \<Rightarrow> bool) \<Rightarrow> bool" where
  "documented_5xx is5xx \<longleftrightarrow> is5xx = (\<lambda>c. 500 \<le> c \<and> c < 600)"

definition std_5xx :: "nat \<Rightarrow> bool" where
  "std_5xx c \<longleftrightarrow> 500 \<le> c \<and> c < 600"

lemma documented_std_5xx: "documented_5xx std_5xx"
  by (auto simp: documented_5xx_def std_5xx_def)

section \<open>The contract of a redacting responder\<close>

text \<open>
  What the callers of an error responder rely on, for any error type: the status is the
  error's, a server error's body is the constant one and its detail goes to the log, and
  any other error's detail is its body.
\<close>

locale redacting_responder =
  fixes status :: "'e \<Rightarrow> nat"
    and detail :: "'e \<Rightarrow> rstr"
    and server :: "nat \<Rightarrow> bool"
    and respond :: "'e \<Rightarrow> log_event list \<times> response"
  assumes respond_server: "server (status e) \<Longrightarrow> respond e =
      ([LogError (status e) (detail e)],
       \<lparr>resp_status = status e, resp_body = \<lparr>eb_error = redacted_internal_body\<rparr>\<rparr>)"
    and respond_client: "\<not> server (status e) \<Longrightarrow> respond e =
      ([], \<lparr>resp_status = status e, resp_body = \<lparr>eb_error = detail e\<rparr>\<rparr>)"
begin

lemma status_kept: "resp_status (snd (respond e)) = status e"
  by (cases "server (status e)") (simp_all add: respond_server respond_client)

lemma no_leak:
  "server (status e) \<Longrightarrow> status e' = status e \<Longrightarrow> snd (respond e') = snd (respond e)"
  by (simp add: respond_server)

lemma logged_iff: "fst (respond e) = [LogError (status e) (detail e)] \<longleftrightarrow> server (status e)"
  by (cases "server (status e)") (simp_all add: respond_server respond_client)

lemma body_cases:
  "eb_error (resp_body (snd (respond e))) =
     (if server (status e) then redacted_internal_body else detail e)"
  by (simp add: respond_server respond_client)

end

interpretation api: redacting_responder api_status api_detail is5xx "into_response is5xx" for is5xx
  by unfold_locales (simp_all add: into_response_def Let_def)

section \<open>Which errors are server errors\<close>

fun server_variant :: "api_error \<Rightarrow> bool" where
  "server_variant (NotImplemented m) = True"
| "server_variant (ServiceUnavailable m) = True"
| "server_variant (Internal m) = True"
| "server_variant e = False"

lemma server_variant_status: "documented_5xx is5xx \<Longrightarrow> is5xx (api_status e) = server_variant e"
  by (cases e) (simp_all add: documented_5xx_def)

lemma api_status_range: "400 \<le> api_status e \<and> api_status e < 600"
  by (cases e) simp_all

section \<open>Properties\<close>

text \<open>
  C15: whatever status codes count as server errors, two errors with the same such status
  give the same response, so nothing of the message of a server error reaches the client.
\<close>

theorem redaction_hides_detail:
  "is5xx (api_status e) \<Longrightarrow> api_status e' = api_status e \<Longrightarrow>
     snd (into_response is5xx e') = snd (into_response is5xx e)"
  by (rule api.no_leak)

theorem redaction_hides_detail_witness:
  "snd (into_response std_5xx (Internal (lit ''table prod-items''))) =
   snd (into_response std_5xx (Internal (lit ''boom'')))"
  by (rule redaction_hides_detail) (simp_all add: std_5xx_def)

text \<open>
  With the documented classification, every error becomes exactly one of two responses:
  the three server variants are logged with their detail and answered with the constant
  body, the seven others are not logged and answered with their own message or the fixed
  word; the status is always the variant's.
\<close>

theorem response_by_variant:
  "documented_5xx is5xx \<Longrightarrow>
     fst (into_response is5xx e) =
       (if server_variant e then [LogError (api_status e) (api_detail e)] else []) \<and>
     resp_status (snd (into_response is5xx e)) = api_status e \<and>
     eb_error (resp_body (snd (into_response is5xx e))) =
       (if server_variant e then redacted_internal_body else api_detail e)"
  by (simp add: api.status_kept api.body_cases api.respond_server api.respond_client
      server_variant_status)

theorem response_by_variant_witness:
  "into_response std_5xx (RateLimited (lit ''slow down'')) =
     ([], \<lparr>resp_status = 429, resp_body = \<lparr>eb_error = lit ''slow down''\<rparr>\<rparr>)"
  using response_by_variant [OF documented_std_5xx, of "RateLimited (lit ''slow down'')"]
  by (simp add: into_response_def std_5xx_def)

text \<open>
  The messages of a 501 and of a 503 are not caller-facing: the client is answered
  "internal error" whatever the message is.
\<close>

theorem unavailable_message_not_returned:
  "documented_5xx is5xx \<Longrightarrow>
     eb_error (resp_body (snd (into_response is5xx (NotImplemented m)))) = lit ''internal error'' \<and>
     eb_error (resp_body (snd (into_response is5xx (ServiceUnavailable m)))) = lit ''internal error''"
  by (simp add: api.body_cases documented_5xx_def redacted_internal_body_def)

theorem unavailable_message_not_returned_witness:
  "eb_error (resp_body (snd (into_response std_5xx
     (ServiceUnavailable (lit ''back at noon''))))) = lit ''internal error''"
  using unavailable_message_not_returned [OF documented_std_5xx] by blast

end
