(* ===== verification/Trusted_Headers.thy ===== *)
theory Trusted_Headers
  imports Http_Error
begin

text \<open>
  The trusted-header decoder of \<open>platform-chirp-auth\<close>. A \<open>HeaderMap\<close> belongs to the \<open>http\<close>
  crate; the source only calls \<open>get\<close>, which gives the first value under a name, and
  \<open>HeaderValue::to_str\<close>. So the request is the function \<open>get\<close>, and \<open>to_str\<close> is a parameter;
  \<open>to_str_laws\<close> is what the crate documents of it.
\<close>

section \<open>Headers\<close>

type_synonym header_map = "rstr \<Rightarrow> bytes option"
type_synonym header_text = "bytes \<Rightarrow> rstr option"

definition user_id_header :: rstr where
  "user_id_header = lit ''x-user-id''"

definition agent_id_header :: rstr where
  "agent_id_header = lit ''x-agent-id''"

definition approval_grant_header :: rstr where
  "approval_grant_header = lit ''x-approval-grant''"

definition granite_grant_header :: rstr where
  "granite_grant_header = lit ''x-granite-grant''"

definition can_write_header :: rstr where
  "can_write_header = lit ''x-user-can-write''"

definition max_id_chars :: nat where
  "max_id_chars = 128"

text \<open>A tab or a visible ASCII character: what a value that reads as text is made of.\<close>

definition visible_ascii :: "rchar \<Rightarrow> bool" where
  "visible_ascii c \<longleftrightarrow> c = 9 \<or> (32 \<le> c \<and> c < 127)"

definition to_str_laws :: "header_text \<Rightarrow> bool" where
  "to_str_laws to_str \<longleftrightarrow>
     (\<forall>v. to_str v =
        (if list_all (\<lambda>b. visible_ascii (unat b)) v then Some (map unat v) else None))"

definition std_to_str :: header_text where
  "std_to_str v = (if list_all (\<lambda>b. visible_ascii (unat b)) v then Some (map unat v) else None)"

lemma std_to_str_laws: "to_str_laws std_to_str"
  by (simp add: to_str_laws_def std_to_str_def)

text \<open>\<open>headers.get(name).and_then(|v| v.to_str().ok())\<close>\<close>

definition header_str :: "header_text \<Rightarrow> header_map \<Rightarrow> rstr \<Rightarrow> rstr option" where
  "header_str to_str headers name = Option.bind (headers name) to_str"

lemma header_str_visible:
  "to_str_laws to_str \<Longrightarrow> header_str to_str headers name = Some s \<Longrightarrow> list_all visible_ascii s"
  by (auto simp: header_str_def to_str_laws_def list_all_iff bind_eq_Some_conv split: if_splits)

section \<open>The decoder\<close>

record trusted_header_user =
  thu_uid :: rstr
  thu_agent_id :: rstr
  thu_can_write :: bool
  thu_approval_grant_id :: "rstr option"

definition validated_id :: "rstr \<Rightarrow> api_error + rstr" where
  "validated_id raw =
     (let trimmed = trim raw
      in if trimmed = [] \<or> length trimmed > max_id_chars \<or> list_ex is_control trimmed
         then Err Unauthorized else Ok trimmed)"

definition decode_trusted_headers ::
  "header_text \<Rightarrow> header_map \<Rightarrow> api_error + trusted_header_user" where
  "decode_trusted_headers to_str headers =
     result_bind
       (ok_or (option_filter (\<lambda>value. value \<noteq> [])
                 (map_option trim (header_str to_str headers user_id_header))) Unauthorized)
       (\<lambda>uid_raw.
     result_bind (validated_id uid_raw) (\<lambda>uid.
     let can_write =
           (case map_option (\<lambda>value. value \<in> {lit ''1'', lit ''true'', lit ''yes''})
                   (map_option trim (header_str to_str headers can_write_header)) of
              None \<Rightarrow> False | Some b \<Rightarrow> b)
     in
     result_bind
       (case header_str to_str headers agent_id_header of
          Some raw \<Rightarrow> validated_id raw
        | None \<Rightarrow> Ok uid)
       (\<lambda>agent_id.
     let approval_grant_id =
           option_filter (\<lambda>s. s \<noteq> []) (map_option trim (header_str to_str headers approval_grant_header))
     in Ok \<lparr>thu_uid = uid, thu_agent_id = agent_id, thu_can_write = can_write,
            thu_approval_grant_id = approval_grant_id\<rparr>)))"

section \<open>Identifiers that pass\<close>

text \<open>An identifier the store may see: what \<open>validated_id\<close> lets through.\<close>

definition good_id :: "rstr \<Rightarrow> bool" where
  "good_id s \<longleftrightarrow> s \<noteq> [] \<and> trimmed s \<and> length s \<le> max_id_chars \<and> list_all (\<lambda>c. \<not> is_control c) s"

lemma validated_id_Inr:
  "validated_id raw = Inr s \<longleftrightarrow> s = trim raw \<and> good_id (trim raw)"
  by (auto simp: validated_id_def Let_def good_id_def trimmed_trim list_ex_iff list_all_iff)

lemma validated_id_cases:
  "validated_id raw = (if good_id (trim raw) then Inr (trim raw) else Inl Unauthorized)"
  by (auto simp: validated_id_def Let_def good_id_def trimmed_trim list_ex_iff list_all_iff)

lemma good_id_trim: "good_id s \<Longrightarrow> trim s = s"
  by (simp add: good_id_def trim_trimmed)

text \<open>The header as the decoder reads it: its trimmed text, absent if blank.\<close>

definition header_nonblank :: "header_text \<Rightarrow> header_map \<Rightarrow> rstr \<Rightarrow> rstr option" where
  "header_nonblank to_str headers name =
     option_filter (\<lambda>s. s \<noteq> []) (map_option trim (header_str to_str headers name))"

definition header_truthy :: "header_text \<Rightarrow> header_map \<Rightarrow> bool" where
  "header_truthy to_str headers \<longleftrightarrow>
     map_option trim (header_str to_str headers can_write_header) \<in>
       Some ` {lit ''1'', lit ''true'', lit ''yes''}"

text \<open>The identity a request claims: its user id, and the agent it names or the user itself.\<close>

definition claimed_uid :: "header_text \<Rightarrow> header_map \<Rightarrow> rstr option" where
  "claimed_uid to_str headers =
     option_filter good_id (map_option trim (header_str to_str headers user_id_header))"

definition claimed_agent :: "header_text \<Rightarrow> header_map \<Rightarrow> rstr \<Rightarrow> rstr option" where
  "claimed_agent to_str headers uid =
     (case header_str to_str headers agent_id_header of
        None \<Rightarrow> Some uid
      | Some raw \<Rightarrow> option_filter good_id (Some (trim raw)))"

lemma claimed_uid_Some:
  "claimed_uid to_str headers = Some uid \<longleftrightarrow>
     (\<exists>raw. header_str to_str headers user_id_header = Some raw \<and> uid = trim raw \<and> good_id uid)"
  by (auto simp: claimed_uid_def result_simps)

lemma claimed_agent_good:
  "good_id uid \<Longrightarrow> claimed_agent to_str headers uid = Some agent \<Longrightarrow> good_id agent"
  by (auto simp: claimed_agent_def split: option.splits if_splits)

text \<open>The whole decoder in one equation.\<close>

lemma decode_trusted_headers_eq:
  "decode_trusted_headers to_str headers =
     (case claimed_uid to_str headers of
        None \<Rightarrow> Err Unauthorized
      | Some uid \<Rightarrow>
          (case claimed_agent to_str headers uid of
             None \<Rightarrow> Err Unauthorized
           | Some agent \<Rightarrow>
               Ok \<lparr>thu_uid = uid, thu_agent_id = agent,
                   thu_can_write = header_truthy to_str headers,
                   thu_approval_grant_id = header_nonblank to_str headers approval_grant_header\<rparr>))"
proof (cases "header_str to_str headers user_id_header")
  case None
  then show ?thesis by (simp add: decode_trusted_headers_def claimed_uid_def)
next
  case (Some raw)
  have e: "\<not> good_id []" by (simp add: good_id_def)
  show ?thesis
    by (cases "header_str to_str headers agent_id_header";
        cases "header_str to_str headers can_write_header")
       (auto simp: Some decode_trusted_headers_def claimed_uid_def claimed_agent_def e Let_def
         validated_id_cases header_truthy_def header_nonblank_def)
qed

section \<open>What the identifiers are made of\<close>

lemma trimmed_visible_char:
  assumes "list_all visible_ascii s" "good_id s" "c \<in> set s"
  shows "32 \<le> c \<and> c < 127"
proof -
  have "visible_ascii c" "\<not> is_control c" using assms by (auto simp: list_all_iff good_id_def)
  then show ?thesis by (auto simp: visible_ascii_def is_control_def)
qed

definition safe_id :: "rstr \<Rightarrow> bool" where
  "safe_id s \<longleftrightarrow> s \<noteq> [] \<and> length s \<le> 128 \<and> hd s \<noteq> 32 \<and> last s \<noteq> 32 \<and> list_all (\<lambda>c. 32 \<le> c \<and> c < 127) s"

lemma safe_idI: "list_all visible_ascii s \<Longrightarrow> good_id s \<Longrightarrow> safe_id s"
  using trimmed_visible_char [of s]
  by (auto simp: safe_id_def list_all_iff good_id_def trimmed_def max_id_chars_def is_whitespace_def)

lemma visible_trim: "list_all visible_ascii s \<Longrightarrow> list_all visible_ascii (trim s)"
  using set_trim [of s] by (auto simp: list_all_iff)

lemma claimed_uid_safe:
  "to_str_laws to_str \<Longrightarrow> claimed_uid to_str headers = Some uid \<Longrightarrow> safe_id uid"
  by (auto simp: claimed_uid_Some intro: safe_idI visible_trim dest: header_str_visible)

lemma claimed_agent_safe:
  "to_str_laws to_str \<Longrightarrow> safe_id uid \<Longrightarrow> claimed_agent to_str headers uid = Some agent \<Longrightarrow> safe_id agent"
  by (auto simp: claimed_agent_def intro: safe_idI visible_trim dest: header_str_visible
      split: option.splits if_splits)

section \<open>Headers that carry an identity\<close>

text \<open>
  The headers a caller sends for an identity, and the identities they can carry: this is the
  wire form the decoder inverts.
\<close>

definition identity_headers :: "trusted_header_user \<Rightarrow> header_map" where
  "identity_headers u =
     Map.empty(user_id_header \<mapsto> map of_nat (thu_uid u),
       agent_id_header \<mapsto> map of_nat (thu_agent_id u),
       can_write_header \<mapsto> map of_nat (if thu_can_write u then lit ''true'' else lit ''false''),
       approval_grant_header := map_option (map of_nat) (thu_approval_grant_id u))"

definition good_user :: "trusted_header_user \<Rightarrow> bool" where
  "good_user u \<longleftrightarrow> good_id (thu_uid u) \<and> list_all visible_ascii (thu_uid u)
     \<and> good_id (thu_agent_id u) \<and> list_all visible_ascii (thu_agent_id u)
     \<and> (case thu_approval_grant_id u of None \<Rightarrow> True
        | Some g \<Rightarrow> g \<noteq> [] \<and> trimmed g \<and> list_all visible_ascii g)"

lemma visible_byte: "visible_ascii c \<Longrightarrow> unat (of_nat c :: u8) = c"
  by (auto simp: visible_ascii_def unat_of_nat)

lemma std_to_str_ascii: "list_all visible_ascii s \<Longrightarrow> std_to_str (map of_nat s) = Some s"
  by (auto simp: std_to_str_def list_all_iff visible_byte intro!: map_idI)

lemma visible_literals: "list_all visible_ascii (lit ''true'')" "list_all visible_ascii (lit ''false'')"
  by (simp_all add: lit_def visible_ascii_def)

lemma header_names_distinct:
  "distinct [user_id_header, agent_id_header, approval_grant_header, granite_grant_header, can_write_header]"
  by (simp add: user_id_header_def agent_id_header_def approval_grant_header_def
      granite_grant_header_def can_write_header_def lit_def)

lemma identity_header_str:
  assumes "good_user u"
  shows "header_str std_to_str (identity_headers u) user_id_header = Some (thu_uid u)"
    "header_str std_to_str (identity_headers u) agent_id_header = Some (thu_agent_id u)"
    "header_str std_to_str (identity_headers u) can_write_header =
       Some (if thu_can_write u then lit ''true'' else lit ''false'')"
    "header_str std_to_str (identity_headers u) approval_grant_header = thu_approval_grant_id u"
  using assms header_names_distinct
  by (auto simp: header_str_def identity_headers_def good_user_def std_to_str_ascii
      visible_literals split: option.splits)

lemma lit_truth_values:
  "trim (lit ''true'') = lit ''true''" "trim (lit ''false'') = lit ''false''"
  "lit ''false'' \<notin> {lit ''1'', lit ''true'', lit ''yes''}"
  by (simp_all add: lit_def trim_def trim_start_def trim_end_def is_whitespace_def)

lemma decode_identity_headers:
  assumes "good_user u"
  shows "decode_trusted_headers std_to_str (identity_headers u) = Ok u"
proof -
  have g: "header_nonblank std_to_str (identity_headers u) approval_grant_header = thu_approval_grant_id u"
    using assms
    by (auto simp: header_nonblank_def identity_header_str good_user_def trim_trimmed split: option.splits)
  have w: "header_truthy std_to_str (identity_headers u) = thu_can_write u"
    using lit_truth_values by (auto simp: header_truthy_def identity_header_str [OF assms])
  have "good_id (thu_uid u)" "good_id (thu_agent_id u)" using assms by (simp_all add: good_user_def)
  then show ?thesis
    by (simp add: decode_trusted_headers_eq claimed_uid_def claimed_agent_def
        identity_header_str [OF assms] good_id_trim g w)
qed

interpretation idwire: codec identity_headers
  "\<lambda>h. result_ok (decode_trusted_headers std_to_str h)" good_user
  by unfold_locales (simp add: decode_identity_headers)

section \<open>Properties\<close>

text \<open>
  C18: the decoder succeeds exactly when \<open>x-user-id\<close> reads as a valid identifier and
  \<open>x-agent-id\<close>, if it reads as text at all, is one too; the identity it returns is then fixed
  by the four headers, and every failure is \<open>Unauthorized\<close>.
\<close>

theorem trusted_headers_exact:
  "(decode_trusted_headers to_str headers = Ok u \<longleftrightarrow>
      claimed_uid to_str headers = Some (thu_uid u) \<and>
      claimed_agent to_str headers (thu_uid u) = Some (thu_agent_id u) \<and>
      thu_can_write u = header_truthy to_str headers \<and>
      thu_approval_grant_id u = header_nonblank to_str headers approval_grant_header) \<and>
   (decode_trusted_headers to_str headers = Err e \<longleftrightarrow>
      e = Unauthorized \<and>
      Option.bind (claimed_uid to_str headers) (claimed_agent to_str headers) = None)"
  by (auto simp: decode_trusted_headers_eq split: option.splits)

text \<open>
  C36: when \<open>to_str\<close> reads text as the http crate documents, every identifier that is decoded,
  user and agent, is 1 to 128 printable ASCII characters with no space at either end.
\<close>

theorem decoded_ids_safe:
  "to_str_laws to_str \<Longrightarrow> decode_trusted_headers to_str headers = Ok u \<Longrightarrow>
     safe_id (thu_uid u) \<and> safe_id (thu_agent_id u)"
  by (auto simp: decode_trusted_headers_eq split: option.splits
      dest: claimed_uid_safe intro: claimed_agent_safe)

definition example_user :: trusted_header_user where
  "example_user = \<lparr>thu_uid = lit ''user-1'', thu_agent_id = lit ''agent-9'', thu_can_write = True,
     thu_approval_grant_id = Some (lit ''grant-xyz'')\<rparr>"

lemma good_example_user: "good_user example_user"
  by (simp add: good_user_def example_user_def good_id_def trimmed_def max_id_chars_def lit_def
      visible_ascii_def is_whitespace_def is_control_def)

theorem decoded_ids_safe_witness:
  "safe_id (lit ''user-1'') \<and> safe_id (lit ''agent-9'')"
  using decoded_ids_safe [OF std_to_str_laws decode_identity_headers [OF good_example_user]]
  by (simp add: example_user_def)

text \<open>
  Nothing but the four identity headers matters: two requests that agree on them decode to
  the same result, whatever else they carry (an \<open>x-granite-grant\<close> header for one).
\<close>

theorem only_four_headers_matter:
  "headers user_id_header = headers' user_id_header \<Longrightarrow>
   headers agent_id_header = headers' agent_id_header \<Longrightarrow>
   headers can_write_header = headers' can_write_header \<Longrightarrow>
   headers approval_grant_header = headers' approval_grant_header \<Longrightarrow>
     decode_trusted_headers to_str headers = decode_trusted_headers to_str headers'"
  by (simp add: decode_trusted_headers_def header_str_def)

theorem only_four_headers_matter_witness:
  "decode_trusted_headers std_to_str
     ((identity_headers example_user)(granite_grant_header \<mapsto> map of_nat (lit ''g-1''))) =
   decode_trusted_headers std_to_str (identity_headers example_user)"
  using header_names_distinct by (intro only_four_headers_matter) auto

text \<open>
  An \<open>x-agent-id\<close> header whose bytes do not read as text is not rejected but ignored: the
  request is decoded as the user acting as itself.
\<close>

theorem opaque_agent_header_ignored:
  "headers agent_id_header = Some v \<Longrightarrow> to_str v = None \<Longrightarrow>
     decode_trusted_headers to_str headers =
       decode_trusted_headers to_str (headers(agent_id_header := None)) \<and>
     (\<forall>u. decode_trusted_headers to_str headers = Ok u \<longrightarrow> thu_agent_id u = thu_uid u)"
  using header_names_distinct
  by (auto simp: decode_trusted_headers_eq header_str_def claimed_uid_def claimed_agent_def
      header_truthy_def header_nonblank_def split: option.splits)

theorem opaque_agent_header_ignored_witness:
  "decode_trusted_headers std_to_str [user_id_header \<mapsto> map of_nat (lit ''user-1''),
     agent_id_header \<mapsto> [255]] =
   Ok \<lparr>thu_uid = lit ''user-1'', thu_agent_id = lit ''user-1'', thu_can_write = False,
       thu_approval_grant_id = None\<rparr>"
proof -
  let ?h = "[user_id_header \<mapsto> map of_nat (lit ''user-1''), agent_id_header \<mapsto> [255]] :: header_map"
  have "std_to_str [255] = None" by (simp add: std_to_str_def visible_ascii_def)
  with opaque_agent_header_ignored [of ?h "[255]" std_to_str]
  have a: "decode_trusted_headers std_to_str ?h =
      decode_trusted_headers std_to_str (?h(agent_id_header := None))" by simp
  have v: "list_all visible_ascii (lit ''user-1'')" and g: "good_id (lit ''user-1'')"
    using good_example_user by (simp_all add: good_user_def example_user_def)
  show ?thesis
    unfolding a using header_names_distinct
    by (auto simp: decode_trusted_headers_eq claimed_uid_def claimed_agent_def header_str_def
        header_truthy_def header_nonblank_def std_to_str_ascii [OF v] good_id_trim [OF g] g)
qed

text \<open>
  C29: the decoder inverts the headers of an identity: any user and agent with valid
  identifiers, either write flag, with or without a grant, come back unchanged.
\<close>

theorem identity_headers_roundtrip:
  "good_user u \<Longrightarrow>
     result_ok (decode_trusted_headers std_to_str (identity_headers u)) = Some u"
  by (rule idwire.dec_enc)

theorem identity_headers_roundtrip_witness:
  "result_ok (decode_trusted_headers std_to_str (identity_headers example_user)) = Some example_user"
  by (rule identity_headers_roundtrip [OF good_example_user])

end
