(* ===== verification/Grant_Resolution.thy ===== *)
theory Grant_Resolution
  imports Trusted_Headers
begin

text \<open>
  \<open>apply_on_behalf_of_grant\<close> of \<open>platform-chirp-auth\<close>. The backend's store is the trait
  \<open>GrantStore\<close>: its \<open>lookup_grant_for_subject\<close> is the parameter \<open>lookup\<close>, the trait \<open>Grant\<close>'s
  \<open>owner_uid\<close> the parameter \<open>owner_uid\<close>, \<open>Uuid::parse_str\<close> the parameter \<open>parse_uuid\<close>. The
  context is mutated in place, so the call returns it updated, with the lookups the store saw
  in order. The locale \<open>grant_store\<close> is the trait's contract.
\<close>

section \<open>The context and the call\<close>

record on_behalf_of =
  obo_uid :: rstr
  obo_agent_id :: rstr
  obo_approval_grant_id :: "rstr option"

type_synonym ('id, 'g) grant_lookup = "'id \<Rightarrow> rstr \<Rightarrow> api_error + 'g option"
type_synonym 'id applied = "('id \<times> rstr) list \<times> (api_error + unit) \<times> on_behalf_of"

definition apply_on_behalf_of_grant ::
  "(rstr \<Rightarrow> 'e + 'id) \<Rightarrow> ('id, 'g) grant_lookup \<Rightarrow> ('g \<Rightarrow> rstr) \<Rightarrow> header_text \<Rightarrow> header_map
     \<Rightarrow> on_behalf_of \<Rightarrow> 'id applied" where
  "apply_on_behalf_of_grant parse_uuid lookup owner_uid to_str headers ctx =
     (let grant_header = option_filter (\<lambda>value. value \<noteq> [])
            (map_option trim (header_str to_str headers approval_grant_header));
          ctx = ctx\<lparr>obo_approval_grant_id := grant_header\<rparr>
      in if obo_uid ctx = obo_agent_id ctx then ([], Ok (), ctx)
         else (case grant_header of
            None \<Rightarrow> ([], Ok (), ctx)
          | Some text \<Rightarrow>
              (case parse_uuid text of
                 Inl e \<Rightarrow> ([], Ok (), ctx)
               | Inr grant_id \<Rightarrow>
                   (let calls = [(grant_id, obo_agent_id ctx)]
                    in (case lookup grant_id (obo_agent_id ctx) of
                          Inl e \<Rightarrow> (calls, Ok (), ctx)
                        | Inr None \<Rightarrow> (calls, Ok (), ctx)
                        | Inr (Some grant) \<Rightarrow> (calls, Ok (), ctx\<lparr>obo_uid := owner_uid grant\<rparr>))))))"

text \<open>The three parts of a call: the lookups made, the result, the context left.\<close>

definition applied_lookups :: "'id applied \<Rightarrow> ('id \<times> rstr) list" where
  "applied_lookups r = fst r"

definition applied_result :: "'id applied \<Rightarrow> api_error + unit" where
  "applied_result r = fst (snd r)"

definition applied_ctx :: "'id applied \<Rightarrow> on_behalf_of" where
  "applied_ctx r = snd (snd r)"

lemmas applied_defs = applied_lookups_def applied_result_def applied_ctx_def

section \<open>What a call amounts to\<close>

text \<open>The grant id a request asks to use, when the caller is a machine.\<close>

definition asked_grant ::
  "(rstr \<Rightarrow> 'e + 'id) \<Rightarrow> header_text \<Rightarrow> header_map \<Rightarrow> on_behalf_of \<Rightarrow> 'id option" where
  "asked_grant parse_uuid to_str headers ctx =
     (if obo_uid ctx = obo_agent_id ctx then None
      else Option.bind (header_nonblank to_str headers approval_grant_header)
             (\<lambda>text. result_ok (parse_uuid text)))"

definition found_owner ::
  "('id, 'g) grant_lookup \<Rightarrow> ('g \<Rightarrow> rstr) \<Rightarrow> rstr \<Rightarrow> 'id option \<Rightarrow> rstr option" where
  "found_owner lookup owner_uid subject asked =
     Option.bind asked (\<lambda>i. map_option owner_uid
       (case lookup i subject of Inl e \<Rightarrow> None | Inr g \<Rightarrow> g))"

lemma apply_eq:
  "apply_on_behalf_of_grant parse_uuid lookup owner_uid to_str headers ctx =
     (let asked = asked_grant parse_uuid to_str headers ctx
      in ((case asked of None \<Rightarrow> [] | Some i \<Rightarrow> [(i, obo_agent_id ctx)]), Ok (),
          \<lparr>obo_uid = (case found_owner lookup owner_uid (obo_agent_id ctx) asked of
                       None \<Rightarrow> obo_uid ctx | Some owner \<Rightarrow> owner),
           obo_agent_id = obo_agent_id ctx,
           obo_approval_grant_id = header_nonblank to_str headers approval_grant_header\<rparr>))"
  unfolding apply_on_behalf_of_grant_def asked_grant_def found_owner_def header_nonblank_def [symmetric]
  by (cases ctx; cases "header_nonblank to_str headers approval_grant_header")
     (auto simp: Let_def split: sum.splits option.splits)

lemma applied_eqs:
  "applied_result (apply_on_behalf_of_grant parse_uuid lookup owner_uid to_str headers ctx) = Ok ()"
  "obo_agent_id (applied_ctx (apply_on_behalf_of_grant parse_uuid lookup owner_uid to_str headers ctx))
     = obo_agent_id ctx"
  "obo_approval_grant_id
     (applied_ctx (apply_on_behalf_of_grant parse_uuid lookup owner_uid to_str headers ctx))
     = header_nonblank to_str headers approval_grant_header"
  "obo_uid (applied_ctx (apply_on_behalf_of_grant parse_uuid lookup owner_uid to_str headers ctx)) =
     (case found_owner lookup owner_uid (obo_agent_id ctx) (asked_grant parse_uuid to_str headers ctx) of
        None \<Rightarrow> obo_uid ctx | Some owner \<Rightarrow> owner)"
  "applied_lookups (apply_on_behalf_of_grant parse_uuid lookup owner_uid to_str headers ctx) =
     (case asked_grant parse_uuid to_str headers ctx of None \<Rightarrow> [] | Some i \<Rightarrow> [(i, obo_agent_id ctx)])"
  by (simp_all add: apply_eq applied_defs Let_def)

lemma found_owner_Some:
  "found_owner lookup owner_uid subject asked = Some owner \<longleftrightarrow>
     (\<exists>i g. asked = Some i \<and> lookup i subject = Inr (Some g) \<and> owner = owner_uid g)"
  by (cases asked; cases "lookup (the asked) subject") (auto simp: found_owner_def)

lemma asked_grant_machine: "asked_grant parse_uuid to_str headers ctx = Some i \<Longrightarrow> obo_uid ctx \<noteq> obo_agent_id ctx"
  by (auto simp: asked_grant_def split: if_splits)

lemma asked_grant_header:
  "asked_grant parse_uuid to_str headers ctx = Some i \<longleftrightarrow>
     obo_uid ctx \<noteq> obo_agent_id ctx \<and>
     (\<exists>text. header_nonblank to_str headers approval_grant_header = Some text \<and> parse_uuid text = Inr i)"
  by (auto simp: asked_grant_def bind_eq_Some_conv result_simps)

text \<open>A changed owner is the owner of a grant the store returned for the acting agent.\<close>

lemma escalated:
  assumes "obo_uid (applied_ctx (apply_on_behalf_of_grant parse_uuid lookup owner_uid to_str
      headers ctx)) \<noteq> obo_uid ctx"
  shows "\<exists>i g. asked_grant parse_uuid to_str headers ctx = Some i \<and>
    lookup i (obo_agent_id ctx) = Inr (Some g) \<and>
    obo_uid (applied_ctx (apply_on_behalf_of_grant parse_uuid lookup owner_uid to_str headers ctx))
      = owner_uid g"
  using assms
  by (cases "found_owner lookup owner_uid (obo_agent_id ctx) (asked_grant parse_uuid to_str headers ctx)")
     (auto simp: applied_eqs dest!: found_owner_Some [THEN iffD1])

section \<open>The contract of a store\<close>

text \<open>
  The trait's promise: a lookup yields a grant only if that grant names the requester as its
  subject. \<open>names\<close> says whom a grant names, for a store in the state \<open>s\<close>.
\<close>

locale grant_store =
  fixes lookup :: "'s \<Rightarrow> ('id, 'g) grant_lookup"
    and owner_uid :: "'g \<Rightarrow> rstr"
    and names :: "'s \<Rightarrow> 'id \<Rightarrow> 'g \<Rightarrow> rstr \<Rightarrow> bool"
  assumes lookup_names: "lookup s i subject = Inr (Some g) \<Longrightarrow> names s i g subject"
begin

text \<open>A changed owner comes from a grant that names the acting machine.\<close>

lemma escalation_named:
  assumes "obo_uid (applied_ctx (apply_on_behalf_of_grant parse_uuid (lookup s) owner_uid to_str
      headers ctx)) \<noteq> obo_uid ctx"
  shows "\<exists>i g. asked_grant parse_uuid to_str headers ctx = Some i \<and> names s i g (obo_agent_id ctx) \<and>
    obo_uid (applied_ctx (apply_on_behalf_of_grant parse_uuid (lookup s) owner_uid to_str
      headers ctx)) = owner_uid g"
  using escalated [OF assms] lookup_names by blast

lemma unnamed_machine_keeps_uid:
  "(\<And>i g. \<not> names s i g (obo_agent_id ctx)) \<Longrightarrow>
     obo_uid (applied_ctx (apply_on_behalf_of_grant parse_uuid (lookup s) owner_uid to_str
       headers ctx)) = obo_uid ctx"
  using escalation_named [where s = s and ctx = ctx] by blast

end

section \<open>The store of the crate's tests\<close>

datatype test_grant = TestGrant (test_owner: rstr)

record test_store =
  ts_expect_subject :: rstr
  ts_owner :: rstr

fun test_owner_uid :: "test_grant \<Rightarrow> rstr" where
  "test_owner_uid (TestGrant owner) = owner"

definition test_lookup :: "test_store \<Rightarrow> ('id, test_grant) grant_lookup" where
  "test_lookup store grant_id requester_chirp_sub =
     (if requester_chirp_sub = ts_expect_subject store
      then Ok (Some (TestGrant (ts_owner store))) else Ok None)"

interpretation tests: grant_store test_lookup test_owner_uid
  "\<lambda>store i g subject. subject = ts_expect_subject store \<and> g = TestGrant (ts_owner store)"
  by unfold_locales (auto simp: test_lookup_def split: if_splits)

section \<open>Properties\<close>

text \<open>
  The call never fails, whatever the store answers; it leaves the agent alone, copies the
  trimmed grant header, asks the store at most once, for the acting agent and only for a
  machine with a well-formed grant id, and replaces the owner exactly when the store finds a
  grant.
\<close>

theorem grant_resolution_outcome:
  "apply_on_behalf_of_grant parse_uuid lookup owner_uid to_str headers ctx =
     (let asked = asked_grant parse_uuid to_str headers ctx
      in ((case asked of None \<Rightarrow> [] | Some i \<Rightarrow> [(i, obo_agent_id ctx)]), Ok (),
          \<lparr>obo_uid = (case found_owner lookup owner_uid (obo_agent_id ctx) asked of
                       None \<Rightarrow> obo_uid ctx | Some owner \<Rightarrow> owner),
           obo_agent_id = obo_agent_id ctx,
           obo_approval_grant_id = header_nonblank to_str headers approval_grant_header\<rparr>))"
  by (rule apply_eq)

text \<open>
  C4: no escalation without a grant: if the owner changed, the caller was a machine, the
  header was a well-formed grant id, and the store was asked for that id and that machine and
  returned a grant whose owner is now the owner.
\<close>

theorem escalation_needs_grant:
  "obo_uid (applied_ctx (apply_on_behalf_of_grant parse_uuid lookup owner_uid to_str headers ctx))
     \<noteq> obo_uid ctx \<Longrightarrow>
   obo_uid ctx \<noteq> obo_agent_id ctx \<and>
   (\<exists>text i g. header_nonblank to_str headers approval_grant_header = Some text \<and>
      parse_uuid text = Inr i \<and> lookup i (obo_agent_id ctx) = Inr (Some g) \<and>
      applied_lookups (apply_on_behalf_of_grant parse_uuid lookup owner_uid to_str headers ctx)
        = [(i, obo_agent_id ctx)] \<and>
      obo_uid (applied_ctx (apply_on_behalf_of_grant parse_uuid lookup owner_uid to_str headers ctx))
        = owner_uid g)"
  by (drule escalated) (auto simp: asked_grant_header applied_eqs(5) split: option.splits)

definition example_machine :: on_behalf_of where
  "example_machine = \<lparr>obo_uid = lit ''owner_sub_from_token'', obo_agent_id = lit ''agent_machine_sub'',
     obo_approval_grant_id = None\<rparr>"

definition example_store :: test_store where
  "example_store = \<lparr>ts_expect_subject = lit ''agent_machine_sub'', ts_owner = lit ''target-human''\<rparr>"

definition grant_request :: "rstr \<Rightarrow> header_map" where
  "grant_request g = [approval_grant_header \<mapsto> map of_nat g]"

lemma grant_request_text:
  "list_all visible_ascii g \<Longrightarrow> trimmed g \<Longrightarrow> g \<noteq> [] \<Longrightarrow>
     header_nonblank std_to_str (grant_request g) approval_grant_header = Some g"
  by (simp add: header_nonblank_def header_str_def grant_request_def std_to_str_ascii trim_trimmed)

text \<open>Any text is a grant id here, as itself.\<close>

definition example_apply :: "rstr applied" where
  "example_apply = apply_on_behalf_of_grant (Inr :: rstr \<Rightarrow> unit + rstr) (test_lookup example_store)
     test_owner_uid std_to_str (grant_request (lit ''grant-1'')) example_machine"

lemma example_apply_eq:
  "example_apply = ([(lit ''grant-1'', lit ''agent_machine_sub'')], Ok (),
     \<lparr>obo_uid = lit ''target-human'', obo_agent_id = lit ''agent_machine_sub'',
      obo_approval_grant_id = Some (lit ''grant-1'')\<rparr>)"
proof -
  have "header_nonblank std_to_str (grant_request (lit ''grant-1'')) approval_grant_header
      = Some (lit ''grant-1'')"
    by (rule grant_request_text) (simp_all add: lit_def visible_ascii_def trimmed_def is_whitespace_def)
  then show ?thesis
    by (simp add: example_apply_def apply_eq asked_grant_def found_owner_def test_lookup_def
        example_store_def example_machine_def lit_def)
qed

theorem escalation_needs_grant_witness:
  "\<exists>g. test_lookup example_store (lit ''grant-1'') (lit ''agent_machine_sub'') = Ok (Some g) \<and>
     test_owner_uid g = lit ''target-human''"
proof -
  have "obo_uid (applied_ctx example_apply) \<noteq> obo_uid example_machine"
    by (simp add: example_apply_eq applied_defs example_machine_def lit_def)
  from escalation_needs_grant [OF this [unfolded example_apply_def], folded example_apply_def]
  show ?thesis by (auto simp: example_apply_eq applied_defs example_machine_def)
qed

text \<open>
  A human (one whose uid is its agent id) is never re-owned and the store is never asked,
  whatever header it sends.
\<close>

theorem human_never_escalates:
  "obo_uid ctx = obo_agent_id ctx \<Longrightarrow>
     applied_lookups (apply_on_behalf_of_grant parse_uuid lookup owner_uid to_str headers ctx) = [] \<and>
     obo_uid (applied_ctx (apply_on_behalf_of_grant parse_uuid lookup owner_uid to_str headers ctx))
       = obo_uid ctx"
  by (simp add: applied_eqs asked_grant_def found_owner_def)

theorem human_never_escalates_witness:
  "obo_uid (applied_ctx (apply_on_behalf_of_grant (Inr :: rstr \<Rightarrow> unit + rstr) (test_lookup example_store)
     test_owner_uid std_to_str (grant_request (lit ''grant-1''))
     \<lparr>obo_uid = lit ''human-1'', obo_agent_id = lit ''human-1'', obo_approval_grant_id = None\<rparr>))
   = lit ''human-1''"
  using human_never_escalates [where parse_uuid = "Inr :: rstr \<Rightarrow> unit + rstr"
      and lookup = "test_lookup example_store" and owner_uid = test_owner_uid and to_str = std_to_str
      and headers = "grant_request (lit ''grant-1'')" and ctx = "\<lparr>obo_uid = lit ''human-1'',
        obo_agent_id = lit ''human-1'', obo_approval_grant_id = None\<rparr>"]
  by simp

text \<open>
  Resolving twice with the same store and headers is resolving once: the second call
  leaves the context the first one left.
\<close>

theorem grant_resolution_idempotent:
  "applied_ctx (apply_on_behalf_of_grant parse_uuid lookup owner_uid to_str headers
      (applied_ctx (apply_on_behalf_of_grant parse_uuid lookup owner_uid to_str headers ctx))) =
   applied_ctx (apply_on_behalf_of_grant parse_uuid lookup owner_uid to_str headers ctx)"
proof -
  let ?run = "\<lambda>c. applied_ctx (apply_on_behalf_of_grant parse_uuid lookup owner_uid to_str headers c)"
  let ?once = "?run ctx"
  have "obo_uid (?run ?once) = obo_uid ?once"
  proof (cases "obo_uid ?once = obo_agent_id ?once \<or> obo_uid ctx = obo_agent_id ctx")
    case True
    then show ?thesis by (auto simp: applied_eqs asked_grant_def found_owner_def)
  next
    case False
    then have "asked_grant parse_uuid to_str headers ?once = asked_grant parse_uuid to_str headers ctx"
      unfolding asked_grant_def by (simp add: applied_eqs(2))
    then show ?thesis by (simp add: applied_eqs split: option.splits)
  qed
  then show ?thesis by (intro on_behalf_of.equality) (simp_all add: applied_eqs)
qed

text \<open>
  On the store of the crate's tests, the owner changes only for the machine the store
  expects, and then to the store's owner.
\<close>

theorem test_store_escalation:
  "obo_uid (applied_ctx (apply_on_behalf_of_grant parse_uuid (test_lookup store) test_owner_uid
      to_str headers ctx)) \<noteq> obo_uid ctx \<Longrightarrow>
   obo_agent_id ctx = ts_expect_subject store \<and>
   obo_uid (applied_ctx (apply_on_behalf_of_grant parse_uuid (test_lookup store) test_owner_uid
      to_str headers ctx)) = ts_owner store"
  by (drule tests.escalation_named) auto

theorem test_store_escalation_witness:
  "obo_agent_id example_machine = ts_expect_subject example_store \<and>
   obo_uid (applied_ctx example_apply) = ts_owner example_store"
proof -
  have "obo_uid (applied_ctx example_apply) \<noteq> obo_uid example_machine"
    by (simp add: example_apply_eq applied_defs example_machine_def lit_def)
  from test_store_escalation [OF this [unfolded example_apply_def], folded example_apply_def]
  show ?thesis .
qed

end
