(* ===== verification/Rust_Env.thy ===== *)
theory Rust_Env
  imports Rust_Str
begin

text \<open>
  The process environment as \<open>std::env\<close> shows it, and \<open>Iterator::find_map\<close>. The variables are
  a map; \<open>var\<close> reads Unicode text, \<open>var_os\<close> any value.
\<close>

text \<open>
  \<open>std::env::var\<close>: the value of a variable that is set to Unicode text; an unset variable and
  one that is not Unicode are both errors.
\<close>

datatype env_value = Unicode rstr | NotUnicode bytes

type_synonym environ = "rstr \<Rightarrow> env_value option"

datatype var_error = VarNotPresent | VarNotUnicode bytes

definition env_var :: "environ \<Rightarrow> rstr \<Rightarrow> var_error + rstr" where
  "env_var env name =
     (case env name of
        None \<Rightarrow> Err VarNotPresent
      | Some (NotUnicode b) \<Rightarrow> Err (VarNotUnicode b)
      | Some (Unicode s) \<Rightarrow> Ok s)"

fun find_map :: "('a \<Rightarrow> 'b option) \<Rightarrow> 'a list \<Rightarrow> 'b option" where
  "find_map f [] = None"
| "find_map f (x # xs) = (case f x of Some y \<Rightarrow> Some y | None \<Rightarrow> find_map f xs)"

definition env_var_os :: "environ \<Rightarrow> rstr \<Rightarrow> env_value option" where
  "env_var_os env name = env name"

lemma env_var_Some: "result_ok (env_var env name) = Some s \<longleftrightarrow> env name = Some (Unicode s)"
  by (auto simp: env_var_def result_simps split: option.splits env_value.splits)

lemma env_var_Inr: "env_var env name = Inr s \<longleftrightarrow> env name = Some (Unicode s)"
  by (auto simp: env_var_def split: option.splits env_value.splits)

end
