(* ===== verification/Machine_Auth.thy ===== *)
theory Machine_Auth
  imports Http_Error Rust_Env
begin

text \<open>
  \<open>MachineAuth\<close> of \<open>platform-chirp-auth\<close>: the allowlist of machine clients, how it is read
  from the environment, and the verification of a bearer token. The token library
  \<open>chirp-auth-client\<close> is not under the source: its constructors and
  \<open>verify_chirp_id_token\<close> are the record \<open>chirp_client\<close>, an argument of the definitions.
  A \<open>BTreeSet<String>\<close> is the ascending list of its members.
\<close>

section \<open>The token library\<close>

text \<open>The outcomes the source matches on; what it ignores (\<open>..\<close>, \<open>_\<close>) has a type of its own.\<close>

datatype 'x chirp_auth_error = MachineAudienceNotAccepted | OtherChirpError 'x

datatype 'h chirp_verified_identity =
    HumanIdentity 'h
  | MachineIdentity (mid_sub: rstr) (mid_owner_sub: rstr) (mid_client_id: rstr)
  | TestIdentity 'h

record ('env, 'h) chirp_verified =
  cv_identity :: "'h chirp_verified_identity"
  cv_environment :: 'env

record ('cfg, 'opts, 'client, 'env, 'h, 'x) chirp_client =
  cl_with_audiences :: "rstr \<Rightarrow> rstr list \<Rightarrow> 'cfg"
  cl_issuer :: "'cfg \<Rightarrow> rstr"
  cl_accept_machine_clients :: "rstr list \<Rightarrow> 'opts"
  cl_verify :: "'client \<Rightarrow> 'cfg \<Rightarrow> rstr \<Rightarrow> 'opts \<Rightarrow> 'x chirp_auth_error + ('env, 'h) chirp_verified"

text \<open>
  The library's gate, as the source describes it: with the options made from a list of
  clients, a machine identity is only returned for a client in the list.
\<close>

definition gate_laws :: "('cfg, 'opts, 'client, 'env, 'h, 'x) chirp_client \<Rightarrow> bool" where
  "gate_laws L \<longleftrightarrow>
     (\<forall>client cfg token ids v. cl_verify L client cfg token (cl_accept_machine_clients L ids) = Inr v \<longrightarrow>
        (\<forall>sub owner_sub client_id. cv_identity v = MachineIdentity sub owner_sub client_id \<longrightarrow>
           client_id \<in> set ids))"

section \<open>The verifier\<close>

record 'cfg machine_auth =
  ma_config :: 'cfg
  ma_accepted_client_ids :: "rstr list"

record 'env verified_machine =
  vm_sub :: rstr
  vm_owner_sub :: rstr
  vm_client_id :: rstr
  vm_environment :: 'env
  vm_issuer :: rstr

datatype machine_auth_error = Rejected | NotMachine

fun into_api_error :: "machine_auth_error \<Rightarrow> api_error" where
  "into_api_error e = Unauthorized"

definition api_error_from :: "machine_auth_error \<Rightarrow> api_error" where
  "api_error_from e = Unauthorized"

definition machine_auth_new ::
  "('cfg, 'opts, 'client, 'env, 'h, 'x) chirp_client \<Rightarrow> rstr \<Rightarrow> rstr list \<Rightarrow> 'cfg machine_auth" where
  "machine_auth_new L issuer client_ids =
     (let accepted_client_ids = sort_dedup (filter (\<lambda>i. i \<noteq> []) (map trim client_ids));
          config = cl_with_audiences L issuer accepted_client_ids
      in \<lparr>ma_config = config, ma_accepted_client_ids = accepted_client_ids\<rparr>)"

definition machine_auth_from_env ::
  "('cfg, 'opts, 'client, 'env, 'h, 'x) chirp_client \<Rightarrow> environ \<Rightarrow> rstr list \<Rightarrow> rstr
     \<Rightarrow> 'cfg machine_auth option" where
  "machine_auth_from_env L env issuer_env_vars audiences_env_var =
     Option.bind
       (option_filter (\<lambda>value. value \<noteq> [])
         (map_option trim (find_map (\<lambda>name. result_ok (env_var env name)) issuer_env_vars)))
       (\<lambda>issuer.
     Option.bind (result_ok (env_var env audiences_env_var)) (\<lambda>raw.
     let audiences = filter (\<lambda>a. a \<noteq> []) (map trim (split_char (of_char (CHR '','')) raw))
     in if audiences = [] then None else Some (machine_auth_new L issuer audiences)))"

definition machine_auth_issuer ::
  "('cfg, 'opts, 'client, 'env, 'h, 'x) chirp_client \<Rightarrow> 'cfg machine_auth \<Rightarrow> rstr" where
  "machine_auth_issuer L m = cl_issuer L (ma_config m)"

definition accepted_client_ids :: "'cfg machine_auth \<Rightarrow> rstr list" where
  "accepted_client_ids m = ma_accepted_client_ids m"

definition verify_options ::
  "('cfg, 'opts, 'client, 'env, 'h, 'x) chirp_client \<Rightarrow> 'cfg machine_auth \<Rightarrow> 'opts" where
  "verify_options L m = cl_accept_machine_clients L (ma_accepted_client_ids m)"

definition machine_verify ::
  "('cfg, 'opts, 'client, 'env, 'h, 'x) chirp_client \<Rightarrow> 'cfg machine_auth \<Rightarrow> 'client \<Rightarrow> rstr
     \<Rightarrow> machine_auth_error + 'env verified_machine" where
  "machine_verify L m client token =
     (case cl_verify L client (ma_config m) token (verify_options L m) of
        Inl MachineAudienceNotAccepted \<Rightarrow> Err Rejected
      | Inl (OtherChirpError e) \<Rightarrow> Err NotMachine
      | Inr verified \<Rightarrow>
          (let environment = cv_environment verified
           in (case cv_identity verified of
                 MachineIdentity sub owner_sub client_id \<Rightarrow>
                   Ok \<lparr>vm_sub = sub, vm_owner_sub = owner_sub, vm_client_id = client_id,
                       vm_environment = environment, vm_issuer = cl_issuer L (ma_config m)\<rparr>
               | HumanIdentity h \<Rightarrow> Err NotMachine
               | TestIdentity h \<Rightarrow> Err NotMachine)))"

section \<open>The allowlist\<close>

text \<open>The members a list of raw client ids stands for.\<close>

definition client_set :: "rstr list \<Rightarrow> rstr set" where
  "client_set ids = trim ` set ids - {[]}"

lemma new_accepted_set: "set (ma_accepted_client_ids (machine_auth_new L issuer ids)) = client_set ids"
  by (auto simp: machine_auth_new_def Let_def client_set_def)

lemma new_accepted_canonical:
  "sorted (ma_accepted_client_ids (machine_auth_new L issuer ids)) \<and>
   distinct (ma_accepted_client_ids (machine_auth_new L issuer ids))"
  by (simp add: machine_auth_new_def Let_def sort_dedup_sorted)

lemma new_config:
  "ma_config (machine_auth_new L issuer ids) =
     cl_with_audiences L issuer (ma_accepted_client_ids (machine_auth_new L issuer ids))"
  by (simp add: machine_auth_new_def Let_def)

lemma new_by_set:
  assumes "client_set ids = client_set ids'"
  shows "machine_auth_new L issuer ids = machine_auth_new L issuer ids'"
proof -
  have "ma_accepted_client_ids (machine_auth_new L issuer ids) =
      ma_accepted_client_ids (machine_auth_new L issuer ids')"
    by (rule sorted_distinct_set_unique) (simp_all add: new_accepted_canonical new_accepted_set assms)
  then show ?thesis
    by (intro machine_auth.equality) (simp_all add: new_config)
qed

lemma client_set_filter_trim: "client_set (filter (\<lambda>a. a \<noteq> []) (map trim ids)) = client_set ids"
proof -
  have "trim ` set (filter (\<lambda>a. a \<noteq> []) (map trim ids)) = trim ` set ids - {[]}"
    by (auto simp: image_iff) (metis trim_idem)
  then show ?thesis by (simp add: client_set_def)
qed

lemma filter_trim_Nil: "filter (\<lambda>a. a \<noteq> []) (map trim ids) = [] \<longleftrightarrow> client_set ids = {}"
  by (auto simp: client_set_def filter_empty_conv)

section \<open>Reading the environment\<close>

text \<open>The value of the first listed variable that is set to Unicode text, blank or not.\<close>

definition first_set :: "environ \<Rightarrow> rstr list \<Rightarrow> rstr option" where
  "first_set env names = find_map (\<lambda>name. result_ok (env_var env name)) names"

lemma first_set_Some:
  "first_set env names = Some s \<longleftrightarrow>
     (\<exists>skipped name rest. names = skipped @ name # rest \<and> env name = Some (Unicode s) \<and>
        (\<forall>n \<in> set skipped. \<forall>t. env n \<noteq> Some (Unicode t)))"
proof (induction names)
  case Nil
  then show ?case by (simp add: first_set_def)
next
  case (Cons n ns)
  show ?case
  proof (cases "result_ok (env_var env n)")
    case None
    then have unset: "env n \<noteq> Some (Unicode t)" for t using env_var_Some [of env n t] by auto
    with None Cons show ?thesis
      by (auto simp: first_set_def Cons_eq_append_conv)
         (metis append_Cons list.set_intros(1) set_ConsD)+
  next
    case (Some t)
    then have "env n = Some (Unicode t)" by (simp add: env_var_Some)
    with Some show ?thesis by (fastforce simp: first_set_def Cons_eq_append_conv)
  qed
qed

definition comma_items :: "rstr \<Rightarrow> rstr list" where
  "comma_items raw = split_char (of_char (CHR '','')) raw"

lemma from_env_eq:
  "machine_auth_from_env L env issuer_vars aud_var = Some m \<longleftrightarrow>
     (\<exists>issuer raw. first_set env issuer_vars = Some issuer \<and> trim issuer \<noteq> [] \<and>
        env aud_var = Some (Unicode raw) \<and> client_set (comma_items raw) \<noteq> {} \<and>
        m = machine_auth_new L (trim issuer) (comma_items raw))"
proof -
  have n: "machine_auth_new L i (filter (\<lambda>a. a \<noteq> []) (map trim (comma_items raw))) =
      machine_auth_new L i (comma_items raw)" for i raw
    by (rule new_by_set) (rule client_set_filter_trim)
  show ?thesis
    unfolding machine_auth_from_env_def first_set_def [symmetric] comma_items_def [symmetric]
    by (auto simp: Let_def bind_eq_Some_conv result_simps env_var_Some env_var_Inr filter_trim_Nil n
        split: if_splits)
qed

section \<open>What a verification amounts to\<close>

lemma machine_verify_Inr:
  "machine_verify L m client token = Inr vm \<longleftrightarrow>
     (\<exists>v. cl_verify L client (ma_config m) token (verify_options L m) = Inr v \<and>
        cv_identity v = MachineIdentity (vm_sub vm) (vm_owner_sub vm) (vm_client_id vm) \<and>
        vm_environment vm = cv_environment v \<and> vm_issuer vm = machine_auth_issuer L m)"
  by (cases vm)
     (auto simp: machine_verify_def machine_auth_issuer_def Let_def
       split: sum.splits chirp_auth_error.splits chirp_verified_identity.splits)

lemma machine_verify_allowlisted:
  "gate_laws L \<Longrightarrow> machine_verify L m client token = Inr vm \<Longrightarrow>
     vm_client_id vm \<in> set (ma_accepted_client_ids m)"
  unfolding machine_verify_Inr gate_laws_def verify_options_def by blast

section \<open>Properties\<close>

text \<open>
  C13: a verifier configured from the environment only ever accepts a machine whose client id is
  one of the comma-separated items of the audience variable, trimmed and not blank, provided
  the library's gate does what it documents; the caller it returns carries that id and the
  verifier's issuer.
\<close>

theorem env_allowlist_enforced:
  "gate_laws L \<Longrightarrow> machine_auth_from_env L env issuer_vars aud_var = Some m \<Longrightarrow>
   machine_verify L m client token = Ok vm \<Longrightarrow>
     (\<exists>raw item. env aud_var = Some (Unicode raw) \<and> item \<in> set (comma_items raw) \<and>
        vm_client_id vm = trim item \<and> vm_client_id vm \<noteq> []) \<and>
     vm_issuer vm = machine_auth_issuer L m"
  by (auto simp: from_env_eq machine_verify_Inr new_accepted_set client_set_def
      dest!: machine_verify_allowlisted)

text \<open>
  The three outcomes of a verification and exactly when each happens: a machine identity,
  the definitive rejection of a client outside the list, and everything else, human and test
  identities included.
\<close>

theorem machine_verify_outcomes:
  "(machine_verify L m client token = Ok vm \<longleftrightarrow>
      cl_verify L client (ma_config m) token (verify_options L m) =
        Ok \<lparr>cv_identity = MachineIdentity (vm_sub vm) (vm_owner_sub vm) (vm_client_id vm),
            cv_environment = vm_environment vm\<rparr> \<and>
      vm_issuer vm = machine_auth_issuer L m) \<and>
   (machine_verify L m client token = Err Rejected \<longleftrightarrow>
      cl_verify L client (ma_config m) token (verify_options L m) = Err MachineAudienceNotAccepted) \<and>
   (machine_verify L m client token = Err NotMachine \<longleftrightarrow>
      (\<exists>e. cl_verify L client (ma_config m) token (verify_options L m) = Err (OtherChirpError e)) \<or>
      (\<exists>v h. cl_verify L client (ma_config m) token (verify_options L m) = Ok v \<and>
         (cv_identity v = HumanIdentity h \<or> cv_identity v = TestIdentity h)))"
proof (intro conjI)
  show "machine_verify L m client token = Ok vm \<longleftrightarrow>
      cl_verify L client (ma_config m) token (verify_options L m) =
        Ok \<lparr>cv_identity = MachineIdentity (vm_sub vm) (vm_owner_sub vm) (vm_client_id vm),
            cv_environment = vm_environment vm\<rparr> \<and>
      vm_issuer vm = machine_auth_issuer L m"
    by (auto simp: machine_verify_Inr intro!: chirp_verified.equality)
qed (auto simp: machine_verify_def Let_def
    split: sum.splits chirp_auth_error.splits chirp_verified_identity.splits)

text \<open>
  C23: exactly when the environment yields a verifier, and which: the first issuer variable that
  is set decides, it must not be blank, and at least one audience item must not be blank.
\<close>

theorem from_env_exact:
  "machine_auth_from_env L env issuer_vars aud_var = Some m \<longleftrightarrow>
     (\<exists>skipped name rest issuer raw. issuer_vars = skipped @ name # rest \<and>
        (\<forall>n \<in> set skipped. \<forall>t. env n \<noteq> Some (Unicode t)) \<and>
        env name = Some (Unicode issuer) \<and> trim issuer \<noteq> [] \<and>
        env aud_var = Some (Unicode raw) \<and> (\<exists>item \<in> set (comma_items raw). trim item \<noteq> []) \<and>
        m = machine_auth_new L (trim issuer) (comma_items raw))"
proof -
  have ne: "client_set xs \<noteq> {} \<longleftrightarrow> (\<exists>item \<in> set xs. trim item \<noteq> [])" for xs
    by (auto simp: client_set_def)
  show ?thesis unfolding from_env_eq first_set_Some ne by blast
qed

text \<open>
  A first issuer variable that is set but blank turns the machine path off: the later
  variables are not consulted.
\<close>

theorem blank_primary_disables:
  "env primary = Some (Unicode blank) \<Longrightarrow> trim blank = [] \<Longrightarrow>
     machine_auth_from_env L env (primary # fallbacks) aud_var = None"
  by (simp add: machine_auth_from_env_def env_var_def)

text \<open>
  C33: what a verifier accepts depends only on the set of trimmed client ids: their order,
  repetitions, blanks and surrounding white space make no difference, and the list fed to
  the library, in its configuration and in its options, is that set in ascending order.
\<close>

theorem allowlist_canonical:
  "trim ` set ids - {[]} = trim ` set ids' - {[]} \<Longrightarrow>
     machine_auth_new L issuer ids = machine_auth_new L issuer ids' \<and>
     (\<exists>accepted. sorted accepted \<and> distinct accepted \<and> set accepted = trim ` set ids - {[]} \<and>
        accepted_client_ids (machine_auth_new L issuer ids) = accepted \<and>
        ma_config (machine_auth_new L issuer ids) = cl_with_audiences L issuer accepted \<and>
        verify_options L (machine_auth_new L issuer ids) = cl_accept_machine_clients L accepted)"
proof
  assume a: "trim ` set ids - {[]} = trim ` set ids' - {[]}"
  show "machine_auth_new L issuer ids = machine_auth_new L issuer ids'"
    by (rule new_by_set) (simp add: client_set_def a)
qed (simp add: accepted_client_ids_def verify_options_def new_config new_accepted_canonical
    new_accepted_set client_set_def [symmetric])

text \<open>
  A verifier built with no usable client id accepts no token at all, under the library's
  gate.
\<close>

theorem empty_allowlist_accepts_nothing:
  "gate_laws L \<Longrightarrow> \<forall>i \<in> set ids. trim i = [] \<Longrightarrow>
     machine_verify L (machine_auth_new L issuer ids) client token \<noteq> Ok vm"
proof
  assume g: "gate_laws L" and b: "\<forall>i \<in> set ids. trim i = []"
    and v: "machine_verify L (machine_auth_new L issuer ids) client token = Ok vm"
  from b have "client_set ids = {}" by (auto simp: client_set_def)
  with machine_verify_allowlisted [OF g v] show False by (simp add: new_accepted_set)
qed

section \<open>A concrete library\<close>

text \<open>
  For the witnesses: the configuration is its inputs, the options are the list, and a token is
  the client id of a machine.
\<close>

definition example_client :: "(rstr \<times> rstr list, rstr list, unit, string, unit, unit) chirp_client" where
  "example_client = \<lparr>cl_with_audiences = Pair, cl_issuer = fst, cl_accept_machine_clients = id,
     cl_verify = (\<lambda>client cfg token ids.
       if token \<in> set ids
       then Ok \<lparr>cv_identity = MachineIdentity (lit ''agent_xyz'') (lit ''sub_owner'') token,
                cv_environment = ''Prod''\<rparr>
       else Err MachineAudienceNotAccepted)\<rparr>"

lemma example_gate: "gate_laws example_client"
  by (auto simp: gate_laws_def example_client_def split: if_splits)

definition example_env :: environ where
  "example_env = [lit ''ISSUER'' \<mapsto> Unicode (lit ''https://a.b''), lit ''BLANK'' \<mapsto> Unicode (lit ''   ''),
     lit ''AUDS'' \<mapsto> Unicode (lit ''cs_b, cs_a,,'')]"

lemma example_items: "comma_items (lit ''cs_b, cs_a,,'') = [lit ''cs_b'', lit '' cs_a'', [], []]"
  by (simp add: comma_items_def lit_def)

lemma example_trims:
  "trim (lit ''cs_b'') = lit ''cs_b''" "trim (lit '' cs_a'') = lit ''cs_a''" "trim (lit ''   '') = []"
  "trim (lit ''https://a.b'') = lit ''https://a.b''"
  by (simp_all add: lit_def trim_def trim_start_def trim_end_def is_whitespace_def)

definition example_auth :: "(rstr \<times> rstr list) machine_auth" where
  "example_auth = machine_auth_new example_client (lit ''https://a.b'') [lit ''cs_b'', lit '' cs_a'', [], []]"

lemma example_from_env:
  "machine_auth_from_env example_client example_env [lit ''UNSET'', lit ''ISSUER''] (lit ''AUDS'') = Some example_auth"
  unfolding from_env_eq
  by (auto simp: first_set_def env_var_def example_env_def example_auth_def example_items example_trims
      client_set_def) (simp_all add: lit_def)

lemma example_verify:
  "machine_verify example_client example_auth () (lit ''cs_a'') =
     Ok \<lparr>vm_sub = lit ''agent_xyz'', vm_owner_sub = lit ''sub_owner'', vm_client_id = lit ''cs_a'',
         vm_environment = ''Prod'', vm_issuer = lit ''https://a.b''\<rparr>"
proof -
  have "lit ''cs_a'' \<in> set (ma_accepted_client_ids example_auth)"
    by (auto simp: example_auth_def new_accepted_set client_set_def example_trims) (simp add: lit_def)
  moreover have "fst (ma_config example_auth) = lit ''https://a.b''"
    by (simp add: example_auth_def new_config) (simp add: example_client_def)
  ultimately show ?thesis
    by (simp add: machine_verify_def example_client_def verify_options_def)
qed

theorem env_allowlist_enforced_witness:
  "\<exists>raw item. example_env (lit ''AUDS'') = Some (Unicode raw) \<and> item \<in> set (comma_items raw) \<and>
     trim item = lit ''cs_a''"
  using env_allowlist_enforced [OF example_gate example_from_env example_verify] by auto

theorem from_env_exact_witness:
  "machine_auth_from_env example_client example_env [lit ''UNSET'', lit ''ISSUER''] (lit ''AUDS'')
     = Some (machine_auth_new example_client (lit ''https://a.b'') (comma_items (lit ''cs_b, cs_a,,'')))"
proof -
  have e: "example_env (lit ''UNSET'') = None" "example_env (lit ''ISSUER'') = Some (Unicode (lit ''https://a.b''))"
    "example_env (lit ''AUDS'') = Some (Unicode (lit ''cs_b, cs_a,,''))"
    by (simp_all add: example_env_def lit_def)
  have n: "lit ''https://a.b'' \<noteq> []" "lit ''cs_b'' \<noteq> []" by (simp_all add: lit_def)
  show ?thesis
    unfolding from_env_exact
    by (rule exI [of _ "[lit ''UNSET'']"], rule exI [of _ "lit ''ISSUER''"], rule exI [of _ "[]"],
        rule exI [of _ "lit ''https://a.b''"], rule exI [of _ "lit ''cs_b, cs_a,,''"])
       (simp add: e n example_trims example_items)
qed

theorem blank_primary_disables_witness:
  "machine_auth_from_env example_client example_env [lit ''BLANK'', lit ''ISSUER''] (lit ''AUDS'') = None"
  by (rule blank_primary_disables [where blank = "lit ''   ''"])
     (simp_all add: example_env_def example_trims, simp_all add: lit_def)

theorem allowlist_canonical_witness:
  "machine_auth_new example_client (lit ''i'') [lit ''cs_b'', lit '' cs_a'', [], []] =
   machine_auth_new example_client (lit ''i'') [lit ''cs_a'', lit ''cs_b'', lit ''cs_b'']"
proof -
  have "trim (lit ''cs_a'') = lit ''cs_a''" using trim_idem [of "lit '' cs_a''"] by (simp add: example_trims)
  then show ?thesis
    by (intro allowlist_canonical [THEN conjunct1]) (auto simp: example_trims)
qed

theorem empty_allowlist_accepts_nothing_witness:
  "\<nexists>vm. machine_verify example_client (machine_auth_new example_client (lit ''i'') [lit ''   ''])
     () (lit ''cs_a'') = Ok vm"
proof -
  have "\<forall>i \<in> set [lit ''   '']. trim i = []" by (simp add: example_trims)
  from empty_allowlist_accepts_nothing [OF example_gate this] show ?thesis by blast
qed

end
