(* ===== verification/Auth_Tests.thy ===== *)
theory Auth_Tests
  imports Grant_Resolution Machine_Auth Rust_Test
begin

text \<open>
  The tests of \<open>platform-chirp-auth\<close> that use no network: trusted headers, the resolution of
  grants, the allowlist and the configuration from the environment. \<open>Uuid::parse_str\<close>,
  \<open>HeaderValue::to_str\<close> and the token library are arguments; the suites pass under what the
  tests rely on of them. The one test of a re-exported function of the token library is not
  here.
\<close>

section \<open>Trusted headers\<close>

text \<open>\<open>insert\<close> replaces what the map has under the name; header values hold bytes.\<close>

definition hm :: "(rstr \<times> rstr) list \<Rightarrow> header_map" where
  "hm pairs = foldl (\<lambda>h kv. h(fst kv \<mapsto> map of_nat (snd kv))) Map.empty pairs"

definition trusted_headers_minimal :: "header_text \<Rightarrow> unit run" where
  "trusted_headers_minimal to_str =
     (let h = hm [(lit ''x-user-id'', lit ''user-1'')] in
      run_bind (unwrap (decode_trusted_headers to_str h)) (\<lambda>u.
        all_of [assert_that (thu_uid u = lit ''user-1''),
                assert_that (thu_agent_id u = lit ''user-1''),
                assert_that (\<not> thu_can_write u),
                assert_that (thu_approval_grant_id u = None)]))"

definition trusted_headers_full :: "header_text \<Rightarrow> unit run" where
  "trusted_headers_full to_str =
     (let h = hm [(lit ''x-user-id'', lit ''user-1''), (lit ''x-agent-id'', lit ''agent-9''),
                  (lit ''x-user-can-write'', lit ''true''), (lit ''x-approval-grant'', lit ''  grant-xyz  '')] in
      run_bind (unwrap (decode_trusted_headers to_str h)) (\<lambda>u.
        all_of [assert_that (thu_agent_id u = lit ''agent-9''),
                assert_that (thu_can_write u),
                assert_that (thu_approval_grant_id u = Some (lit ''grant-xyz''))]))"

definition trusted_headers_missing_uid_rejected :: "header_text \<Rightarrow> unit run" where
  "trusted_headers_missing_uid_rejected to_str =
     assert_that (decode_trusted_headers to_str Map.empty = Err Unauthorized)"

definition trusted_headers_control_char_rejected :: "header_text \<Rightarrow> unit run" where
  "trusted_headers_control_char_rejected to_str =
     (let h = Map.empty(lit ''x-user-id'' \<mapsto> utf8 (lit ''ok''),
                        lit ''x-agent-id'' \<mapsto> utf8 (lit ''bad'' @ [9] @ lit ''id''))
      in assert_that (decode_trusted_headers to_str h = Err Unauthorized))"

definition trusted_headers_overlong_uid_rejected :: "header_text \<Rightarrow> unit run" where
  "trusted_headers_overlong_uid_rejected to_str =
     (let long = replicate (max_id_chars + 1) (of_char (CHR ''x''));
          h = hm [(lit ''x-user-id'', long)]
      in assert_that (decode_trusted_headers to_str h = Err Unauthorized))"

definition trusted_header_suite :: "header_text \<Rightarrow> unit run" where
  "trusted_header_suite to_str = all_of
     [trusted_headers_minimal to_str, trusted_headers_full to_str,
      trusted_headers_missing_uid_rejected to_str, trusted_headers_control_char_rejected to_str,
      trusted_headers_overlong_uid_rejected to_str]"

section \<open>On-behalf-of grants\<close>

definition test_uuid :: rstr where
  "test_uuid = lit ''550e8400-e29b-41d4-a716-446655440000''"

definition machine_ctx :: "rstr \<Rightarrow> header_map \<times> on_behalf_of" where
  "machine_ctx grant =
     (hm [(lit ''x-approval-grant'', grant)],
      \<lparr>obo_uid = lit ''owner_sub_from_token'', obo_agent_id = lit ''agent_machine_sub'',
       obo_approval_grant_id = None\<rparr>)"

text \<open>The call on a store of the tests, with the result unwrapped: the context it leaves.\<close>

definition apply_on_test_store ::
  "(rstr \<Rightarrow> 'e + 'id) \<Rightarrow> header_text \<Rightarrow> test_store \<Rightarrow> header_map \<times> on_behalf_of \<Rightarrow> on_behalf_of run" where
  "apply_on_test_store parse_uuid to_str store request =
     (let r = apply_on_behalf_of_grant parse_uuid (test_lookup store) test_owner_uid to_str
                (fst request) (snd request)
      in run_bind (unwrap (applied_result r)) (\<lambda>u. Ret (applied_ctx r)))"

definition human_identity_is_noop :: "(rstr \<Rightarrow> 'e + 'id) \<Rightarrow> header_text \<Rightarrow> unit run" where
  "human_identity_is_noop parse_uuid to_str =
     (let store = \<lparr>ts_expect_subject = lit ''anything'', ts_owner = lit ''should-not-apply''\<rparr>;
          h = hm [(lit ''x-approval-grant'', test_uuid)];
          ctx = \<lparr>obo_uid = lit ''human-1'', obo_agent_id = lit ''human-1'', obo_approval_grant_id = None\<rparr>
      in run_bind (apply_on_test_store parse_uuid to_str store (h, ctx)) (\<lambda>ctx.
           all_of [assert_that (obo_uid ctx = lit ''human-1''),
                   assert_that (obo_approval_grant_id ctx \<noteq> None)]))"

definition valid_grant_overrides_uid :: "(rstr \<Rightarrow> 'e + 'id) \<Rightarrow> header_text \<Rightarrow> unit run" where
  "valid_grant_overrides_uid parse_uuid to_str =
     (let store = \<lparr>ts_expect_subject = lit ''agent_machine_sub'', ts_owner = lit ''target-human''\<rparr>
      in run_bind (apply_on_test_store parse_uuid to_str store (machine_ctx test_uuid)) (\<lambda>ctx.
           all_of [assert_that (obo_uid ctx = lit ''target-human''),
                   assert_that (obo_approval_grant_id ctx = Some test_uuid)]))"

definition malformed_grant_id_is_noop :: "(rstr \<Rightarrow> 'e + 'id) \<Rightarrow> header_text \<Rightarrow> unit run" where
  "malformed_grant_id_is_noop parse_uuid to_str =
     (let store = \<lparr>ts_expect_subject = lit ''agent_machine_sub'', ts_owner = lit ''target-human''\<rparr>
      in run_bind (apply_on_test_store parse_uuid to_str store (machine_ctx (lit ''not-a-uuid'')))
           (\<lambda>ctx. assert_that (obo_uid ctx = lit ''owner_sub_from_token'')))"

definition lookup_miss_is_noop :: "(rstr \<Rightarrow> 'e + 'id) \<Rightarrow> header_text \<Rightarrow> unit run" where
  "lookup_miss_is_noop parse_uuid to_str =
     (let store = \<lparr>ts_expect_subject = lit ''some-other-subject'', ts_owner = lit ''target-human''\<rparr>
      in run_bind (apply_on_test_store parse_uuid to_str store (machine_ctx test_uuid))
           (\<lambda>ctx. assert_that (obo_uid ctx = lit ''owner_sub_from_token'')))"

definition missing_grant_header_is_noop :: "(rstr \<Rightarrow> 'e + 'id) \<Rightarrow> header_text \<Rightarrow> unit run" where
  "missing_grant_header_is_noop parse_uuid to_str =
     (let store = \<lparr>ts_expect_subject = lit ''agent_machine_sub'', ts_owner = lit ''target-human''\<rparr>;
          ctx = \<lparr>obo_uid = lit ''owner_sub_from_token'', obo_agent_id = lit ''agent_machine_sub'',
                 obo_approval_grant_id = None\<rparr>
      in run_bind (apply_on_test_store parse_uuid to_str store (Map.empty, ctx)) (\<lambda>ctx.
           all_of [assert_that (obo_uid ctx = lit ''owner_sub_from_token''),
                   assert_that (obo_approval_grant_id ctx = None)]))"

definition grant_suite :: "(rstr \<Rightarrow> 'e + 'id) \<Rightarrow> header_text \<Rightarrow> unit run" where
  "grant_suite parse_uuid to_str = all_of
     [human_identity_is_noop parse_uuid to_str, valid_grant_overrides_uid parse_uuid to_str,
      malformed_grant_id_is_noop parse_uuid to_str, lookup_miss_is_noop parse_uuid to_str,
      missing_grant_header_is_noop parse_uuid to_str]"

section \<open>The allowlist\<close>

text \<open>
  The tests look into the options and the configuration of the token library:
  \<open>accept_machine\<close> and \<open>accepted_machine_audiences\<close> are its fields, arguments here.
\<close>

definition issuer_text :: rstr where
  "issuer_text = lit ''https://signin.chirpauth.com''"

definition configured_allowlist_is_fed_to_the_lib_gate ::
  "('cfg, 'opts, 'client, 'env, 'h, 'x) chirp_client \<Rightarrow> ('opts \<Rightarrow> bool) \<Rightarrow> ('opts \<Rightarrow> rstr list) \<Rightarrow> unit run" where
  "configured_allowlist_is_fed_to_the_lib_gate L accept_machine audiences =
     (let machine = machine_auth_new L issuer_text [lit ''cs_live_aaa'', lit ''cs_live_bbb''];
          options = verify_options L machine;
          want = sort_dedup [lit ''cs_live_aaa'', lit ''cs_live_bbb'']
      in all_of
           [assert_that (accept_machine options),
            assert_that (lit ''cs_live_aaa'' \<in> set (audiences options)),
            assert_that (lit ''cs_live_bbb'' \<in> set (audiences options)),
            assert_that (lit ''cs_live_other'' \<notin> set (audiences options)),
            assert_that ([] \<notin> set (audiences options)),
            assert_that (accepted_client_ids machine = want)])"

definition empty_allowlist_accepts_no_machine_token ::
  "('cfg, 'opts, 'client, 'env, 'h, 'x) chirp_client \<Rightarrow> ('opts \<Rightarrow> bool) \<Rightarrow> ('opts \<Rightarrow> rstr list) \<Rightarrow> unit run" where
  "empty_allowlist_accepts_no_machine_token L accept_machine audiences =
     (let machine = machine_auth_new L issuer_text []; options = verify_options L machine
      in all_of [assert_that (accept_machine options), assert_that (audiences options = []),
                 assert_that (accepted_client_ids machine = [])])"

definition var_primary :: rstr where "var_primary = lit ''PLATFORM_TEST_GRANITE_CHIRP_ISSUER''"
definition var_fallback :: rstr where "var_fallback = lit ''PLATFORM_TEST_CHIRP_AUTH_ISSUER''"
definition var_auds :: rstr where "var_auds = lit ''PLATFORM_TEST_ACCEPTED_MACHINE_AUDIENCES''"

text \<open>\<open>remove_var\<close> and \<open>set_var\<close> on the process environment; \<open>clear\<close> of the test.\<close>

definition set_var :: "rstr \<Rightarrow> rstr \<Rightarrow> environ \<Rightarrow> environ" where
  "set_var name value env = env(name \<mapsto> Unicode value)"

definition clear_vars :: "environ \<Rightarrow> environ" where
  "clear_vars env = env(var_primary := None, var_fallback := None, var_auds := None)"

definition from_env_issuer_fallback_and_off_by_default ::
  "('cfg, 'opts, 'client, 'env, 'h, 'x) chirp_client \<Rightarrow> environ \<Rightarrow> unit run" where
  "from_env_issuer_fallback_and_off_by_default L env0 =
     (let from_env = (\<lambda>env vars. machine_auth_from_env L env vars var_auds);
          both = [var_primary, var_fallback];
          env1 = clear_vars env0;
          env2 = set_var var_primary (lit ''https://signin.chirpauth.com'') (clear_vars env1);
          env3 = set_var var_auds (lit ''cs_live_aaa'') (clear_vars env2);
          env4 = set_var var_auds (lit ''cs_live_aaa, cs_live_bbb'')
                   (set_var var_fallback (lit ''https://fallback.chirpauth.com'')
                     (set_var var_primary (lit ''https://primary.chirpauth.com'') (clear_vars env3)));
          env5 = set_var var_auds (lit ''cs_live_aaa'')
                   (set_var var_fallback (lit ''https://fallback.chirpauth.com'')
                     (set_var var_primary (lit ''   '') (clear_vars env4)));
          env6 = set_var var_auds (lit ''cs_live_aaa'')
                   (set_var var_fallback (lit ''https://fallback.chirpauth.com'') (clear_vars env5));
          env7 = set_var var_auds (lit ''cs_live_aaa'')
                   (set_var var_primary (lit ''https://signin.chirpauth.com'') (clear_vars env6))
      in all_of
           [assert_that (from_env env1 both = None),
            assert_that (from_env env2 both = None),
            assert_that (from_env env3 both = None),
            run_bind (unwrap_some (from_env env4 both)) (\<lambda>machine.
              all_of [assert_that (machine_auth_issuer L machine = lit ''https://primary.chirpauth.com''),
                      assert_that (lit ''cs_live_aaa'' \<in> set (accepted_client_ids machine)),
                      assert_that (lit ''cs_live_bbb'' \<in> set (accepted_client_ids machine))]),
            assert_that (from_env env5 both = None),
            run_bind (unwrap_some (from_env env6 both)) (\<lambda>machine.
              assert_that (machine_auth_issuer L machine = lit ''https://fallback.chirpauth.com'')),
            run_bind (unwrap_some (from_env env7 [var_primary])) (\<lambda>machine.
              assert_that (machine_auth_issuer L machine = lit ''https://signin.chirpauth.com''))])"

definition machine_config_suite ::
  "('cfg, 'opts, 'client, 'env, 'h, 'x) chirp_client \<Rightarrow> ('opts \<Rightarrow> bool) \<Rightarrow> ('opts \<Rightarrow> rstr list) \<Rightarrow> environ \<Rightarrow> unit run" where
  "machine_config_suite L accept_machine audiences env = all_of
     [configured_allowlist_is_fed_to_the_lib_gate L accept_machine audiences,
      empty_allowlist_accepts_no_machine_token L accept_machine audiences,
      from_env_issuer_fallback_and_off_by_default L env]"

section \<open>The model passes the suites\<close>

lemma to_str_std: "to_str_laws to_str \<Longrightarrow> to_str = std_to_str"
  by (auto simp: to_str_laws_def std_to_str_def)

lemmas run_headers = header_str_def user_id_header_def agent_id_header_def approval_grant_header_def
  can_write_header_def hm_def std_to_str_def visible_ascii_def Let_def validated_id_def max_id_chars_def
  test_simps result_simps eval_str utf8_char_ascii

lemma trusted_header_runs:
  "trusted_headers_minimal std_to_str = Ret ()"
  "trusted_headers_full std_to_str = Ret ()"
  "trusted_headers_missing_uid_rejected std_to_str = Ret ()"
  "trusted_headers_control_char_rejected std_to_str = Ret ()"
  "trusted_headers_overlong_uid_rejected std_to_str = Ret ()"
  by (simp_all add: trusted_headers_minimal_def trusted_headers_full_def
      trusted_headers_missing_uid_rejected_def trusted_headers_control_char_rejected_def
      trusted_headers_overlong_uid_rejected_def decode_trusted_headers_def run_headers)

lemma trusted_suite_run: "to_str_laws to_str \<Longrightarrow> trusted_header_suite to_str = Ret ()"
  unfolding trusted_header_suite_def all_of_iff by (drule to_str_std) (simp add: trusted_header_runs)

text \<open>What the tests rely on of the uuid crate: one text is a UUID, the other is not.\<close>

definition uuid_vectors :: "(rstr \<Rightarrow> 'e + 'id) \<Rightarrow> bool" where
  "uuid_vectors parse_uuid \<longleftrightarrow>
     (\<exists>i. parse_uuid test_uuid = Inr i) \<and> (\<exists>e. parse_uuid (lit ''not-a-uuid'') = Inl e)"

lemma grant_texts:
  "header_nonblank std_to_str (hm [(lit ''x-approval-grant'', test_uuid)]) approval_grant_header = Some test_uuid"
  "header_nonblank std_to_str (hm [(lit ''x-approval-grant'', lit ''not-a-uuid'')]) approval_grant_header
     = Some (lit ''not-a-uuid'')"
  "header_nonblank std_to_str Map.empty approval_grant_header = None"
  by (simp_all add: header_nonblank_def test_uuid_def run_headers)

lemma grant_names:
  "lit ''owner_sub_from_token'' \<noteq> lit ''agent_machine_sub''"
  "lit ''agent_machine_sub'' \<noteq> lit ''some-other-subject''"
  by (simp_all add: lit_def)

lemma grant_runs:
  assumes "uuid_vectors parse_uuid"
  shows "human_identity_is_noop parse_uuid std_to_str = Ret ()"
    "valid_grant_overrides_uid parse_uuid std_to_str = Ret ()"
    "malformed_grant_id_is_noop parse_uuid std_to_str = Ret ()"
    "lookup_miss_is_noop parse_uuid std_to_str = Ret ()"
    "missing_grant_header_is_noop parse_uuid std_to_str = Ret ()"
  using assms
  by (auto simp: human_identity_is_noop_def valid_grant_overrides_uid_def malformed_grant_id_is_noop_def
      lookup_miss_is_noop_def missing_grant_header_is_noop_def apply_on_test_store_def machine_ctx_def
      Let_def applied_eqs asked_grant_def found_owner_def grant_texts grant_names uuid_vectors_def
      test_lookup_def test_simps)

lemma grant_suite_run: "uuid_vectors parse_uuid \<Longrightarrow> to_str_laws to_str \<Longrightarrow> grant_suite parse_uuid to_str = Ret ()"
  unfolding grant_suite_def all_of_iff by (drule to_str_std) (simp add: grant_runs)

text \<open>
  What the tests rely on of the token library: options made for a list of clients opt in to
  machines and hold that list, and a configuration gives its issuer back.
\<close>

definition options_laws ::
  "('cfg, 'opts, 'client, 'env, 'h, 'x) chirp_client \<Rightarrow> ('opts \<Rightarrow> bool) \<Rightarrow> ('opts \<Rightarrow> rstr list) \<Rightarrow> bool" where
  "options_laws L accept_machine audiences \<longleftrightarrow>
     (\<forall>ids. accept_machine (cl_accept_machine_clients L ids) \<and>
        audiences (cl_accept_machine_clients L ids) = ids) \<and>
     (\<forall>issuer ids. cl_issuer L (cl_with_audiences L issuer ids) = issuer)"

lemma client_texts:
  "trim (lit ''cs_live_aaa'') = lit ''cs_live_aaa''" "trim (lit ''cs_live_bbb'') = lit ''cs_live_bbb''"
  "trim (lit '' cs_live_bbb'') = lit ''cs_live_bbb''" "trim (lit ''   '') = []"
  "trim (lit ''https://signin.chirpauth.com'') = lit ''https://signin.chirpauth.com''"
  "trim (lit ''https://primary.chirpauth.com'') = lit ''https://primary.chirpauth.com''"
  "trim (lit ''https://fallback.chirpauth.com'') = lit ''https://fallback.chirpauth.com''"
  by (simp_all add: lit_def trim_def trim_start_def trim_end_def is_whitespace_def)

lemma client_items:
  "comma_items (lit ''cs_live_aaa'') = [lit ''cs_live_aaa'']"
  "comma_items (lit ''cs_live_aaa, cs_live_bbb'') = [lit ''cs_live_aaa'', lit '' cs_live_bbb'']"
  by (simp_all add: comma_items_def lit_def)

lemma client_names:
  "lit ''cs_live_aaa'' \<noteq> []" "lit ''cs_live_bbb'' \<noteq> []" "lit ''cs_live_other'' \<noteq> lit ''cs_live_aaa''"
  "lit ''cs_live_other'' \<noteq> lit ''cs_live_bbb''" "lit ''cs_live_other'' \<noteq> []"
  "lit ''https://signin.chirpauth.com'' \<noteq> []" "lit ''https://primary.chirpauth.com'' \<noteq> []"
  "lit ''https://fallback.chirpauth.com'' \<noteq> []"
  "var_primary \<noteq> var_fallback" "var_primary \<noteq> var_auds" "var_fallback \<noteq> var_auds"
  by (simp_all add: lit_def var_primary_def var_fallback_def var_auds_def)

lemma allowlist_runs:
  assumes "options_laws L accept_machine audiences"
  shows "configured_allowlist_is_fed_to_the_lib_gate L accept_machine audiences = Ret ()"
    "empty_allowlist_accepts_no_machine_token L accept_machine audiences = Ret ()"
  using assms
  by (simp_all add: configured_allowlist_is_fed_to_the_lib_gate_def empty_allowlist_accepts_no_machine_token_def
      options_laws_def test_simps Let_def verify_options_def accepted_client_ids_def new_accepted_set
      client_set_def client_texts client_names)
     (simp_all add: machine_auth_new_def client_texts client_names Let_def sort_dedup_def)

lemma from_env_none:
  "env issuer_var = None \<Longrightarrow> env fallback_var = None \<Longrightarrow>
     machine_auth_from_env L env [issuer_var, fallback_var] aud_var = None"
  "env aud_var = None \<Longrightarrow> machine_auth_from_env L env vars aud_var = None"
  "env issuer_var = Some (Unicode blank) \<Longrightarrow> trim blank = [] \<Longrightarrow>
     machine_auth_from_env L env (issuer_var # vars) aud_var = None"
  by (auto simp: machine_auth_from_env_def env_var_def result_simps Let_def split: option.splits)

lemma from_env_some:
  assumes "first_set env vars = Some issuer" "trim issuer = issuer" "issuer \<noteq> []"
    "env aud_var = Some (Unicode raw)" "client_set (comma_items raw) \<noteq> {}"
  shows "machine_auth_from_env L env vars aud_var = Some (machine_auth_new L issuer (comma_items raw))"
  using assms by (auto simp: from_env_eq)

lemma from_env_run:
  assumes "options_laws L accept_machine audiences"
  shows "from_env_issuer_fallback_and_off_by_default L env = Ret ()"
  using assms
  by (simp add: from_env_issuer_fallback_and_off_by_default_def Let_def test_simps set_var_def clear_vars_def
      client_names client_names [symmetric] from_env_none client_texts
      from_env_some first_set_def env_var_def result_simps client_items client_set_def
      machine_auth_issuer_def options_laws_def new_config accepted_client_ids_def new_accepted_set)

lemma config_suite_run:
  "options_laws L accept_machine audiences \<Longrightarrow> machine_config_suite L accept_machine audiences env = Ret ()"
  unfolding machine_config_suite_def all_of_iff by (simp add: allowlist_runs from_env_run)

definition chirp_auth_suite ::
  "header_text \<Rightarrow> (rstr \<Rightarrow> 'e + 'id) \<Rightarrow> ('cfg, 'opts, 'client, 'env, 'h, 'x) chirp_client \<Rightarrow>
   ('opts \<Rightarrow> bool) \<Rightarrow> ('opts \<Rightarrow> rstr list) \<Rightarrow> environ \<Rightarrow> unit run" where
  "chirp_auth_suite to_str parse_uuid L accept_machine audiences env = all_of
     [trusted_header_suite to_str, grant_suite parse_uuid to_str,
      machine_config_suite L accept_machine audiences env]"

text \<open>
  The model passes the crate's offline tests: the five of the trusted headers, the five of
  the grants and the three of the configuration run to their ends without a failed assertion,
  from any process environment, under what the tests rely on of the three libraries.
\<close>

theorem chirp_auth_suite_passes:
  "to_str_laws to_str \<Longrightarrow> uuid_vectors parse_uuid \<Longrightarrow> options_laws L accept_machine audiences \<Longrightarrow>
     chirp_auth_suite to_str parse_uuid L accept_machine audiences env = Ret ()"
  unfolding chirp_auth_suite_def all_of_iff
  by (simp add: trusted_suite_run grant_suite_run config_suite_run)

definition example_uuid :: "rstr \<Rightarrow> unit + rstr" where
  "example_uuid s = (if s = lit ''not-a-uuid'' then Inl () else Inr s)"

theorem chirp_auth_suite_passes_witness:
  "chirp_auth_suite std_to_str example_uuid example_client (\<lambda>opts. True) id Map.empty = Ret ()"
proof (rule chirp_auth_suite_passes [OF std_to_str_laws])
  show "uuid_vectors example_uuid"
    by (simp add: uuid_vectors_def example_uuid_def test_uuid_def lit_def)
  show "options_laws example_client (\<lambda>opts. True) id"
    by (simp add: options_laws_def example_client_def)
qed

end
