(* ===== verification/Http_Client.thy ===== *)
theory Http_Client
  imports Rust_Str
begin

text \<open>
  What the two HTTP clients share: requests as values, the reply of \<open>reqwest\<close>, and the
  contract of a client bound to a base URL. Sending is a parameter; a call returns the
  requests it sent, in order, with its result.
\<close>

section \<open>JSON values, requests and replies\<close>

datatype json =
    JNull
  | JBool bool
  | JNumber int
  | JString rstr
  | JArray "json list"
  | JObject "(rstr \<times> json) list"

datatype http_verb = GET | POST

record http_request =
  rq_verb :: http_verb
  rq_url :: rstr
  rq_bearer :: rstr
  rq_json :: "json option"

text \<open>A reply: its status code, and its body read as text or decoded as a value.\<close>

record ('e, 'v) http_reply =
  rp_status :: nat
  rp_text :: "'e + rstr"
  rp_json :: "'e + 'v"

type_synonym ('e, 'v) sender = "http_request \<Rightarrow> 'e + ('e, 'v) http_reply"

text \<open>
  \<open>StatusCode::is_success\<close> and \<open>Response::error_for_status\<close> classify the code; the http and
  reqwest crates document them as 2xx, and as an error on 4xx and 5xx.
\<close>

record 'e status_api =
  st_is_success :: "nat \<Rightarrow> bool"
  st_error_for_status :: "nat \<Rightarrow> 'e option"

definition status_laws :: "'e status_api \<Rightarrow> bool" where
  "status_laws T \<longleftrightarrow> st_is_success T = (\<lambda>c. 200 \<le> c \<and> c < 300) \<and>
     (\<forall>c. st_error_for_status T c = None \<longleftrightarrow> \<not> (400 \<le> c \<and> c < 600))"

definition example_status :: "unit status_api" where
  "example_status = \<lparr>st_is_success = (\<lambda>c. 200 \<le> c \<and> c < 300),
     st_error_for_status = (\<lambda>c. if 400 \<le> c \<and> c < 600 then Some () else None)\<rparr>"

lemma example_status_laws: "status_laws example_status"
  by (simp add: status_laws_def example_status_def)

section \<open>A client bound to a base URL\<close>

text \<open>
  What a caller of such a client relies on: the base it keeps is the configured one without
  its trailing slashes. Then no path joined to it doubles a slash, and how many slashes the
  configuration ends with makes no difference.
\<close>

definition slash :: rchar where
  "slash = 47"

lemma lit_slash: "lit ''/'' = [slash]"
  by (simp add: lit_def slash_def)

locale base_url_client =
  fixes make :: "rstr \<Rightarrow> 'c"
    and base :: "'c \<Rightarrow> rstr"
  assumes base_make: "base (make u) = trim_end_matches slash u"
    and base_determines: "base c = base c' \<Longrightarrow> c = c'"
begin

lemma base_no_slash: "base (make u) \<noteq> [] \<Longrightarrow> last (base (make u)) \<noteq> slash"
  by (simp add: base_make trim_end_matches_last)

lemma base_stable: "make (base (make u)) = make u"
  by (rule base_determines)
     (metis base_make trim_end_matches_id trim_end_matches_last)

lemma slashes_ignored: "make (u @ replicate n slash) = make u"
  by (rule base_determines) (simp add: base_make trim_end_matches_def dropWhile_append)

lemma base_prefix: "\<exists>n. u = base (make u) @ replicate n slash"
  unfolding base_make by (rule trim_end_matches_split)

end

end
