(* ===== verification/Json_String.thy ===== *)
theory Json_String
  imports Http_Client Rust_Str
begin

text \<open>
  Strings of JSON (RFC 8259): how a printer writes one, with the short escapes and the
  \<open>\u\<close> form for the other control characters, and a reader that takes every escape of the
  grammar, surrogate pairs among them. Every text of scalar values reads back as itself; the
  printed form is the bare text between quotes exactly for texts without a character that
  needs an escape.
\<close>

section \<open>Printing\<close>

text \<open>A text between double quotes as it stands, as formatting without escapes writes it.\<close>

definition quoted :: "rstr \<Rightarrow> rstr" where
  "quoted s = [34] @ s @ [34]"

text \<open>The characters the grammar allows in a string without an escape; all are scalar values.\<close>

definition plain_char :: "rchar \<Rightarrow> bool" where
  "plain_char c \<longleftrightarrow> 32 \<le> c \<and> c \<noteq> 34 \<and> c \<noteq> 92 \<and> c < 1114112 \<and> \<not> (55296 \<le> c \<and> c < 57344)"

definition plain_str :: "rstr \<Rightarrow> bool" where
  "plain_str s \<longleftrightarrow> list_all plain_char s"

definition lower_hex :: "nat \<Rightarrow> rchar" where
  "lower_hex n = (if n < 10 then 48 + n else 87 + n)"

text \<open>The short escapes: quote, backslash, backspace, form feed, newline, return, tab.\<close>

definition short_escapes :: "(rchar \<times> rchar) list" where
  "short_escapes = [(34, 34), (92, 92), (8, 98), (12, 102), (10, 110), (13, 114), (9, 116)]"

definition escape_char :: "rchar \<Rightarrow> rstr" where
  "escape_char c =
     (case map_of short_escapes c of
        Some e \<Rightarrow> [92, e]
      | None \<Rightarrow> (if c < 32 then [92, 117, 48, 48, lower_hex (c div 16), lower_hex (c mod 16)] else [c]))"

definition escape :: "rstr \<Rightarrow> rstr" where
  "escape s = concat (map escape_char s)"

definition json_string :: "rstr \<Rightarrow> rstr" where
  "json_string s = quoted (escape s)"

section \<open>Reading\<close>

definition hex_value :: "rchar \<Rightarrow> nat option" where
  "hex_value c =
     (if 48 \<le> c \<and> c \<le> 57 then Some (c - 48)
      else if 97 \<le> c \<and> c \<le> 102 then Some (c - 87)
      else if 65 \<le> c \<and> c \<le> 70 then Some (c - 55) else None)"

text \<open>Exactly four hexadecimal digits.\<close>

fun read_hex4 :: "rstr \<Rightarrow> (nat \<times> rstr) option" where
  "read_hex4 (a # b # c # d # r) =
     Option.bind (hex_value a) (\<lambda>i. Option.bind (hex_value b) (\<lambda>j.
     Option.bind (hex_value c) (\<lambda>k. Option.bind (hex_value d) (\<lambda>l.
       Some (((i * 16 + j) * 16 + k) * 16 + l, r)))))"
| "read_hex4 _ = None"

text \<open>A code unit after \<open>\u\<close>: a high surrogate needs its low one in a second escape.\<close>

definition read_unicode :: "rstr \<Rightarrow> (rchar \<times> rstr) option" where
  "read_unicode s =
     Option.bind (read_hex4 s) (\<lambda>(u, r).
       if 55296 \<le> u \<and> u < 56320 then
         Option.bind (strip_prefix [92, 117] r) (\<lambda>r'. Option.bind (read_hex4 r') (\<lambda>(v, r'').
           if 56320 \<le> v \<and> v < 57344 then Some (65536 + (u - 55296) * 1024 + (v - 56320), r'') else None))
       else if 56320 \<le> u \<and> u < 57344 then None
       else Some (u, r))"

definition short_unescapes :: "(rchar \<times> rchar) list" where
  "short_unescapes = (47, 47) # map prod.swap short_escapes"

definition read_escape :: "rstr \<Rightarrow> (rchar \<times> rstr) option" where
  "read_escape s =
     (case s of
        [] \<Rightarrow> None
      | e # r \<Rightarrow> (if e = 117 then read_unicode r
                  else map_option (\<lambda>c. (c, r)) (map_of short_unescapes e)))"

lemma read_hex4_shorter: "read_hex4 s = Some (u, r) \<Longrightarrow> length r < length s"
  by (cases s rule: read_hex4.cases) (auto simp: bind_eq_Some_conv)

lemma read_unicode_shorter: "read_unicode s = Some (c, r) \<Longrightarrow> length r < length s"
  by (fastforce simp: read_unicode_def bind_eq_Some_conv strip_prefix_Some
      dest!: read_hex4_shorter split: if_splits)

lemma read_escape_shorter: "read_escape s = Some (c, r) \<Longrightarrow> length r < length s"
  by (auto simp: read_escape_def split: list.splits if_splits dest: read_unicode_shorter)

text \<open>The rest of a string up to its closing quote.\<close>

function read_chars :: "rstr \<Rightarrow> (rstr \<times> rstr) option" where
  "read_chars [] = None"
| "read_chars (c # s) =
     (if c = 34 then Some ([], s)
      else if c = 92 then
        (case read_escape s of
           None \<Rightarrow> None
         | Some (d, r) \<Rightarrow> map_option (\<lambda>(t, r'). (d # t, r')) (read_chars r))
      else if plain_char c then map_option (\<lambda>(t, r). (c # t, r)) (read_chars s)
      else None)"
  by pat_completeness auto
termination by (relation "measure length") (auto dest: read_escape_shorter)

definition read_quoted :: "rstr \<Rightarrow> (rstr \<times> rstr) option" where
  "read_quoted s = (if s = [] \<or> hd s \<noteq> 34 then None else read_chars (tl s))"

section \<open>The round trip\<close>

lemma hex_value_lower: "n < 16 \<Longrightarrow> hex_value (lower_hex n) = Some n"
  by (simp add: hex_value_def lower_hex_def)

lemma read_escape_escaped:
  assumes "valid_char c" "escape_char c \<noteq> [c]"
  shows "\<exists>e. escape_char c = 92 # e \<and> read_escape (e @ r) = Some (c, r)"
proof (cases "map_of short_escapes c")
  case None
  with assms have c: "c < 32" by (auto simp: escape_char_def split: if_splits)
  then have "c div 16 < 16" by simp
  then have "read_unicode ([48, 48, lower_hex (c div 16), lower_hex (c mod 16)] @ r) = Some (c, r)"
    using c by (simp add: read_unicode_def hex_value_lower hex_value_def [of 48])
  then show ?thesis using None c by (simp add: escape_char_def read_escape_def)
next
  case (Some e)
  then show ?thesis
    by (auto simp: escape_char_def read_escape_def short_escapes_def short_unescapes_def split: if_splits)
qed

lemma escape_char_plain: "valid_char c \<Longrightarrow> escape_char c = [c] \<longleftrightarrow> plain_char c"
  by (auto simp: escape_char_def short_escapes_def plain_char_def valid_char_def split: if_splits)

lemma read_chars_escaped: "valid_str s \<Longrightarrow> read_chars (escape s @ 34 # r) = Some (s, r)"
proof (induction s)
  case (Cons c s)
  then have c: "valid_char c" and IH: "read_chars (escape s @ 34 # r) = Some (s, r)"
    by (simp_all add: valid_str_def)
  show ?case
  proof (cases "escape_char c = [c]")
    case True
    then show ?thesis using IH c escape_char_plain [OF c] by (simp add: escape_def plain_char_def)
  next
    case False
    from read_escape_escaped [OF c this, of "escape s @ 34 # r"] obtain e where
      "escape_char c = 92 # e" "read_escape (e @ escape s @ 34 # r) = Some (c, escape s @ 34 # r)" by auto
    then show ?thesis using IH by (simp add: escape_def)
  qed
qed (simp add: escape_def)

lemma read_quoted_string: "valid_str s \<Longrightarrow> read_quoted (json_string s @ r) = Some (s, r)"
  by (simp add: read_quoted_def json_string_def quoted_def read_chars_escaped)

text \<open>A printed string is the text as it stands exactly if it has no character to escape.\<close>

lemma escape_char_length: "1 \<le> length (escape_char c)"
  by (simp add: escape_char_def split: option.split)

lemma escape_length: "length s \<le> length (escape s)"
  using escape_char_length by (induction s) (auto simp: escape_def intro: order_trans add_mono [of 1])

lemma escape_plain: "valid_str s \<Longrightarrow> escape s = s \<longleftrightarrow> plain_str s"
proof (induction s)
  case (Cons c s)
  have "length (escape_char c) = 1" if "escape (c # s) = c # s"
  proof -
    have "length (escape_char c) + length (escape s) = Suc (length s)"
      using arg_cong [OF that, of length] by (simp add: escape_def)
    then show ?thesis using escape_length [of s] escape_char_length [of c] by simp
  qed
  then have "escape (c # s) = c # s \<longleftrightarrow> escape_char c = [c] \<and> escape s = s"
    by (auto simp: escape_def length_Suc_conv)
  then show ?case using Cons by (simp add: escape_char_plain valid_str_def plain_str_def)
qed (simp add: escape_def plain_str_def)

lemma escape_length_plain: "valid_str s \<Longrightarrow> length (escape s) = length s \<longleftrightarrow> plain_str s"
proof (induction s)
  case (Cons c s)
  have "length (escape_char c) = 1 \<longleftrightarrow> escape_char c = [c]"
    by (auto simp: escape_char_def short_escapes_def split: if_splits)
  then show ?case
    using Cons escape_length [of s] escape_char_length [of c]
    by (auto simp: escape_def escape_char_plain valid_str_def plain_str_def)
qed (simp add: escape_def plain_str_def)

lemma json_string_plain: "valid_str s \<Longrightarrow> json_string s = quoted s \<longleftrightarrow> plain_str s"
  using escape_plain by (simp add: json_string_def quoted_def)

lemma valid_plain: "plain_str s \<Longrightarrow> valid_str s"
  by (auto simp: plain_str_def valid_str_def list_all_iff plain_char_def valid_char_def)

lemma plain_json_string: "plain_str s \<Longrightarrow> json_string s = quoted s"
  by (simp add: json_string_plain valid_plain)

lemma valid_str_simps [simp]:
  "valid_str []" "valid_str (c # s) = (valid_char c \<and> valid_str s)"
  "valid_str (s @ t) = (valid_str s \<and> valid_str t)"
  by (simp_all add: valid_str_def)

lemma valid_escape_char: "valid_char c \<Longrightarrow> valid_str (escape_char c)"
  by (auto simp: escape_char_def short_escapes_def lower_hex_def valid_char_def split: option.split if_splits)

lemma valid_escape: "valid_str s \<Longrightarrow> valid_str (escape s)"
  by (induction s) (auto simp: escape_def valid_escape_char)

lemma valid_json_string: "valid_str s \<Longrightarrow> valid_str (json_string s)"
  by (simp add: json_string_def quoted_def valid_escape) (simp add: valid_char_def)

end
