(* ===== verification/Json_Text.thy ===== *)
theory Json_Text
  imports Json_String
begin

text \<open>
  The compact text of a JSON value (RFC 8259 without insignificant white space) and a reader for
  it, with the round trip as an interpretation of \<open>codec\<close> for all values made of text. The
  crates that print and read JSON are not part of the source; this is the standard's grammar,
  against which the texts that the source formats by hand are judged.
\<close>

section \<open>Printing\<close>

definition show_int :: "int \<Rightarrow> rstr" where
  "show_int i = (if i < 0 then 45 # show_nat (nat (- i)) else show_nat (nat i))"

fun json_text :: "json \<Rightarrow> rstr"
  and items_text :: "json list \<Rightarrow> rstr"
  and fields_text :: "(rstr \<times> json) list \<Rightarrow> rstr" where
  "json_text JNull = lit ''null''"
| "json_text (JBool b) = (if b then lit ''true'' else lit ''false'')"
| "json_text (JNumber i) = show_int i"
| "json_text (JString s) = json_string s"
| "json_text (JArray js) = 91 # items_text js"
| "json_text (JObject fs) = 123 # fields_text fs"
| "items_text [] = [93]"
| "items_text (j # js) = json_text j @ (if js = [] then [93] else 44 # items_text js)"
| "fields_text [] = [125]"
| "fields_text (f # fs) =
     json_string (fst f) @ 58 # json_text (snd f) @ (if fs = [] then [125] else 44 # fields_text fs)"

text \<open>A value made of text: every string of it, the names of fields among them.\<close>

fun json_valid :: "json \<Rightarrow> bool"
  and items_valid :: "json list \<Rightarrow> bool"
  and fields_valid :: "(rstr \<times> json) list \<Rightarrow> bool" where
  "json_valid JNull = True"
| "json_valid (JBool b) = True"
| "json_valid (JNumber i) = True"
| "json_valid (JString s) = valid_str s"
| "json_valid (JArray js) = items_valid js"
| "json_valid (JObject fs) = fields_valid fs"
| "items_valid [] = True"
| "items_valid (j # js) = (json_valid j \<and> items_valid js)"
| "fields_valid [] = True"
| "fields_valid (f # fs) = (valid_str (fst f) \<and> json_valid (snd f) \<and> fields_valid fs)"

section \<open>Reading\<close>

definition is_digit :: "rchar \<Rightarrow> bool" where
  "is_digit c \<longleftrightarrow> 48 \<le> c \<and> c \<le> 57"

definition read_digits :: "rstr \<Rightarrow> (nat \<times> rstr) option" where
  "read_digits s =
     map_option (\<lambda>n. (n, dropWhile is_digit s)) (parse_nat (takeWhile is_digit s))"

definition read_int :: "rstr \<Rightarrow> (int \<times> rstr) option" where
  "read_int s =
     (if s \<noteq> [] \<and> hd s = 45 then map_option (\<lambda>(n, r). (- int n, r)) (read_digits (tl s))
      else map_option (\<lambda>(n, r). (int n, r)) (read_digits s))"

definition read_word :: "rstr \<Rightarrow> (json \<times> rstr) option" where
  "read_word s =
     (case strip_prefix (lit ''null'') s of Some r \<Rightarrow> Some (JNull, r)
      | None \<Rightarrow> (case strip_prefix (lit ''true'') s of Some r \<Rightarrow> Some (JBool True, r)
      | None \<Rightarrow> (case strip_prefix (lit ''false'') s of Some r \<Rightarrow> Some (JBool False, r)
      | None \<Rightarrow> None)))"

fun read_value :: "nat \<Rightarrow> rstr \<Rightarrow> (json \<times> rstr) option"
  and read_items :: "nat \<Rightarrow> rstr \<Rightarrow> (json list \<times> rstr) option"
  and read_fields :: "nat \<Rightarrow> rstr \<Rightarrow> ((rstr \<times> json) list \<times> rstr) option" where
  "read_value 0 s = None"
| "read_value (Suc n) s =
     (if s = [] then None
      else if hd s = 34 then map_option (\<lambda>(b, r). (JString b, r)) (read_quoted s)
      else if hd s = 91 then
        (if tl s \<noteq> [] \<and> hd (tl s) = 93 then Some (JArray [], tl (tl s))
         else map_option (\<lambda>(js, r). (JArray js, r)) (read_items n (tl s)))
      else if hd s = 123 then
        (if tl s \<noteq> [] \<and> hd (tl s) = 125 then Some (JObject [], tl (tl s))
         else map_option (\<lambda>(fs, r). (JObject fs, r)) (read_fields n (tl s)))
      else if hd s = 45 \<or> is_digit (hd s) then map_option (\<lambda>(i, r). (JNumber i, r)) (read_int s)
      else read_word s)"
| "read_items 0 s = None"
| "read_items (Suc n) s =
     (case read_value n s of
        None \<Rightarrow> None
      | Some (j, r) \<Rightarrow>
          (if r = [] then None
           else if hd r = 93 then Some ([j], tl r)
           else if hd r = 44 then map_option (\<lambda>(js, r'). (j # js, r')) (read_items n (tl r))
           else None))"
| "read_fields 0 s = None"
| "read_fields (Suc n) s =
     (case read_quoted s of
        None \<Rightarrow> None
      | Some (k, r) \<Rightarrow>
          (if r = [] \<or> hd r \<noteq> 58 then None
           else (case read_value n (tl r) of
                   None \<Rightarrow> None
                 | Some (j, r') \<Rightarrow>
                     (if r' = [] then None
                      else if hd r' = 125 then Some ([(k, j)], tl r')
                      else if hd r' = 44 then map_option (\<lambda>(fs, r''). ((k, j) # fs, r'')) (read_fields n (tl r'))
                      else None))))"

text \<open>A whole document: one value and nothing after it; the depth is at most its length.\<close>

definition read_document :: "rstr \<Rightarrow> json option" where
  "read_document s =
     (case read_value (length s) s of Some (j, r) \<Rightarrow> (if r = [] then Some j else None) | None \<Rightarrow> None)"

section \<open>The round trip\<close>

text \<open>A text that cannot continue a number.\<close>

definition stops :: "rstr \<Rightarrow> bool" where
  "stops s \<longleftrightarrow> s = [] \<or> \<not> is_digit (hd s)"

lemma stops_simps [simp]: "stops []" "stops (c # s) = (\<not> is_digit c)"
  by (simp_all add: stops_def)

lemma show_nat_is_digits: "list_all is_digit (show_nat n)"
  by (auto simp: list_all_iff is_digit_def dest: show_nat_digits)

lemma while_digits:
  "list_all is_digit ds \<Longrightarrow> stops rest \<Longrightarrow>
     takeWhile is_digit (ds @ rest) = ds \<and> dropWhile is_digit (ds @ rest) = rest"
  by (induction ds) (cases rest; simp add: stops_def)+

lemma read_digits_show: "stops rest \<Longrightarrow> read_digits (show_nat n @ rest) = Some (n, rest)"
  by (simp add: read_digits_def while_digits [OF show_nat_is_digits])

lemma show_nat_Cons: "\<exists>c cs. show_nat n = c # cs \<and> is_digit c"
  using show_nat_is_digits [of n] by (cases "show_nat n") auto

lemma read_int_show: "stops rest \<Longrightarrow> read_int (show_int i @ rest) = Some (i, rest)"
proof (cases "i < 0")
  case True
  then show "stops rest \<Longrightarrow> ?thesis" by (simp add: read_int_def show_int_def read_digits_show)
next
  case False
  obtain c cs where c: "show_nat (nat i) = c # cs" "is_digit c" using show_nat_Cons by blast
  then have "hd (show_nat (nat i) @ rest) \<noteq> 45" by (auto simp: is_digit_def)
  then show "stops rest \<Longrightarrow> ?thesis" using False by (simp add: read_int_def show_int_def read_digits_show)
qed

text \<open>The depth of fuel a value needs.\<close>

fun json_depth :: "json \<Rightarrow> nat"
  and items_depth :: "json list \<Rightarrow> nat"
  and fields_depth :: "(rstr \<times> json) list \<Rightarrow> nat" where
  "json_depth JNull = 1"
| "json_depth (JBool b) = 1"
| "json_depth (JNumber i) = 1"
| "json_depth (JString s) = 1"
| "json_depth (JArray js) = Suc (items_depth js)"
| "json_depth (JObject fs) = Suc (fields_depth fs)"
| "items_depth [] = 0"
| "items_depth (j # js) = Suc (max (json_depth j) (items_depth js))"
| "fields_depth [] = 0"
| "fields_depth (f # fs) = Suc (max (json_depth (snd f)) (fields_depth fs))"

lemma depth_le_length:
  "json_depth j \<le> length (json_text j)"
  "items_depth js \<le> length (items_text js)"
  "fields_depth fs \<le> length (fields_text fs)"
  by (induction j and js and fs rule: json_depth_items_depth_fields_depth.induct)
     (auto simp: lit_def json_string_def quoted_def show_int_def Suc_le_eq)

text \<open>The first character of a value tells the reader which branch to take.\<close>

lemma json_text_starts:
  "\<exists>c cs. json_text j = c # cs \<and> c \<noteq> 93 \<and> c \<noteq> 125"
proof (cases j)
  case (JNumber i)
  obtain c cs where "show_nat (nat i) = c # cs" "is_digit c" using show_nat_Cons by blast
  then show ?thesis by (auto simp: JNumber show_int_def is_digit_def)
qed (auto simp: lit_def json_string_def quoted_def)

lemma read_number:
  assumes "stops rest"
  shows "read_value (Suc n) (show_int i @ rest) = Some (JNumber i, rest)"
proof -
  obtain c cs where "show_int i = c # cs" "c = 45 \<or> is_digit c"
    using show_nat_Cons [of "nat i"] by (cases "i < 0") (auto simp: show_int_def)
  then show ?thesis using read_int_show [OF assms, of i] by (auto simp: is_digit_def)
qed

lemma read_word_simps [simp]:
  "read_value (Suc n) (lit ''null'' @ rest) = Some (JNull, rest)"
  "read_value (Suc n) (lit ''true'' @ rest) = Some (JBool True, rest)"
  "read_value (Suc n) (lit ''false'' @ rest) = Some (JBool False, rest)"
  by (simp_all add: read_word_def lit_def is_digit_def)

lemma read_string_value:
  "valid_str s \<Longrightarrow> read_value (Suc n) (json_string s @ rest) = Some (JString s, rest)"
  using read_quoted_string [of s rest] by (simp add: json_string_def quoted_def)

lemma read_array:
  "js \<noteq> [] \<Longrightarrow> read_items n (items_text js @ rest) = Some (js, rest) \<Longrightarrow>
     read_value (Suc n) (91 # items_text js @ rest) = Some (JArray js, rest)"
  using json_text_starts [of "hd js"] by (cases js) auto

lemma read_object:
  "fs \<noteq> [] \<Longrightarrow> read_fields n (fields_text fs @ rest) = Some (fs, rest) \<Longrightarrow>
     read_value (Suc n) (123 # fields_text fs @ rest) = Some (JObject fs, rest)"
  by (cases fs) (auto simp: json_string_def quoted_def)

lemma read_value_text:
  "json_depth j \<le> n \<Longrightarrow> json_valid j \<Longrightarrow> stops rest \<Longrightarrow>
     read_value n (json_text j @ rest) = Some (j, rest)"
  "js \<noteq> [] \<Longrightarrow> items_depth js \<le> n \<Longrightarrow> items_valid js \<Longrightarrow>
     read_items n (items_text js @ rest) = Some (js, rest)"
  "fs \<noteq> [] \<Longrightarrow> fields_depth fs \<le> n \<Longrightarrow> fields_valid fs \<Longrightarrow>
     read_fields n (fields_text fs @ rest) = Some (fs, rest)"
proof (induction j and js and fs arbitrary: n rest and n rest and n rest
    rule: json_depth_items_depth_fields_depth.induct)
  case 1
  then show ?case by (cases n) (simp_all del: read_value.simps)
next
  case (2 b)
  then show ?case by (cases n) (simp_all del: read_value.simps)
next
  case (3 i)
  then show ?case by (cases n) (simp_all add: read_number del: read_value.simps)
next
  case (4 s)
  then show ?case by (cases n) (simp_all add: read_string_value del: read_value.simps)
next
  case (5 js)
  then obtain m where n: "n = Suc m" by (cases n) simp_all
  show ?case
  proof (cases "js = []")
    case True
    then show ?thesis by (simp add: n)
  next
    case False
    with 5 show ?thesis by (simp add: n read_array del: read_value.simps)
  qed
next
  case (6 fs)
  then obtain m where n: "n = Suc m" by (cases n) simp_all
  show ?case
  proof (cases "fs = []")
    case True
    then show ?thesis by (simp add: n)
  next
    case False
    with 6 show ?thesis by (simp add: n read_object del: read_value.simps)
  qed
next
  case 7
  then show ?case by simp
next
  case (8 j js)
  then obtain m where n: "n = Suc m" by (cases n) simp_all
  with 8 show ?case by (cases "js = []") (simp_all add: is_digit_def)
next
  case 9
  then show ?case by simp
next
  case (10 f fs)
  then obtain m where n: "n = Suc m" by (cases n) simp_all
  with 10 show ?case by (cases f; cases "fs = []") (simp_all add: read_quoted_string is_digit_def)
qed

lemma read_document_text: "json_valid j \<Longrightarrow> read_document (json_text j) = Some j"
  using read_value_text(1) [of j "length (json_text j)" "[]"] depth_le_length(1) [of j]
  by (simp add: read_document_def)

text \<open>What is printed is text: every character of it is a scalar value.\<close>

lemma valid_show_int: "valid_str (show_int i)"
  by (rule valid_str_ascii) (auto simp: show_int_def split: if_splits dest: show_nat_digits)

lemma valid_json_text:
  "json_valid j \<Longrightarrow> valid_str (json_text j)"
  "items_valid js \<Longrightarrow> valid_str (items_text js)"
  "fields_valid fs \<Longrightarrow> valid_str (fields_text fs)"
  by (induction j and js and fs rule: json_depth_items_depth_fields_depth.induct)
     (auto simp: valid_json_string valid_show_int lit_def valid_char_def)

interpretation jsonwire: codec json_text read_document json_valid
  by unfold_locales (rule read_document_text)

end
