(* ===== verification/Testkit.thy ===== *)
theory Testkit
  imports Json_Text Rust_Net
begin

text \<open>
  The token mint of \<open>platform-chirp-auth\<close>'s testkit. The key pair, its signature and the URL-safe
  unpadded base64 of the base64 crate are the record \<open>testkit_api\<close>; \<open>ID_TOKEN_TYP\<close> is the
  library's. The mint writes JSON by formatting, so the claims are text.
\<close>

section \<open>The mint\<close>

definition test_kid :: rstr where
  "test_kid = lit ''platform-testkit-kid-1''"

record testkit_api =
  tk_id_token_typ :: rstr
  tk_b64 :: "bytes \<Rightarrow> rstr"
  tk_sign :: "bytes \<Rightarrow> bytes"
  tk_modulus :: bytes
  tk_exponent :: bytes

definition jwks_body :: "testkit_api \<Rightarrow> rstr" where
  "jwks_body K =
     lit ''{'' @ quoted (lit ''keys'') @ lit '':[{'' @ quoted (lit ''kty'') @ lit '':'' @ quoted (lit ''RSA'')
     @ lit '','' @ quoted (lit ''kid'') @ lit '':'' @ quoted test_kid
     @ lit '','' @ quoted (lit ''alg'') @ lit '':'' @ quoted (lit ''RS256'')
     @ lit '','' @ quoted (lit ''n'') @ lit '':'' @ quoted (tk_b64 K (tk_modulus K))
     @ lit '','' @ quoted (lit ''e'') @ lit '':'' @ quoted (tk_b64 K (tk_exponent K)) @ lit ''}]}''"

text \<open>The reply the key server writes to every request: the body and its length in bytes.\<close>

definition crlf :: rstr where
  "crlf = [13, 10]"

definition jwks_reply :: "rstr \<Rightarrow> rstr" where
  "jwks_reply body =
     lit ''HTTP/1.1 200 OK'' @ crlf @ lit ''Content-Type: application/json'' @ crlf
     @ lit ''Content-Length: '' @ show_nat (length (utf8 body)) @ crlf
     @ lit ''Connection: close'' @ crlf @ crlf @ body"

definition b64_str :: "testkit_api \<Rightarrow> rstr \<Rightarrow> rstr" where
  "b64_str K s = tk_b64 K (utf8 s)"

definition make_jwt :: "testkit_api \<Rightarrow> rstr \<Rightarrow> rstr \<Rightarrow> rstr" where
  "make_jwt K header_json claims_json =
     (let signing_input = b64_str K header_json @ lit ''.'' @ b64_str K claims_json;
          sig = tk_sign K (utf8 signing_input)
      in signing_input @ lit ''.'' @ tk_b64 K sig)"

text \<open>The clock in nanoseconds since the epoch; before it the mint panics.\<close>

definition testkit_now_unix :: "int \<Rightarrow> i64 run" where
  "testkit_now_unix nanos =
     (if 0 \<le> nanos then Ret (word_of_int (nanos div 10 ^ 9)) else Panic ''system clock before epoch'')"

definition token_header :: "testkit_api \<Rightarrow> rstr" where
  "token_header K =
     lit ''{'' @ quoted (lit ''alg'') @ lit '':'' @ quoted (lit ''RS256'')
     @ lit '','' @ quoted (lit ''typ'') @ lit '':'' @ quoted (tk_id_token_typ K)
     @ lit '','' @ quoted (lit ''kid'') @ lit '':'' @ quoted test_kid @ lit ''}''"

text \<open>The four claims both kinds of token start with.\<close>

definition base_claims :: "rstr \<Rightarrow> rstr \<Rightarrow> rstr \<Rightarrow> i64 \<Rightarrow> rstr" where
  "base_claims iss aud sub exp =
     lit ''{'' @ quoted (lit ''iss'') @ lit '':'' @ quoted iss @ lit '','' @ quoted (lit ''sub'') @ lit '':'' @ quoted sub
     @ lit '','' @ quoted (lit ''aud'') @ lit '':'' @ quoted aud @ lit '','' @ quoted (lit ''exp'') @ lit '':'' @ show_i64 exp"

definition human_claims :: "rstr \<Rightarrow> rstr \<Rightarrow> rstr \<Rightarrow> i64 \<Rightarrow> rstr" where
  "human_claims iss aud sub exp = base_claims iss aud sub exp @ lit ''}''"

definition machine_claims :: "rstr \<Rightarrow> rstr \<Rightarrow> rstr \<Rightarrow> rstr \<Rightarrow> i64 \<Rightarrow> rstr" where
  "machine_claims iss aud sub owner_sub exp =
     base_claims iss aud sub exp
     @ lit '','' @ quoted (lit ''act'') @ lit '':'' @ quoted (lit ''machine'')
     @ lit '','' @ quoted (lit ''owner_sub'') @ lit '':'' @ quoted owner_sub @ lit ''}''"

definition mint_human_id_token ::
  "bool \<Rightarrow> testkit_api \<Rightarrow> int \<Rightarrow> rstr \<Rightarrow> rstr \<Rightarrow> rstr \<Rightarrow> rstr run" where
  "mint_human_id_token checks K nanos iss aud sub =
     (let header = token_header K in
      run_bind (testkit_now_unix nanos) (\<lambda>now.
      run_bind (i64_add checks now 3600) (\<lambda>exp.
        Ret (make_jwt K header (human_claims iss aud sub exp)))))"

definition mint_machine_id_token ::
  "bool \<Rightarrow> testkit_api \<Rightarrow> int \<Rightarrow> rstr \<Rightarrow> rstr \<Rightarrow> rstr \<Rightarrow> rstr \<Rightarrow> rstr run" where
  "mint_machine_id_token checks K nanos iss aud sub owner_sub =
     (let header = token_header K in
      run_bind (testkit_now_unix nanos) (\<lambda>now.
      run_bind (i64_add checks now 3600) (\<lambda>exp.
        Ret (make_jwt K header (machine_claims iss aud sub owner_sub exp)))))"

section \<open>Tokens come apart\<close>

text \<open>
  What the base64 crate documents of the URL-safe alphabet and of decoding: letters, digits,
  \<open>-\<close> and \<open>_\<close>, and a left inverse.
\<close>

definition b64_char :: "rchar \<Rightarrow> bool" where
  "b64_char c \<longleftrightarrow> (48 \<le> c \<and> c \<le> 57) \<or> (65 \<le> c \<and> c \<le> 90) \<or> (97 \<le> c \<and> c \<le> 122) \<or> c = 45 \<or> c = 95"

definition b64_laws :: "testkit_api \<Rightarrow> (rstr \<Rightarrow> bytes option) \<Rightarrow> bool" where
  "b64_laws K unb64 \<longleftrightarrow> (\<forall>b. list_all b64_char (tk_b64 K b) \<and> unb64 (tk_b64 K b) = Some b)"

lemma b64_no_dot: "b64_laws K unb64 \<Longrightarrow> 46 \<notin> set (tk_b64 K b)"
  by (fastforce simp: b64_laws_def list_all_iff b64_char_def)

lemma plain_b64: "b64_laws K unb64 \<Longrightarrow> plain_str (tk_b64 K b)"
  by (fastforce simp: b64_laws_def list_all_iff b64_char_def plain_str_def plain_char_def)

lemma split_char_append:
  "c \<notin> set p \<Longrightarrow> split_char c (p @ c # s) = p # split_char c s"
  by (induction p) auto

lemma split_char_alone: "c \<notin> set p \<Longrightarrow> split_char c p = [p]"
  by (induction p) auto

lemma split_jwt:
  assumes "b64_laws K unb64"
  shows "split_char 46 (make_jwt K h c) =
    [b64_str K h, b64_str K c, tk_b64 K (tk_sign K (utf8 (b64_str K h @ lit ''.'' @ b64_str K c)))]"
  using assms
  by (simp add: make_jwt_def Let_def b64_no_dot lit_def b64_str_def split_char_append split_char_alone)

section \<open>The texts are the JSON they mean\<close>

definition jwks_json_of :: "rstr \<Rightarrow> testkit_api \<Rightarrow> json" where
  "jwks_json_of kid K = JObject [(lit ''keys'', JArray [JObject
     [(lit ''kty'', JString (lit ''RSA'')), (lit ''kid'', JString kid),
      (lit ''alg'', JString (lit ''RS256'')), (lit ''n'', JString (tk_b64 K (tk_modulus K))),
      (lit ''e'', JString (tk_b64 K (tk_exponent K)))]])]"

definition jwks_json :: "testkit_api \<Rightarrow> json" where
  "jwks_json K = jwks_json_of test_kid K"

definition header_json :: "testkit_api \<Rightarrow> json" where
  "header_json K = JObject
     [(lit ''alg'', JString (lit ''RS256'')), (lit ''typ'', JString (tk_id_token_typ K)),
      (lit ''kid'', JString test_kid)]"

definition human_json :: "rstr \<Rightarrow> rstr \<Rightarrow> rstr \<Rightarrow> i64 \<Rightarrow> json" where
  "human_json iss aud sub exp = JObject
     [(lit ''iss'', JString iss), (lit ''sub'', JString sub), (lit ''aud'', JString aud),
      (lit ''exp'', JNumber (sint exp))]"

definition machine_json :: "rstr \<Rightarrow> rstr \<Rightarrow> rstr \<Rightarrow> rstr \<Rightarrow> i64 \<Rightarrow> json" where
  "machine_json iss aud sub owner_sub exp = JObject
     [(lit ''iss'', JString iss), (lit ''sub'', JString sub), (lit ''aud'', JString aud),
      (lit ''exp'', JNumber (sint exp)), (lit ''act'', JString (lit ''machine'')),
      (lit ''owner_sub'', JString owner_sub)]"

lemma show_int_i64: "show_int (sint w) = show_i64 w"
  by (simp add: show_int_def show_i64_def)

lemma punctuation:
  "lit ''{'' = [123]" "lit ''}'' = [125]" "lit '':'' = [58]" "lit '','' = [44]"
  "lit '':[{'' = [58, 91, 123]" "lit ''}]}'' = [125, 93, 125]"
  by (simp_all add: lit_def)

text \<open>The names and the fixed values have no character to escape, so they print as formatted.\<close>

lemma plain_lits:
  "plain_str (lit ''iss'')" "plain_str (lit ''sub'')" "plain_str (lit ''aud'')" "plain_str (lit ''exp'')"
  "plain_str (lit ''act'')" "plain_str (lit ''owner_sub'')" "plain_str (lit ''machine'')"
  "plain_str (lit ''keys'')" "plain_str (lit ''kty'')" "plain_str (lit ''RSA'')" "plain_str (lit ''kid'')"
  "plain_str (lit ''alg'')" "plain_str (lit ''RS256'')" "plain_str (lit ''n'')" "plain_str (lit ''e'')"
  "plain_str (lit ''typ'')" "plain_str test_kid"
  by (simp_all add: plain_str_def plain_char_def test_kid_def lit_def)

lemmas print_plain = plain_lits [THEN plain_json_string]

text \<open>What JSON prints for the claims: the formatted text with its arguments escaped.\<close>

lemma human_json_text:
  "json_text (human_json iss aud sub exp) = human_claims (escape iss) (escape aud) (escape sub) exp"
  by (simp add: human_claims_def base_claims_def human_json_def show_int_i64 punctuation print_plain)
     (simp add: json_string_def)

lemma machine_json_text:
  "json_text (machine_json iss aud sub owner_sub exp) =
     machine_claims (escape iss) (escape aud) (escape sub) (escape owner_sub) exp"
  by (simp add: machine_claims_def base_claims_def machine_json_def show_int_i64 punctuation print_plain)
     (simp add: json_string_def)

lemma plain_escape: "plain_str s \<Longrightarrow> escape s = s"
  by (simp add: escape_plain valid_plain)

lemma human_claims_json:
  "plain_str iss \<Longrightarrow> plain_str aud \<Longrightarrow> plain_str sub \<Longrightarrow>
     human_claims iss aud sub exp = json_text (human_json iss aud sub exp)"
  by (simp add: human_json_text plain_escape)

lemma machine_claims_json:
  "plain_str iss \<Longrightarrow> plain_str aud \<Longrightarrow> plain_str sub \<Longrightarrow> plain_str owner_sub \<Longrightarrow>
     machine_claims iss aud sub owner_sub exp = json_text (machine_json iss aud sub owner_sub exp)"
  by (simp add: machine_json_text plain_escape)

lemma token_header_json:
  "plain_str (tk_id_token_typ K) \<Longrightarrow> token_header K = json_text (header_json K)"
  by (simp add: token_header_def header_json_def punctuation print_plain plain_json_string)

lemma jwks_body_json: "b64_laws K unb64 \<Longrightarrow> jwks_body K = json_text (jwks_json K)"
  by (simp add: jwks_body_def jwks_json_def jwks_json_of_def punctuation print_plain plain_json_string [OF plain_b64])

lemma valid_human:
  "valid_str iss \<Longrightarrow> valid_str aud \<Longrightarrow> valid_str sub \<Longrightarrow> json_valid (human_json iss aud sub exp)"
  by (simp add: human_json_def plain_lits valid_plain)

lemma valid_machine:
  "valid_str iss \<Longrightarrow> valid_str aud \<Longrightarrow> valid_str sub \<Longrightarrow> valid_str owner_sub \<Longrightarrow>
     json_valid (machine_json iss aud sub owner_sub exp)"
  by (simp add: machine_json_def plain_lits valid_plain)

section \<open>The clock and the mint\<close>

text \<open>The clocks, in nanoseconds, on which the mint works: the epoch to the year 10^11.\<close>

definition mint_clock :: "int \<Rightarrow> bool" where
  "mint_clock nanos \<longleftrightarrow> 0 \<le> nanos \<and> nanos div 10 ^ 9 \<le> 2 ^ 62"

definition hour_later :: "int \<Rightarrow> i64" where
  "hour_later nanos = word_of_int (nanos div 10 ^ 9 + 3600)"

lemma mint_hour:
  assumes "mint_clock nanos"
  shows "run_bind (testkit_now_unix nanos) (\<lambda>now. run_bind (i64_add checks now 3600) f) = f (hour_later nanos)"
proof -
  define now where "now = nanos div 10 ^ 9"
  have n: "0 \<le> now" "now \<le> 2 ^ 62"
    using assms by (simp_all add: now_def mint_clock_def pos_imp_zdiv_nonneg_iff)
  then have "i64_add checks (word_of_int now) 3600 = Ret (word_of_int (now + 3600))"
    using i64_add_ok [of now 3600 checks] by (simp add: i64_min_def i64_max_def)
  moreover have "testkit_now_unix nanos = Ret (word_of_int now)"
    using assms by (simp add: testkit_now_unix_def now_def mint_clock_def)
  ultimately show ?thesis by (simp only: run_bind_simps hour_later_def now_def [symmetric])
qed

lemma sint_hour_later: "mint_clock nanos \<Longrightarrow> sint (hour_later nanos) = nanos div 10 ^ 9 + 3600"
proof -
  assume a: "mint_clock nanos"
  define now where "now = nanos div 10 ^ 9"
  have "0 \<le> now" "now \<le> 2 ^ 62"
    using a by (simp_all add: now_def mint_clock_def pos_imp_zdiv_nonneg_iff)
  then show ?thesis
    unfolding hour_later_def now_def [symmetric]
    by (intro sint_of_int_i64) (simp_all add: i64_min_def i64_max_def)
qed

lemma mint_human:
  "mint_clock nanos \<Longrightarrow> mint_human_id_token checks K nanos iss aud sub =
     Ret (make_jwt K (token_header K) (human_claims iss aud sub (hour_later nanos)))"
  by (simp only: mint_human_id_token_def Let_def mint_hour)

lemma mint_machine:
  "mint_clock nanos \<Longrightarrow> mint_machine_id_token checks K nanos iss aud sub owner_sub =
     Ret (make_jwt K (token_header K) (machine_claims iss aud sub owner_sub (hour_later nanos)))"
  by (simp only: mint_machine_id_token_def Let_def mint_hour)

lemma human_json_hour:
  "mint_clock nanos \<Longrightarrow> human_json iss aud sub (hour_later nanos) = JObject
     [(lit ''iss'', JString iss), (lit ''sub'', JString sub), (lit ''aud'', JString aud),
      (lit ''exp'', JNumber (nanos div 10 ^ 9 + 3600))]"
  by (simp only: human_json_def sint_hour_later)

lemma machine_json_hour:
  "mint_clock nanos \<Longrightarrow> machine_json iss aud sub owner_sub (hour_later nanos) = JObject
     [(lit ''iss'', JString iss), (lit ''sub'', JString sub), (lit ''aud'', JString aud),
      (lit ''exp'', JNumber (nanos div 10 ^ 9 + 3600)), (lit ''act'', JString (lit ''machine'')),
      (lit ''owner_sub'', JString owner_sub)]"
  by (simp only: machine_json_def sint_hour_later)

text \<open>What a reader of a token sees: its claims as a JSON value, and the signed text.\<close>

definition token_claims :: "(rstr \<Rightarrow> bytes option) \<Rightarrow> rstr \<Rightarrow> json \<Rightarrow> bool" where
  "token_claims unb64 token j \<longleftrightarrow>
     (\<exists>h c s t. split_char 46 token = [h, c, s] \<and> unb64 c = Some (utf8 t) \<and>
        valid_str t \<and> read_document t = Some j)"

definition token_signed :: "testkit_api \<Rightarrow> (rstr \<Rightarrow> bytes option) \<Rightarrow> rstr \<Rightarrow> rstr \<Rightarrow> bool" where
  "token_signed K unb64 header token \<longleftrightarrow>
     (\<exists>h c s. split_char 46 token = [h, c, s] \<and> unb64 h = Some (utf8 header) \<and>
        unb64 s = Some (tk_sign K (utf8 (h @ lit ''.'' @ c))))"

lemma unb64_str: "b64_laws K unb64 \<Longrightarrow> unb64 (b64_str K x) = Some (utf8 x)"
  by (simp add: b64_laws_def b64_str_def)

lemma jwt_claims:
  "b64_laws K unb64 \<Longrightarrow> json_valid j \<Longrightarrow> token_claims unb64 (make_jwt K h (json_text j)) j"
  by (auto simp: token_claims_def split_jwt unb64_str intro: read_document_text valid_json_text)

lemma human_jwt_claims:
  "b64_laws K unb64 \<Longrightarrow> plain_str iss \<Longrightarrow> plain_str aud \<Longrightarrow> plain_str sub \<Longrightarrow>
     token_claims unb64 (make_jwt K h (human_claims iss aud sub exp)) (human_json iss aud sub exp)"
  by (simp add: human_claims_json jwt_claims valid_human valid_plain)

lemma machine_jwt_claims:
  "b64_laws K unb64 \<Longrightarrow> plain_str iss \<Longrightarrow> plain_str aud \<Longrightarrow> plain_str sub \<Longrightarrow> plain_str owner_sub \<Longrightarrow>
     token_claims unb64 (make_jwt K h (machine_claims iss aud sub owner_sub exp))
       (machine_json iss aud sub owner_sub exp)"
  by (simp add: machine_claims_json jwt_claims valid_machine valid_plain)

lemma jwt_signed: "b64_laws K unb64 \<Longrightarrow> token_signed K unb64 h (make_jwt K h c)"
  by (auto simp: token_signed_def split_jwt unb64_str) (simp add: b64_laws_def)

section \<open>Properties\<close>

text \<open>
  C12: the claims of a minted machine token read back: for identifiers without quotes,
  backslashes or control characters the token comes apart at its dots, is signed over its
  first two parts as they stand, and its second part decodes to a text whose JSON is exactly
  the issuer, the agent, the audience, an expiry an hour after the clock, the machine mark and
  the owner; the mint panics on no clock of the next hundred billion years, whichever way
  arithmetic is compiled.
\<close>

theorem machine_token_reads_back:
  assumes "b64_laws K unb64" "mint_clock nanos"
    and "plain_str iss" "plain_str aud" "plain_str sub" "plain_str owner_sub"
  shows "\<exists>token. mint_machine_id_token checks K nanos iss aud sub owner_sub = Ret token \<and>
    token_signed K unb64 (token_header K) token \<and>
    token_claims unb64 token (JObject
      [(lit ''iss'', JString iss), (lit ''sub'', JString sub), (lit ''aud'', JString aud),
       (lit ''exp'', JNumber (nanos div 10 ^ 9 + 3600)), (lit ''act'', JString (lit ''machine'')),
       (lit ''owner_sub'', JString owner_sub)])"
  using machine_jwt_claims [OF assms(1,3-6), of "token_header K" "hour_later nanos"]
    jwt_signed [OF assms(1)] mint_machine [OF assms(2)]
  unfolding machine_json_hour [OF assms(2)] by blast

text \<open>An instance: two letters of the alphabet for each byte, and a signature that is the text.\<close>

definition example_b64 :: "bytes \<Rightarrow> rstr" where
  "example_b64 bs = concat (map (\<lambda>b. [97 + unat b div 16, 97 + unat b mod 16]) bs)"

fun example_unb64 :: "rstr \<Rightarrow> bytes option" where
  "example_unb64 [] = Some []"
| "example_unb64 [c] = None"
| "example_unb64 (c # d # s) =
     map_option ((#) (of_nat ((c - 97) * 16 + (d - 97)))) (example_unb64 s)"

definition example_testkit :: testkit_api where
  "example_testkit = \<lparr>tk_id_token_typ = lit ''chirp-id+jwt'', tk_b64 = example_b64,
     tk_sign = id, tk_modulus = [1], tk_exponent = [3]\<rparr>"

lemma example_b64_laws: "b64_laws example_testkit example_unb64"
proof -
  have "list_all b64_char (example_b64 b)" for b
  proof (induction b)
    case (Cons x b)
    have "unat x < 256" using unsigned_less [of x] by simp
    then have "unat x div 16 < 16" by (simp add: less_mult_imp_div_less)
    moreover have "unat x mod 16 < 16" by simp
    ultimately show ?case using Cons by (simp add: example_b64_def b64_char_def)
  qed (simp add: example_b64_def)
  moreover have "example_unb64 (example_b64 b) = Some b" for b
    by (induction b) (simp_all add: example_b64_def)
  ultimately show ?thesis by (simp add: b64_laws_def example_testkit_def)
qed

theorem machine_token_reads_back_witness:
  "\<exists>token. mint_machine_id_token True example_testkit 0 [] [] (lit ''agent'') [] = Ret token \<and>
     token_signed example_testkit example_unb64 (token_header example_testkit) token"
  using machine_token_reads_back [OF example_b64_laws, of 0 "[]" "[]" "lit ''agent''" "[]" True]
  by (auto simp: mint_clock_def plain_str_def plain_char_def lit_def)

text \<open>
  The claims of a minted human token read back in the same way, and there is no machine
  mark among them.
\<close>

theorem human_token_reads_back:
  assumes "b64_laws K unb64" "mint_clock nanos" "plain_str iss" "plain_str aud" "plain_str sub"
  shows "\<exists>token. mint_human_id_token checks K nanos iss aud sub = Ret token \<and>
    token_signed K unb64 (token_header K) token \<and>
    token_claims unb64 token (JObject
      [(lit ''iss'', JString iss), (lit ''sub'', JString sub), (lit ''aud'', JString aud),
       (lit ''exp'', JNumber (nanos div 10 ^ 9 + 3600))])"
  using human_jwt_claims [OF assms(1,3-5), of "token_header K" "hour_later nanos"]
    jwt_signed [OF assms(1)] mint_human [OF assms(2)]
  unfolding human_json_hour [OF assms(2)] by blast

theorem human_token_reads_back_witness:
  "\<exists>token. mint_human_id_token True example_testkit 0 [] [] (lit ''alice'') = Ret token \<and>
     token_signed example_testkit example_unb64 (token_header example_testkit) token"
  using human_token_reads_back [OF example_b64_laws, of 0 "[]" "[]" "lit ''alice''" True]
  by (auto simp: mint_clock_def plain_str_def plain_char_def lit_def)

section \<open>Formatting without escapes\<close>

lemma claims_length:
  "length (human_claims iss aud sub exp) =
     length iss + length aud + length sub + length (human_claims [] [] [] exp)"
  by (simp add: human_claims_def base_claims_def quoted_def)

text \<open>
  C32: the mint formats its arguments without escaping: the claims of a human token are the JSON they
  mean exactly if no argument has a character that JSON escapes.
\<close>

theorem human_claims_json_iff:
  assumes "valid_str iss" "valid_str aud" "valid_str sub"
  shows "human_claims iss aud sub exp = json_text (human_json iss aud sub exp) \<longleftrightarrow>
    plain_str iss \<and> plain_str aud \<and> plain_str sub"
proof
  assume "human_claims iss aud sub exp = json_text (human_json iss aud sub exp)"
  then have "length iss + length aud + length sub =
      length (escape iss) + length (escape aud) + length (escape sub)"
    using claims_length [of iss aud sub exp] claims_length [of "escape iss" "escape aud" "escape sub" exp]
    by (simp add: human_json_text)
  then have "length (escape iss) = length iss" "length (escape aud) = length aud" "length (escape sub) = length sub"
    using escape_length [of iss] escape_length [of aud] escape_length [of sub] by simp_all
  then show "plain_str iss \<and> plain_str aud \<and> plain_str sub" by (simp add: assms escape_length_plain)
qed (simp add: human_claims_json)

theorem human_claims_json_iff_witness:
  "human_claims [] [] [34] 0 \<noteq> json_text (human_json [] [] [34] 0)"
  using human_claims_json_iff [of "[]" "[]" "[34]" 0]
  by (simp add: plain_str_def plain_char_def valid_char_def)

text \<open>
  A subject that closes its own quotes puts the machine mark into the claims of a human token,
  which the documentation says has none.
\<close>

definition spliced_subject :: "rstr \<Rightarrow> rstr" where
  "spliced_subject s =
     s @ [34] @ lit '','' @ quoted (lit ''act'') @ lit '':'' @ [34] @ lit ''machine''"

theorem human_claims_splice:
  assumes "plain_str iss" "plain_str aud" "plain_str s"
  shows "human_claims iss aud (spliced_subject s) exp = json_text (JObject
     [(lit ''iss'', JString iss), (lit ''sub'', JString s), (lit ''act'', JString (lit ''machine'')),
      (lit ''aud'', JString aud), (lit ''exp'', JNumber (sint exp))])"
  by (simp add: human_claims_def base_claims_def spliced_subject_def show_int_i64 punctuation print_plain
      plain_json_string assms)
     (simp add: quoted_def)

end
