(* ===== verification/Http_Reply.thy ===== *)
theory Http_Reply
  imports Testkit Rust_Net
begin

text \<open>
  The bytes of an HTTP/1.1 reply as a client reads them: the lines of the head, the length the
  head declares, and the body. The key server's reply is read back by it, and a reply that was
  cut off anywhere is recognised as incomplete.
\<close>

section \<open>Reading a reply\<close>

text \<open>A line of the head and what follows it; then all lines up to the empty one.\<close>

fun read_line :: "rstr \<Rightarrow> (rstr \<times> rstr) option" where
  "read_line [] = None"
| "read_line (c # cs) =
     (case strip_prefix crlf (c # cs) of
        Some r \<Rightarrow> Some ([], r)
      | None \<Rightarrow> map_option (\<lambda>(l, r). (c # l, r)) (read_line cs))"

lemma read_line_shorter: "read_line s = Some (l, r) \<Longrightarrow> length r < length s"
proof (induction s arbitrary: l r)
  case (Cons c cs)
  show ?case
  proof (cases "strip_prefix crlf (c # cs)")
    case None
    with Cons.prems obtain l' where "read_line cs = Some (l', r)" by auto
    from Cons.IH [OF this] show ?thesis by simp
  next
    case (Some r')
    with Cons.prems have "r' = r" by simp
    with Some have "c # cs = crlf @ r" by (simp only: strip_prefix_Some)
    then show ?thesis by (auto simp: crlf_def)
  qed
qed simp

function read_head :: "rstr \<Rightarrow> (rstr list \<times> rstr) option" where
  "read_head s =
     (case read_line s of
        None \<Rightarrow> None
      | Some (l, r) \<Rightarrow>
          (if l = [] then Some ([], r) else map_option (\<lambda>(ls, b). (l # ls, b)) (read_head r)))"
  by pat_completeness auto
termination by (relation "measure length") (auto intro: read_line_shorter)

declare read_head.simps [simp del]

definition header_value :: "rstr \<Rightarrow> rstr list \<Rightarrow> rstr option" where
  "header_value name ls =
     (case List.map_filter (strip_prefix (name @ lit '': '')) ls of [] \<Rightarrow> None | v # vs \<Rightarrow> Some v)"

text \<open>A reply is complete when its body has exactly the length the head declares.\<close>

definition complete_reply :: "bytes \<Rightarrow> (rstr \<times> bytes) option" where
  "complete_reply w =
     (case read_head (map unat w) of
        None \<Rightarrow> None
      | Some (ls, body) \<Rightarrow>
          (if ls \<noteq> [] \<and> Option.bind (header_value (lit ''Content-Length'') ls) parse_nat = Some (length body)
           then Some (hd ls, map of_nat body) else None))"

section \<open>The key server's reply\<close>

lemma read_line_crlf: "13 \<notin> set l \<Longrightarrow> read_line (l @ crlf @ r) = Some (l, r)"
  by (induction l) (auto simp: crlf_def)

lemma read_head_line:
  "13 \<notin> set l \<Longrightarrow> l \<noteq> [] \<Longrightarrow>
     read_head (l @ crlf @ r) = map_option (\<lambda>(ls, b). (l # ls, b)) (read_head r)"
  by (subst read_head.simps) (simp add: read_line_crlf)

lemma read_head_end: "read_head (crlf @ r) = Some ([], r)"
  using read_line_crlf [of "[]" r] by (subst read_head.simps) simp

lemma show_nat_no_cr: "13 \<notin> set (show_nat n)"
  using show_nat_digits by fastforce

definition reply_head :: "nat \<Rightarrow> rstr list" where
  "reply_head n = [lit ''HTTP/1.1 200 OK'', lit ''Content-Type: application/json'',
     lit ''Content-Length: '' @ show_nat n, lit ''Connection: close'']"

text \<open>The head is ASCII, so its bytes are its characters.\<close>

lemma unat_ascii: "\<forall>c \<in> set s. c < 128 \<Longrightarrow> map unat (utf8 s) = s"
  by (auto simp: utf8_ascii unat_of_nat intro!: map_idI)

lemma unat_lits:
  "map unat (utf8 (lit ''HTTP/1.1 200 OK'')) = lit ''HTTP/1.1 200 OK''"
  "map unat (utf8 (lit ''Content-Type: application/json'')) = lit ''Content-Type: application/json''"
  "map unat (utf8 (lit ''Content-Length: '')) = lit ''Content-Length: ''"
  "map unat (utf8 (lit ''Connection: close'')) = lit ''Connection: close''"
  "map unat (utf8 crlf) = crlf" "map unat (utf8 (show_nat n)) = show_nat n"
  by (rule unat_ascii; force simp: lit_def crlf_def dest: show_nat_digits)+

lemma reply_bytes_head:
  "read_head (map unat (utf8 (jwks_reply body))) =
     Some (reply_head (length (utf8 body)), map unat (utf8 body))"
proof -
  have "13 \<notin> set (lit ''HTTP/1.1 200 OK'')" "13 \<notin> set (lit ''Content-Type: application/json'')"
    "13 \<notin> set (lit ''Content-Length: '' @ show_nat (length (utf8 body)))"
    "13 \<notin> set (lit ''Connection: close'')"
    using show_nat_no_cr by (simp_all add: lit_def)
  moreover have "lit ''HTTP/1.1 200 OK'' \<noteq> []" "lit ''Content-Type: application/json'' \<noteq> []"
    "lit ''Connection: close'' \<noteq> []" by (simp_all add: lit_def)
  ultimately show ?thesis
    using read_head_line [of "lit ''Content-Length: '' @ show_nat (length (utf8 body))"]
    by (simp add: jwks_reply_def reply_head_def read_head_line read_head_end unat_lits)
qed

lemma reply_head_length:
  "reply_head n \<noteq> [] \<and> hd (reply_head n) = lit ''HTTP/1.1 200 OK'' \<and>
   Option.bind (header_value (lit ''Content-Length'') (reply_head n)) parse_nat = Some n"
  by (simp add: reply_head_def header_value_def map_filter_simps lit_def)

lemma reply_complete:
  "complete_reply (utf8 (jwks_reply body)) = Some (lit ''HTTP/1.1 200 OK'', utf8 body)"
  by (simp add: complete_reply_def reply_bytes_head reply_head_length o_def)

section \<open>Cut off replies\<close>

text \<open>More bytes never change what was read: they only lengthen the rest.\<close>

lemma strip_crlf_more: "strip_prefix crlf s = Some r \<Longrightarrow> strip_prefix crlf (s @ t) = Some (r @ t)"
  by (simp add: strip_prefix_Some)

lemma read_line_more: "read_line s = Some (l, r) \<Longrightarrow> read_line (s @ t) = Some (l, r @ t)"
proof (induction s arbitrary: l)
  case (Cons c cs)
  show ?case
  proof (cases "strip_prefix crlf (c # cs)")
    case None
    with Cons.prems obtain l' where l': "read_line cs = Some (l', r)" "l = c # l'" by auto
    then have "cs \<noteq> []" by auto
    with None have "strip_prefix crlf (c # cs @ t) = None" by (cases cs) (auto simp: crlf_def split: if_splits)
    with Cons.IH [OF l'(1)] l'(2) show ?thesis by simp
  next
    case (Some r')
    with Cons.prems strip_crlf_more [OF Some, of t] show ?thesis by simp
  qed
qed simp

lemma read_head_more: "read_head s = Some (ls, b) \<Longrightarrow> read_head (s @ t) = Some (ls, b @ t)"
proof (induction s arbitrary: ls rule: read_head.induct)
  case (1 s)
  obtain l r where line: "read_line s = Some (l, r)"
    using 1(2) by (subst (asm) read_head.simps) (auto split: option.splits)
  show ?case
    using 1(2) 1(1) [OF line refl]
    by (subst (asm) (1) read_head.simps, subst read_head.simps) (auto simp: line read_line_more [OF line] split: if_splits)
qed

lemma cut_reply:
  assumes "sent @ rest = utf8 (jwks_reply body)"
  shows "complete_reply sent =
    (if rest = [] then Some (lit ''HTTP/1.1 200 OK'', utf8 body) else None)"
proof (cases "rest = []")
  case False
  show ?thesis
  proof (cases "read_head (map unat sent)")
    case (Some p)
    obtain ls b where p: "p = (ls, b)" by fastforce
    have "read_head (map unat (sent @ rest)) = Some (ls, b @ map unat rest)"
      using read_head_more [OF Some [unfolded p], of "map unat rest"] by simp
    then have "ls = reply_head (length (utf8 body))" "b @ map unat rest = map unat (utf8 body)"
      unfolding assms reply_bytes_head by simp_all
    then have "ls = reply_head (length (utf8 body))" "length b < length (utf8 body)"
      using False by (metis length_map length_append less_add_same_cancel1 length_greater_0_conv)+
    then show ?thesis using False by (simp add: complete_reply_def Some p reply_head_length)
  qed (simp add: complete_reply_def False)
qed (use assms reply_complete in simp)

end
