(* ===== verification/Key_Pair.thy ===== *)
theory Key_Pair
  imports Testkit
begin

text \<open>
  The testkit's key pair: one \<open>OnceLock\<close> of the process, filled by the first call that needs it,
  and the functions that read it (publishing, signing, minting), as runs over the cell. Calls of
  concurrent tests interleave, and each fills or reads the cell in one step, so a process is a
  sequence of calls; a call that panics ends its own test only. The rsa crate is the record
  \<open>rsa_api\<close>.
\<close>

section \<open>The cell\<close>

text \<open>A run over the cell: its value or its panic, and the cell after it.\<close>

type_synonym ('key, 'a) cell_run = "'key option \<Rightarrow> 'a run \<times> 'key option"

definition cell_ret :: "'a run \<Rightarrow> ('key, 'a) cell_run" where
  "cell_ret r cell = (r, cell)"

definition cell_bind :: "('key, 'a) cell_run \<Rightarrow> ('a \<Rightarrow> ('key, 'b) cell_run) \<Rightarrow> ('key, 'b) cell_run" where
  "cell_bind m f cell = (case m cell of (Ret x, cell') \<Rightarrow> f x cell' | (Panic e, cell') \<Rightarrow> (Panic e, cell'))"

text \<open>
  \<open>OnceLock::get_or_init\<close> with an initialiser that can panic; \<open>generate\<close> is what generating would
  give. A panic leaves the cell empty.
\<close>

definition get_or_init :: "string \<Rightarrow> ('e + 'key) \<Rightarrow> ('key, 'key) cell_run" where
  "get_or_init message generate cell =
     (case cell of
        Some k \<Rightarrow> (Ret k, Some k)
      | None \<Rightarrow> (case generate of
            Inl e \<Rightarrow> (Panic message, None)
          | Inr k \<Rightarrow> (Ret k, Some k)))"

definition keypair :: "('e + 'key) \<Rightarrow> ('key, 'key) cell_run" where
  "keypair generate = get_or_init ''generate testkit RSA key'' generate"

text \<open>The key a call finds or generates, when generating succeeds.\<close>

definition key_of :: "'key option \<Rightarrow> 'key \<Rightarrow> 'key" where
  "key_of cell k = (case cell of Some k' \<Rightarrow> k' | None \<Rightarrow> k)"

lemma get_or_init_key: "get_or_init message (Inr k) cell = (Ret (key_of cell k), Some (key_of cell k))"
  by (simp add: get_or_init_def key_of_def split: option.split)

lemma key_of_Some [simp]: "key_of (Some k) k' = k"
  by (simp add: key_of_def)

section \<open>Publishing and signing\<close>

text \<open>A signature takes randomness; it is checked against the modulus and the exponent.\<close>

record ('key, 'rng) rsa_api =
  rsa_n :: "'key \<Rightarrow> bytes"
  rsa_e :: "'key \<Rightarrow> bytes"
  rsa_sign :: "'key \<Rightarrow> 'rng \<Rightarrow> bytes \<Rightarrow> bytes"
  rsa_verify :: "bytes \<Rightarrow> bytes \<Rightarrow> bytes \<Rightarrow> bytes \<Rightarrow> bool"

definition rsa_laws :: "('key, 'rng) rsa_api \<Rightarrow> bool" where
  "rsa_laws R \<longleftrightarrow> (\<forall>k rng m. rsa_verify R (rsa_n R k) (rsa_e R k) m (rsa_sign R k rng m))"

text \<open>The testkit with a key in its cell, and with the randomness of one signature.\<close>

definition keyed :: "testkit_api \<Rightarrow> ('key, 'rng) rsa_api \<Rightarrow> 'key \<Rightarrow> 'rng \<Rightarrow> testkit_api" where
  "keyed K R k rng =
     K\<lparr>tk_sign := rsa_sign R k rng, tk_modulus := rsa_n R k, tk_exponent := rsa_e R k\<rparr>"

definition testkit_sign :: "('key, 'rng) rsa_api \<Rightarrow> ('e + 'key) \<Rightarrow> 'rng \<Rightarrow> bytes \<Rightarrow> ('key, bytes) cell_run" where
  "testkit_sign R generate rng signing_input =
     cell_bind (keypair generate) (\<lambda>k. cell_ret (Ret (rsa_sign R k rng signing_input)))"

definition jwks_of_process ::
  "testkit_api \<Rightarrow> ('key, 'rng) rsa_api \<Rightarrow> ('e + 'key) \<Rightarrow> ('key, rstr) cell_run" where
  "jwks_of_process K R generate =
     cell_bind (keypair generate) (\<lambda>k. cell_ret (Ret (jwks_body
       (K\<lparr>tk_modulus := rsa_n R k, tk_exponent := rsa_e R k\<rparr>))))"

definition jwt_of_process ::
  "testkit_api \<Rightarrow> ('key, 'rng) rsa_api \<Rightarrow> ('e + 'key) \<Rightarrow> 'rng \<Rightarrow> rstr \<Rightarrow> rstr \<Rightarrow> ('key, rstr) cell_run" where
  "jwt_of_process K R generate rng header claims =
     (let signing_input = b64_str K header @ lit ''.'' @ b64_str K claims
      in cell_bind (testkit_sign R generate rng (utf8 signing_input))
           (\<lambda>sig. cell_ret (Ret (signing_input @ lit ''.'' @ tk_b64 K sig))))"

text \<open>The calls a test makes; the expiry is worked out, and can panic, before the key is needed.\<close>

datatype test_call =
    StartJwksServer
  | MintHuman int rstr rstr rstr
  | MintMachine int rstr rstr rstr rstr

definition mint_of_process ::
  "bool \<Rightarrow> testkit_api \<Rightarrow> ('key, 'rng) rsa_api \<Rightarrow> ('e + 'key) \<Rightarrow> 'rng \<Rightarrow> int \<Rightarrow> (i64 \<Rightarrow> rstr)
     \<Rightarrow> ('key, rstr) cell_run" where
  "mint_of_process checks K R generate rng nanos claims =
     (let header = token_header K in
      cell_bind (cell_ret (testkit_now_unix nanos)) (\<lambda>now.
      cell_bind (cell_ret (i64_add checks now 3600)) (\<lambda>exp.
        jwt_of_process K R generate rng header (claims exp))))"

fun testkit_call ::
  "bool \<Rightarrow> testkit_api \<Rightarrow> ('key, 'rng) rsa_api \<Rightarrow> ('e + 'key) \<Rightarrow> 'rng \<Rightarrow> test_call
     \<Rightarrow> ('key, rstr) cell_run" where
  "testkit_call checks K R generate rng StartJwksServer = jwks_of_process K R generate"
| "testkit_call checks K R generate rng (MintHuman nanos iss aud sub) =
     mint_of_process checks K R generate rng nanos (human_claims iss aud sub)"
| "testkit_call checks K R generate rng (MintMachine nanos iss aud sub owner_sub) =
     mint_of_process checks K R generate rng nanos (machine_claims iss aud sub owner_sub)"

text \<open>A process: each call with what generating and the randomness would give it.\<close>

fun testkit_process ::
  "bool \<Rightarrow> testkit_api \<Rightarrow> ('key, 'rng) rsa_api \<Rightarrow> (('e + 'key) \<times> 'rng \<times> test_call) list
     \<Rightarrow> 'key option \<Rightarrow> rstr run list" where
  "testkit_process checks K R [] cell = []"
| "testkit_process checks K R ((generate, rng, call) # calls) cell =
     (let (r, cell') = testkit_call checks K R generate rng call cell
      in r # testkit_process checks K R calls cell')"

section \<open>One key\<close>

lemma cell_simps [simp]:
  "cell_bind (cell_ret (Ret x)) f = f x" "cell_bind (cell_ret (Panic e)) f = cell_ret (Panic e)"
  "cell_ret r cell = (r, cell)"
  by (simp_all add: fun_eq_iff cell_bind_def cell_ret_def)

lemma keypair_filled: "keypair g (Some k) = (Ret k, Some k)"
  by (simp add: keypair_def get_or_init_def)

text \<open>With a key in the cell every call is the pure one, and the key stays.\<close>

lemma jwt_filled:
  "jwt_of_process K R g rng h c (Some k) = (Ret (make_jwt (keyed K R k rng) h c), Some k)"
  by (simp add: jwt_of_process_def testkit_sign_def cell_bind_def keypair_filled make_jwt_def keyed_def b64_str_def Let_def)

lemma jwks_filled: "jwks_of_process K R g (Some k) = (Ret (jwks_body (keyed K R k rng)), Some k)"
  by (simp add: jwks_of_process_def cell_bind_def keypair_filled jwks_body_def keyed_def)

lemma mint_filled:
  "mint_of_process checks K R g rng nanos claims (Some k) =
     (run_bind (testkit_now_unix nanos) (\<lambda>now. run_bind (i64_add checks now 3600) (\<lambda>exp.
        Ret (make_jwt (keyed K R k rng) (token_header K) (claims exp)))), Some k)"
proof (cases "testkit_now_unix nanos")
  case (Ret now)
  then show ?thesis by (cases "i64_add checks now 3600") (simp_all add: mint_of_process_def jwt_filled)
qed (simp add: mint_of_process_def)

lemma token_header_keyed: "token_header (keyed K R k rng) = token_header K"
  by (simp add: token_header_def keyed_def)

definition keyed_call :: "bool \<Rightarrow> testkit_api \<Rightarrow> test_call \<Rightarrow> rstr run" where
  "keyed_call checks K call =
     (case call of
        StartJwksServer \<Rightarrow> Ret (jwks_body K)
      | MintHuman nanos iss aud sub \<Rightarrow> mint_human_id_token checks K nanos iss aud sub
      | MintMachine nanos iss aud sub owner_sub \<Rightarrow>
          mint_machine_id_token checks K nanos iss aud sub owner_sub)"

lemma call_filled:
  "testkit_call checks K R g rng call (Some k) = (keyed_call checks (keyed K R k rng) call, Some k)"
  by (cases call) (simp_all add: keyed_call_def jwks_filled mint_filled mint_human_id_token_def
      mint_machine_id_token_def token_header_keyed Let_def)

lemma minted_filled:
  "mint_clock nanos \<Longrightarrow> testkit_call checks K R g rng (MintHuman nanos iss aud sub) (Some k) =
     (Ret (make_jwt (keyed K R k rng) (token_header K) (human_claims iss aud sub (hour_later nanos))), Some k)"
  "mint_clock nanos \<Longrightarrow> testkit_call checks K R g rng (MintMachine nanos iss aud sub owner_sub) (Some k) =
     (Ret (make_jwt (keyed K R k rng) (token_header K) (machine_claims iss aud sub owner_sub (hour_later nanos))),
      Some k)"
  unfolding call_filled by (simp_all add: keyed_call_def mint_human mint_machine token_header_keyed)

text \<open>A call in a process with an empty cell fills it and is the pure call, or panics.\<close>

lemma jwt_empty:
  "jwt_of_process K R (Inr k) rng h c None = (Ret (make_jwt (keyed K R k rng) h c), Some k)"
  "\<exists>e. jwt_of_process K R (Inl x) rng h c None = (Panic e, None)"
  by (simp_all add: jwt_of_process_def testkit_sign_def cell_bind_def keypair_def get_or_init_def make_jwt_def keyed_def b64_str_def Let_def)

lemma jwks_empty:
  "jwks_of_process K R (Inr k) None = (Ret (jwks_body (keyed K R k rng)), Some k)"
  "\<exists>e. jwks_of_process K R (Inl x) None = (Panic e, None)"
  by (simp_all add: jwks_of_process_def cell_bind_def keypair_def get_or_init_def jwks_body_def keyed_def)

lemma mint_no_key: "\<exists>e. mint_of_process checks K R (Inl x) rng nanos claims None = (Panic e, None)"
proof (cases "testkit_now_unix nanos")
  case (Ret now)
  then show ?thesis by (cases "i64_add checks now 3600") (simp_all add: mint_of_process_def jwt_empty)
qed (simp add: mint_of_process_def)

lemma mint_empty:
  "mint_of_process checks K R (Inr k) rng nanos claims None =
     (run_bind (testkit_now_unix nanos) (\<lambda>now. run_bind (i64_add checks now 3600) (\<lambda>exp.
        Ret (make_jwt (keyed K R k rng) (token_header K) (claims exp)))), Some k) \<or>
   (\<exists>e. mint_of_process checks K R (Inr k) rng nanos claims None = (Panic e, None))"
proof (cases "testkit_now_unix nanos")
  case (Ret now)
  then show ?thesis by (cases "i64_add checks now 3600") (simp_all add: mint_of_process_def jwt_empty)
qed (simp add: mint_of_process_def)

lemma call_empty:
  "testkit_call checks K R (Inr k) rng call None = (keyed_call checks (keyed K R k rng) call, Some k) \<or>
   (\<exists>e. testkit_call checks K R (Inr k) rng call None = (Panic e, None))"
  "\<exists>e. testkit_call checks K R (Inl x) rng call None = (Panic e, None)"
  by (cases call; simp add: mint_empty mint_no_key keyed_call_def jwks_empty mint_human_id_token_def
      mint_machine_id_token_def token_header_keyed Let_def)+

text \<open>So one key explains every result of a process.\<close>

definition with_key :: "bool \<Rightarrow> testkit_api \<Rightarrow> ('key, 'rng) rsa_api \<Rightarrow> 'key
     \<Rightarrow> rstr run \<Rightarrow> ('e + 'key) \<times> 'rng \<times> test_call \<Rightarrow> bool" where
  "with_key checks K R k r c \<longleftrightarrow>
     (\<exists>e. r = Panic e) \<or> r = keyed_call checks (keyed K R k (fst (snd c))) (snd (snd c))"

lemma process_filled:
  "list_all2 (with_key checks K R k) (testkit_process checks K R calls (Some k)) calls"
  by (induction calls) (auto simp: call_filled with_key_def)

lemma process_one_key:
  "\<exists>k. list_all2 (with_key checks K R k) (testkit_process checks K R calls None) calls"
proof (induction calls)
  case (Cons c calls)
  obtain g rng call where c: "c = (g, rng, call)" by (cases c)
  show ?case
  proof (cases "\<exists>e. testkit_call checks K R g rng call None = (Panic e, None)")
    case True
    then obtain e where "testkit_call checks K R g rng call None = (Panic e, None)" by blast
    with Cons show ?thesis by (auto simp: c with_key_def)
  next
    case False
    have "g \<noteq> Inl x" for x using False call_empty(2) [of checks K R x rng call] by auto
    then obtain k where g: "g = Inr k" by (cases g) auto
    then have "testkit_call checks K R g rng call None = (keyed_call checks (keyed K R k rng) call, Some k)"
      using False call_empty(1) [of checks K R k rng call] by auto
    moreover have "with_key checks K R k (keyed_call checks (keyed K R k rng) call) c"
      by (simp add: c with_key_def)
    ultimately show ?thesis using process_filled [of checks K R k calls]
      by (auto simp: c intro!: exI [of _ k])
  qed
qed simp

section \<open>What a verifier does with it\<close>

text \<open>The key a reader takes from the published document, and a token checked against it.\<close>

definition json_member :: "rstr \<Rightarrow> json \<Rightarrow> json option" where
  "json_member name j = (case j of JObject fs \<Rightarrow> map_of fs name | _ \<Rightarrow> None)"

definition json_bytes :: "(rstr \<Rightarrow> bytes option) \<Rightarrow> rstr \<Rightarrow> json \<Rightarrow> bytes option" where
  "json_bytes unb64 name j =
     (case json_member name j of Some (JString s) \<Rightarrow> unb64 s | _ \<Rightarrow> None)"

definition published_key :: "(rstr \<Rightarrow> bytes option) \<Rightarrow> rstr \<Rightarrow> (bytes \<times> bytes) option" where
  "published_key unb64 body =
     (case Option.bind (read_document body) (json_member (lit ''keys'')) of
        Some (JArray [k]) \<Rightarrow>
          Option.bind (json_bytes unb64 (lit ''n'') k) (\<lambda>n. map_option (Pair n) (json_bytes unb64 (lit ''e'') k))
      | _ \<Rightarrow> None)"

definition token_verifies :: "('key, 'rng) rsa_api \<Rightarrow> (rstr \<Rightarrow> bytes option) \<Rightarrow> bytes \<times> bytes \<Rightarrow> rstr \<Rightarrow> bool" where
  "token_verifies R unb64 key token =
     (case split_char 46 token of
        [h, c, s] \<Rightarrow> (case unb64 s of
            Some sig \<Rightarrow> rsa_verify R (fst key) (snd key) (utf8 (h @ lit ''.'' @ c)) sig
          | None \<Rightarrow> False)
      | _ \<Rightarrow> False)"

lemma valid_jwks: "b64_laws K unb64 \<Longrightarrow> plain_str kid \<Longrightarrow> json_valid (jwks_json_of kid K)"
  by (simp add: jwks_json_of_def valid_plain plain_lits plain_b64)

lemma published_json:
  assumes "b64_laws K unb64" "plain_str kid"
  shows "published_key unb64 (json_text (jwks_json_of kid K)) = Some (tk_modulus K, tk_exponent K)"
proof -
  have doc: "read_document (json_text (jwks_json_of kid K)) = Some (jwks_json_of kid K)"
    by (simp add: read_document_text valid_jwks [OF assms])
  have dec: "unb64 (tk_b64 K b) = Some b" for b using assms(1) by (simp add: b64_laws_def)
  show ?thesis
    unfolding published_key_def unfolding doc unfolding jwks_json_of_def
    by (simp add: json_member_def json_bytes_def dec) (simp add: lit_def dec)
qed

lemma published_jwks:
  "b64_laws K unb64 \<Longrightarrow> published_key unb64 (jwks_body K) = Some (tk_modulus K, tk_exponent K)"
  by (simp add: jwks_body_json jwks_json_def published_json plain_lits)

lemma keyed_laws: "b64_laws K unb64 \<Longrightarrow> b64_laws (keyed K R k rng) unb64"
  by (simp add: b64_laws_def keyed_def)

lemma keyed_verifies:
  assumes "b64_laws K unb64" "rsa_laws R"
  shows "token_verifies R unb64 (rsa_n R k, rsa_e R k) (make_jwt (keyed K R k rng) h c)"
proof -
  have "unb64 (tk_b64 K b) = Some b" for b using assms(1) by (simp add: b64_laws_def)
  then show ?thesis
    using assms(2) split_jwt [OF keyed_laws [OF assms(1)], of R k rng h c]
    by (simp add: token_verifies_def rsa_laws_def) (simp add: keyed_def)
qed

lemma mint_is_jwt:
  "mint_human_id_token checks K nanos iss aud sub = Ret t \<Longrightarrow> \<exists>h c. t = make_jwt K h c"
  "mint_machine_id_token checks K nanos iss aud sub owner = Ret t \<Longrightarrow> \<exists>h c. t = make_jwt K h c"
  by (auto simp: mint_human_id_token_def mint_machine_id_token_def Let_def run_bind_Ret)

text \<open>
  C7: one key for the life of the process: in any process, whatever its calls, their interleaving,
  the panics among them and the keys that generating would have given, every token it mints, of
  either kind, before or after, is signed by the key of every key set it publishes.
\<close>

theorem minted_verify_under_published:
  assumes "b64_laws K unb64" "rsa_laws R"
    and "i < length calls" "snd (snd (calls ! i)) = StartJwksServer"
    and "testkit_process checks K R calls None ! i = Ret body"
    and "j < length calls" "snd (snd (calls ! j)) \<noteq> StartJwksServer"
    and "testkit_process checks K R calls None ! j = Ret token"
  shows "\<exists>key. published_key unb64 body = Some key \<and> token_verifies R unb64 key token"
proof -
  obtain k where k: "list_all2 (with_key checks K R k) (testkit_process checks K R calls None) calls"
    using process_one_key [of checks K R calls] by blast
  have "body = jwks_body (keyed K R k (fst (snd (calls ! i))))"
    using list_all2_nthD2 [OF k assms(3)] assms(4,5) by (simp add: with_key_def keyed_call_def)
  then have "published_key unb64 body = Some (rsa_n R k, rsa_e R k)"
    using published_jwks [OF keyed_laws [OF assms(1)]] by (simp add: keyed_def)
  moreover have "\<exists>h c. token = make_jwt (keyed K R k (fst (snd (calls ! j)))) h c"
    using list_all2_nthD2 [OF k assms(6)] assms(7,8)
    by (auto simp: with_key_def keyed_call_def split: test_call.splits dest: mint_is_jwt [OF sym])
  ultimately show ?thesis using keyed_verifies [OF assms(1,2)] by blast
qed

lemma published_by_process:
  assumes "jwks_of_process K R g cell = (Ret body, cell')"
  shows "\<exists>k. cell' = Some k \<and> (\<forall>rng. body = jwks_body (keyed K R k rng))"
proof (cases cell)
  case None
  show ?thesis
  proof (cases g)
    case (Inl x)
    then show ?thesis using assms None jwks_empty(2) [of K R x] by auto
  next
    case (Inr k)
    have "jwks_of_process K R g cell = (Ret (jwks_body (keyed K R k rng)), Some k)" for rng
      unfolding Inr None by (rule jwks_empty(1))
    with assms show ?thesis by simp
  qed
next
  case (Some k)
  have "jwks_of_process K R g cell = (Ret (jwks_body (keyed K R k rng)), Some k)" for rng
    unfolding Some by (rule jwks_filled)
  with assms show ?thesis by simp
qed

text \<open>The first call fails to generate, the second generates, the third finds the key there.\<close>

definition example_rsa :: "(u8, unit) rsa_api" where
  "example_rsa = \<lparr>rsa_n = (\<lambda>k. [k]), rsa_e = (\<lambda>k. [3]), rsa_sign = (\<lambda>k rng m. m @ [k]),
     rsa_verify = (\<lambda>n e m s. s = m @ n)\<rparr>"

definition example_calls :: "((unit + u8) \<times> unit \<times> test_call) list" where
  "example_calls = [(Inl (), (), StartJwksServer), (Inr 7, (), MintHuman 0 [] [] []),
     (Inr 9, (), StartJwksServer)]"

lemma example_rsa_laws: "rsa_laws example_rsa"
  by (simp add: rsa_laws_def example_rsa_def)

theorem minted_verify_under_published_witness:
  "\<exists>token body key.
     testkit_process True example_testkit example_rsa example_calls None =
       [Panic ''generate testkit RSA key'', Ret token, Ret body] \<and>
     published_key example_unb64 body = Some key \<and> token_verifies example_rsa example_unb64 key token"
proof -
  have "testkit_now_unix 0 = Ret 0" by (simp add: testkit_now_unix_def)
  moreover have "i64_add True 0 3600 = Ret 3600" by (simp add: i64_add_def i64_min_def i64_max_def)
  ultimately have minted: "mint_of_process True example_testkit example_rsa (Inr 7) () 0 claims None =
      (Ret (make_jwt (keyed example_testkit example_rsa 7 ()) (token_header example_testkit) (claims 3600)), Some 7)"
    for claims by (simp add: mint_of_process_def jwt_empty Let_def)
  have failed: "jwks_of_process example_testkit example_rsa (Inl ()) None = (Panic ''generate testkit RSA key'', None)"
    by (simp add: jwks_of_process_def cell_bind_def keypair_def get_or_init_def)
  obtain token body where "testkit_process True example_testkit example_rsa example_calls None =
      [Panic ''generate testkit RSA key'', Ret token, Ret body]"
    by (simp add: example_calls_def failed minted jwks_filled [where rng = "()"])
  then show ?thesis
    using minted_verify_under_published [OF example_b64_laws example_rsa_laws, of 2 example_calls True body 1 token]
    by (auto simp: example_calls_def)
qed

end
