(* ===== verification/Fair_Runs.thy ===== *)
theory Fair_Runs
  imports Main
begin

text \<open>
  Infinite runs of a step relation and weak fairness of one of its actions, with the rule that
  gives liveness from them: a situation that no step leaves except for the goal, and in which a
  fair action stays possible and reaches the goal, leads to the goal.
\<close>

text \<open>A run takes a step or stands still at each instant.\<close>

definition steps_run :: "('s \<Rightarrow> 's \<Rightarrow> bool) \<Rightarrow> (nat \<Rightarrow> 's) \<Rightarrow> bool" where
  "steps_run step r \<longleftrightarrow> (\<forall>n. step (r n) (r (Suc n)) \<or> r (Suc n) = r n)"

definition enabled :: "('s \<Rightarrow> 's \<Rightarrow> bool) \<Rightarrow> 's \<Rightarrow> bool" where
  "enabled act s \<longleftrightarrow> (\<exists>s'. act s s')"

text \<open>Weak fairness: an action that from some instant on is always possible is taken.\<close>

definition weakly_fair :: "('s \<Rightarrow> 's \<Rightarrow> bool) \<Rightarrow> (nat \<Rightarrow> 's) \<Rightarrow> bool" where
  "weakly_fair act r \<longleftrightarrow>
     (\<forall>n. (\<forall>m \<ge> n. enabled act (r m)) \<longrightarrow> (\<exists>m \<ge> n. act (r m) (r (Suc m))))"

lemma run_reaches: "steps_run step r \<Longrightarrow> n \<le> m \<Longrightarrow> step\<^sup>*\<^sup>* (r n) (r m)"
proof (induction m)
  case (Suc m)
  have "step (r m) (r (Suc m)) \<or> r (Suc m) = r m" using Suc.prems(1) by (simp add: steps_run_def)
  then have "step\<^sup>*\<^sup>* (r m) (r (Suc m))" by auto
  with Suc show ?case by (cases "n = Suc m") (auto intro: rtranclp_trans)
qed simp

locale fair_progress =
  fixes step :: "'s \<Rightarrow> 's \<Rightarrow> bool"
    and act :: "'s \<Rightarrow> 's \<Rightarrow> bool"
    and here :: "'s \<Rightarrow> bool"
    and goal :: "'s \<Rightarrow> bool"
  assumes stays: "here s \<Longrightarrow> step s s' \<Longrightarrow> here s' \<or> goal s'"
    and helps: "here s \<Longrightarrow> act s s' \<Longrightarrow> goal s'"
    and able: "here s \<Longrightarrow> enabled act s"
begin

lemma waits:
  assumes "steps_run step r" "here (r n)" "\<forall>m > n. \<not> goal (r m)"
  shows "here (r (n + k))"
proof (induction k)
  case (Suc k)
  have "step (r (n + k)) (r (Suc (n + k))) \<or> r (Suc (n + k)) = r (n + k)"
    using assms(1) by (simp add: steps_run_def)
  then have "here (r (Suc (n + k))) \<or> goal (r (Suc (n + k)))" using Suc stays by metis
  then show ?case using assms(3) by auto
qed (simp add: assms(2))

lemma leads_to:
  assumes "steps_run step r" "weakly_fair act r" "here (r n)"
  shows "\<exists>m > n. goal (r m)"
proof (rule ccontr)
  assume never: "\<not> ?thesis"
  then have stuck: "here (r m)" if "n \<le> m" for m
    using waits [OF assms(1,3), of "m - n"] that by simp
  then have "\<forall>m \<ge> n. enabled act (r m)" using able by blast
  then obtain m where m: "n \<le> m" "act (r m) (r (Suc m))"
    using assms(2) unfolding weakly_fair_def by blast
  then have "goal (r (Suc m))" using helps stuck by blast
  with never m(1) show False using le_imp_less_Suc by blast
qed

end

end
