(* ===== verification/Key_Server.thy ===== *)
theory Key_Server
  imports Http_Reply Key_Pair Fair_Runs Socket_Parse
begin

text \<open>
  The testkit's local key server and its client configuration. The listener is a
  source of accepted connections, numbered in that order; each becomes a task of its own that
  waits for its peer, writes the reply and shuts the connection down. The server is a step
  relation in which accepting, failing to accept, the peers and the tasks interleave in any
  order. What a task reads, and whether its write succeeds, the source ignores.
\<close>

section \<open>The configuration and the URL\<close>

text \<open>\<open>ChirpAuthConfig::new\<close> and \<open>with_jwks_uri\<close> are chirp-auth-client's.\<close>

definition testkit_config ::
  "(rstr \<Rightarrow> rstr \<Rightarrow> 'cfg) \<Rightarrow> ('cfg \<Rightarrow> rstr \<Rightarrow> 'cfg) \<Rightarrow> rstr \<Rightarrow> rstr \<Rightarrow> rstr \<Rightarrow> 'cfg" where
  "testkit_config config_new with_jwks_uri iss aud jwks_url = with_jwks_uri (config_new iss aud) jwks_url"

definition jwks_url :: "socket_addr \<Rightarrow> rstr" where
  "jwks_url addr = lit ''http://'' @ show_socket_addr addr @ lit ''/jwks.json''"

text \<open>Binding the listener and reading its address can panic, and so can the first call for the key.\<close>

definition start_jwks_server ::
  "('b + 'listener) \<Rightarrow> ('listener \<Rightarrow> 'b + socket_addr) \<Rightarrow> testkit_api \<Rightarrow> ('key, 'rng) rsa_api \<Rightarrow> ('e + 'key)
     \<Rightarrow> ('key, 'listener \<times> rstr \<times> rstr) cell_run" where
  "start_jwks_server bind local_addr K R generate =
     (case bind of
        Inl e \<Rightarrow> cell_ret (Panic ''bind testkit jwks listener'')
      | Inr listener \<Rightarrow>
          (case local_addr listener of
             Inl e \<Rightarrow> cell_ret (Panic ''testkit jwks local_addr'')
           | Inr addr \<Rightarrow> cell_bind (jwks_of_process K R generate)
               (\<lambda>body. cell_ret (Ret (listener, body, jwks_url addr)))))"

section \<open>The accept loop and its tasks\<close>

text \<open>
  Where a task stands: its read waits for the peer; the peer has sent something, closed or
  failed, so the read can return; the read has returned and the reply is to be written; the
  write has returned and the connection is to be shut down; the task has ended.
\<close>

datatype task_phase = Waiting | Heard | Replying | Closing | Finished

record key_server =
  ks_accepting :: bool
  ks_tasks :: "task_phase list"
  ks_written :: "(nat \<times> bytes) list"

definition key_server_start :: key_server where
  "key_server_start = \<lparr>ks_accepting = True, ks_tasks = [], ks_written = []\<rparr>"

abbreviation in_phase :: "nat \<Rightarrow> task_phase \<Rightarrow> key_server \<Rightarrow> bool" where
  "in_phase i p s \<equiv> i < length (ks_tasks s) \<and> ks_tasks s ! i = p"

definition move_task :: "nat \<Rightarrow> task_phase \<Rightarrow> key_server \<Rightarrow> key_server" where
  "move_task i p s = s\<lparr>ks_tasks := (ks_tasks s)[i := p]\<rparr>"

text \<open>
  The steps of the task of connection \<open>i\<close>. Its write sends the whole reply, or fails after some
  first part of it.
\<close>

inductive task_step :: "rstr \<Rightarrow> nat \<Rightarrow> key_server \<Rightarrow> key_server \<Rightarrow> bool"
  for body i where
  read_returns: "in_phase i Heard s \<Longrightarrow> task_step body i s (move_task i Replying s)"
| write_returns: "in_phase i Replying s \<Longrightarrow> sent @ rest = utf8 (jwks_reply body) \<Longrightarrow>
      task_step body i s ((move_task i Closing s)\<lparr>ks_written := ks_written s @ [(i, sent)]\<rparr>)"
| shut_down: "in_phase i Closing s \<Longrightarrow> task_step body i s (move_task i Finished s)"

inductive key_server_step :: "rstr \<Rightarrow> key_server \<Rightarrow> key_server \<Rightarrow> bool"
  for body where
  accepted: "ks_accepting s \<Longrightarrow>
      key_server_step body s (s\<lparr>ks_tasks := ks_tasks s @ [Waiting]\<rparr>)"
| accept_failed: "ks_accepting s \<Longrightarrow> key_server_step body s (s\<lparr>ks_accepting := False\<rparr>)"
| peer_speaks: "in_phase i Waiting s \<Longrightarrow> key_server_step body s (move_task i Heard s)"
| task_runs: "task_step body i s s' \<Longrightarrow> key_server_step body s s'"

abbreviation key_server_reach :: "rstr \<Rightarrow> key_server \<Rightarrow> key_server \<Rightarrow> bool" where
  "key_server_reach body \<equiv> (key_server_step body)\<^sup>*\<^sup>*"

lemma move_task_simps [simp]:
  "ks_tasks (move_task i p s) = (ks_tasks s)[i := p]" "ks_written (move_task i p s) = ks_written s"
  by (simp_all add: move_task_def)

lemma server_step_cases [consumes 1, case_names accepted accept_failed speaks reads writes shuts]:
  assumes "key_server_step body s s'"
  obtains "s' = s\<lparr>ks_tasks := ks_tasks s @ [Waiting]\<rparr>"
  | "s' = s\<lparr>ks_accepting := False\<rparr>"
  | i where "in_phase i Waiting s" "s' = move_task i Heard s"
  | i where "in_phase i Heard s" "s' = move_task i Replying s"
  | i sent rest where "in_phase i Replying s" "sent @ rest = utf8 (jwks_reply body)"
      "s' = (move_task i Closing s)\<lparr>ks_written := ks_written s @ [(i, sent)]\<rparr>"
  | i where "in_phase i Closing s" "s' = move_task i Finished s"
  using assms by (elim key_server_step.cases task_step.cases) auto

section \<open>What is written\<close>

lemma filter_fst_distinct:
  "distinct (map fst xs) \<Longrightarrow> (k, v) \<in> set xs \<Longrightarrow> filter (\<lambda>x. fst x = k) xs = [(k, v)]"
proof (induction xs)
  case (Cons x xs)
  then show ?case by (cases x; cases "fst x = k") (auto simp: filter_empty_conv intro: rev_image_eqI)
qed simp

text \<open>
  Exactly the connections whose write has returned have something written, each once, and that
  is a first part of the reply.
\<close>

definition written_inv :: "rstr \<Rightarrow> key_server \<Rightarrow> bool" where
  "written_inv body s \<longleftrightarrow>
     distinct (map fst (ks_written s)) \<and>
     (\<forall>i. i \<in> fst ` set (ks_written s) \<longleftrightarrow> in_phase i Closing s \<or> in_phase i Finished s) \<and>
     (\<forall>w \<in> set (ks_written s). \<exists>rest. snd w @ rest = utf8 (jwks_reply body))"

lemma written_inv_start: "written_inv body key_server_start"
  by (simp add: written_inv_def key_server_start_def)

lemma written_inv_step: "key_server_step body s s' \<Longrightarrow> written_inv body s \<Longrightarrow> written_inv body s'"
  by (cases rule: server_step_cases, assumption)
     (auto simp: written_inv_def nth_append nth_list_update less_Suc_eq)

interpretation written: relation_invariant "key_server_step body" "written_inv body" for body
  by unfold_locales (rule written_inv_step)

section \<open>What becomes of a connection\<close>

text \<open>A task leaves a phase only for the next one, and its own next step is possible.\<close>

lemma phase_stays:
  "in_phase i Heard s \<Longrightarrow> key_server_step body s s' \<Longrightarrow> in_phase i Heard s' \<or> in_phase i Replying s'"
  "in_phase i Replying s \<Longrightarrow> key_server_step body s s' \<Longrightarrow> in_phase i Replying s' \<or> in_phase i Closing s'"
  "in_phase i Closing s \<Longrightarrow> key_server_step body s s' \<Longrightarrow> in_phase i Closing s' \<or> in_phase i Finished s'"
  by (cases rule: server_step_cases, assumption; force simp: nth_append nth_list_update)+

lemma phase_helps:
  "in_phase i Heard s \<Longrightarrow> task_step body i s s' \<Longrightarrow> in_phase i Replying s'"
  "in_phase i Replying s \<Longrightarrow> task_step body i s s' \<Longrightarrow> in_phase i Closing s'"
  "in_phase i Closing s \<Longrightarrow> task_step body i s s' \<Longrightarrow> in_phase i Finished s'"
  by (auto elim!: task_step.cases)

lemma phase_able:
  "in_phase i Heard s \<Longrightarrow> enabled (task_step body i) s"
  "in_phase i Replying s \<Longrightarrow> enabled (task_step body i) s"
  "in_phase i Closing s \<Longrightarrow> enabled (task_step body i) s"
  unfolding enabled_def
  by (blast intro: read_returns write_returns [where sent = "utf8 (jwks_reply body)" and rest = "[]", simplified]
      shut_down)+

interpretation reading: fair_progress "key_server_step body" "task_step body i"
  "in_phase i Heard" "in_phase i Replying" for body i
  by unfold_locales (rule phase_stays phase_helps phase_able; assumption)+

interpretation replying: fair_progress "key_server_step body" "task_step body i"
  "in_phase i Replying" "in_phase i Closing" for body i
  by unfold_locales (rule phase_stays phase_helps phase_able; assumption)+

interpretation closing: fair_progress "key_server_step body" "task_step body i"
  "in_phase i Closing" "in_phase i Finished" for body i
  by unfold_locales (rule phase_stays phase_helps phase_able; assumption)+

lemma heard_finishes:
  assumes "steps_run (key_server_step body) r" "weakly_fair (task_step body i) r" "in_phase i Heard (r n)"
  shows "\<exists>m. in_phase i Finished (r m)"
  using reading.leads_to [OF assms] replying.leads_to [OF assms(1,2)] closing.leads_to [OF assms(1,2)]
  by meson

lemma only_heard_moves:
  assumes "steps_run (key_server_step body) r" "r 0 = key_server_start"
  shows "in_phase i p (r n) \<Longrightarrow> p \<noteq> Waiting \<Longrightarrow> \<exists>m. in_phase i Heard (r m)"
proof (induction n arbitrary: p)
  case 0
  then show ?case by (simp add: assms(2) key_server_start_def)
next
  case (Suc n)
  have "key_server_step body (r n) (r (Suc n)) \<or> r (Suc n) = r n"
    using assms(1) by (simp add: steps_run_def)
  then have "p = Heard \<or> (\<exists>q. in_phase i q (r n) \<and> q \<noteq> Waiting)"
  proof
    assume "key_server_step body (r n) (r (Suc n))"
    then show ?thesis using Suc.prems
      by (cases rule: server_step_cases) (auto simp: nth_append nth_list_update less_Suc_eq split: if_splits)
  qed (use Suc.prems in auto)
  with Suc show ?case by blast
qed

section \<open>Properties\<close>

text \<open>
  C17: in whatever order the key server accepts connections, fails to accept, hears its peers and
  lets its tasks run, and wherever a write fails, every connection gets at most one reply: a
  reply that was written to its end is complete, the length in its head exactly the length of
  its body, its status 200 and its body the text of the key set, and one that was cut off, at
  whatever byte, is never taken for complete.
\<close>

theorem key_server_replies_complete:
  assumes "b64_laws K unb64"
    and "key_server_reach (jwks_body K) key_server_start s" "(i, sent) \<in> set (ks_written s)"
  shows "filter (\<lambda>w. fst w = i) (ks_written s) = [(i, sent)] \<and>
    (\<exists>rest. sent @ rest = utf8 (jwks_reply (jwks_body K)) \<and>
      complete_reply sent =
        (if rest = [] then Some (lit ''HTTP/1.1 200 OK'', utf8 (json_text (jwks_json K))) else None))"
proof -
  have inv: "written_inv (jwks_body K) s"
    by (rule written.inv_reached [OF assms(2) written_inv_start])
  then obtain rest where "sent @ rest = utf8 (jwks_reply (jwks_body K))"
    using assms(3) unfolding written_inv_def by fastforce
  moreover have "filter (\<lambda>w. fst w = i) (ks_written s) = [(i, sent)]"
    using inv assms(3) by (simp add: written_inv_def filter_fst_distinct)
  ultimately show ?thesis using cut_reply [of sent rest "jwks_body K"] unfolding jwks_body_json [OF assms(1)] by blast
qed

text \<open>A run: the first peer is answered, the second gets nothing but \<open>H\<close>, accepting fails.\<close>

definition example_server :: "task_phase list \<Rightarrow> (nat \<times> bytes) list \<Rightarrow> key_server" where
  "example_server tasks sent = \<lparr>ks_accepting = True, ks_tasks = tasks, ks_written = sent\<rparr>"

lemma example_steps:
  "key_server_step body key_server_start (example_server [Waiting] [])"
  "key_server_step body (example_server [Waiting] []) (example_server [Heard] [])"
  "task_step body 0 (example_server [Heard] []) (example_server [Replying] [])"
  "sent @ rest = utf8 (jwks_reply body) \<Longrightarrow>
     task_step body 0 (example_server [Replying] []) (example_server [Closing] [(0, sent)])"
  "task_step body 0 (example_server [Closing] ws) (example_server [Finished] ws)"
  using accepted [of key_server_start body] peer_speaks [of 0 "example_server [Waiting] []" body]
    read_returns [of 0 "example_server [Heard] []" body]
    write_returns [of 0 "example_server [Replying] []" sent rest body]
    shut_down [of 0 "example_server [Closing] ws" body]
  by (simp_all add: example_server_def key_server_start_def move_task_def)

lemma example_key_server_run:
  assumes "sent @ rest = utf8 (jwks_reply body)"
  shows "key_server_reach body key_server_start (example_server [Closing] [(0, sent)])"
proof -
  note next_step = converse_rtranclp_into_rtranclp [where r = "key_server_step body"]
  show ?thesis
    by (rule next_step, rule example_steps(1), rule next_step, rule example_steps(2),
        rule next_step, rule task_runs, rule example_steps(3),
        rule r_into_rtranclp, rule task_runs, rule example_steps(4), rule assms)
qed

theorem key_server_replies_complete_witness:
  "complete_reply (utf8 (jwks_reply (jwks_body example_testkit))) =
     Some (lit ''HTTP/1.1 200 OK'', utf8 (json_text (jwks_json example_testkit)))"
  using key_server_replies_complete [OF example_b64_laws,
      of "example_server [Closing] [(0, utf8 (jwks_reply (jwks_body example_testkit)))]" 0
      "utf8 (jwks_reply (jwks_body example_testkit))"]
    example_key_server_run [of _ "[]" "jwks_body example_testkit"]
  by (auto simp: example_server_def)

text \<open>
  C30: a connection is answered exactly if its peer ever sends something, closes or fails: with
  tasks that are scheduled fairly, whatever the other connections do and even once accepting has
  failed for good, the task of such a connection ends with its reply written; and a silent peer
  is never answered.
\<close>

theorem connection_answered_iff_heard:
  assumes "steps_run (key_server_step body) r" "r 0 = key_server_start"
    and "\<forall>i. weakly_fair (task_step body i) r"
  shows "(\<exists>n. in_phase i Finished (r n) \<and> i \<in> fst ` set (ks_written (r n))) \<longleftrightarrow>
    (\<exists>n. in_phase i Heard (r n))"
proof
  assume "\<exists>n. in_phase i Heard (r n)"
  then obtain m where m: "in_phase i Finished (r m)"
    using heard_finishes [OF assms(1)] assms(3) by blast
  have "written_inv body (r m)"
    using written.inv_reached [OF run_reaches [OF assms(1), of 0 m]] written_inv_start assms(2) by simp
  with m show "\<exists>n. in_phase i Finished (r n) \<and> i \<in> fst ` set (ks_written (r n))"
    unfolding written_inv_def by blast
qed (use only_heard_moves [OF assms(1,2)] in blast)

text \<open>The witness runs one connection to its end and then stands still.\<close>

definition example_run :: "nat \<Rightarrow> key_server" where
  "example_run n = (if n = 0 then key_server_start else
     [example_server [Waiting] [], example_server [Heard] [], example_server [Replying] [],
      example_server [Closing] [(0, utf8 (jwks_reply []))],
      example_server [Finished] [(0, utf8 (jwks_reply []))]] ! (min n 5 - 1))"

lemma example_run_steps: "steps_run (key_server_step []) example_run"
proof -
  have "key_server_step [] (example_run n) (example_run (Suc n)) \<or> example_run (Suc n) = example_run n" for n
  proof (cases "n < 5")
    case True
    then have "n \<in> {0, 1, 2, 3, 4}" by auto
    then show ?thesis
      using example_steps(1,2) [where body = "[]"] example_steps(3) [of "[]"]
        example_steps(4) [of "utf8 (jwks_reply [])" "[]" "[]"]
        example_steps(5) [of "[]" "[(0, utf8 (jwks_reply []))]"]
      by (auto simp: example_run_def numeral_eq_Suc intro: task_runs)
  qed (simp add: example_run_def)
  then show ?thesis by (simp add: steps_run_def)
qed

lemma example_run_fair: "weakly_fair (task_step [] i) example_run"
proof -
  have "\<not> enabled (task_step [] i) (example_run (max n 5))" for n
    by (auto simp: enabled_def example_run_def example_server_def elim!: task_step.cases)
  then have "\<exists>m \<ge> n. \<not> enabled (task_step [] i) (example_run m)" for n by (meson max.cobounded1)
  then show ?thesis unfolding weakly_fair_def by blast
qed

theorem connection_answered_iff_heard_witness:
  "\<exists>n. in_phase 0 Finished (example_run n) \<and> 0 \<in> fst ` set (ks_written (example_run n))"
proof -
  have "in_phase 0 Heard (example_run 2)" by (simp add: example_run_def example_server_def)
  moreover have "example_run 0 = key_server_start" by (simp add: example_run_def)
  ultimately show ?thesis
    using connection_answered_iff_heard [OF example_run_steps] example_run_fair by blast
qed

end
