(* ===== verification/Key_Fetch.thy ===== *)
theory Key_Fetch
  imports Key_Server
begin

text \<open>
  Between the key server and a verifier: what an HTTP GET of a URL brings back, the key that is
  read from it, and the tokens that are authentic under it. A verifier's HTTP client is the
  function from a URL to the bytes that come back; a running key server is one point of it.
\<close>

type_synonym net = "rstr \<Rightarrow> bytes option"

definition fetched_key :: "(rstr \<Rightarrow> bytes option) \<Rightarrow> net \<Rightarrow> rstr \<Rightarrow> (bytes \<times> bytes) option" where
  "fetched_key unb64 net url =
     Option.bind (net url) (\<lambda>w. Option.bind (complete_reply w) (\<lambda>(l, b).
       if l = lit ''HTTP/1.1 200 OK'' then published_key unb64 (utf8_decode b) else None))"

definition token_headed :: "(rstr \<Rightarrow> bytes option) \<Rightarrow> rstr \<Rightarrow> rstr \<Rightarrow> bool" where
  "token_headed unb64 header token \<longleftrightarrow> unb64 (hd (split_char 46 token)) = Some (utf8 header)"

text \<open>A token with this header that checks under the key found at the URL.\<close>

definition authentic ::
  "('key, 'rng) rsa_api \<Rightarrow> (rstr \<Rightarrow> bytes option) \<Rightarrow> net \<Rightarrow> rstr \<Rightarrow> rstr \<Rightarrow> rstr \<Rightarrow> bool" where
  "authentic R unb64 net url header token \<longleftrightarrow>
     token_headed unb64 header token \<and>
     (case fetched_key unb64 net url of Some key \<Rightarrow> token_verifies R unb64 key token | None \<Rightarrow> False)"

text \<open>A net in which the URL reaches a key server with this body.\<close>

definition serves :: "net \<Rightarrow> rstr \<Rightarrow> rstr \<Rightarrow> bool" where
  "serves net url body \<longleftrightarrow> net url = Some (utf8 (jwks_reply body))"

lemma fetched_served:
  "serves net url body \<Longrightarrow> valid_str body \<Longrightarrow> fetched_key unb64 net url = published_key unb64 body"
  by (simp add: serves_def fetched_key_def reply_complete utf8_decode_utf8)

lemma headed_jwt: "b64_laws K unb64 \<Longrightarrow> token_headed unb64 h (make_jwt K h c)"
  by (simp add: token_headed_def split_jwt unb64_str)

text \<open>What a keyed process mints is authentic where its key set is served.\<close>

lemma authentic_jwt:
  assumes "b64_laws K unb64" "rsa_laws R" "plain_str kid"
    and "serves net url (json_text (jwks_json_of kid (keyed K R k rng')))"
  shows "authentic R unb64 net url h (make_jwt (keyed K R k rng) h c)"
proof -
  let ?doc = "json_text (jwks_json_of kid (keyed K R k rng'))"
  note laws = keyed_laws [OF assms(1)]
  have "valid_str ?doc" by (rule valid_json_text(1) [OF valid_jwks [OF laws assms(3)]])
  then have "fetched_key unb64 net url = Some (rsa_n R k, rsa_e R k)"
    using fetched_served [OF assms(4)] published_json [OF laws assms(3), of R k rng'] by (simp add: keyed_def)
  then show ?thesis
    by (simp add: authentic_def headed_jwt [OF laws] keyed_verifies [OF assms(1,2)])
qed

end
