(* ===== verification/Token_Flow.thy ===== *)
theory Token_Flow
  imports Key_Fetch Machine_Auth
begin

text \<open>
  The testkit's tokens on the machine path: what a process publishes, mints and then verifies.
  The token library stays a parameter; \<open>library_checks\<close> is the behaviour the source documents of
  it for a token that is authentic under the key set at the configured issuer and whose claims
  read as one of the two kinds.
\<close>

section \<open>The library on authentic tokens\<close>

text \<open>Where the library looks for an issuer's keys when only the issuer is configured.\<close>

definition issuer_jwks :: "rstr \<Rightarrow> rstr" where
  "issuer_jwks issuer = issuer @ lit ''/jwks.json''"

text \<open>
  A verification that neither gives a machine's identity nor the definitive rejection of one:
  what the source documents of a token that is not a machine's, whatever its audience, and
  whether its principal is a human's or a test tenant's.
\<close>

definition not_a_machine :: "'x chirp_auth_error + ('env, 'h) chirp_verified \<Rightarrow> bool" where
  "not_a_machine r \<longleftrightarrow>
     (case r of
        Inl e \<Rightarrow> e \<noteq> MachineAudienceNotAccepted
      | Inr v \<Rightarrow> (case cv_identity v of MachineIdentity _ _ _ \<Rightarrow> False | _ \<Rightarrow> True))"

text \<open>
  At the library's clock \<open>now\<close>, in seconds, and for tokens with this header: an unexpired
  machine token of the configured issuer is accepted for a client in the options' list, with the
  environment the library derives from that issuer, and refused as \<open>MachineAudienceNotAccepted\<close>
  for any other client; an unexpired token without machine claims is not a machine. Test
  tenants have principals of their own (\<open>Test\<close>): of their machine tokens nothing is assumed.
\<close>

definition library_checks ::
  "('cfg, 'opts, net, 'env, 'h, 'x) chirp_client \<Rightarrow> ('key, 'rng) rsa_api \<Rightarrow> (rstr \<Rightarrow> bytes option) \<Rightarrow> rstr
     \<Rightarrow> int \<Rightarrow> (rstr \<Rightarrow> 'env) \<Rightarrow> (rstr \<Rightarrow> bool) \<Rightarrow> bool" where
  "library_checks L R unb64 header now env_of test_tenant \<longleftrightarrow>
     (\<forall>net issuer auds ids token aud sub exp.
        authentic R unb64 net (issuer_jwks issuer) header token \<longrightarrow> now < sint exp \<longrightarrow>
        (\<forall>owner_sub. token_claims unb64 token (machine_json issuer aud sub owner_sub exp) \<longrightarrow>
           \<not> test_tenant issuer \<longrightarrow>
           cl_verify L net (cl_with_audiences L issuer auds) token (cl_accept_machine_clients L ids) =
             (if aud \<in> set ids
              then Inr \<lparr>cv_identity = MachineIdentity sub owner_sub aud, cv_environment = env_of issuer\<rparr>
              else Inl MachineAudienceNotAccepted)) \<and>
        (token_claims unb64 token (human_json issuer aud sub exp) \<longrightarrow>
           not_a_machine (cl_verify L net (cl_with_audiences L issuer auds) token (cl_accept_machine_clients L ids))))"

definition issuer_laws :: "('cfg, 'opts, 'client, 'env, 'h, 'x) chirp_client \<Rightarrow> bool" where
  "issuer_laws L \<longleftrightarrow> (\<forall>issuer ids. cl_issuer L (cl_with_audiences L issuer ids) = issuer)"

lemma issuer_of_new: "issuer_laws L \<Longrightarrow> machine_auth_issuer L (machine_auth_new L issuer ids) = issuer"
  by (simp add: issuer_laws_def machine_auth_issuer_def new_config)

lemma verify_machine_claims:
  assumes "library_checks L R unb64 header now env_of test_tenant" "issuer_laws L"
    and "authentic R unb64 net (issuer_jwks issuer) header token" "now < sint exp"
    and "token_claims unb64 token (machine_json issuer aud sub owner_sub exp)" "\<not> test_tenant issuer"
  shows "machine_verify L (machine_auth_new L issuer ids) net token =
    (if aud \<in> client_set ids
     then Ok \<lparr>vm_sub = sub, vm_owner_sub = owner_sub, vm_client_id = aud, vm_environment = env_of issuer,
              vm_issuer = issuer\<rparr>
     else Err Rejected)"
  using assms issuer_of_new [OF assms(2)]
  by (simp add: library_checks_def machine_verify_def verify_options_def new_config new_accepted_set
      machine_auth_issuer_def)

lemma verify_not_a_machine:
  "not_a_machine (cl_verify L net (ma_config m) token (verify_options L m)) \<Longrightarrow>
     machine_verify L m net token = Err NotMachine"
  by (auto simp: not_a_machine_def machine_verify_def Let_def
      split: sum.splits chirp_auth_error.splits chirp_verified_identity.splits)

lemma verify_human_claims:
  assumes "library_checks L R unb64 header now env_of test_tenant"
    and "authentic R unb64 net (issuer_jwks issuer) header token" "now < sint exp"
    and "token_claims unb64 token (human_json issuer aud sub exp)"
  shows "machine_verify L (machine_auth_new L issuer ids) net token = Err NotMachine"
  using assms unfolding library_checks_def
  by (intro verify_not_a_machine) (simp add: new_config verify_options_def)

section \<open>Minted tokens on the machine path\<close>


section \<open>A concrete library\<close>

text \<open>Claims as the witness reads them: the fields by name, the owner only of a machine.\<close>

definition text_field :: "rstr \<Rightarrow> (rstr \<times> json) list \<Rightarrow> rstr option" where
  "text_field name fs = (case map_of fs name of Some (JString s) \<Rightarrow> Some s | _ \<Rightarrow> None)"

definition number_field :: "rstr \<Rightarrow> (rstr \<times> json) list \<Rightarrow> int option" where
  "number_field name fs = (case map_of fs name of Some (JNumber i) \<Rightarrow> Some i | _ \<Rightarrow> None)"

fun read_claims :: "json \<Rightarrow> (rstr \<times> rstr \<times> rstr \<times> int \<times> rstr option) option" where
  "read_claims (JObject fs) =
     Option.bind (text_field (lit ''iss'') fs) (\<lambda>iss.
     Option.bind (text_field (lit ''sub'') fs) (\<lambda>sub.
     Option.bind (text_field (lit ''aud'') fs) (\<lambda>aud.
     Option.bind (number_field (lit ''exp'') fs) (\<lambda>exp.
       Some (iss, sub, aud, exp,
             if text_field (lit ''act'') fs = Some (lit ''machine'') then text_field (lit ''owner_sub'') fs
             else None)))))"
| "read_claims _ = None"

lemma read_claims_minted:
  "read_claims (machine_json iss aud sub owner exp) = Some (iss, sub, aud, sint exp, Some owner)"
  "read_claims (human_json iss aud sub exp) = Some (iss, sub, aud, sint exp, None)"
  by (simp_all add: machine_json_def human_json_def text_field_def number_field_def lit_def)

definition claims_of_token :: "rstr \<Rightarrow> (rstr \<times> rstr \<times> rstr \<times> int \<times> rstr option) option" where
  "claims_of_token token =
     (case split_char 46 token of
        [h, c, s] \<Rightarrow> Option.bind (example_unb64 c) (\<lambda>b. Option.bind (read_document (utf8_decode b)) read_claims)
      | _ \<Rightarrow> None)"

text \<open>An issuer that is a test tenant, where a principal that is not a machine is a \<open>Test\<close> one.\<close>

definition example_tenant :: "rstr \<Rightarrow> bool" where
  "example_tenant issuer \<longleftrightarrow> issuer = lit ''https://signin.example/test/acme''"

definition example_env_of :: "rstr \<Rightarrow> string" where
  "example_env_of issuer = (if example_tenant issuer then ''Test'' else ''Prod'')"

definition example_library :: "int \<Rightarrow> (rstr \<times> rstr list, rstr list, net, string, unit, unit) chirp_client" where
  "example_library now = \<lparr>cl_with_audiences = Pair, cl_issuer = fst, cl_accept_machine_clients = id,
     cl_verify = (\<lambda>net cfg token ids.
       case (fetched_key example_unb64 net (issuer_jwks (fst cfg)), claims_of_token token) of
         (Some key, Some (iss, sub, aud, exp, owner)) \<Rightarrow>
           if \<not> token_verifies example_rsa example_unb64 key token \<or> iss \<noteq> fst cfg \<or> exp \<le> now
           then Inl (OtherChirpError ())
           else (case owner of
                   None \<Rightarrow> (if aud \<in> set (snd cfg)
                     then Inr \<lparr>cv_identity = (if example_tenant iss then TestIdentity () else HumanIdentity ()),
                               cv_environment = example_env_of iss\<rparr>
                     else Inl (OtherChirpError ()))
                 | Some o' \<Rightarrow> (if aud \<in> set ids
                     then Inr \<lparr>cv_identity = MachineIdentity sub o' aud, cv_environment = example_env_of iss\<rparr>
                     else Inl MachineAudienceNotAccepted))
       | _ \<Rightarrow> Inl (OtherChirpError ()))\<rparr>"

lemma claims_read:
  "token_claims example_unb64 token j \<Longrightarrow> claims_of_token token = read_claims j"
  by (auto simp: token_claims_def claims_of_token_def utf8_decode_utf8)

lemma example_checks:
  "library_checks (example_library now) example_rsa example_unb64 header now example_env_of example_tenant"
  by (auto simp: library_checks_def not_a_machine_def example_library_def claims_read read_claims_minted
      authentic_def split: option.splits)

lemma example_issuer: "issuer_laws (example_library now)"
  by (simp add: issuer_laws_def example_library_def)

lemma plain_examples:
  "plain_str (lit ''http://127.0.0.1:80'')" "plain_str (lit ''cs_live_accepted'')"
  "plain_str (lit ''cs_live_not_accepted'')" "plain_str (lit ''agent_xyz'')"
  "plain_str (lit ''agent_other'')" "plain_str (lit ''sub_human'')" "plain_str (lit ''sub_owner'')"
  by (simp_all add: plain_str_def plain_char_def lit_def)


end
