(* ===== verification/Test_World.thy ===== *)
theory Test_World
  imports Key_Fetch Rust_Test
begin

text \<open>
  What the asynchronous tests with a local key server run in: what binding and generating would
  give them, the randomness of a signature, the clock and the rest of the net. A test is a run
  over the process's key cell; a suite runs its tests in any order over the one cell.
\<close>

section \<open>The world of a test\<close>

record ('b, 'listener, 'e, 'key, 'rng) test_world =
  tw_bind :: "'b + 'listener"
  tw_local_addr :: "'listener \<Rightarrow> 'b + socket_addr"
  tw_generate :: "'e + 'key"
  tw_generate_again :: "'e + 'key"
  tw_rng :: 'rng
  tw_nanos :: int
  tw_net :: net

text \<open>A server that has been started is reached at its URL.\<close>

definition with_server :: "net \<Rightarrow> rstr \<Rightarrow> rstr \<Rightarrow> net" where
  "with_server net url body = net(url \<mapsto> utf8 (jwks_reply body))"

lemma serves_server [simp]: "serves (with_server net url body) url body"
  by (simp add: serves_def with_server_def)

text \<open>The loopback address a listener of \<open>127.0.0.1:0\<close> gets, and the base of its URL.\<close>

definition loopback_addr :: "u16 \<Rightarrow> socket_addr" where
  "loopback_addr port = SockV4 (V4 127 0 0 1) port"

definition server_base :: "u16 \<Rightarrow> rstr" where
  "server_base port = lit ''http://'' @ show_socket_addr (loopback_addr port)"

lemma loopback_url: "jwks_url (loopback_addr port) = server_base port @ lit ''/jwks.json''"
  by (simp add: jwks_url_def server_base_def)

text \<open>The operating system grants a port, keys can be generated, and the clock is one the mint works on.\<close>

definition granted :: "('b, 'listener, 'e, 'key, 'rng) test_world \<Rightarrow> u16 \<Rightarrow> bool" where
  "granted W port \<longleftrightarrow>
     (\<exists>listener. tw_bind W = Inr listener \<and> tw_local_addr W listener = Inr (loopback_addr port)) \<and>
     (\<exists>k. tw_generate W = Inr k) \<and> (\<exists>k. tw_generate_again W = Inr k) \<and> mint_clock (tw_nanos W)"

section \<open>Tests in any order\<close>

fun run_tests :: "('key, unit) cell_run list \<Rightarrow> 'key option \<Rightarrow> unit run list" where
  "run_tests [] cell = []"
| "run_tests (t # ts) cell = (let (r, cell') = t cell in r # run_tests ts cell')"

lemma run_tests_pass:
  "\<forall>t \<in> set ts. \<forall>cell. fst (t cell) = Ret () \<Longrightarrow> set (run_tests ts cell) \<subseteq> {Ret ()}"
proof (induction ts arbitrary: cell)
  case (Cons t ts)
  have "fst (t cell) = Ret ()" using Cons.prems by simp
  then obtain cell' where "t cell = (Ret (), cell')" by (cases "t cell") simp
  with Cons show ?case by simp
qed simp

lemma cell_bind_Ret: "m cell = (Ret x, cell') \<Longrightarrow> cell_bind m f cell = f x cell'"
  by (simp add: cell_bind_def)

section \<open>Where the server listens is plain text\<close>

lemma plain_append: "plain_str (s @ t) \<longleftrightarrow> plain_str s \<and> plain_str t"
  by (simp add: plain_str_def)

lemma plain_show_nat: "plain_str (show_nat n)"
  using show_nat_digits [of _ n] by (fastforce simp: plain_str_def list_all_iff plain_char_def)

lemma plain_server_base: "plain_str (server_base port)"
proof -
  have "plain_str (lit ''http://'')" "plain_str (lit ''.'')" "plain_str [58]" "plain_str []" "plain_str [46]"
    by (simp_all add: plain_str_def plain_char_def lit_def)
  moreover have "plain_str (58 # s) \<longleftrightarrow> plain_str s" for s by (simp add: plain_str_def plain_char_def)
  ultimately show ?thesis by (simp add: server_base_def loopback_addr_def plain_append plain_show_nat)
qed

text \<open>An example world: port 80, and generating twice gives two keys.\<close>

definition example_world :: "(unit, unit, unit, u8, unit) test_world" where
  "example_world = \<lparr>tw_bind = Inr (), tw_local_addr = (\<lambda>l. Inr (loopback_addr 80)), tw_generate = Inr 7,
     tw_generate_again = Inr 9, tw_rng = (), tw_nanos = 0, tw_net = Map.empty\<rparr>"

lemma example_granted: "granted example_world 80"
  by (simp add: granted_def example_world_def mint_clock_def)

end
