(* ===== verification/Verify_Tests.thy ===== *)
theory Verify_Tests
  imports Token_Flow Test_World
begin

text \<open>
  The suite \<open>machine_auth_verify_tests\<close> of \<open>platform-chirp-auth\<close>: its own key pair, mint and key
  server, and the three tests of \<open>MachineAuth::verify\<close>, which pass, in any order over the one key,
  whenever the token library treats authentic tokens as \<open>library_checks\<close> says, on any clock within
  the hour and wherever the key server listens, as long as the library takes its address for a
  production issuer, as the first test asserts.
\<close>

section \<open>The suite's mint\<close>

definition vt_kid :: rstr where
  "vt_kid = lit ''test-kid-1''"

definition vt_client_id :: rstr where
  "vt_client_id = lit ''cs_live_accepted''"

definition vt_jwks_body :: "testkit_api \<Rightarrow> rstr" where
  "vt_jwks_body K =
     lit ''{'' @ quoted (lit ''keys'') @ lit '':[{'' @ quoted (lit ''kty'') @ lit '':'' @ quoted (lit ''RSA'')
     @ lit '','' @ quoted (lit ''kid'') @ lit '':'' @ quoted vt_kid
     @ lit '','' @ quoted (lit ''alg'') @ lit '':'' @ quoted (lit ''RS256'')
     @ lit '','' @ quoted (lit ''n'') @ lit '':'' @ quoted (tk_b64 K (tk_modulus K))
     @ lit '','' @ quoted (lit ''e'') @ lit '':'' @ quoted (tk_b64 K (tk_exponent K)) @ lit ''}]}''"

definition vt_header :: rstr where
  "vt_header =
     lit ''{'' @ quoted (lit ''alg'') @ lit '':'' @ quoted (lit ''RS256'')
     @ lit '','' @ quoted (lit ''typ'') @ lit '':'' @ quoted (lit ''chirp-id+jwt'')
     @ lit '','' @ quoted (lit ''kid'') @ lit '':'' @ quoted vt_kid @ lit ''}''"

text \<open>The suite has a key cell of its own, filled as the testkit's is.\<close>

definition vt_keypair :: "('e + 'key) \<Rightarrow> ('key, 'key) cell_run" where
  "vt_keypair generate = get_or_init ''generate test RSA key'' generate"

definition vt_jwks_of_process ::
  "testkit_api \<Rightarrow> ('key, 'rng) rsa_api \<Rightarrow> ('e + 'key) \<Rightarrow> ('key, rstr) cell_run" where
  "vt_jwks_of_process K R generate =
     cell_bind (vt_keypair generate) (\<lambda>k. cell_ret (Ret (vt_jwks_body
       (K\<lparr>tk_modulus := rsa_n R k, tk_exponent := rsa_e R k\<rparr>))))"

definition vt_start_jwks_server ::
  "('b + 'listener) \<Rightarrow> ('listener \<Rightarrow> 'b + socket_addr) \<Rightarrow> rstr \<Rightarrow> ('listener \<times> rstr \<times> rstr) run" where
  "vt_start_jwks_server bind local_addr body =
     run_bind (unwrap bind) (\<lambda>listener.
     run_bind (unwrap (local_addr listener)) (\<lambda>addr. Ret (listener, body, jwks_url addr)))"

text \<open>Its accept loop and tasks are the testkit's, word for word.\<close>

definition vt_server_step :: "rstr \<Rightarrow> key_server \<Rightarrow> key_server \<Rightarrow> bool" where
  "vt_server_step body = key_server_step body"

definition vt_b64 :: "testkit_api \<Rightarrow> rstr \<Rightarrow> rstr" where
  "vt_b64 K s = tk_b64 K (utf8 s)"

definition vt_sign :: "('key, 'rng) rsa_api \<Rightarrow> ('e + 'key) \<Rightarrow> 'rng \<Rightarrow> bytes \<Rightarrow> ('key, bytes) cell_run" where
  "vt_sign R generate rng signing_input =
     cell_bind (vt_keypair generate) (\<lambda>k. cell_ret (Ret (rsa_sign R k rng signing_input)))"

definition vt_make_jwt ::
  "testkit_api \<Rightarrow> ('key, 'rng) rsa_api \<Rightarrow> ('e + 'key) \<Rightarrow> 'rng \<Rightarrow> rstr \<Rightarrow> ('key, rstr) cell_run" where
  "vt_make_jwt K R generate rng claims_json =
     (let signing_input = vt_b64 K vt_header @ lit ''.'' @ vt_b64 K claims_json
      in cell_bind (vt_sign R generate rng (utf8 signing_input))
           (\<lambda>sig. cell_ret (Ret (signing_input @ lit ''.'' @ tk_b64 K sig))))"

definition vt_now :: "int \<Rightarrow> i64 run" where
  "vt_now nanos =
     (if 0 \<le> nanos then Ret (word_of_int (nanos div 10 ^ 9))
      else Panic ''called Result::unwrap() on an Err value'')"

definition strip_suffix :: "rstr \<Rightarrow> rstr \<Rightarrow> rstr option" where
  "strip_suffix suffix s = map_option rev (strip_prefix (rev suffix) (rev s))"

definition machine_for ::
  "('cfg, 'opts, 'client, 'env, 'h, 'x) chirp_client \<Rightarrow> rstr \<Rightarrow> 'cfg machine_auth run" where
  "machine_for L url =
     (case strip_suffix (lit ''/jwks.json'') url of
        None \<Rightarrow> Panic ''jwks url shape''
      | Some base \<Rightarrow> Ret (machine_auth_new L base [vt_client_id]))"

section \<open>The tests\<close>

text \<open>How each of them begins: the key server, the verifier, the clock and a token.\<close>

definition vt_setup ::
  "('cfg, 'opts, net, 'env, 'h, 'x) chirp_client \<Rightarrow> testkit_api \<Rightarrow> ('key, 'rng) rsa_api
     \<Rightarrow> ('b, 'listener, 'e, 'key, 'rng) test_world \<Rightarrow> (rstr \<Rightarrow> i64 \<Rightarrow> rstr)
     \<Rightarrow> ('key, 'cfg machine_auth \<times> net \<times> rstr) cell_run" where
  "vt_setup L K R W claims =
     cell_bind (vt_jwks_of_process K R (tw_generate W)) (\<lambda>body.
     cell_bind (cell_ret (vt_start_jwks_server (tw_bind W) (tw_local_addr W) body)) (\<lambda>(listener, served, jwks).
     cell_bind (cell_ret (machine_for L jwks)) (\<lambda>machine.
     let iss = machine_auth_issuer L machine in
     cell_bind (cell_ret (vt_now (tw_nanos W))) (\<lambda>now.
     cell_bind (cell_ret (i64_add True now 3600)) (\<lambda>exp.
     cell_bind (vt_make_jwt K R (tw_generate_again W) (tw_rng W) (claims iss exp)) (\<lambda>token.
       cell_ret (Ret (machine, with_server (tw_net W) jwks served, token))))))))"

definition verifies_machine_token_and_returns_env_verbatim ::
  "('cfg, 'opts, net, 'env, 'h, 'x) chirp_client \<Rightarrow> testkit_api \<Rightarrow> ('key, 'rng) rsa_api
     \<Rightarrow> ('b, 'listener, 'e, 'key, 'rng) test_world \<Rightarrow> 'env \<Rightarrow> ('key, unit) cell_run" where
  "verifies_machine_token_and_returns_env_verbatim L K R W production =
     cell_bind (vt_setup L K R W (\<lambda>iss. machine_claims iss vt_client_id (lit ''agent_xyz'') (lit ''sub_owner'')))
       (\<lambda>(machine, client, token).
         cell_ret (run_bind (unwrap (machine_verify L machine client token)) (\<lambda>vm.
           all_of [assert_that (vm_sub vm = lit ''agent_xyz''),
                   assert_that (vm_owner_sub vm = lit ''sub_owner''),
                   assert_that (vm_client_id vm = vt_client_id),
                   assert_that (vm_environment vm = production),
                   assert_that (vm_issuer vm = machine_auth_issuer L machine)])))"

definition rejects_human_token_on_machine_path ::
  "('cfg, 'opts, net, 'env, 'h, 'x) chirp_client \<Rightarrow> testkit_api \<Rightarrow> ('key, 'rng) rsa_api
     \<Rightarrow> ('b, 'listener, 'e, 'key, 'rng) test_world \<Rightarrow> ('key, unit) cell_run" where
  "rejects_human_token_on_machine_path L K R W =
     cell_bind (vt_setup L K R W (\<lambda>iss. human_claims iss vt_client_id (lit ''sub_human'')))
       (\<lambda>(machine, client, token).
         cell_ret (run_bind (unwrap_err (machine_verify L machine client token)) (\<lambda>err.
           all_of [assert_that (err = NotMachine), assert_that (into_api_error err = Unauthorized)])))"

definition rejects_non_allowlisted_machine_client ::
  "('cfg, 'opts, net, 'env, 'h, 'x) chirp_client \<Rightarrow> testkit_api \<Rightarrow> ('key, 'rng) rsa_api
     \<Rightarrow> ('b, 'listener, 'e, 'key, 'rng) test_world \<Rightarrow> ('key, unit) cell_run" where
  "rejects_non_allowlisted_machine_client L K R W =
     cell_bind (vt_setup L K R W (\<lambda>iss.
         machine_claims iss (lit ''cs_live_not_accepted'') (lit ''agent_other'') (lit ''sub_owner'')))
       (\<lambda>(machine, client, token).
         cell_ret (run_bind (unwrap_err (machine_verify L machine client token)) (\<lambda>err.
           all_of [assert_that (err = Rejected), assert_that (into_api_error err = Unauthorized)])))"

definition verify_suite ::
  "('cfg, 'opts, net, 'env, 'h, 'x) chirp_client \<Rightarrow> testkit_api \<Rightarrow> ('key, 'rng) rsa_api
     \<Rightarrow> ('b, 'listener, 'e, 'key, 'rng) test_world \<Rightarrow> 'env \<Rightarrow> ('key, unit) cell_run list" where
  "verify_suite L K R W production =
     [verifies_machine_token_and_returns_env_verbatim L K R W production,
      rejects_human_token_on_machine_path L K R W, rejects_non_allowlisted_machine_client L K R W]"

section \<open>The model passes it\<close>

lemma strip_suffix_append [simp]: "strip_suffix t (s @ t) = Some s"
  by (simp add: strip_suffix_def)

lemma machine_for_server:
  "machine_for L (jwks_url (loopback_addr port)) = Ret (machine_auth_new L (server_base port) [vt_client_id])"
  by (simp add: machine_for_def loopback_url)

lemma vt_hour:
  assumes "mint_clock nanos"
  shows "cell_bind (cell_ret (vt_now nanos)) (\<lambda>now. cell_bind (cell_ret (i64_add True now 3600)) f) = f (hour_later nanos)"
proof -
  have "run_bind (testkit_now_unix nanos) (\<lambda>now. run_bind (i64_add True now 3600) Ret) = Ret (hour_later nanos)"
    by (rule mint_hour [OF assms])
  then obtain now where "testkit_now_unix nanos = Ret now" "i64_add True now 3600 = Ret (hour_later nanos)"
    by (auto simp: run_bind_Ret)
  moreover have "vt_now nanos = testkit_now_unix nanos"
    using assms by (simp add: vt_now_def testkit_now_unix_def mint_clock_def)
  ultimately show ?thesis by simp
qed

text \<open>Over its cell the suite's mint is the testkit's, with its own header and key id.\<close>

lemma plain_vt_kid: "plain_str vt_kid"
  by (simp add: vt_kid_def plain_str_def plain_char_def lit_def)

lemma vt_jwks_body_json: "b64_laws K unb64 \<Longrightarrow> vt_jwks_body K = json_text (jwks_json_of vt_kid K)"
  by (simp add: vt_jwks_body_def jwks_json_of_def punctuation print_plain plain_json_string [OF plain_b64]
      plain_json_string [OF plain_vt_kid])

lemma vt_jwks_key:
  "vt_jwks_of_process K R (Inr k) cell =
     (Ret (vt_jwks_body (keyed K R (key_of cell k) rng)), Some (key_of cell k))"
  by (simp add: vt_jwks_of_process_def vt_keypair_def cell_bind_def get_or_init_key vt_jwks_body_def keyed_def)

lemma vt_make_jwt_key:
  "vt_make_jwt K R (Inr k) rng c (Some k') = (Ret (make_jwt (keyed K R k' rng) vt_header c), Some k')"
  by (simp add: vt_make_jwt_def vt_sign_def vt_keypair_def cell_bind_def get_or_init_key make_jwt_def
      keyed_def b64_str_def vt_b64_def Let_def)

lemma vt_setup_runs:
  assumes "b64_laws K unb64" "rsa_laws R" "issuer_laws L" "granted W port"
  shows "\<exists>K' net cell'. b64_laws K' unb64 \<and>
    vt_setup L K R W claims cell =
      (Ret (machine_auth_new L (server_base port) [vt_client_id], net,
            make_jwt K' vt_header (claims (server_base port) (hour_later (tw_nanos W)))), cell') \<and>
    (\<forall>c. authentic R unb64 net (issuer_jwks (server_base port)) vt_header (make_jwt K' vt_header c))"
proof -
  obtain listener k k2 where W: "tw_bind W = Inr listener" "tw_local_addr W listener = Inr (loopback_addr port)"
    "tw_generate W = Inr k" "tw_generate_again W = Inr k2" "mint_clock (tw_nanos W)"
    using assms(4) unfolding granted_def by blast
  define k1 where "k1 = key_of cell k"
  define body where "body = vt_jwks_body (keyed K R k1 (tw_rng W))"
  define net where "net = with_server (tw_net W) (jwks_url (loopback_addr port)) body"
  have jwks: "vt_jwks_of_process K R (Inr k) cell = (Ret body, Some k1)"
    unfolding body_def k1_def by (rule vt_jwks_key)
  have server: "vt_start_jwks_server (tw_bind W) (tw_local_addr W) body = Ret (listener, body, jwks_url (loopback_addr port))"
    by (simp add: vt_start_jwks_server_def W test_simps)
  have "serves net (issuer_jwks (server_base port)) (json_text (jwks_json_of vt_kid (keyed K R k1 (tw_rng W))))"
    unfolding net_def body_def vt_jwks_body_json [OF keyed_laws [OF assms(1)], of R k1 "tw_rng W"]
      loopback_url issuer_jwks_def by simp
  then have real: "authentic R unb64 net (issuer_jwks (server_base port)) vt_header
      (make_jwt (keyed K R k1 (tw_rng W)) vt_header c)" for c
    by (rule authentic_jwt [OF assms(1,2) plain_vt_kid])
  have "vt_setup L K R W claims cell =
      (Ret (machine_auth_new L (server_base port) [vt_client_id], net,
        make_jwt (keyed K R k1 (tw_rng W)) vt_header (claims (server_base port) (hour_later (tw_nanos W)))), Some k1)"
    by (simp add: vt_setup_def W(3,4) cell_bind_Ret jwks server machine_for_server vt_hour [OF W(5)]
        issuer_of_new [OF assms(3)] vt_make_jwt_key net_def Let_def)
  with real keyed_laws [OF assms(1), of R k1 "tw_rng W"] show ?thesis by fast
qed

lemma vt_clients:
  "plain_str vt_client_id" "vt_client_id \<in> client_set [vt_client_id]"
  "lit ''cs_live_not_accepted'' \<notin> client_set [vt_client_id]"
  by (simp_all add: vt_client_id_def plain_examples client_set_def)
     (simp_all add: lit_def trim_def trim_start_def trim_end_def is_whitespace_def)

lemma verify_tests_pass:
  assumes "b64_laws K unb64" "rsa_laws R" "library_checks L R unb64 vt_header now env_of test_tenant" "issuer_laws L"
    and "granted W port" "now < tw_nanos W div 10 ^ 9 + 3600"
    and "\<not> test_tenant (server_base port)" "env_of (server_base port) = production"
    and "t \<in> set (verify_suite L K R W production)"
  shows "fst (t cell) = Ret ()"
proof -
  have later: "now < sint (hour_later (tw_nanos W))"
    using assms(5,6) sint_hour_later [of "tw_nanos W"] by (simp add: granted_def)
  note machine = verify_machine_claims [OF assms(3,4) _ later machine_jwt_claims [OF _ plain_server_base] assms(7)]
    and human = verify_human_claims [OF assms(3) _ later human_jwt_claims [OF _ plain_server_base]]
  note begun = vt_setup_runs [OF assms(1,2,4,5), of _ cell]
  have "fst (verifies_machine_token_and_returns_env_verbatim L K R W production cell) = Ret ()"
    using begun [of "\<lambda>iss. machine_claims iss vt_client_id (lit ''agent_xyz'') (lit ''sub_owner'')"]
    by (auto simp: verifies_machine_token_and_returns_env_verbatim_def cell_bind_Ret machine vt_clients
        plain_examples issuer_of_new [OF assms(4)] assms(8) test_simps)
  moreover have "fst (rejects_human_token_on_machine_path L K R W cell) = Ret ()"
    using begun [of "\<lambda>iss. human_claims iss vt_client_id (lit ''sub_human'')"]
    by (auto simp: rejects_human_token_on_machine_path_def cell_bind_Ret human vt_clients plain_examples
        test_simps)
  moreover have "fst (rejects_non_allowlisted_machine_client L K R W cell) = Ret ()"
    using begun [of "\<lambda>iss. machine_claims iss (lit ''cs_live_not_accepted'') (lit ''agent_other'') (lit ''sub_owner'')"]
    by (auto simp: rejects_non_allowlisted_machine_client_def cell_bind_Ret machine vt_clients plain_examples
        test_simps)
  ultimately show ?thesis using assms(9) by (auto simp: verify_suite_def)
qed

text \<open>
  The model passes the crate's tests of \<open>MachineAuth::verify\<close>, in whatever order they run and
  whichever of them generates the key they share, at any clock within the hour of the mint's and
  on every port whose address is, to the library, an issuer of production and not a test tenant's.
\<close>

theorem verify_suite_passes:
  assumes "b64_laws K unb64" "rsa_laws R" "library_checks L R unb64 vt_header now env_of test_tenant" "issuer_laws L"
    and "granted W port" "now < tw_nanos W div 10 ^ 9 + 3600"
    and "\<not> test_tenant (server_base port)" "env_of (server_base port) = production"
    and "set tests \<subseteq> set (verify_suite L K R W production)"
  shows "set (run_tests tests cell) \<subseteq> {Ret ()}"
  by (rule run_tests_pass) (use verify_tests_pass [OF assms(1-8)] assms(9) in blast)

theorem verify_suite_passes_witness:
  "set (run_tests (verify_suite (example_library 10) example_testkit example_rsa example_world ''Prod'') None)
     \<subseteq> {Ret ()}"
proof -
  have "\<not> example_tenant (server_base 80)"
    by (simp add: example_tenant_def server_base_def loopback_addr_def lit_def)
  then show ?thesis
    by (intro verify_suite_passes [OF example_b64_laws example_rsa_laws example_checks [of 10] example_issuer
          example_granted _ _ _ subset_refl])
       (simp_all add: example_world_def example_env_of_def)
qed

end
