(* ===== verification/Testkit_Tests.thy ===== *)
theory Testkit_Tests
  imports Token_Flow Test_World
begin

text \<open>
  The testkit's own tests: a key server is started, a token minted and handed to the token
  library's \<open>verify_chirp_id_token\<close> with the testkit's configuration. The library is the record
  \<open>kit_client\<close>; \<open>kit_laws\<close> is what the source documents of it. The tests pass in any order, over
  the one key of the process.
\<close>

section \<open>The library as the tests call it\<close>

text \<open>The subject of a human identity, whose other fields the tests ignore, is an accessor.\<close>

record ('cfg, 'opts, 'env, 'h, 'x) kit_client =
  kc_config_new :: "rstr \<Rightarrow> rstr \<Rightarrow> 'cfg"
  kc_with_jwks_uri :: "'cfg \<Rightarrow> rstr \<Rightarrow> 'cfg"
  kc_default_options :: 'opts
  kc_accept_machine_clients :: "rstr list \<Rightarrow> 'opts"
  kc_verify :: "net \<Rightarrow> 'cfg \<Rightarrow> rstr \<Rightarrow> 'opts \<Rightarrow> 'x chirp_auth_error + ('env, 'h) chirp_verified"
  kc_human_sub :: "'h \<Rightarrow> rstr"

text \<open>
  For a token that is authentic under the key set at the configured URL, from the configured
  issuer and unexpired: a human token for another audience than the configured one is an
  error, and, at an issuer that is not a test tenant, one for the configured audience is a human
  identity with its subject; there a machine token is the machine's identity if its client is
  one the options accept. Of a test tenant's principals nothing is assumed.
\<close>

definition kit_laws ::
  "('cfg, 'opts, 'env, 'h, 'x) kit_client \<Rightarrow> ('key, 'rng) rsa_api \<Rightarrow> (rstr \<Rightarrow> bytes option) \<Rightarrow> rstr
     \<Rightarrow> int \<Rightarrow> (rstr \<Rightarrow> bool) \<Rightarrow> bool" where
  "kit_laws L R unb64 header now test_tenant \<longleftrightarrow>
     (\<forall>net url iss aud token aud' sub exp.
        authentic R unb64 net url header token \<longrightarrow> now < sint exp \<longrightarrow>
        (let cfg = testkit_config (kc_config_new L) (kc_with_jwks_uri L) iss aud url
         in (token_claims unb64 token (human_json iss aud' sub exp) \<longrightarrow>
               (aud' \<noteq> aud \<longrightarrow> (\<exists>e. kc_verify L net cfg token (kc_default_options L) = Inl e)) \<and>
               (aud' = aud \<longrightarrow> \<not> test_tenant iss \<longrightarrow>
                  (\<exists>h env. kc_verify L net cfg token (kc_default_options L) =
                     Inr \<lparr>cv_identity = HumanIdentity h, cv_environment = env\<rparr> \<and> kc_human_sub L h = sub))) \<and>
            (\<forall>owner ids. token_claims unb64 token (machine_json iss aud' sub owner exp) \<longrightarrow> aud' \<in> set ids \<longrightarrow>
               \<not> test_tenant iss \<longrightarrow>
               (\<exists>env. kc_verify L net cfg token (kc_accept_machine_clients L ids) =
                  Inr \<lparr>cv_identity = MachineIdentity sub owner aud', cv_environment = env\<rparr>))))"

section \<open>The tests\<close>

definition test_issuer :: rstr where
  "test_issuer = lit ''https://signin.test.example''"

definition mints_a_human_token_that_verifies_for_real ::
  "('cfg, 'opts, 'env, 'h, 'x) kit_client \<Rightarrow> testkit_api \<Rightarrow> ('key, 'rng) rsa_api
     \<Rightarrow> ('b, 'listener, 'e, 'key, 'rng) test_world \<Rightarrow> ('key, unit) cell_run" where
  "mints_a_human_token_that_verifies_for_real L K R W =
     cell_bind (start_jwks_server (tw_bind W) (tw_local_addr W) K R (tw_generate W)) (\<lambda>(listener, served, jwks).
     let cfg = testkit_config (kc_config_new L) (kc_with_jwks_uri L) test_issuer (lit ''cs_test_aud'') jwks in
     cell_bind (testkit_call True K R (tw_generate_again W) (tw_rng W)
         (MintHuman (tw_nanos W) test_issuer (lit ''cs_test_aud'') (lit ''sub_alice''))) (\<lambda>token.
     cell_ret (run_bind (unwrap (kc_verify L (with_server (tw_net W) jwks served) cfg token (kc_default_options L)))
       (\<lambda>verified. case cv_identity verified of
            HumanIdentity h \<Rightarrow> assert_that (kc_human_sub L h = lit ''sub_alice'')
          | other \<Rightarrow> Panic ''expected Human''))))"

definition mints_a_machine_token_that_verifies_for_real ::
  "('cfg, 'opts, 'env, 'h, 'x) kit_client \<Rightarrow> testkit_api \<Rightarrow> ('key, 'rng) rsa_api
     \<Rightarrow> ('b, 'listener, 'e, 'key, 'rng) test_world \<Rightarrow> ('key, unit) cell_run" where
  "mints_a_machine_token_that_verifies_for_real L K R W =
     cell_bind (start_jwks_server (tw_bind W) (tw_local_addr W) K R (tw_generate W)) (\<lambda>(listener, served, jwks).
     let cfg = testkit_config (kc_config_new L) (kc_with_jwks_uri L) test_issuer (lit ''cs_test_client'') jwks in
     cell_bind (testkit_call True K R (tw_generate_again W) (tw_rng W)
         (MintMachine (tw_nanos W) test_issuer (lit ''cs_test_client'') (lit ''agent_bot1'') (lit ''sub_alice'')))
       (\<lambda>token.
     let opts = kc_accept_machine_clients L [lit ''cs_test_client''] in
     cell_ret (run_bind (unwrap (kc_verify L (with_server (tw_net W) jwks served) cfg token opts))
       (\<lambda>verified. case cv_identity verified of
            MachineIdentity sub owner_sub client_id \<Rightarrow>
              all_of [assert_that (sub = lit ''agent_bot1''), assert_that (owner_sub = lit ''sub_alice'')]
          | other \<Rightarrow> Panic ''expected Machine''))))"

definition a_token_signed_under_a_different_testkit_key_fails_to_verify ::
  "('cfg, 'opts, 'env, 'h, 'x) kit_client \<Rightarrow> testkit_api \<Rightarrow> ('key, 'rng) rsa_api
     \<Rightarrow> ('b, 'listener, 'e, 'key, 'rng) test_world \<Rightarrow> ('key, unit) cell_run" where
  "a_token_signed_under_a_different_testkit_key_fails_to_verify L K R W =
     cell_bind (start_jwks_server (tw_bind W) (tw_local_addr W) K R (tw_generate W)) (\<lambda>(listener, served, jwks).
     let cfg = testkit_config (kc_config_new L) (kc_with_jwks_uri L) test_issuer (lit ''cs_test_aud'') jwks in
     cell_bind (testkit_call True K R (tw_generate_again W) (tw_rng W)
         (MintHuman (tw_nanos W) test_issuer (lit ''cs_someone_else'') (lit ''sub_alice''))) (\<lambda>token.
     let result = kc_verify L (with_server (tw_net W) jwks served) cfg token (kc_default_options L)
     in cell_ret (assert_that (isl result))))"

definition testkit_suite ::
  "('cfg, 'opts, 'env, 'h, 'x) kit_client \<Rightarrow> testkit_api \<Rightarrow> ('key, 'rng) rsa_api
     \<Rightarrow> ('b, 'listener, 'e, 'key, 'rng) test_world \<Rightarrow> ('key, unit) cell_run list" where
  "testkit_suite L K R W =
     [mints_a_human_token_that_verifies_for_real L K R W,
      mints_a_machine_token_that_verifies_for_real L K R W,
      a_token_signed_under_a_different_testkit_key_fails_to_verify L K R W]"

section \<open>The model passes them\<close>

lemma jwks_started:
  assumes "granted W port"
  shows "\<exists>listener k. start_jwks_server (tw_bind W) (tw_local_addr W) K R (tw_generate W) cell =
    (Ret (listener, jwks_body (keyed K R k (tw_rng W)), jwks_url (loopback_addr port)), Some k)"
proof -
  obtain listener k where W: "tw_bind W = Inr listener" "tw_local_addr W listener = Inr (loopback_addr port)"
    "tw_generate W = Inr k"
    using assms unfolding granted_def by blast
  have "jwks_of_process K R (tw_generate W) cell = (Ret (jwks_body (keyed K R (key_of cell k) (tw_rng W))), Some (key_of cell k))"
    by (simp add: W jwks_of_process_def keypair_def cell_bind_def get_or_init_key jwks_body_def keyed_def)
  then show ?thesis by (auto simp: start_jwks_server_def W(1,2) cell_bind_Ret)
qed

lemma authentic_started:
  assumes "b64_laws K unb64" "rsa_laws R"
  shows "authentic R unb64 (with_server net url (jwks_body (keyed K R k rng))) url h
    (make_jwt (keyed K R k rng) h c)"
  by (rule authentic_jwt [OF assms plain_lits(17), where rng' = rng])
     (simp add: jwks_body_json [OF keyed_laws [OF assms(1)], of R k rng] jwks_json_def)

lemma plain_kit:
  "plain_str test_issuer" "plain_str (lit ''cs_test_aud'')" "plain_str (lit ''sub_alice'')"
  "plain_str (lit ''cs_test_client'')" "plain_str (lit ''agent_bot1'')" "plain_str (lit ''cs_someone_else'')"
  by (simp_all add: test_issuer_def plain_str_def plain_char_def lit_def)

lemma kit_human:
  assumes "b64_laws K unb64" "rsa_laws R" "kit_laws L R unb64 (token_header K) now test_tenant"
    and "\<not> test_tenant iss" "now < sint exp" "plain_str iss" "plain_str aud'" "plain_str sub"
  shows "if aud' = aud
    then \<exists>h env. kc_verify L (with_server net url (jwks_body (keyed K R k rng)))
        (testkit_config (kc_config_new L) (kc_with_jwks_uri L) iss aud url)
        (make_jwt (keyed K R k rng) (token_header K) (human_claims iss aud' sub exp)) (kc_default_options L) =
      Inr \<lparr>cv_identity = HumanIdentity h, cv_environment = env\<rparr> \<and> kc_human_sub L h = sub
    else \<exists>e. kc_verify L (with_server net url (jwks_body (keyed K R k rng)))
        (testkit_config (kc_config_new L) (kc_with_jwks_uri L) iss aud url)
        (make_jwt (keyed K R k rng) (token_header K) (human_claims iss aud' sub exp)) (kc_default_options L) = Inl e"
  using assms(3) [unfolded kit_laws_def Let_def, rule_format, THEN conjunct1, rule_format,
      OF authentic_started [OF assms(1,2)] assms(5)
         human_jwt_claims [OF keyed_laws [OF assms(1)] assms(6-8)]] assms(4)
  unfolding if_bool_eq_conj by blast

lemma kit_machine:
  assumes "b64_laws K unb64" "rsa_laws R" "kit_laws L R unb64 (token_header K) now test_tenant"
    and "\<not> test_tenant iss" "now < sint exp" "plain_str iss" "plain_str aud'" "plain_str sub" "plain_str owner" "aud' \<in> set ids"
  shows "\<exists>env. kc_verify L (with_server net url (jwks_body (keyed K R k rng)))
        (testkit_config (kc_config_new L) (kc_with_jwks_uri L) iss aud url)
        (make_jwt (keyed K R k rng) (token_header K) (machine_claims iss aud' sub owner exp))
        (kc_accept_machine_clients L ids) =
      Inr \<lparr>cv_identity = MachineIdentity sub owner aud', cv_environment = env\<rparr>"
  using assms(3) [unfolded kit_laws_def Let_def, rule_format, THEN conjunct2, rule_format,
      OF authentic_started [OF assms(1,2)] assms(5)
         machine_jwt_claims [OF keyed_laws [OF assms(1)] assms(6-9)] assms(10,4)] .

lemma testkit_tests_pass:
  assumes "b64_laws K unb64" "rsa_laws R" "kit_laws L R unb64 (token_header K) now test_tenant"
    and "\<not> test_tenant test_issuer" "granted W port"
    and "now < tw_nanos W div 10 ^ 9 + 3600" "t \<in> set (testkit_suite L K R W)"
  shows "fst (t cell) = Ret ()"
proof -
  have clock: "mint_clock (tw_nanos W)" using assms(5) by (simp add: granted_def)
  have later: "now < sint (hour_later (tw_nanos W))" using assms(6) sint_hour_later [OF clock] by simp
  obtain listener k where start: "start_jwks_server (tw_bind W) (tw_local_addr W) K R (tw_generate W) cell =
      (Ret (listener, jwks_body (keyed K R k (tw_rng W)), jwks_url (loopback_addr port)), Some k)"
    using jwks_started [OF assms(5)] by blast
  note human = kit_human [OF assms(1-4) later plain_kit(1) _ plain_kit(3)]
    and machine = kit_machine [OF assms(1-4) later plain_kit(1,4,5,3)]
  note runs = cell_bind_Ret start minted_filled [OF clock] test_simps Let_def
  have "fst (mints_a_human_token_that_verifies_for_real L K R W cell) = Ret ()"
    using human [OF plain_kit(2), of "lit ''cs_test_aud''" "tw_net W" "jwks_url (loopback_addr port)" k "tw_rng W"]
    by (auto simp: mints_a_human_token_that_verifies_for_real_def runs simp del: testkit_call.simps)
  moreover have "fst (mints_a_machine_token_that_verifies_for_real L K R W cell) = Ret ()"
    using machine [of "[lit ''cs_test_client'']" "tw_net W" "jwks_url (loopback_addr port)" k "tw_rng W" "lit ''cs_test_client''"]
    by (auto simp: mints_a_machine_token_that_verifies_for_real_def runs simp del: testkit_call.simps)
  moreover have "lit ''cs_someone_else'' \<noteq> lit ''cs_test_aud''" by (simp add: lit_def)
  then have "fst (a_token_signed_under_a_different_testkit_key_fails_to_verify L K R W cell) = Ret ()"
    using human [OF plain_kit(6), of "lit ''cs_test_aud''" "tw_net W" "jwks_url (loopback_addr port)" k "tw_rng W"]
    by (auto simp: a_token_signed_under_a_different_testkit_key_fails_to_verify_def runs
        simp del: testkit_call.simps)
  ultimately show ?thesis using assms(7) by (auto simp: testkit_suite_def)
qed

text \<open>
  The model passes the testkit's own tests, in whatever order they run and whichever of them
  generates the key they share, if their issuer is not a test tenant's to the library: on every
  port and at any clock within the hour of the mint's.
\<close>

theorem testkit_suite_passes:
  assumes "b64_laws K unb64" "rsa_laws R" "kit_laws L R unb64 (token_header K) now test_tenant"
    and "\<not> test_tenant test_issuer" "granted W port"
    and "now < tw_nanos W div 10 ^ 9 + 3600" "set tests \<subseteq> set (testkit_suite L K R W)"
  shows "set (run_tests tests cell) \<subseteq> {Ret ()}"
  by (rule run_tests_pass) (use testkit_tests_pass [OF assms(1-6)] assms(7) in blast)

text \<open>A concrete library: it fetches the key, checks the token and reads its claims.\<close>

definition example_kit :: "int \<Rightarrow> (rstr \<times> rstr \<times> rstr, rstr list, string, rstr, unit) kit_client" where
  "example_kit now = \<lparr>kc_config_new = (\<lambda>iss aud. (iss, aud, [])),
     kc_with_jwks_uri = (\<lambda>(iss, aud, _) url. (iss, aud, url)),
     kc_default_options = [], kc_accept_machine_clients = id,
     kc_verify = (\<lambda>net (iss, aud, url) token ids.
       case (fetched_key example_unb64 net url, claims_of_token token) of
         (Some key, Some (iss', sub, aud', exp, owner)) \<Rightarrow>
           if \<not> token_verifies example_rsa example_unb64 key token \<or> iss' \<noteq> iss \<or> exp \<le> now
           then Inl (OtherChirpError ())
           else (case owner of
                   None \<Rightarrow> (if aud' = aud
                     then Inr \<lparr>cv_identity = (if example_tenant iss then TestIdentity sub else HumanIdentity sub),
                               cv_environment = example_env_of iss\<rparr>
                     else Inl (OtherChirpError ()))
                 | Some o' \<Rightarrow> (if aud' \<in> set ids
                     then Inr \<lparr>cv_identity = MachineIdentity sub o' aud', cv_environment = example_env_of iss\<rparr>
                     else Inl MachineAudienceNotAccepted))
       | _ \<Rightarrow> Inl (OtherChirpError ())),
     kc_human_sub = id\<rparr>"

lemma example_kit_laws: "kit_laws (example_kit now) example_rsa example_unb64 header now example_tenant"
  by (auto simp: kit_laws_def example_kit_def testkit_config_def claims_read read_claims_minted authentic_def
      split: option.splits)

theorem testkit_suite_passes_witness:
  "set (run_tests (testkit_suite (example_kit 10) example_testkit example_rsa example_world) None) \<subseteq> {Ret ()}"
  by (rule testkit_suite_passes [OF example_b64_laws example_rsa_laws example_kit_laws [of 10] _ example_granted
        _ subset_refl])
     (simp_all add: example_world_def example_tenant_def test_issuer_def, simp_all add: lit_def)

end
