(* ===== verification/Shutdown_Signal.thy ===== *)
theory Shutdown_Signal
  imports Rust_Str
begin

text \<open>
  \<open>platform-lambda\<close>, function \<open>shutdown_signal\<close>: the future that completes on Ctrl-C or
  SIGTERM. The operating system is the record \<open>signals\<close>: whether this is a unix build,
  whether each handler could be installed, which branch each round of \<open>select!\<close> happens to poll first, and
  which signals have been delivered when the future is polled for the \<open>t\<close>-th time. Each poll
  is one round of the loop; a future that stays pending for ever is the value \<open>None\<close>.
\<close>

section \<open>The future\<close>

datatype os_signal = SigInt | SigTerm

datatype future_end = Completed | Unwound rstr

record signals =
  sg_unix :: bool
  sg_ctrl_c_installs :: bool
  sg_term_installs :: bool
  sg_ctrl_c_first :: "nat \<Rightarrow> bool"
  sg_arrives :: "nat \<Rightarrow> os_signal \<Rightarrow> bool"

text \<open>One poll of each branch: \<open>None\<close> is pending. The first poll installs the handler.\<close>

definition poll_ctrl_c :: "signals \<Rightarrow> nat \<Rightarrow> future_end option" where
  "poll_ctrl_c os t =
     (if \<not> sg_ctrl_c_installs os then Some (Unwound (lit ''install Ctrl-C handler''))
      else if sg_arrives os t SigInt then Some Completed
      else None)"

definition poll_terminate :: "signals \<Rightarrow> nat \<Rightarrow> future_end option" where
  "poll_terminate os t =
     (if \<not> sg_unix os then None
      else if \<not> sg_term_installs os then Some (Unwound (lit ''install SIGTERM handler''))
      else if sg_arrives os t SigTerm then Some Completed
      else None)"

text \<open>\<open>tokio::select!\<close>: the branches are polled in turn and the first that is ready wins.\<close>

definition poll_shutdown :: "signals \<Rightarrow> nat \<Rightarrow> future_end option" where
  "poll_shutdown os t =
     (let first = (if sg_ctrl_c_first os t then poll_ctrl_c os t else poll_terminate os t);
          second = (if sg_ctrl_c_first os t then poll_terminate os t else poll_ctrl_c os t)
      in (case first of Some r \<Rightarrow> Some r | None \<Rightarrow> second))"

partial_function (option) await_shutdown :: "signals \<Rightarrow> nat \<Rightarrow> (nat \<times> future_end) option" where
  "await_shutdown os t =
     (case poll_shutdown os t of
        Some r \<Rightarrow> Some (t, r)
      | None \<Rightarrow> await_shutdown os (Suc t))"

definition shutdown_signal :: "signals \<Rightarrow> (nat \<times> future_end) option" where
  "shutdown_signal os = await_shutdown os 0"

section \<open>The loop\<close>

lemma await_ready: "poll_shutdown os t = Some r \<Longrightarrow> await_shutdown os t = Some (t, r)"
  by (simp add: await_shutdown.simps)

lemma await_skips:
  "\<forall>k < n. poll_shutdown os (t + k) = None \<Longrightarrow> await_shutdown os t = await_shutdown os (t + n)"
proof (induction n)
  case (Suc n)
  then have "await_shutdown os t = await_shutdown os (t + n)" by simp
  moreover have "poll_shutdown os (t + n) = None" using Suc.prems by simp
  then have "await_shutdown os (t + n) = await_shutdown os (t + Suc n)"
    by (subst await_shutdown.simps) simp
  ultimately show ?case by simp
qed simp

lemma await_result:
  assumes "await_shutdown os t = Some y"
  shows "t \<le> fst y \<and> poll_shutdown os (fst y) = Some (snd y) \<and>
     (\<forall>k. t \<le> k \<and> k < fst y \<longrightarrow> poll_shutdown os k = None)"
proof (rule await_shutdown.raw_induct [where P = "\<lambda>os t y. t \<le> fst y \<and>
    poll_shutdown os (fst y) = Some (snd y) \<and>
    (\<forall>k. t \<le> k \<and> k < fst y \<longrightarrow> poll_shutdown os k = None)", OF _ assms])
  fix await :: "signals \<Rightarrow> nat \<Rightarrow> (nat \<times> future_end) option" and os :: signals and t y
  assume later: "\<And>os t y. await os t = Some y \<Longrightarrow>
      t \<le> fst y \<and> poll_shutdown os (fst y) = Some (snd y) \<and>
      (\<forall>k. t \<le> k \<and> k < fst y \<longrightarrow> poll_shutdown os k = None)"
    and now: "(case poll_shutdown os t of Some r \<Rightarrow> Some (t, r) | None \<Rightarrow> await os (Suc t)) = Some y"
  show "t \<le> fst y \<and> poll_shutdown os (fst y) = Some (snd y) \<and>
     (\<forall>k. t \<le> k \<and> k < fst y \<longrightarrow> poll_shutdown os k = None)"
  proof (cases "poll_shutdown os t")
    case None
    with now have "await os (Suc t) = Some y" by simp
    note rest = later [OF this]
    have "poll_shutdown os k = None" if "t \<le> k" "k < fst y" for k
      using rest None that by (cases "k = t") (auto simp: Suc_le_eq)
    with rest show ?thesis by (auto simp: Suc_le_eq)
  next
    case (Some r')
    with now show ?thesis by auto
  qed
qed

lemma await_pending: "await_shutdown os t = None \<Longrightarrow> poll_shutdown os (t + k) = None"
proof (induction k rule: less_induct)
  case (less k)
  have "\<forall>j < k. poll_shutdown os (t + j) = None" using less by blast
  then have "await_shutdown os (t + k) = None" using await_skips less.prems by metis
  then show ?case by (cases "poll_shutdown os (t + k)") (simp_all add: await_ready)
qed

text \<open>What the loop computes: the first poll that is ready, and nothing if none ever is.\<close>

lemma shutdown_signal_iff:
  "shutdown_signal os = Some (n, r) \<longleftrightarrow>
     poll_shutdown os n = Some r \<and> (\<forall>k < n. poll_shutdown os k = None)"
proof
  assume "shutdown_signal os = Some (n, r)"
  from await_result [OF this [unfolded shutdown_signal_def]]
  show "poll_shutdown os n = Some r \<and> (\<forall>k < n. poll_shutdown os k = None)" by simp
next
  assume a: "poll_shutdown os n = Some r \<and> (\<forall>k < n. poll_shutdown os k = None)"
  then have "shutdown_signal os = await_shutdown os n"
    using await_skips [of n os 0] by (simp add: shutdown_signal_def)
  with a show "shutdown_signal os = Some (n, r)" by (simp add: await_ready)
qed

lemma shutdown_pending_iff: "shutdown_signal os = None \<longleftrightarrow> (\<forall>k. poll_shutdown os k = None)"
proof
  assume "shutdown_signal os = None"
  then show "\<forall>k. poll_shutdown os k = None"
    using await_pending [of os 0] by (simp add: shutdown_signal_def)
next
  assume "\<forall>k. poll_shutdown os k = None"
  then show "shutdown_signal os = None"
    using shutdown_signal_iff by (metis option.distinct(1) option.exhaust prod.exhaust)
qed

section \<open>What it promises\<close>

definition handlers_install :: "signals \<Rightarrow> bool" where
  "handlers_install os \<longleftrightarrow> sg_ctrl_c_installs os \<and> (sg_unix os \<longrightarrow> sg_term_installs os)"

definition stop_requested :: "signals \<Rightarrow> nat \<Rightarrow> bool" where
  "stop_requested os t \<longleftrightarrow> sg_arrives os t SigInt \<or> (sg_unix os \<and> sg_arrives os t SigTerm)"

lemma poll_installed:
  "handlers_install os \<Longrightarrow> poll_shutdown os t = (if stop_requested os t then Some Completed else None)"
  by (auto simp: poll_shutdown_def poll_ctrl_c_def poll_terminate_def handlers_install_def
      stop_requested_def Let_def)

lemma poll_uninstalled:
  "\<not> handlers_install os \<Longrightarrow> poll_shutdown os t \<noteq> None"
  by (auto simp: poll_shutdown_def poll_ctrl_c_def poll_terminate_def handlers_install_def Let_def
      split: option.splits)

lemma shutdown_installed_cases:
  assumes "handlers_install os"
  shows "(shutdown_signal os = None \<and> (\<forall>t. \<not> stop_requested os t)) \<or>
    (\<exists>t. shutdown_signal os = Some (t, Completed) \<and> stop_requested os t)"
proof (cases "shutdown_signal os")
  case None
  then show ?thesis
    unfolding shutdown_pending_iff poll_installed [OF assms] by (metis option.distinct(1))
next
  case (Some tr)
  then obtain t r where "shutdown_signal os = Some (t, r)" by (cases tr) simp
  then show ?thesis
    unfolding shutdown_signal_iff poll_installed [OF assms] by (auto split: if_splits)
qed

text \<open>
  C11: \<open>shutdown_signal\<close> completes exactly when a stop request ever reaches the process (Ctrl-C,
  or SIGTERM in a unix build), at the first poll that sees one, and stays pending for ever
  otherwise; neither the order in which \<open>select!\<close> polls its branches nor what arrives later
  makes a difference.
\<close>

theorem shutdown_completes_at_first_request:
  assumes "handlers_install os"
  shows "shutdown_signal os =
    (if \<exists>t. stop_requested os t then Some (LEAST t. stop_requested os t, Completed) else None)"
proof (cases "\<exists>t. stop_requested os t")
  case True
  define n where "n = (LEAST t. stop_requested os t)"
  have "stop_requested os n" unfolding n_def using True by (rule LeastI_ex)
  moreover have "stop_requested os k \<Longrightarrow> \<not> k < n" for k
    unfolding n_def using not_less_Least by blast
  ultimately have "shutdown_signal os = Some (n, Completed)"
    unfolding shutdown_signal_iff poll_installed [OF assms] by auto
  with True show ?thesis by (simp only: n_def if_True simp_thms)
next
  case False
  then have "shutdown_signal os = None"
    unfolding shutdown_pending_iff poll_installed [OF assms] by simp
  then show ?thesis by (simp only: if_not_P [OF False])
qed

definition example_signals :: "bool \<Rightarrow> (nat \<times> os_signal) list \<Rightarrow> signals" where
  "example_signals unix arrivals = \<lparr>sg_unix = unix, sg_ctrl_c_installs = True,
     sg_term_installs = True, sg_ctrl_c_first = (\<lambda>t. True),
     sg_arrives = (\<lambda>t s. (t, s) \<in> set arrivals)\<rparr>"

lemma example_signals_install [simp]: "handlers_install (example_signals u as)"
  by (simp add: handlers_install_def example_signals_def)

theorem shutdown_completes_at_first_request_witness:
  "shutdown_signal (example_signals True [(5, SigInt), (3, SigTerm)]) = Some (3, Completed)
   \<and> shutdown_signal (example_signals False [(3, SigTerm)]) = None"
proof
  let ?s = "example_signals True [(5, SigInt), (3, SigTerm)]"
  have r: "stop_requested ?s = (\<lambda>t. t = 5 \<or> t = 3)"
    by (rule ext) (simp add: stop_requested_def example_signals_def)
  have "(LEAST t. stop_requested ?s t) = 3" unfolding r by (rule Least_equality) auto
  moreover have "\<exists>t. stop_requested ?s t" unfolding r by blast
  ultimately show "shutdown_signal ?s = Some (3, Completed)"
    by (simp only: shutdown_completes_at_first_request [OF example_signals_install] if_True)
  show "shutdown_signal (example_signals False [(3, SigTerm)]) = None"
    unfolding shutdown_completes_at_first_request [OF example_signals_install]
    by (simp add: stop_requested_def example_signals_def)
qed

text \<open>
  A handler that cannot be installed ends the future at its first poll: with a panic that
  names it, unless the other branch is polled first and is already complete.
\<close>

theorem uninstalled_handler_ends_at_once:
  assumes "\<not> handlers_install os"
  shows "\<exists>r. shutdown_signal os = Some (0, r) \<and>
    (r = Completed \<longrightarrow> stop_requested os 0)"
proof -
  obtain r where r: "poll_shutdown os 0 = Some r" using poll_uninstalled [OF assms] by blast
  then have "shutdown_signal os = Some (0, r)" by (simp add: shutdown_signal_iff)
  moreover have "r = Completed \<Longrightarrow> stop_requested os 0"
    using r by (auto simp: poll_shutdown_def poll_ctrl_c_def poll_terminate_def stop_requested_def
        Let_def split: if_splits option.splits)
  ultimately show ?thesis by blast
qed

end
