(* ===== verification/Lambda_Runtime.thy ===== *)
theory Lambda_Runtime
  imports Socket_Roundtrip Rust_Env Shutdown_Signal
begin

text \<open>
  \<open>platform-lambda\<close>: the entry point \<open>serve\<close>, the store selector and the health shapes. The
  runtimes the entry point calls (tracing, the Lambda runtime, the TCP listener, axum's
  server) are the record \<open>host\<close>; a run is the list of what happened, in order, and how it
  ended. The environment and \<open>SocketAddr\<close> parsing are the standard library's.
\<close>

section \<open>The entry point\<close>

definition aws_lambda_runtime_api_env :: rstr where
  "aws_lambda_runtime_api_env = lit ''AWS_LAMBDA_RUNTIME_API''"

record serve_config =
  sc_bind_env :: rstr
  sc_default_bind :: rstr
  sc_default_filter :: rstr

text \<open>
  What the process can call: the filter of the environment if it is valid, the filter of a
  text, installing the subscriber (which may panic), running under Lambda, binding, and
  serving, which is given the shutdown future, and \<open>LambdaLayer::default()\<close>, which makes the
  router a service of Lambda events. Running under Lambda and serving may go on for
  ever: then they are \<open>None\<close>, and the run's outcome is \<open>StillRunning\<close>. The message of a panic is
  the text the source gives to \<open>expect\<close> or \<open>panic!\<close>, without the error appended to it.
\<close>

datatype serve_outcome = Returned | Panicked rstr | StillRunning

record ('filter, 'app, 'svc, 'listener, 'e) host =
  host_env :: environ
  host_env_filter :: "'e + 'filter"
  host_filter_new :: "rstr \<Rightarrow> 'filter"
  host_init_subscriber :: "'filter \<Rightarrow> rstr + unit"
  host_lambda_layer :: "'app \<Rightarrow> 'svc"
  host_run_lambda :: "'svc \<Rightarrow> ('e + unit) option"
  host_bind :: "socket_addr \<Rightarrow> 'e + 'listener"
  host_signals :: signals
  host_serve :: "'listener \<Rightarrow> 'app \<Rightarrow> (nat \<times> future_end) option \<Rightarrow> ('e + unit) option"

datatype ('filter, 'app, 'svc) serve_event =
    TracingInstalled 'filter
  | LambdaStarted 'svc
  | BindTried socket_addr
  | StartLogged socket_addr
  | LocalServing 'app

type_synonym ('filter, 'app, 'svc) serve_run = "('filter, 'app, 'svc) serve_event list \<times> serve_outcome"

text \<open>A step that can panic, followed by the rest of the run when it does not.\<close>

definition then_run ::
  "('filter, 'app, 'svc) serve_run \<Rightarrow> ('filter, 'app, 'svc) serve_run \<Rightarrow> ('filter, 'app, 'svc) serve_run" where
  "then_run r k = (if snd r = Returned then (fst r @ fst k, snd k) else r)"

text \<open>\<open>.await.expect(message)\<close> as the last thing a run does.\<close>

definition await_expect :: "rstr \<Rightarrow> ('e + unit) option \<Rightarrow> serve_outcome" where
  "await_expect message result =
     (case result of None \<Rightarrow> StillRunning | Some (Inl e) \<Rightarrow> Panicked message | Some (Inr u) \<Rightarrow> Returned)"

definition tracing_filter :: "('filter, 'app, 'svc, 'listener, 'e) host \<Rightarrow> rstr \<Rightarrow> 'filter" where
  "tracing_filter h default_filter =
     (case host_env_filter h of Inr f \<Rightarrow> f | Inl e \<Rightarrow> host_filter_new h default_filter)"

definition init_tracing :: "('filter, 'app, 'svc, 'listener, 'e) host \<Rightarrow> rstr \<Rightarrow> ('filter, 'app, 'svc) serve_run" where
  "init_tracing h default_filter =
     (let filter = tracing_filter h default_filter
      in (case host_init_subscriber h filter of
            Inr u \<Rightarrow> ([TracingInstalled filter], Returned)
          | Inl m \<Rightarrow> ([], Panicked m)))"

definition subscriber_free :: "('filter, 'app, 'svc, 'listener, 'e) host \<Rightarrow> bool" where
  "subscriber_free h \<longleftrightarrow> host_init_subscriber h = (\<lambda>f. Inr ())"

text \<open>
  \<open>ServiceBuilder::new().layer(l).service(app)\<close> wraps the router in the one layer; the wrapped
  service is what the Lambda runtime is given.
\<close>

definition run_lambda ::
  "('filter, 'app, 'svc, 'listener, 'e) host \<Rightarrow> 'app
     \<Rightarrow> ('filter, 'app, 'svc) serve_event list \<times> ('e + unit) option" where
  "run_lambda h app =
     (let service = host_lambda_layer h app
      in ([LambdaStarted service], host_run_lambda h service))"

definition bind_text :: "('filter, 'app, 'svc, 'listener, 'e) host \<Rightarrow> serve_config \<Rightarrow> rstr" where
  "bind_text h config =
     (case env_var (host_env h) (sc_bind_env config) of Inr s \<Rightarrow> s | Inl e \<Rightarrow> sc_default_bind config)"

definition serve ::
  "('filter, 'app, 'svc, 'listener, 'e) host \<Rightarrow> 'app \<Rightarrow> serve_config \<Rightarrow> ('filter, 'app, 'svc) serve_run" where
  "serve h app config =
     then_run (init_tracing h (sc_default_filter config))
       (case parse_socket_addr (bind_text h config) of
          None \<Rightarrow> ([], Panicked (sc_bind_env config @ lit '' must be host:port''))
        | Some bind_addr \<Rightarrow>
            if env_var_os (host_env h) aws_lambda_runtime_api_env \<noteq> None then
              (let (started, result) = run_lambda h app
               in (started, await_expect (lit ''run Lambda service'') result))
            else
              (case host_bind h bind_addr of
                 Inl e \<Rightarrow> ([BindTried bind_addr], Panicked (lit ''bind service listener''))
               | Inr listener \<Rightarrow>
                   ([BindTried bind_addr, StartLogged bind_addr, LocalServing app],
                    await_expect (lit ''run service'')
                      (host_serve h listener app (shutdown_signal (host_signals h))))))"

lemma then_run_simps [simp]:
  "then_run (es, Returned) k = (es @ fst k, snd k)" "then_run (es, Panicked m) k = (es, Panicked m)"
  by (simp_all add: then_run_def)

lemma await_expect_simps [simp]:
  "await_expect m None = StillRunning" "await_expect m (Some (Ok u)) = Returned"
  "await_expect m (Some (Inl e)) = Panicked m"
  by (simp_all add: await_expect_def)

lemma bind_text_set: "host_env h (sc_bind_env c) = Some (Unicode s) \<Longrightarrow> bind_text h c = s"
  by (simp add: bind_text_def env_var_def)

lemma bind_text_unset: "host_env h (sc_bind_env c) = None \<Longrightarrow> bind_text h c = sc_default_bind c"
  by (simp add: bind_text_def env_var_def)

section \<open>The store selector\<close>

definition select_dynamo_or_memory ::
  "environ \<Rightarrow> 'cfg \<Rightarrow> ('cfg \<Rightarrow> 'client) \<Rightarrow> rstr \<Rightarrow> ('client \<Rightarrow> rstr \<Rightarrow> 's) \<Rightarrow> (unit \<Rightarrow> 's) \<Rightarrow> 's \<times> rstr" where
  "select_dynamo_or_memory env load_defaults client_new table_env from_dynamo from_memory =
     (case env_var env table_env of
        Inr table_name \<Rightarrow>
          (let config = load_defaults; client = client_new config
           in (from_dynamo client table_name, lit ''dynamodb''))
      | Inl e \<Rightarrow> (from_memory (), lit ''memory''))"

section \<open>Health and service info\<close>

record health =
  hl_service :: rstr
  hl_status :: rstr

definition health_ok :: "rstr \<Rightarrow> health" where
  "health_ok service = \<lparr>hl_service = service, hl_status = lit ''ok''\<rparr>"

record service_info =
  si_service :: rstr
  si_protocol :: rstr
  si_implementation_status :: rstr
  si_bind_addr :: rstr
  si_store :: rstr

definition service_info_new :: "rstr \<Rightarrow> rstr \<Rightarrow> rstr \<Rightarrow> rstr \<Rightarrow> rstr \<Rightarrow> service_info" where
  "service_info_new service protocol implementation_status bind_addr store =
     \<lparr>si_service = service, si_protocol = protocol, si_implementation_status = implementation_status,
      si_bind_addr = bind_addr, si_store = store\<rparr>"

text \<open>A router as its routes: the path, and the handler of each method.\<close>

datatype http_method = MethodGet | MethodPost

definition health_router :: "rstr \<Rightarrow> (rstr \<times> http_method \<times> (unit \<Rightarrow> health)) list" where
  "health_router service = [(lit ''/health'', MethodGet, (\<lambda>_. health_ok service))]"

section \<open>Properties\<close>

text \<open>What a run shows of the two runtimes.\<close>

lemma serve_events:
  assumes "subscriber_free h"
  shows "serve h app c =
    (let f = tracing_filter h (sc_default_filter c) in
     case parse_socket_addr (bind_text h c) of
       None \<Rightarrow> ([TracingInstalled f], Panicked (sc_bind_env c @ lit '' must be host:port''))
     | Some a \<Rightarrow>
         if host_env h aws_lambda_runtime_api_env \<noteq> None then
           ([TracingInstalled f, LambdaStarted (host_lambda_layer h app)],
            await_expect (lit ''run Lambda service'') (host_run_lambda h (host_lambda_layer h app)))
         else (case host_bind h a of
             Inl e \<Rightarrow> ([TracingInstalled f, BindTried a], Panicked (lit ''bind service listener''))
           | Inr listener \<Rightarrow>
               ([TracingInstalled f, BindTried a, StartLogged a, LocalServing app],
                await_expect (lit ''run service'')
                  (host_serve h listener app (shutdown_signal (host_signals h))))))"
  using assms
  by (simp add: serve_def init_tracing_def run_lambda_def subscriber_free_def env_var_os_def Let_def
      split: option.split sum.split)

lemma await_expect_Returned: "await_expect m r = Returned \<longleftrightarrow> r = Some (Inr ())"
  by (simp add: await_expect_def split: option.split sum.split)

text \<open>
  C5: an application is only ever run by one of the two runtimes, and by the right one. In every
  run whose tracing installs: if the Lambda runtime is started then it is with the application
  wrapped in the Lambda layer, the runtime's variable is set (even to text that is not
  Unicode), and no socket is bound or served; if the application is served on a socket then the
  variable is not set and the address of the configuration has been bound first; either way
  the address was a well-formed one, so a malformed one ends even a Lambda process, with a
  panic that names the variable; and a run returns only after one of the two runtimes has ended
  without an error.
\<close>

theorem serve_one_runtime:
  assumes "subscriber_free h"
  shows "(\<forall>svc. LambdaStarted svc \<in> set (fst (serve h app c)) \<longrightarrow>
      svc = host_lambda_layer h app \<and> host_env h aws_lambda_runtime_api_env \<noteq> None \<and>
      (\<forall>a app'. BindTried a \<notin> set (fst (serve h app c)) \<and> LocalServing app' \<notin> set (fst (serve h app c)))) \<and>
    (\<forall>app'. LocalServing app' \<in> set (fst (serve h app c)) \<longrightarrow>
      app' = app \<and> host_env h aws_lambda_runtime_api_env = None \<and>
      (\<exists>a l before. parse_socket_addr (bind_text h c) = Some a \<and> host_bind h a = Ok l \<and>
         fst (serve h app c) = before @ [BindTried a, StartLogged a, LocalServing app])) \<and>
    (parse_socket_addr (bind_text h c) = None \<longrightarrow>
      (\<exists>f. serve h app c = ([TracingInstalled f], Panicked (sc_bind_env c @ lit '' must be host:port'')))) \<and>
    (snd (serve h app c) = Returned \<longrightarrow>
      (LambdaStarted (host_lambda_layer h app) \<in> set (fst (serve h app c)) \<and>
         host_run_lambda h (host_lambda_layer h app) = Some (Ok ())) \<or>
      (\<exists>l. LocalServing app \<in> set (fst (serve h app c)) \<and>
         host_serve h l app (shutdown_signal (host_signals h)) = Some (Ok ())))"
proof (cases "parse_socket_addr (bind_text h c)")
  case None
  then show ?thesis by (simp add: serve_events [OF assms] Let_def)
next
  case (Some a)
  show ?thesis
  proof (cases "host_env h aws_lambda_runtime_api_env = None")
    case True
    with Some show ?thesis
      by (cases "host_bind h a") (auto simp: serve_events [OF assms] Let_def await_expect_Returned)
  next
    case False
    with Some show ?thesis by (auto simp: serve_events [OF assms] Let_def await_expect_Returned)
  qed
qed

definition example_host :: "environ \<Rightarrow> (unit, unit, unit option, unit, unit) host" where
  "example_host env = \<lparr>host_env = env, host_env_filter = Inl (), host_filter_new = (\<lambda>_. ()),
     host_init_subscriber = (\<lambda>_. Inr ()), host_lambda_layer = Some,
     host_run_lambda = (\<lambda>_. None), host_bind = (\<lambda>_. Inr ()),
     host_signals = example_signals True [(7, SigTerm)],
     host_serve = (\<lambda>_ _. map_option (\<lambda>_. Inr ()))\<rparr>"

definition example_config :: serve_config where
  "example_config = \<lparr>sc_bind_env = lit ''BIND'', sc_default_bind = lit ''127.0.0.1:8082'',
     sc_default_filter = lit ''info''\<rparr>"

text \<open>The default address of the crate's own example.\<close>

lemma example_default_addr:
  "parse_socket_addr (lit ''127.0.0.1:8082'') = Some (SockV4 (V4 127 0 0 1) 8082)"
proof -
  have "lit ''127.0.0.1:8082'' = show_socket_addr (SockV4 (V4 127 0 0 1) 8082)"
    by (simp add: lit_def show_nat.simps)
  then show ?thesis by (simp only: parse_show_v4)
qed

lemma colon_unparsed: "parse_socket_addr (lit ''localhost:80'') = None"
  by (simp add: parse_socket_addr_def reader_defs read_number_def to_digit_def lit_def Let_def)

theorem serve_one_runtime_witness:
  "\<exists>f. serve (example_host [lit ''BIND'' \<mapsto> Unicode (lit ''localhost:80''),
      aws_lambda_runtime_api_env \<mapsto> Unicode []]) () example_config =
    ([TracingInstalled f], Panicked (lit ''BIND'' @ lit '' must be host:port''))"
proof -
  let ?h = "example_host [lit ''BIND'' \<mapsto> Unicode (lit ''localhost:80''),
      aws_lambda_runtime_api_env \<mapsto> Unicode []]"
  have b: "bind_text ?h example_config = lit ''localhost:80''"
    by (rule bind_text_set)
       (simp add: example_host_def example_config_def aws_lambda_runtime_api_env_def lit_def)
  have "subscriber_free ?h" by (simp add: example_host_def subscriber_free_def)
  moreover have "sc_bind_env example_config = lit ''BIND''" by (simp add: example_config_def)
  ultimately show ?thesis
    using serve_one_runtime [of ?h "()" example_config] by (simp add: b colon_unparsed)
qed

text \<open>
  C28: a local run serves exactly the configured address: if the text of the variable, or the
  default when it is not set, is how a socket address prints (any IPv4 address, any IPv6 one
  without flow information), the listener is bound to that address and to no other before
  anything is served.
\<close>

theorem serve_binds_configured_address:
  assumes "subscriber_free h" "host_env h aws_lambda_runtime_api_env = None"
    and "good_sock a" "bind_text h c = show_socket_addr a"
    and "host_bind h a = Ok listener"
  shows "serve h app c =
    ([TracingInstalled (tracing_filter h (sc_default_filter c)), BindTried a, StartLogged a,
      LocalServing app],
     await_expect (lit ''run service'') (host_serve h listener app (shutdown_signal (host_signals h))))"
proof -
  have p: "parse_socket_addr (bind_text h c) = Some a"
    unfolding assms(4) by (rule parse_show [OF assms(3)])
  show ?thesis
    by (simp add: serve_events [OF assms(1)] p assms(2,5) Let_def)
qed

lemma example_bind_text:
  "bind_text (example_host Map.empty) example_config = show_socket_addr (SockV4 (V4 127 0 0 1) 8082)"
  by (simp add: bind_text_unset example_host_def) (simp add: example_config_def lit_def show_nat.simps)

theorem serve_binds_configured_address_witness:
  "\<exists>o'. serve (example_host Map.empty) () example_config = ([TracingInstalled (),
     BindTried (SockV4 (V4 127 0 0 1) 8082), StartLogged (SockV4 (V4 127 0 0 1) 8082),
     LocalServing ()], o')"
  using serve_binds_configured_address [OF _ _ _ example_bind_text, of "()" "()"]
  by (simp add: example_host_def subscriber_free_def good_sock_def)

text \<open>
  The store and its label agree: the DynamoDB store is chosen, with the variable's exact
  value as its table (an empty one included), precisely when the variable holds Unicode text,
  and the in-memory store otherwise.
\<close>

theorem store_selection:
  "(snd (select_dynamo_or_memory env cfg mk v dyn mem) = lit ''dynamodb'' \<longleftrightarrow>
      (\<exists>t. env v = Some (Unicode t))) \<and>
   select_dynamo_or_memory env cfg mk v dyn mem =
     (case env v of
        Some (Unicode t) \<Rightarrow> (dyn (mk cfg) t, lit ''dynamodb'')
      | _ \<Rightarrow> (mem (), lit ''memory''))"
  by (auto simp: select_dynamo_or_memory_def env_var_def Let_def lit_def
      split: option.splits env_value.splits)

section \<open>When a local process stops\<close>

text \<open>
  What axum promises of a server with a graceful shutdown: it goes on until the future
  completes, then takes no connection any more and ends, without an error, once the ones that
  are open have closed, for which it waits without a bound. \<open>drains\<close> says whether they do, when
  the future completes at a given poll.
\<close>

definition graceful_server ::
  "('filter, 'app, 'svc, 'listener, 'e) host \<Rightarrow> ('listener \<Rightarrow> 'app \<Rightarrow> nat \<Rightarrow> bool) \<Rightarrow> bool" where
  "graceful_server h drains \<longleftrightarrow>
     (\<forall>l app. host_serve h l app None = None \<and>
        (\<forall>t. host_serve h l app (Some (t, Completed)) = (if drains l app t then Some (Inr ()) else None)))"

text \<open>
  A local process whose handlers install and whose listener binds never panics and never stops
  unasked: it returns exactly if a stop request reaches it (Ctrl-C, or in a unix build SIGTERM)
  and the connections open at the first one all close.
\<close>

theorem local_service_stops_iff_asked:
  assumes "subscriber_free h" "host_env h aws_lambda_runtime_api_env = None"
    and "parse_socket_addr (bind_text h c) = Some a" "host_bind h a = Inr l"
    and "graceful_server h drains" "handlers_install (host_signals h)"
  shows "snd (serve h app c) =
    (if \<exists>t. stop_requested (host_signals h) t \<and> (\<forall>k < t. \<not> stop_requested (host_signals h) k) \<and> drains l app t
     then Returned else StillRunning)"
proof -
  have run: "snd (serve h app c) =
      await_expect (lit ''run service'') (host_serve h l app (shutdown_signal (host_signals h)))"
    by (simp add: serve_events [OF assms(1)] assms(2-4) Let_def)
  note law = assms(5) [unfolded graceful_server_def, rule_format]
  consider "shutdown_signal (host_signals h) = None" "\<forall>t. \<not> stop_requested (host_signals h) t"
    | t where "shutdown_signal (host_signals h) = Some (t, Completed)" "stop_requested (host_signals h) t"
    using shutdown_installed_cases [OF assms(6)] by (elim disjE exE conjE) simp_all
  then show ?thesis
  proof cases
    case 1
    then show ?thesis using law by (simp add: run)
  next
    case (2 t)
    have "\<forall>k < t. \<not> stop_requested (host_signals h) k"
      using 2(1) unfolding shutdown_signal_iff poll_installed [OF assms(6)] by (auto split: if_splits)
    then have "(\<exists>t. stop_requested (host_signals h) t \<and> (\<forall>k < t. \<not> stop_requested (host_signals h) k) \<and>
        drains l app t) \<longleftrightarrow> drains l app t"
      using 2(2) by (metis linorder_neqE_nat)
    then show ?thesis using law by (simp add: run 2(1))
  qed
qed

theorem local_service_stops_iff_asked_witness:
  "snd (serve (example_host Map.empty) () example_config) = Returned"
proof -
  let ?h = "example_host Map.empty" and ?drains = "\<lambda>_ _ _. True"
  have p: "parse_socket_addr (bind_text ?h example_config) = Some (SockV4 (V4 127 0 0 1) 8082)"
    unfolding example_bind_text by (simp only: parse_show_v4)
  have free: "subscriber_free ?h" "host_env ?h aws_lambda_runtime_api_env = None"
    "host_bind ?h (SockV4 (V4 127 0 0 1) 8082) = Inr ()" "graceful_server ?h ?drains"
    "handlers_install (host_signals ?h)"
    by (simp_all add: example_host_def subscriber_free_def graceful_server_def)
  have "stop_requested (host_signals ?h) 7 \<and> (\<forall>k < 7. \<not> stop_requested (host_signals ?h) k) \<and> ?drains () () 7"
    by (auto simp: stop_requested_def example_host_def example_signals_def)
  then have "\<exists>t. stop_requested (host_signals ?h) t \<and> (\<forall>k < t. \<not> stop_requested (host_signals ?h) k) \<and>
      ?drains () () t" by (rule exI)
  then show ?thesis
    using local_service_stops_iff_asked [OF free(1,2) p free(3-5), of "()"] by (simp only: if_True)
qed

end
