(* ===== verification/Graph_Client.thy ===== *)
theory Graph_Client
  imports Http_Client
begin

text \<open>
  \<open>platform-sg-graph-client\<close>: resolving a graph-access token and the two membership calls. The
  HTTP stack is a parameter. serde derives the decoders of \<open>AppUserView\<close> and \<open>Member\<close>: a
  reply's \<open>rp_json\<close> is the JSON value of its body, and the two decoders below are what the
  derive attributes of the source (camelCase names, defaults, the renamed field) say.
\<close>

section \<open>Wire types\<close>

record app_user_view =
  auv_id :: rstr
  auv_display_name :: "rstr option"
  auv_environment :: "rstr option"

record member =
  mb_app_user_id :: rstr

datatype 'te sg_error = SgTransport 'te | SgStatus nat

fun sg_error_message :: "('te \<Rightarrow> rstr) \<Rightarrow> 'te sg_error \<Rightarrow> rstr" where
  "sg_error_message show_te (SgTransport e) = lit ''social-graph transport: '' @ show_te e"
| "sg_error_message show_te (SgStatus code) = lit ''social-graph -> '' @ show_nat code"

fun sg_error_source :: "'te sg_error \<Rightarrow> 'te option" where
  "sg_error_source (SgTransport e) = Some e"
| "sg_error_source (SgStatus code) = None"

text \<open>
  A field of an object: absent, present once, or an error if it is repeated; and a field read
  as a string, or as an optional string (null and absence are both none).
\<close>

definition json_field :: "rstr \<Rightarrow> (rstr \<times> json) list \<Rightarrow> json option option" where
  "json_field name fs =
     (case filter (\<lambda>p. fst p = name) fs of
        [] \<Rightarrow> Some None
      | [(n, v)] \<Rightarrow> Some (Some v)
      | _ \<Rightarrow> None)"

fun as_string :: "json \<Rightarrow> rstr option" where
  "as_string (JString s) = Some s"
| "as_string _ = None"

fun as_optional_string :: "json \<Rightarrow> rstr option option" where
  "as_optional_string JNull = Some None"
| "as_optional_string (JString s) = Some (Some s)"
| "as_optional_string _ = None"

definition required_string :: "rstr \<Rightarrow> (rstr \<times> json) list \<Rightarrow> rstr option" where
  "required_string name fs =
     Option.bind (json_field name fs) (\<lambda>f. Option.bind f as_string)"

definition optional_string :: "rstr \<Rightarrow> (rstr \<times> json) list \<Rightarrow> rstr option option" where
  "optional_string name fs =
     Option.bind (json_field name fs)
       (\<lambda>f. case f of None \<Rightarrow> Some None | Some v \<Rightarrow> as_optional_string v)"

text \<open>
  A derived decoder takes an object, or the fields in order as an array; there too a defaulted
  field may be missing at the end.
\<close>

definition nth_optional :: "nat \<Rightarrow> json list \<Rightarrow> rstr option option" where
  "nth_optional n vs = (if n < length vs then as_optional_string (vs ! n) else Some None)"

fun decode_app_user_view :: "json \<Rightarrow> app_user_view option" where
  "decode_app_user_view (JObject fs) =
     Option.bind (required_string (lit ''id'') fs) (\<lambda>i.
     Option.bind (optional_string (lit ''displayName'') fs) (\<lambda>d.
     Option.bind (optional_string (lit ''environment'') fs) (\<lambda>e.
       Some \<lparr>auv_id = i, auv_display_name = d, auv_environment = e\<rparr>)))"
| "decode_app_user_view (JArray (i # vs)) =
     (if length vs > 2 then None
      else Option.bind (as_string i) (\<lambda>i.
           Option.bind (nth_optional 0 vs) (\<lambda>d.
           Option.bind (nth_optional 1 vs) (\<lambda>e.
             Some \<lparr>auv_id = i, auv_display_name = d, auv_environment = e\<rparr>))))"
| "decode_app_user_view _ = None"

fun decode_member :: "json \<Rightarrow> member option" where
  "decode_member (JObject fs) =
     map_option (\<lambda>i. \<lparr>mb_app_user_id = i\<rparr>) (required_string (lit ''appUserId'') fs)"
| "decode_member (JArray [i]) = map_option (\<lambda>i. \<lparr>mb_app_user_id = i\<rparr>) (as_string i)"
| "decode_member _ = None"

fun decode_all :: "('a \<Rightarrow> 'b option) \<Rightarrow> 'a list \<Rightarrow> 'b list option" where
  "decode_all f [] = Some []"
| "decode_all f (x # xs) =
     Option.bind (f x) (\<lambda>y. Option.bind (decode_all f xs) (\<lambda>ys. Some (y # ys)))"

fun decode_members :: "json \<Rightarrow> member list option" where
  "decode_members (JArray vs) = decode_all decode_member vs"
| "decode_members _ = None"

section \<open>The client\<close>

record social_graph_client =
  sg_base_url :: rstr

definition social_graph_client_new :: "rstr \<Rightarrow> social_graph_client" where
  "social_graph_client_new base_url = \<lparr>sg_base_url = trim_end_matches slash base_url\<rparr>"

interpretation graph: base_url_client social_graph_client_new sg_base_url
  by unfold_locales (auto simp: social_graph_client_new_def)

definition graph_request ::
  "http_verb \<Rightarrow> social_graph_client \<Rightarrow> string \<Rightarrow> rstr \<Rightarrow> json option \<Rightarrow> http_request" where
  "graph_request verb c path token body =
     \<lparr>rq_verb = verb, rq_url = sg_base_url c @ lit path, rq_bearer = token, rq_json = body\<rparr>"

text \<open>A body that is not JSON, or not of the expected shape, is an error of the transport.\<close>

definition read_json ::
  "'te \<Rightarrow> ('te, json) http_reply \<Rightarrow> (json \<Rightarrow> 'a option) \<Rightarrow> 'te sg_error + 'a" where
  "read_json shape_error resp decode =
     result_bind (map_err SgTransport (rp_json resp)) (\<lambda>v. ok_or (decode v) (SgTransport shape_error))"

definition resolve_me ::
  "('te, json) sender \<Rightarrow> 'te \<Rightarrow> social_graph_client \<Rightarrow> rstr
     \<Rightarrow> http_request list \<times> ('te sg_error + app_user_view option)" where
  "resolve_me send shape_error c token =
     (let req = graph_request GET c ''/api/graph-access/me'' token None
      in ([req],
          result_bind (map_err SgTransport (send req)) (\<lambda>resp.
            if rp_status resp = 200
            then result_bind (read_json shape_error resp decode_app_user_view) (\<lambda>v. Ok (Some v))
            else if rp_status resp = 401 then Ok None
            else Err (SgStatus (rp_status resp)))))"

definition checked_status ::
  "'te status_api \<Rightarrow> ('te, json) http_reply \<Rightarrow> 'te sg_error + ('te, json) http_reply" where
  "checked_status T resp =
     (case st_error_for_status T (rp_status resp) of
        Some e \<Rightarrow> Err (SgTransport e)
      | None \<Rightarrow> Ok resp)"

definition register_membership ::
  "('te, json) sender \<Rightarrow> 'te status_api \<Rightarrow> social_graph_client \<Rightarrow> rstr \<Rightarrow> rstr \<Rightarrow> rstr option
     \<Rightarrow> http_request list \<times> ('te sg_error + unit)" where
  "register_membership send T c token app_user_id app_display_name =
     (let req = graph_request POST c ''/api/graph-access/membership'' token
            (Some (JObject [(lit ''appUserId'', JString app_user_id),
               (lit ''appDisplayName'',
                case app_display_name of None \<Rightarrow> JNull | Some n \<Rightarrow> JString n)]))
      in ([req],
          result_bind (map_err SgTransport (send req)) (\<lambda>resp.
          result_bind (checked_status T resp) (\<lambda>resp. Ok ()))))"

definition connections_members ::
  "('te, json) sender \<Rightarrow> 'te status_api \<Rightarrow> 'te \<Rightarrow> social_graph_client \<Rightarrow> rstr
     \<Rightarrow> http_request list \<times> ('te sg_error + rstr list)" where
  "connections_members send T shape_error c token =
     (let req = graph_request GET c ''/api/graph-access/connections/members'' token None
      in ([req],
          result_bind (map_err SgTransport (send req)) (\<lambda>resp.
          result_bind (checked_status T resp) (\<lambda>resp.
          result_bind (read_json shape_error resp decode_members) (\<lambda>members.
            Ok (map mb_app_user_id members))))))"

section \<open>Encodings the decoders accept\<close>

text \<open>The wire form of a view and of members, as the service sends them.\<close>

definition view_json :: "app_user_view \<Rightarrow> json" where
  "view_json v = JObject
     ([(lit ''id'', JString (auv_id v))]
      @ (case auv_display_name v of None \<Rightarrow> [] | Some d \<Rightarrow> [(lit ''displayName'', JString d)])
      @ (case auv_environment v of None \<Rightarrow> [] | Some e \<Rightarrow> [(lit ''environment'', JString e)]))"

lemma field_names_distinct: "distinct [lit ''id'', lit ''displayName'', lit ''environment'']"
  by (simp add: lit_def)

lemma decode_view_json: "decode_app_user_view (view_json v) = Some v"
  using field_names_distinct
  by (cases v)
     (auto simp: view_json_def required_string_def optional_string_def json_field_def split: option.splits)

interpretation viewwire: codec view_json decode_app_user_view "\<lambda>_. True"
  by unfold_locales (rule decode_view_json)

definition member_json :: "rstr \<Rightarrow> (rstr \<times> json) list \<Rightarrow> json" where
  "member_json i extra = JObject ((lit ''appUserId'', JString i) # extra)"

lemma decode_member_json:
  "\<forall>p \<in> set extra. fst p \<noteq> lit ''appUserId'' \<Longrightarrow> decode_member (member_json i extra) = Some \<lparr>mb_app_user_id = i\<rparr>"
  by (simp add: member_json_def required_string_def json_field_def filter_empty_conv [THEN iffD2])

lemma decode_members_json:
  "\<forall>m \<in> set ms. \<forall>p \<in> set (snd m). fst p \<noteq> lit ''appUserId'' \<Longrightarrow>
     decode_all decode_member (map (\<lambda>m. member_json (fst m) (snd m)) ms) =
       Some (map (\<lambda>m. \<lparr>mb_app_user_id = fst m\<rparr>) ms)"
  by (induction ms) (auto simp: decode_member_json)

section \<open>Properties\<close>

text \<open>
  What the client answers for a token, for every reply: the view on a 200 whose body
  decodes, nothing on a 401, the status on any other, and a transport error when the request
  fails or the body of a 200 does not decode.
\<close>

theorem resolve_me_outcome:
  "snd (resolve_me send shape_error c token) =
     (case send (graph_request GET c ''/api/graph-access/me'' token None) of
        Inl e \<Rightarrow> Err (SgTransport e)
      | Inr resp \<Rightarrow>
          if rp_status resp = 401 then Ok None
          else if rp_status resp \<noteq> 200 then Err (SgStatus (rp_status resp))
          else (case rp_json resp of
                  Inl e \<Rightarrow> Err (SgTransport e)
                | Inr body \<Rightarrow> (case decode_app_user_view body of
                      None \<Rightarrow> Err (SgTransport shape_error)
                    | Some v \<Rightarrow> Ok (Some v))))"
  by (auto simp: resolve_me_def read_json_def Let_def split: sum.splits option.splits)

text \<open>
  A view the service sends comes back as it was: every view, with or without a display
  name or an environment, is what \<open>resolve_me\<close> returns on a 200 with its JSON.
\<close>

theorem resolve_me_returns_view:
  "send (graph_request GET c ''/api/graph-access/me'' token None) =
       Ok \<lparr>rp_status = 200, rp_text = body, rp_json = Ok (view_json v)\<rparr> \<Longrightarrow>
     snd (resolve_me send shape_error c token) = Ok (Some v)"
  by (simp add: resolve_me_def read_json_def viewwire.dec_enc Let_def)

definition alice :: app_user_view where
  "alice = \<lparr>auv_id = lit ''psd_alice'', auv_display_name = Some (lit ''Alice''), auv_environment = None\<rparr>"

theorem resolve_me_returns_view_witness:
  "snd (resolve_me (\<lambda>r. Ok \<lparr>rp_status = 200, rp_text = Err (), rp_json = Ok (view_json alice)\<rparr>) ()
     (social_graph_client_new (lit ''https://sg.example/'')) (lit ''tok'')) = Ok (Some alice)"
  by (rule resolve_me_returns_view) (rule refl)

text \<open>
  A membership call sends one POST with the pseudonym and the name (null when there is
  none), and succeeds on every reply that is not a 4xx or a 5xx, redirects and 1xx included.
\<close>

theorem register_membership_outcome:
  assumes "status_laws T"
  shows "fst (register_membership send T c token i name) =
      [\<lparr>rq_verb = POST, rq_url = sg_base_url c @ lit ''/api/graph-access/membership'', rq_bearer = token,
        rq_json = Some (JObject [(lit ''appUserId'', JString i),
          (lit ''appDisplayName'', case name of None \<Rightarrow> JNull | Some n \<Rightarrow> JString n)])\<rparr>] \<and>
    (snd (register_membership send T c token i name) = Ok () \<longleftrightarrow>
      (\<exists>resp. send (hd (fst (register_membership send T c token i name))) = Ok resp \<and>
         \<not> (400 \<le> rp_status resp \<and> rp_status resp < 600)))"
proof -
  have "st_error_for_status T n = None \<longleftrightarrow> \<not> (400 \<le> n \<and> n < 600)" for n
    using assms by (simp add: status_laws_def)
  then show ?thesis
    by (auto simp: register_membership_def graph_request_def Let_def checked_status_def
        result_simps split: option.splits)
qed

theorem register_membership_outcome_witness:
  "snd (register_membership (\<lambda>r. Inr \<lparr>rp_status = 304, rp_text = Inl (), rp_json = Inl ()\<rparr>)
     example_status (social_graph_client_new []) [] (lit ''psd_bob'') None) = Ok ()"
  using register_membership_outcome [OF example_status_laws,
      of "\<lambda>r. Inr \<lparr>rp_status = 304, rp_text = Inl (), rp_json = Inl ()\<rparr>"
         "social_graph_client_new []" "[]" "lit ''psd_bob''" None]
  by simp

text \<open>
  The members come back in order, one pseudonym each, whatever else the service says about
  them.
\<close>

theorem connections_members_in_order:
  assumes "status_laws T" "status < 400"
    and "\<forall>m \<in> set ms. \<forall>p \<in> set (snd m). fst p \<noteq> lit ''appUserId''"
    and "send (graph_request GET c ''/api/graph-access/connections/members'' token None) =
      Ok \<lparr>rp_status = status, rp_text = body,
          rp_json = Ok (JArray (map (\<lambda>m. member_json (fst m) (snd m)) ms))\<rparr>"
  shows "snd (connections_members send T shape_error c token) = Ok (map fst ms)"
proof -
  have "st_error_for_status T status = None" using assms(1,2) by (simp add: status_laws_def)
  then show ?thesis
    by (simp add: connections_members_def Let_def assms(4) checked_status_def read_json_def
        decode_members_json [OF assms(3)] o_def)
qed

definition example_members :: "(rstr \<times> (rstr \<times> json) list) list" where
  "example_members = [(lit ''psd_bob'', [(lit ''displayName'', JString (lit ''B''))]),
     (lit ''psd_carol'', [(lit ''displayName'', JString (lit ''C''))])]"

theorem connections_members_in_order_witness:
  "snd (connections_members (\<lambda>r. Ok \<lparr>rp_status = 200, rp_text = Err (),
       rp_json = Ok (JArray (map (\<lambda>m. member_json (fst m) (snd m)) example_members))\<rparr>)
     example_status () (social_graph_client_new []) (lit ''tok''))
   = Ok [lit ''psd_bob'', lit ''psd_carol'']"
proof -
  have "\<forall>m \<in> set example_members. \<forall>p \<in> set (snd m). fst p \<noteq> lit ''appUserId''"
    by (simp add: example_members_def) (simp add: lit_def)
  then have "snd (connections_members (\<lambda>r. Ok \<lparr>rp_status = 200, rp_text = Err (),
       rp_json = Ok (JArray (map (\<lambda>m. member_json (fst m) (snd m)) example_members))\<rparr>)
     example_status () (social_graph_client_new []) (lit ''tok'')) = Ok (map fst example_members)"
    by (intro connections_members_in_order [where status = 200 and body = "Err ()"] example_status_laws)
       simp_all
  then show ?thesis by (simp add: example_members_def)
qed

end
