(* ===== verification/Drive_Deposit.thy ===== *)
theory Drive_Deposit
  imports Http_Client
begin

text \<open>
  \<open>platform-drive-deposit\<close>: the deposit call and the encoding of a feed operation. The HTTP
  stack, serde_json's printer, base64 and store-core are parameters; what the source relies on
  in store-core (a replica with one authored operation lists that operation) is \<open>replica_laws\<close>.
\<close>

section \<open>The client\<close>

datatype ('je, 'te) deposit_error =
    DepositEncode 'je
  | DepositTransport 'te
  | DepositStatus (dep_code: nat) (dep_body: rstr)

fun deposit_error_message :: "('je \<Rightarrow> rstr) \<Rightarrow> ('te \<Rightarrow> rstr) \<Rightarrow> ('je, 'te) deposit_error \<Rightarrow> rstr" where
  "deposit_error_message show_je show_te (DepositEncode e) = lit ''encode deposit row: '' @ show_je e"
| "deposit_error_message show_je show_te (DepositTransport e) =
     lit ''drive deposit transport: '' @ show_te e"
| "deposit_error_message show_je show_te (DepositStatus code body) =
     lit ''drive deposit -> '' @ show_nat code @ lit '': '' @ body"

fun deposit_error_source :: "('je, 'te) deposit_error \<Rightarrow> ('je + 'te) option" where
  "deposit_error_source (DepositEncode e) = Some (Inl e)"
| "deposit_error_source (DepositTransport e) = Some (Inr e)"
| "deposit_error_source (DepositStatus code body) = None"

record drive_client =
  dc_base_url :: rstr

definition drive_client_new :: "rstr \<Rightarrow> drive_client" where
  "drive_client_new base_url = \<lparr>dc_base_url = trim_end_matches slash base_url\<rparr>"

definition drive_base_url :: "drive_client \<Rightarrow> rstr" where
  "drive_base_url c = dc_base_url c"

definition deposit_request :: "drive_client \<Rightarrow> rstr \<Rightarrow> json \<Rightarrow> rstr list \<Rightarrow> http_request" where
  "deposit_request c machine_token cap ops =
     \<lparr>rq_verb = POST, rq_url = dc_base_url c @ lit ''/v1/store/deposit'', rq_bearer = machine_token,
      rq_json = Some (JObject [(lit ''cap'', cap), (lit ''ops'', JArray (map JString ops))])\<rparr>"

definition deposit ::
  "('te, 'v) sender \<Rightarrow> 'te status_api \<Rightarrow> drive_client \<Rightarrow> rstr \<Rightarrow> json \<Rightarrow> rstr list
     \<Rightarrow> http_request list \<times> (('je, 'te) deposit_error + unit)" where
  "deposit send T c machine_token cap ops =
     (let req = deposit_request c machine_token cap ops
      in ([req],
          result_bind (map_err DepositTransport (send req)) (\<lambda>resp.
            if st_is_success T (rp_status resp) then Ok ()
            else (let code = rp_status resp;
                      body = (case rp_text resp of Inl e \<Rightarrow> [] | Inr s \<Rightarrow> s)
                  in Err (DepositStatus code body)))))"

interpretation drive: base_url_client drive_client_new drive_base_url
  by unfold_locales (auto simp: drive_client_new_def drive_base_url_def)

lemma deposit_fst: "fst (deposit send T c tok cap ops) = [deposit_request c tok cap ops]"
  by (simp add: deposit_def Let_def)

section \<open>Feed operations\<close>

text \<open>A value of store-core: a text, or one of the kinds the source does not name.\<close>

datatype store_value = TextValue rstr | OtherValue

record ('replica, 'op) store_core =
  sc_replica_new :: 'replica
  sc_author_feed_post :: "'replica \<Rightarrow> rstr \<Rightarrow> rstr \<Rightarrow> store_value \<Rightarrow> 'replica"
  sc_ops_in_causal_order :: "'replica \<Rightarrow> 'op list"
  sc_canonical_bytes :: "'op \<Rightarrow> bytes"
  sc_decode :: "bytes \<Rightarrow> 'op option"
  sc_apply :: "'replica \<Rightarrow> 'op \<Rightarrow> 'replica option"
  sc_feed :: "'replica \<Rightarrow> rstr \<Rightarrow> store_value list"

text \<open>
  \<open>author\<close> takes the key, the author label and the body of a \<open>FeedPostV1\<close>; a panic is the
  failed \<open>expect\<close>.
\<close>

definition feed_op_bytes ::
  "('replica, 'op) store_core \<Rightarrow> ('row \<Rightarrow> 'je + rstr) \<Rightarrow> (bytes \<Rightarrow> rstr) \<Rightarrow> rstr \<Rightarrow> 'row
     \<Rightarrow> (('je, 'te) deposit_error + rstr) run" where
  "feed_op_bytes C to_json b64 key row =
     (case map_err DepositEncode (to_json row) of
        Inl e \<Rightarrow> Ret (Err e)
      | Inr json \<Rightarrow>
          (let replica = sc_author_feed_post C (sc_replica_new C) key [] (TextValue json)
           in (case sc_ops_in_causal_order C replica of
                 [] \<Rightarrow> Panic ''one op was just authored''
               | op # rest \<Rightarrow> Ret (Ok (b64 (sc_canonical_bytes C op))))))"

text \<open>
  What store-core documents: one authored operation is the one in causal order, its canonical
  bytes decode to it, and applying a feed post to a new replica gives that feed one entry,
  its body.
\<close>

definition replica_laws :: "('replica, 'op) store_core \<Rightarrow> bool" where
  "replica_laws C \<longleftrightarrow>
     (\<forall>key label body. \<exists>op.
        sc_ops_in_causal_order C (sc_author_feed_post C (sc_replica_new C) key label body) = [op] \<and>
        sc_decode C (sc_canonical_bytes C op) = Some op \<and>
        (\<exists>r. sc_apply C (sc_replica_new C) op = Some r \<and> sc_feed C r key = [body]))"

text \<open>How a recipient reads a deposited operation: decode the base64 and the bytes, apply, fold the feed.\<close>

definition fold_feed_op ::
  "('replica, 'op) store_core \<Rightarrow> (rstr \<Rightarrow> bytes option) \<Rightarrow> rstr \<Rightarrow> rstr \<Rightarrow> store_value list option" where
  "fold_feed_op C unb64 key encoded =
     Option.bind (unb64 encoded) (\<lambda>bs.
     Option.bind (sc_decode C bs) (\<lambda>op.
     Option.bind (sc_apply C (sc_replica_new C) op) (\<lambda>r. Some (sc_feed C r key))))"

section \<open>Properties\<close>

text \<open>
  One deposit sends exactly one request, a POST to the configured base without its trailing
  slashes followed by the deposit path, with the token, the capability and the operations in
  order; how many slashes the configuration ends with makes no difference.
\<close>

theorem deposit_sends_one_request:
  "fst (deposit send T (drive_client_new (base @ replicate n slash)) tok cap ops) =
     [\<lparr>rq_verb = POST, rq_url = trim_end_matches slash base @ lit ''/v1/store/deposit'',
       rq_bearer = tok,
       rq_json = Some (JObject [(lit ''cap'', cap), (lit ''ops'', JArray (map JString ops))])\<rparr>] \<and>
   (drive_base_url (drive_client_new base) = [] \<or> last (drive_base_url (drive_client_new base)) \<noteq> slash)"
  using drive.base_make [of base] drive.base_no_slash [of base]
  by (auto simp: deposit_fst drive.slashes_ignored deposit_request_def drive_base_url_def)

text \<open>
  A deposit succeeds exactly on a 2xx reply; a reply with another status is reported with
  its code and its whole body, however long (empty if it cannot be read), and a failure to
  send is reported as such.
\<close>

theorem deposit_outcome:
  "status_laws T \<Longrightarrow>
     snd (deposit send T c tok cap ops :: http_request list \<times> (('je, 'te) deposit_error + unit)) =
       (case send (deposit_request c tok cap ops) of
          Inl e \<Rightarrow> Err (DepositTransport e)
        | Inr resp \<Rightarrow>
            if 200 \<le> rp_status resp \<and> rp_status resp < 300 then Ok ()
            else (case rp_text resp of
                    Inr body \<Rightarrow> Err (DepositStatus (rp_status resp) body)
                  | Inl e \<Rightarrow> Err (DepositStatus (rp_status resp) [])))"
  by (auto simp: deposit_def Let_def status_laws_def split: sum.splits)

theorem deposit_outcome_witness:
  "snd (deposit (\<lambda>r. Inr \<lparr>rp_status = 403, rp_text = Inr (replicate 100000 65), rp_json = Inl ()\<rparr>)
      example_status (drive_client_new []) [] JNull [] :: http_request list \<times> ((unit, unit) deposit_error + unit))
   = Err (DepositStatus 403 (replicate 100000 65))"
  by (subst deposit_outcome [OF example_status_laws]) simp

text \<open>
  Encoding a row never panics, fails only when the row does not print as JSON, and what it
  produces folds, at the recipient, to a feed whose only entry is the row's JSON.
\<close>

theorem feed_op_folds_back:
  assumes "replica_laws C" "\<And>b. unb64 (b64 b) = Some b"
  shows "(case to_json row of
      Inl e \<Rightarrow> feed_op_bytes C to_json b64 key row = Ret (Err (DepositEncode e))
    | Inr text \<Rightarrow> \<exists>encoded. feed_op_bytes C to_json b64 key row = Ret (Ok encoded) \<and>
        fold_feed_op C unb64 key encoded = Some [TextValue text])"
proof (cases "to_json row")
  case (Inl e)
  then show ?thesis by (simp add: feed_op_bytes_def)
next
  case (Inr json)
  from assms(1) obtain p r where
    "sc_ops_in_causal_order C (sc_author_feed_post C (sc_replica_new C) key [] (TextValue json)) = [p]"
    "sc_decode C (sc_canonical_bytes C p) = Some p"
    "sc_apply C (sc_replica_new C) p = Some r" "sc_feed C r key = [TextValue json]"
    unfolding replica_laws_def by blast
  then show ?thesis by (simp add: Inr feed_op_bytes_def fold_feed_op_def assms(2))
qed

section \<open>A concrete store\<close>

text \<open>
  For the witness: a replica is the list of its posts, an operation a key and a text, and the
  bytes of an operation are numbers in unary, each closed by a zero.
\<close>

fun unary_bytes :: "nat list \<Rightarrow> bytes" where
  "unary_bytes [] = []"
| "unary_bytes (n # ns) = replicate n 1 @ [0] @ unary_bytes ns"

fun unary_numbers :: "nat \<Rightarrow> bytes \<Rightarrow> nat list" where
  "unary_numbers n [] = []"
| "unary_numbers n (b # bs) = (if b = 0 then n # unary_numbers 0 bs else unary_numbers (Suc n) bs)"

lemma unary_numbers_run: "unary_numbers m (replicate n 1 @ bs) = unary_numbers (m + n) bs"
  by (induction n arbitrary: m) auto

lemma unary_roundtrip: "unary_numbers 0 (unary_bytes ns) = ns"
  by (induction ns) (auto simp: unary_numbers_run)

definition example_store_core :: "((rstr \<times> store_value) list, rstr \<times> store_value) store_core" where
  "example_store_core = \<lparr>sc_replica_new = [],
     sc_author_feed_post = (\<lambda>r key label body. r @ [(key, body)]),
     sc_ops_in_causal_order = id,
     sc_canonical_bytes = (\<lambda>(key, v). unary_bytes (length key # key @
        (case v of TextValue t \<Rightarrow> 1 # t | OtherValue \<Rightarrow> [0]))),
     sc_decode = (\<lambda>bs. case unary_numbers 0 bs of [] \<Rightarrow> None
        | n # ns \<Rightarrow> (case drop n ns of [] \<Rightarrow> None
            | k # t \<Rightarrow> Some (take n ns, if k = 1 then TextValue t else OtherValue))),
     sc_apply = (\<lambda>r op. Some (r @ [op])),
     sc_feed = (\<lambda>r key. map snd (filter (\<lambda>p. fst p = key) r))\<rparr>"

lemma example_replica_laws: "replica_laws example_store_core"
  by (simp add: replica_laws_def example_store_core_def unary_roundtrip split: store_value.split
      del: unary_bytes.simps)

theorem feed_op_folds_back_witness:
  "\<exists>encoded. feed_op_bytes example_store_core (\<lambda>row :: rstr. Inr row :: unit + rstr) (map unat)
       (lit ''app/feed'') (lit ''{}'') = (Ret (Ok encoded) :: ((unit, unit) deposit_error + rstr) run) \<and>
     fold_feed_op example_store_core (\<lambda>s. Some (map of_nat s)) (lit ''app/feed'') encoded = Some [TextValue (lit ''{}'')]"
proof -
  have "Some (map of_nat (map unat b)) = Some (b :: bytes)" for b by (simp add: o_def)
  from feed_op_folds_back [OF example_replica_laws, of "\<lambda>s. Some (map of_nat s)" "map unat", OF this,
      of "\<lambda>row :: rstr. Inr row :: unit + rstr" "lit ''app/feed''" "lit ''{}''"]
  show ?thesis by simp
qed

end
