(* ===== verification/Crate_Tests.thy ===== *)
theory Crate_Tests
  imports Http_Error Lambda_Runtime Graph_Client Drive_Deposit Json_Text Rust_Test
begin

text \<open>
  The tests of the smaller crates: the error responses, the store selector, the health shapes,
  the social-graph client against its mock server, and the deposit client's base URL. The
  JSON printer, axum's dispatch, the AWS configuration and the mock server are arguments, with
  what the tests rely on as named laws.
\<close>

section \<open>\<open>platform-http-error\<close>\<close>

text \<open>
  \<open>Json(ErrorBody)\<close>, the body that \<open>into_response\<close> gives the response: the derived \<open>Serialize\<close>
  of \<open>ErrorBody\<close>, printed by \<open>axum::Json\<close>, whose printer is \<open>print\<close>.
\<close>

definition error_body_json :: "error_body \<Rightarrow> json" where
  "error_body_json b = JObject [(lit ''error'', JString (eb_error b))]"

definition response_bytes :: "(json \<Rightarrow> rstr) \<Rightarrow> response \<Rightarrow> bytes" where
  "response_bytes print resp = utf8 (print (error_body_json (resp_body resp)))"

text \<open>The test helper: the status, and the bytes of the body read as text.\<close>

definition body_string :: "(json \<Rightarrow> rstr) \<Rightarrow> log_event list \<times> response \<Rightarrow> nat \<times> rstr" where
  "body_string print r = (resp_status (snd r), utf8_decode (response_bytes print (snd r)))"

definition internal_error_body_is_redacted :: "(json \<Rightarrow> rstr) \<Rightarrow> (nat \<Rightarrow> bool) \<Rightarrow> unit run" where
  "internal_error_body_is_redacted print is5xx =
     (let secret = lit ''dynamodb ConditionalCheckFailed on table prod-items at arn:aws:...'';
          (status, body) = body_string print (into_response is5xx (Internal secret))
      in all_of [assert_that (status = 500),
                 assert_that (\<not> contains body (lit ''dynamodb'')),
                 assert_that (contains body (lit ''internal error''))])"

definition service_unavailable_is_also_redacted :: "(json \<Rightarrow> rstr) \<Rightarrow> (nat \<Rightarrow> bool) \<Rightarrow> unit run" where
  "service_unavailable_is_also_redacted print is5xx =
     (let (status, body) = body_string print (into_response is5xx (ServiceUnavailable (lit ''upstream xyz down'')))
      in all_of [assert_that (status = 503),
                 assert_that (\<not> contains body (lit ''upstream'')),
                 assert_that (contains body (lit ''internal error''))])"

definition client_errors_pass_message_through :: "(json \<Rightarrow> rstr) \<Rightarrow> (nat \<Rightarrow> bool) \<Rightarrow> unit run" where
  "client_errors_pass_message_through print is5xx =
     (let (status, body) = body_string print (into_response is5xx (BadRequest (lit ''missing field `name`'')))
      in all_of [assert_that (status = 400), assert_that (contains body (lit ''missing field `name`''))])"

definition unauthorized_and_forbidden_have_fixed_bodies :: "(json \<Rightarrow> rstr) \<Rightarrow> (nat \<Rightarrow> bool) \<Rightarrow> unit run" where
  "unauthorized_and_forbidden_have_fixed_bodies print is5xx =
     (let (s1, b1) = body_string print (into_response is5xx Unauthorized);
          (s2, b2) = body_string print (into_response is5xx Forbidden)
      in all_of [assert_that (s1 = 401), assert_that (contains b1 (lit ''unauthorized'')),
                 assert_that (s2 = 403), assert_that (contains b2 (lit ''forbidden''))])"

definition rate_limited_maps_to_429 :: "(json \<Rightarrow> rstr) \<Rightarrow> (nat \<Rightarrow> bool) \<Rightarrow> unit run" where
  "rate_limited_maps_to_429 print is5xx =
     (let (status, body) = body_string print (into_response is5xx (RateLimited (lit ''slow down'')))
      in assert_that (status = 429))"

definition http_error_suite :: "(json \<Rightarrow> rstr) \<Rightarrow> (nat \<Rightarrow> bool) \<Rightarrow> unit run" where
  "http_error_suite print is5xx = all_of
     [internal_error_body_is_redacted print is5xx, service_unavailable_is_also_redacted print is5xx,
      client_errors_pass_message_through print is5xx,
      unauthorized_and_forbidden_have_fixed_bodies print is5xx, rate_limited_maps_to_429 print is5xx]"

section \<open>\<open>platform-lambda\<close>: the store selector\<close>

datatype fake_store = FakeDynamo rstr | FakeMemory

definition selects_memory_when_env_unset ::
  "environ \<Rightarrow> 'cfg \<Rightarrow> ('cfg \<Rightarrow> 'client) \<Rightarrow> unit run" where
  "selects_memory_when_env_unset env load_defaults client_new =
     (let key = lit ''PLATFORM_LAMBDA_TEST_SELECT_TABLE_UNSET'';
          (store, kind) = select_dynamo_or_memory (env(key := None)) load_defaults client_new key
            (\<lambda>client table. FakeDynamo table) (\<lambda>_. FakeMemory)
      in all_of [assert_that (kind = lit ''memory''), assert_that (store = FakeMemory)])"

definition selects_dynamo_and_threads_table_name_when_env_set ::
  "environ \<Rightarrow> 'cfg \<Rightarrow> ('cfg \<Rightarrow> 'client) \<Rightarrow> unit run" where
  "selects_dynamo_and_threads_table_name_when_env_set env load_defaults client_new =
     (let key = lit ''PLATFORM_LAMBDA_TEST_SELECT_TABLE_SET'';
          (store, kind) = select_dynamo_or_memory (env(key \<mapsto> Unicode (lit ''my-table''))) load_defaults
            client_new key (\<lambda>client table. FakeDynamo table) (\<lambda>_. FakeMemory)
      in all_of [assert_that (kind = lit ''dynamodb''), assert_that (store = FakeDynamo (lit ''my-table''))])"

section \<open>\<open>platform-lambda\<close>: the health shapes\<close>

text \<open>What serde derives for the two shapes: their fields, by name, in order.\<close>

definition health_json :: "health \<Rightarrow> json" where
  "health_json h = JObject
     [(lit ''service'', JString (hl_service h)), (lit ''status'', JString (hl_status h))]"

definition service_info_json :: "service_info \<Rightarrow> json" where
  "service_info_json i = JObject
     [(lit ''service'', JString (si_service i)), (lit ''protocol'', JString (si_protocol i)),
      (lit ''implementation_status'', JString (si_implementation_status i)),
      (lit ''bind_addr'', JString (si_bind_addr i)), (lit ''store'', JString (si_store i))]"

definition health_ok_has_status_ok_and_named_service :: "unit run" where
  "health_ok_has_status_ok_and_named_service =
     (let h = health_ok (lit ''pigeon'')
      in all_of [assert_that (hl_service h = lit ''pigeon''), assert_that (hl_status h = lit ''ok'')])"

definition health_serializes_to_the_canonical_shape :: "unit run" where
  "health_serializes_to_the_canonical_shape =
     assert_that (health_json (health_ok (lit ''granite'')) = JObject
       [(lit ''service'', JString (lit ''granite'')), (lit ''status'', JString (lit ''ok''))])"

text \<open>
  \<open>oneshot\<close> is axum's dispatch of one request to a router: the status, and the value the handler
  returned.
\<close>

type_synonym oneshot = "(rstr \<times> http_method \<times> (unit \<Rightarrow> health)) list \<Rightarrow> http_method \<Rightarrow> rstr \<Rightarrow> nat \<times> health option"

definition health_router_serves_health_with_canonical_body :: "oneshot \<Rightarrow> unit run" where
  "health_router_serves_health_with_canonical_body oneshot =
     (let (status, body) = oneshot (health_router (lit ''drive'')) MethodGet (lit ''/health'')
      in all_of [assert_that (status = 200),
                 assert_that (map_option health_json body = Some (JObject
                   [(lit ''service'', JString (lit ''drive'')), (lit ''status'', JString (lit ''ok''))]))])"

definition health_router_returns_404_for_healthz :: "oneshot \<Rightarrow> unit run" where
  "health_router_returns_404_for_healthz oneshot =
     assert_that (fst (oneshot (health_router (lit ''drive'')) MethodGet (lit ''/healthz'')) = 404)"

definition service_info_serializes_to_the_canonical_core_shape :: "unit run" where
  "service_info_serializes_to_the_canonical_core_shape =
     (let info = service_info_new (lit ''bowerbird'') (lit ''Bowerbird static-site hosting'')
            (lit ''site CRUD slice active; publish engine pending'') (lit ''127.0.0.1:8085'') (lit ''memory'')
      in assert_that (service_info_json info = JObject
           [(lit ''service'', JString (lit ''bowerbird'')),
            (lit ''protocol'', JString (lit ''Bowerbird static-site hosting'')),
            (lit ''implementation_status'', JString (lit ''site CRUD slice active; publish engine pending'')),
            (lit ''bind_addr'', JString (lit ''127.0.0.1:8085'')), (lit ''store'', JString (lit ''memory''))]))"

definition lambda_suite :: "environ \<Rightarrow> 'cfg \<Rightarrow> ('cfg \<Rightarrow> 'client) \<Rightarrow> oneshot \<Rightarrow> unit run" where
  "lambda_suite env load_defaults client_new oneshot = all_of
     [selects_memory_when_env_unset env load_defaults client_new,
      selects_dynamo_and_threads_table_name_when_env_set env load_defaults client_new,
      health_ok_has_status_ok_and_named_service, health_serializes_to_the_canonical_shape,
      health_router_serves_health_with_canonical_body oneshot, health_router_returns_404_for_healthz oneshot,
      service_info_serializes_to_the_canonical_core_shape]"

section \<open>The HTTP clients\<close>

definition base_url_is_normalized :: "unit run" where
  "base_url_is_normalized =
     (let c = drive_client_new (lit ''https://drive.example/'')
      in assert_that (drive_base_url c = lit ''https://drive.example''))"

text \<open>A mounted mock: what the server under \<open>uri\<close> replies to requests of a method and a path.\<close>

definition mounted ::
  "('te, json) sender \<Rightarrow> rstr \<Rightarrow> http_verb \<Rightarrow> rstr \<Rightarrow> nat \<Rightarrow> json \<Rightarrow> bool" where
  "mounted send uri verb path status body \<longleftrightarrow>
     (\<forall>req. rq_verb req = verb \<and> rq_url req = uri @ path \<longrightarrow>
        (\<exists>text. send req = Inr \<lparr>rp_status = status, rp_text = text, rp_json = Inr body\<rparr>))"

definition me_path :: rstr where "me_path = lit ''/api/graph-access/me''"
definition members_path :: rstr where "members_path = lit ''/api/graph-access/connections/members''"
definition membership_path :: rstr where "membership_path = lit ''/api/graph-access/membership''"

definition alice_json :: json where
  "alice_json = JObject [(lit ''id'', JString (lit ''psd_alice'')), (lit ''displayName'', JString (lit ''Alice''))]"

definition members_json :: json where
  "members_json = JArray
     [JObject [(lit ''appUserId'', JString (lit ''psd_bob'')), (lit ''displayName'', JString (lit ''B''))],
      JObject [(lit ''appUserId'', JString (lit ''psd_carol'')), (lit ''displayName'', JString (lit ''C''))]]"

definition resolve_me_returns_view_on_200_and_none_on_401 ::
  "('te, json) sender \<Rightarrow> rstr \<Rightarrow> ('te, json) sender \<Rightarrow> rstr \<Rightarrow> 'te \<Rightarrow> unit run" where
  "resolve_me_returns_view_on_200_and_none_on_401 send uri send401 uri401 shape =
     run_bind (unwrap (snd (resolve_me send shape (social_graph_client_new uri) (lit ''tok'')))) (\<lambda>r.
     run_bind (unwrap_some r) (\<lambda>v.
       all_of [assert_that (auv_id v = lit ''psd_alice''),
               assert_that (auv_display_name v = Some (lit ''Alice'')),
               assert_that (auv_environment v = None),
               run_bind (unwrap (snd (resolve_me send401 shape (social_graph_client_new uri401) (lit ''bad''))))
                 (\<lambda>r. assert_that (r = None))]))"

definition connections_members_maps_app_user_ids ::
  "('te, json) sender \<Rightarrow> rstr \<Rightarrow> 'te status_api \<Rightarrow> 'te \<Rightarrow> unit run" where
  "connections_members_maps_app_user_ids send uri T shape =
     run_bind (unwrap (snd (connections_members send T shape (social_graph_client_new uri) (lit ''tok''))))
       (\<lambda>ids. assert_that (ids = [lit ''psd_bob'', lit ''psd_carol'']))"

definition register_membership_posts_the_pseudonym_and_name ::
  "('te, json) sender \<Rightarrow> rstr \<Rightarrow> 'te status_api \<Rightarrow> unit run" where
  "register_membership_posts_the_pseudonym_and_name send uri T =
     run_bind (unwrap (snd (register_membership send T (social_graph_client_new uri) (lit ''tok'')
         (lit ''psd_bob'') (Some (lit ''Bob''))))) (\<lambda>u. Ret ())"

definition client_suite ::
  "('te, json) sender \<Rightarrow> ('te, json) sender \<Rightarrow> ('te, json) sender \<Rightarrow> ('te, json) sender \<Rightarrow> rstr
     \<Rightarrow> 'te status_api \<Rightarrow> 'te \<Rightarrow> unit run" where
  "client_suite me me401 members membership uri T shape = all_of
     [base_url_is_normalized, resolve_me_returns_view_on_200_and_none_on_401 me uri me401 uri shape,
      connections_members_maps_app_user_ids members uri T shape,
      register_membership_posts_the_pseudonym_and_name membership uri T]"

section \<open>The model passes the suites\<close>

definition prints_compact :: "(json \<Rightarrow> rstr) \<Rightarrow> bool" where
  "prints_compact print \<longleftrightarrow> (\<forall>j. json_valid j \<longrightarrow> print j = json_text j)"

lemma plain_error: "plain_str (lit ''error'')"
  by (simp add: plain_str_def plain_char_def lit_def)

lemma response_text:
  assumes "prints_compact print" "valid_str (eb_error b)"
  shows "utf8_decode (utf8 (print (error_body_json b))) = json_text (error_body_json b)"
proof -
  have "json_valid (error_body_json b)"
    using assms(2) by (simp add: error_body_json_def valid_plain [OF plain_error])
  then show ?thesis
    using assms(1) by (simp add: prints_compact_def utf8_decode_utf8 valid_json_text)
qed

lemma error_text:
  "prints_compact print \<Longrightarrow> plain_str m \<Longrightarrow>
     utf8_decode (utf8 (print (error_body_json \<lparr>eb_error = m\<rparr>))) =
       lit ''{'' @ [34] @ lit ''error'' @ [34, 58, 34] @ m @ [34] @ lit ''}''"
  by (simp only: response_text valid_plain error_body.simps)
     (simp add: error_body_json_def plain_json_string [OF plain_error] plain_json_string,
      simp add: quoted_def lit_def)

lemma plain_messages:
  "plain_str (lit ''internal error'')" "plain_str (lit ''missing field `name`'')"
  "plain_str (lit ''unauthorized'')" "plain_str (lit ''forbidden'')"
  by (simp_all add: plain_str_def plain_char_def lit_def)

lemma http_error_run:
  assumes "prints_compact print"
  shows "http_error_suite print std_5xx = Ret ()"
  unfolding http_error_suite_def all_of_iff using assms
  by (simp add: internal_error_body_is_redacted_def service_unavailable_is_also_redacted_def
      client_errors_pass_message_through_def unauthorized_and_forbidden_have_fixed_bodies_def
      rate_limited_maps_to_429_def body_string_def response_bytes_def into_response_def std_5xx_def
      redacted_internal_body_def Let_def test_simps error_text plain_messages)
     (simp add: lit_def)

text \<open>
  The model passes the tests of the error responses, whatever printer writes plain JSON
  compactly: a server error's body shows the constant text and no word of its detail, a client
  error's body shows its message.
\<close>

theorem http_error_suite_passes:
  "prints_compact print \<Longrightarrow> documented_5xx is5xx \<Longrightarrow> http_error_suite print is5xx = Ret ()"
  using http_error_run documented_std_5xx by (simp add: documented_5xx_def)

theorem http_error_suite_passes_witness: "http_error_suite json_text std_5xx = Ret ()"
  by (rule http_error_suite_passes) (simp_all add: prints_compact_def documented_std_5xx)

text \<open>
  C31: what a client reads from an error response: whatever characters the message has, the body
  is JSON that reads back as the object with the one field \<open>error\<close>, which holds the error's own
  message or word, or the constant text for a server error; the status is the variant's.
\<close>

theorem error_body_reads_back:
  assumes "prints_compact print" "documented_5xx is5xx" "valid_str (api_detail e)"
  shows "\<exists>body. body_string print (into_response is5xx e) = (api_status e, body) \<and>
    read_document body = Some (JObject [(lit ''error'',
      JString (if server_variant e then lit ''internal error'' else api_detail e))])"
proof -
  let ?shown = "if server_variant e then lit ''internal error'' else api_detail e"
  have "valid_str ?shown" using assms(3) valid_plain [OF plain_messages(1)] by simp
  then have valid: "json_valid (JObject [(lit ''error'', JString ?shown)])"
    by (simp add: valid_plain [OF plain_error])
  have "eb_error (resp_body (snd (into_response is5xx e))) = ?shown"
    by (simp add: api.body_cases server_variant_status [OF assms(2)] redacted_internal_body_def)
  then have shown: "error_body_json (resp_body (snd (into_response is5xx e))) =
      JObject [(lit ''error'', JString ?shown)]" "valid_str (eb_error (resp_body (snd (into_response is5xx e))))"
    using \<open>valid_str ?shown\<close> by (simp_all only: error_body_json_def)
  show ?thesis
    unfolding body_string_def response_bytes_def api.status_kept response_text [OF assms(1) shown(2)]
    unfolding shown(1) using read_document_text [OF valid] by blast
qed

theorem error_body_reads_back_witness:
  "\<exists>body. body_string json_text (into_response std_5xx (NotFound [10, 34, 92])) = (404, body) \<and>
     read_document body = Some (JObject [(lit ''error'', JString [10, 34, 92])])"
  using error_body_reads_back [of json_text std_5xx "NotFound [10, 34, 92]"]
  by (simp add: prints_compact_def documented_std_5xx valid_char_def)

text \<open>
  What axum documents of dispatch: the handler of the one route with the path and the method,
  and 404 when no route has the path.
\<close>

definition axum_laws :: "oneshot \<Rightarrow> bool" where
  "axum_laws oneshot \<longleftrightarrow>
     (\<forall>path m f. oneshot [(path, m, f)] m path = (200, Some (f ()))) \<and>
     (\<forall>routes m path. path \<notin> fst ` set routes \<longrightarrow> fst (oneshot routes m path) = 404)"

lemma health_runs:
  assumes "axum_laws oneshot"
  shows "health_router_serves_health_with_canonical_body oneshot = Ret ()"
    "health_router_returns_404_for_healthz oneshot = Ret ()"
proof -
  have n: "lit ''/healthz'' \<notin> fst ` set (health_router (lit ''drive''))"
    by (simp add: health_router_def lit_def)
  show "health_router_serves_health_with_canonical_body oneshot = Ret ()"
    using assms
    by (simp add: axum_laws_def health_router_serves_health_with_canonical_body_def health_router_def
        health_ok_def health_json_def test_simps)
  show "health_router_returns_404_for_healthz oneshot = Ret ()"
    using assms n by (simp add: axum_laws_def health_router_returns_404_for_healthz_def test_simps)
qed

lemma shape_runs:
  "health_ok_has_status_ok_and_named_service = Ret ()" "health_serializes_to_the_canonical_shape = Ret ()"
  "service_info_serializes_to_the_canonical_core_shape = Ret ()"
  by (simp_all add: health_ok_has_status_ok_and_named_service_def health_serializes_to_the_canonical_shape_def
      service_info_serializes_to_the_canonical_core_shape_def health_ok_def health_json_def
      service_info_new_def service_info_json_def test_simps)

lemma store_runs:
  "selects_memory_when_env_unset env cfg client_new = Ret ()"
  "selects_dynamo_and_threads_table_name_when_env_set env cfg client_new = Ret ()"
  by (simp_all add: selects_memory_when_env_unset_def selects_dynamo_and_threads_table_name_when_env_set_def
      select_dynamo_or_memory_def env_var_def test_simps)

text \<open>
  The model passes the tests of the store selector and of the health endpoint, from any
  environment and with any router that dispatches as axum documents.
\<close>

theorem lambda_suite_passes:
  "axum_laws oneshot \<Longrightarrow> lambda_suite env cfg client_new oneshot = Ret ()"
  unfolding lambda_suite_def all_of_iff by (simp add: store_runs health_runs shape_runs)

definition example_oneshot :: oneshot where
  "example_oneshot routes m path =
     (case filter (\<lambda>r. fst r = path) routes of [] \<Rightarrow> (404, None) | r # rs \<Rightarrow> (200, Some (snd (snd r) ())))"

theorem lambda_suite_passes_witness: "lambda_suite Map.empty () id example_oneshot = Ret ()"
proof (rule lambda_suite_passes)
  have "filter (\<lambda>r. fst r = path) routes = []" if "path \<notin> fst ` set routes"
    for path and routes :: "(rstr \<times> http_method \<times> (unit \<Rightarrow> health)) list"
    using that by (auto simp: filter_empty_conv)
  then show "axum_laws example_oneshot" by (simp add: axum_laws_def example_oneshot_def)
qed

lemma client_base: "sg_base_url (social_graph_client_new uri) = uri" if "uri = [] \<or> last uri \<noteq> slash"
  using that by (simp add: social_graph_client_new_def trim_end_matches_id)

lemma base_url_run: "base_url_is_normalized = Ret ()"
  by (simp add: base_url_is_normalized_def drive_client_new_def drive_base_url_def trim_end_matches_def
      slash_def lit_def test_simps)

lemma mock_bodies:
  "decode_app_user_view alice_json = Some \<lparr>auv_id = lit ''psd_alice'', auv_display_name = Some (lit ''Alice''),
     auv_environment = None\<rparr>"
  "decode_members members_json = Some [\<lparr>mb_app_user_id = lit ''psd_bob''\<rparr>, \<lparr>mb_app_user_id = lit ''psd_carol''\<rparr>]"
  by (simp_all add: alice_json_def members_json_def required_string_def optional_string_def json_field_def lit_def)

lemma mounted_request:
  "mounted send uri verb (lit path) status body \<Longrightarrow> sg_base_url c = uri \<Longrightarrow>
     \<exists>text. send (graph_request verb c path tok b) =
       Inr \<lparr>rp_status = status, rp_text = text, rp_json = Inr body\<rparr>"
  by (simp add: mounted_def graph_request_def)

definition mock_servers ::
  "('te, json) sender \<Rightarrow> ('te, json) sender \<Rightarrow> ('te, json) sender \<Rightarrow> ('te, json) sender \<Rightarrow> rstr \<Rightarrow> bool" where
  "mock_servers me me401 members membership uri \<longleftrightarrow>
     mounted me uri GET me_path 200 alice_json \<and> mounted me401 uri GET me_path 401 JNull \<and>
     mounted members uri GET members_path 200 members_json \<and>
     mounted membership uri POST membership_path 200 JNull \<and> (uri = [] \<or> last uri \<noteq> slash)"

lemma graph_runs:
  assumes "mock_servers me me401 members membership uri" "status_laws T"
  shows "resolve_me_returns_view_on_200_and_none_on_401 me uri me401 uri shape = Ret ()"
    "connections_members_maps_app_user_ids members uri T shape = Ret ()"
    "register_membership_posts_the_pseudonym_and_name membership uri T = Ret ()"
proof -
  let ?c = "social_graph_client_new uri"
  have base: "sg_base_url ?c = uri" using assms(1) by (intro client_base) (simp add: mock_servers_def)
  have ok: "st_error_for_status T 200 = None" using assms(2) by (simp add: status_laws_def)
  note mounts = assms(1) [unfolded mock_servers_def me_path_def members_path_def membership_path_def]
  note me = mounts [THEN conjunct1, THEN mounted_request, OF base]
    and me401 = mounts [THEN conjunct2, THEN conjunct1, THEN mounted_request, OF base]
    and members = mounts [THEN conjunct2, THEN conjunct2, THEN conjunct1, THEN mounted_request, OF base]
    and membership = mounts [THEN conjunct2, THEN conjunct2, THEN conjunct2, THEN conjunct1,
        THEN mounted_request, OF base]
  show "resolve_me_returns_view_on_200_and_none_on_401 me uri me401 uri shape = Ret ()"
    using me [of "lit ''tok''" None] me401 [of "lit ''bad''" None]
    by (auto simp: resolve_me_returns_view_on_200_and_none_on_401_def resolve_me_def read_json_def mock_bodies
        result_simps test_simps Let_def)
  show "connections_members_maps_app_user_ids members uri T shape = Ret ()"
    using members [of "lit ''tok''" None]
    by (auto simp: connections_members_maps_app_user_ids_def connections_members_def read_json_def mock_bodies
        checked_status_def ok result_simps test_simps Let_def)
  show "register_membership_posts_the_pseudonym_and_name membership uri T = Ret ()"
    using membership [of "lit ''tok''" "Some (JObject [(lit ''appUserId'', JString (lit ''psd_bob'')),
        (lit ''appDisplayName'', JString (lit ''Bob''))])"]
    by (auto simp: register_membership_posts_the_pseudonym_and_name_def register_membership_def
        checked_status_def ok result_simps test_simps Let_def)
qed

text \<open>
  The model passes the tests of the two HTTP clients against their mock servers, wherever
  the servers listen.
\<close>

theorem client_suite_passes:
  "mock_servers me me401 members membership uri \<Longrightarrow> status_laws T \<Longrightarrow>
     client_suite me me401 members membership uri T shape = Ret ()"
  unfolding client_suite_def all_of_iff by (simp add: base_url_run graph_runs)

definition example_mock :: "nat \<Rightarrow> json \<Rightarrow> (unit, json) sender" where
  "example_mock status body req = Inr \<lparr>rp_status = status, rp_text = Inl (), rp_json = Inr body\<rparr>"

theorem client_suite_passes_witness:
  "client_suite (example_mock 200 alice_json) (example_mock 401 JNull) (example_mock 200 members_json)
     (example_mock 200 JNull) (lit ''http://127.0.0.1:9'') example_status () = Ret ()"
  by (rule client_suite_passes [OF _ example_status_laws])
     (simp add: mock_servers_def mounted_def example_mock_def slash_def lit_def)

end
