(* ===== verification/Row_Test.thy ===== *)
theory Row_Test
  imports Crate_Tests
begin

text \<open>
  The round trip of a row through a deposit: the row type of \<open>platform-drive-deposit\<close>'s test,
  with its derived serialisers, printed into a feed operation by the sender and folded, read and
  decoded by the recipient.
\<close>

section \<open>The row\<close>

record row =
  row_id :: rstr
  row_text :: rstr

text \<open>The derived \<open>Serialize\<close>, and \<open>Deserialize\<close>, which takes an object or the fields in order.\<close>

definition row_json :: "row \<Rightarrow> json" where
  "row_json r = JObject [(lit ''id'', JString (row_id r)), (lit ''text'', JString (row_text r))]"

fun decode_row :: "json \<Rightarrow> row option" where
  "decode_row (JObject fs) =
     Option.bind (required_string (lit ''id'') fs) (\<lambda>i.
     Option.bind (required_string (lit ''text'') fs) (\<lambda>t. Some \<lparr>row_id = i, row_text = t\<rparr>))"
| "decode_row (JArray [i, t]) =
     Option.bind (as_string i) (\<lambda>i. Option.bind (as_string t) (\<lambda>t. Some \<lparr>row_id = i, row_text = t\<rparr>))"
| "decode_row _ = None"

interpretation rowwire: codec row_json decode_row "\<lambda>_. True"
  by unfold_locales (simp add: row_json_def required_string_def json_field_def lit_def)

text \<open>The sender's printer for a row, and the recipient's reader; a text that is not text panics.\<close>

definition row_to_string :: "(json \<Rightarrow> rstr) \<Rightarrow> row \<Rightarrow> 'je + rstr" where
  "row_to_string print r = Ok (print (row_json r))"

definition row_from_str :: "(rstr \<Rightarrow> json option) \<Rightarrow> rstr \<Rightarrow> row option" where
  "row_from_str read s = Option.bind (read s) decode_row"

definition text_of_value :: "store_value \<Rightarrow> rstr run" where
  "text_of_value v = (case v of TextValue body \<Rightarrow> Ret body | OtherValue \<Rightarrow> Panic ''feed body should be text'')"

definition hello_row :: row where
  "hello_row = \<lparr>row_id = lit ''r-1'', row_text = lit ''hello '' @ [127807]\<rparr>"

definition row_round_trips_through_a_feed_op ::
  "('replica, 'op) store_core \<Rightarrow> (json \<Rightarrow> rstr) \<Rightarrow> (rstr \<Rightarrow> json option) \<Rightarrow> (bytes \<Rightarrow> rstr)
     \<Rightarrow> (rstr \<Rightarrow> bytes option) \<Rightarrow> unit run" where
  "row_round_trips_through_a_feed_op C print read b64 unb64 =
     (let key = lit ''app/feed''; row = hello_row
      in run_bind (feed_op_bytes C (row_to_string print :: row \<Rightarrow> unit + rstr) b64 key row) (\<lambda>encoded.
         run_bind (unwrap (encoded :: (unit, unit) deposit_error + rstr)) (\<lambda>op_b64.
         run_bind (unwrap_some (unb64 op_b64)) (\<lambda>bytes.
         run_bind (unwrap_some (sc_decode C bytes)) (\<lambda>op'.
         run_bind (unwrap_some (sc_apply C (sc_replica_new C) op')) (\<lambda>replica.
         let folded = sc_feed C replica key
         in then_test (assert_that (length folded = 1))
              (run_bind (text_of_value (folded ! 0)) (\<lambda>body.
               run_bind (unwrap_some (row_from_str read body)) (\<lambda>back.
                 assert_that (back = row))))))))))"

section \<open>Rows come back\<close>

text \<open>serde_json reads back what it prints of a struct of texts: an object of distinct fields.\<close>

definition texts_object :: "(rstr \<times> rstr) list \<Rightarrow> json" where
  "texts_object members = JObject (map (\<lambda>(name, s). (name, JString s)) members)"

definition reads_back :: "(json \<Rightarrow> rstr) \<Rightarrow> (rstr \<Rightarrow> json option) \<Rightarrow> bool" where
  "reads_back print read \<longleftrightarrow>
     (\<forall>members. distinct (map fst members) \<longrightarrow> (\<forall>(name, s) \<in> set members. valid_str name \<and> valid_str s) \<longrightarrow>
        read (print (texts_object members)) = Some (texts_object members))"

lemma row_reads_back:
  assumes "reads_back print read" "valid_str (row_id r)" "valid_str (row_text r)"
  shows "row_from_str read (print (row_json r)) = Some r"
proof -
  let ?members = "[(lit ''id'', row_id r), (lit ''text'', row_text r)]"
  have "plain_str (lit ''id'')" "plain_str (lit ''text'')" by (simp_all add: plain_str_def plain_char_def lit_def)
  then have "valid_str (lit ''id'')" "valid_str (lit ''text'')" by (auto intro: valid_plain)
  moreover have "distinct (map fst ?members)" by (simp add: lit_def)
  ultimately have "read (print (texts_object ?members)) = Some (texts_object ?members)"
    using assms unfolding reads_back_def by (elim allE [of _ ?members]) simp
  moreover have "texts_object ?members = row_json r" by (simp add: row_json_def texts_object_def)
  ultimately show ?thesis by (simp only: row_from_str_def bind.bind_lunit rowwire.dec_enc)
qed

lemma texts_object_valid:
  "\<forall>(name, s) \<in> set members. valid_str name \<and> valid_str s \<Longrightarrow> json_valid (texts_object members)"
proof -
  assume "\<forall>(name, s) \<in> set members. valid_str name \<and> valid_str s"
  then have "fields_valid (map (\<lambda>(name, s). (name, JString s)) members)"
    by (induction members) auto
  then show ?thesis by (simp add: texts_object_def)
qed

lemma example_reads_back: "reads_back json_text read_document"
  unfolding reads_back_def using texts_object_valid read_document_text by blast

text \<open>
  A deposited row comes back: whatever texts it holds, encoding it never fails or panics, and
  the recipient who decodes the operation, applies it to a new replica and reads the feed finds
  exactly one entry, a text that decodes to the identical row.
\<close>

theorem deposited_row_folds_back:
  assumes "replica_laws C" "\<And>b. unb64 (b64 b) = Some b" "reads_back print read"
    and "valid_str (row_id row)" "valid_str (row_text row)"
  shows "\<exists>encoded body. feed_op_bytes C (row_to_string print :: row \<Rightarrow> 'je + rstr) b64 key row =
      (Ret (Ok encoded) :: (('je, 'te) deposit_error + rstr) run) \<and>
    fold_feed_op C unb64 key encoded = Some [TextValue body] \<and> row_from_str read body = Some row"
proof -
  obtain p r where post:
    "sc_ops_in_causal_order C (sc_author_feed_post C (sc_replica_new C) key [] (TextValue (print (row_json row)))) = [p]"
    "sc_decode C (sc_canonical_bytes C p) = Some p" "sc_apply C (sc_replica_new C) p = Some r"
    "sc_feed C r key = [TextValue (print (row_json row))]"
    using assms(1) unfolding replica_laws_def by blast
  have "row_from_str read (print (row_json row)) = Some row" by (rule row_reads_back [OF assms(3-5)])
  then show ?thesis
    by (simp add: feed_op_bytes_def row_to_string_def map_err_def fold_feed_op_def post assms(2))
qed

theorem deposited_row_folds_back_witness:
  "\<exists>encoded body. feed_op_bytes example_store_core (row_to_string json_text :: row \<Rightarrow> unit + rstr) (map unat)
       (lit ''app/feed'') hello_row = (Ret (Ok encoded) :: ((unit, unit) deposit_error + rstr) run) \<and>
     fold_feed_op example_store_core (\<lambda>s. Some (map of_nat s)) (lit ''app/feed'') encoded = Some [TextValue body] \<and>
     row_from_str read_document body = Some hello_row"
  by (rule deposited_row_folds_back [OF example_replica_laws])
     (simp_all add: example_reads_back hello_row_def valid_char_def lit_def o_def)

text \<open>
  The model passes the crate's round-trip test, with any store, printer, reader and base64 that
  behave as documented.
\<close>

theorem row_test_passes:
  assumes "replica_laws C" "\<And>b. unb64 (b64 b) = Some b" "reads_back print read"
  shows "row_round_trips_through_a_feed_op C print read b64 unb64 = Ret ()"
proof -
  obtain p r where post:
    "sc_ops_in_causal_order C (sc_author_feed_post C (sc_replica_new C) (lit ''app/feed'') []
        (TextValue (print (row_json hello_row)))) = [p]"
    "sc_decode C (sc_canonical_bytes C p) = Some p" "sc_apply C (sc_replica_new C) p = Some r"
    "sc_feed C r (lit ''app/feed'') = [TextValue (print (row_json hello_row))]"
    using assms(1) unfolding replica_laws_def by blast
  have "row_from_str read (print (row_json hello_row)) = Some hello_row"
    by (rule row_reads_back [OF assms(3)]) (simp_all add: hello_row_def valid_char_def lit_def)
  then show ?thesis
    by (simp add: row_round_trips_through_a_feed_op_def feed_op_bytes_def row_to_string_def map_err_def
        post assms(2) text_of_value_def test_simps Let_def)
qed

theorem row_test_passes_witness:
  "row_round_trips_through_a_feed_op example_store_core json_text read_document (map unat)
     (\<lambda>s. Some (map of_nat s)) = Ret ()"
  by (rule row_test_passes [OF example_replica_laws])
     (simp_all add: example_reads_back o_def)

end
