(* ===== verification/Vault_Dynamo.thy ===== *)
theory Vault_Dynamo
  imports Rust_Str
begin

text \<open>
  \<open>platform-vault-dynamo\<close>: the DynamoDB handle with no delete. The AWS SDK is not under the
  source: its client, its request builders and \<open>TransactWriteItem::builder\<close> are the record
  \<open>dynamo_sdk\<close>, an argument of the definitions; \<open>configure\<close> stands for the setters a caller
  chains on a builder before \<open>send\<close>. The SDK also has a delete, which the handle never
  reaches. A send runs against the table service, whose state is \<open>'db\<close>.
\<close>

section \<open>The SDK\<close>

record ('client, 'b, 'args, 'tb, 'p, 'u, 'c, 'twi, 'db, 'err, 'out) dynamo_sdk =
  sdk_get_item :: "'client \<Rightarrow> 'b"
  sdk_batch_get_item :: "'client \<Rightarrow> 'b"
  sdk_query :: "'client \<Rightarrow> 'b"
  sdk_scan :: "'client \<Rightarrow> 'b"
  sdk_describe_table :: "'client \<Rightarrow> 'b"
  sdk_put_item :: "'client \<Rightarrow> 'b"
  sdk_update_item :: "'client \<Rightarrow> 'b"
  sdk_delete_item :: "'client \<Rightarrow> 'b"
  sdk_transact_write_items :: "'client \<Rightarrow> 'b"
  sdk_transact_items :: "'b \<Rightarrow> 'twi \<Rightarrow> 'b"
  sdk_configure :: "'b \<Rightarrow> 'args \<Rightarrow> 'b"
  sdk_send :: "'b \<Rightarrow> 'db \<Rightarrow> 'db \<times> ('err + 'out)"
  twi_builder :: 'tb
  twi_put :: "'tb \<Rightarrow> 'p \<Rightarrow> 'tb"
  twi_update :: "'tb \<Rightarrow> 'u \<Rightarrow> 'tb"
  twi_condition_check :: "'tb \<Rightarrow> 'c \<Rightarrow> 'tb"
  twi_build :: "'tb \<Rightarrow> 'twi"

section \<open>The handle\<close>

record 'client vault_client =
  vc_inner :: 'client

definition vault_new :: "'client \<Rightarrow> 'client vault_client" where
  "vault_new inner = \<lparr>vc_inner = inner\<rparr>"

definition vault_get_item ::
  "('client, 'b, 'args, 'tb, 'p, 'u, 'c, 'twi, 'db, 'err, 'out) dynamo_sdk \<Rightarrow> 'client vault_client \<Rightarrow> 'b" where
  "vault_get_item S v = sdk_get_item S (vc_inner v)"

definition vault_batch_get_item ::
  "('client, 'b, 'args, 'tb, 'p, 'u, 'c, 'twi, 'db, 'err, 'out) dynamo_sdk \<Rightarrow> 'client vault_client \<Rightarrow> 'b" where
  "vault_batch_get_item S v = sdk_batch_get_item S (vc_inner v)"

definition vault_query ::
  "('client, 'b, 'args, 'tb, 'p, 'u, 'c, 'twi, 'db, 'err, 'out) dynamo_sdk \<Rightarrow> 'client vault_client \<Rightarrow> 'b" where
  "vault_query S v = sdk_query S (vc_inner v)"

definition vault_scan ::
  "('client, 'b, 'args, 'tb, 'p, 'u, 'c, 'twi, 'db, 'err, 'out) dynamo_sdk \<Rightarrow> 'client vault_client \<Rightarrow> 'b" where
  "vault_scan S v = sdk_scan S (vc_inner v)"

definition vault_describe_table ::
  "('client, 'b, 'args, 'tb, 'p, 'u, 'c, 'twi, 'db, 'err, 'out) dynamo_sdk \<Rightarrow> 'client vault_client \<Rightarrow> 'b" where
  "vault_describe_table S v = sdk_describe_table S (vc_inner v)"

definition vault_put_item ::
  "('client, 'b, 'args, 'tb, 'p, 'u, 'c, 'twi, 'db, 'err, 'out) dynamo_sdk \<Rightarrow> 'client vault_client \<Rightarrow> 'b" where
  "vault_put_item S v = sdk_put_item S (vc_inner v)"

definition vault_update_item ::
  "('client, 'b, 'args, 'tb, 'p, 'u, 'c, 'twi, 'db, 'err, 'out) dynamo_sdk \<Rightarrow> 'client vault_client \<Rightarrow> 'b" where
  "vault_update_item S v = sdk_update_item S (vc_inner v)"

datatype ('p, 'u, 'c) vault_transact_item =
    VaultPut 'p
  | VaultUpdate 'u
  | VaultConditionCheck 'c

fun transact_write_item_from ::
  "('client, 'b, 'args, 'tb, 'p, 'u, 'c, 'twi, 'db, 'err, 'out) dynamo_sdk
     \<Rightarrow> ('p, 'u, 'c) vault_transact_item \<Rightarrow> 'twi" where
  "transact_write_item_from S (VaultPut p) = twi_build S (twi_put S (twi_builder S) p)"
| "transact_write_item_from S (VaultUpdate u) = twi_build S (twi_update S (twi_builder S) u)"
| "transact_write_item_from S (VaultConditionCheck c) =
     twi_build S (twi_condition_check S (twi_builder S) c)"

definition transact_write ::
  "('client, 'b, 'args, 'tb, 'p, 'u, 'c, 'twi, 'db, 'err, 'out) dynamo_sdk \<Rightarrow> 'client vault_client
     \<Rightarrow> ('p, 'u, 'c) vault_transact_item list \<Rightarrow> 'db \<Rightarrow> 'db \<times> ('err + 'out)" where
  "transact_write S v items db =
     (let req = foldl (\<lambda>req item. sdk_transact_items S req (transact_write_item_from S item))
                  (sdk_transact_write_items S (vc_inner v)) items
      in sdk_send S req db)"

definition required_actions :: "rstr list" where
  "required_actions =
     [lit ''dynamodb:GetItem'', lit ''dynamodb:BatchGetItem'', lit ''dynamodb:Query'',
      lit ''dynamodb:Scan'', lit ''dynamodb:DescribeTable'', lit ''dynamodb:PutItem'',
      lit ''dynamodb:UpdateItem'']"

section \<open>What a program can do with the handle\<close>

text \<open>
  The calls a holder of the handle can make, and the run of one: configure the builder and
  send it, or run a transaction.
\<close>

datatype ('args, 'p, 'u, 'c) vault_call =
    CallGetItem 'args
  | CallBatchGetItem 'args
  | CallQuery 'args
  | CallScan 'args
  | CallDescribeTable 'args
  | CallPutItem 'args
  | CallUpdateItem 'args
  | CallTransactWrite "('p, 'u, 'c) vault_transact_item list"

fun vault_run ::
  "('client, 'b, 'args, 'tb, 'p, 'u, 'c, 'twi, 'db, 'err, 'out) dynamo_sdk \<Rightarrow> 'client vault_client
     \<Rightarrow> 'db \<Rightarrow> ('args, 'p, 'u, 'c) vault_call \<Rightarrow> 'db" where
  "vault_run S v db (CallGetItem a) = fst (sdk_send S (sdk_configure S (vault_get_item S v) a) db)"
| "vault_run S v db (CallBatchGetItem a) = fst (sdk_send S (sdk_configure S (vault_batch_get_item S v) a) db)"
| "vault_run S v db (CallQuery a) = fst (sdk_send S (sdk_configure S (vault_query S v) a) db)"
| "vault_run S v db (CallScan a) = fst (sdk_send S (sdk_configure S (vault_scan S v) a) db)"
| "vault_run S v db (CallDescribeTable a) = fst (sdk_send S (sdk_configure S (vault_describe_table S v) a) db)"
| "vault_run S v db (CallPutItem a) = fst (sdk_send S (sdk_configure S (vault_put_item S v) a) db)"
| "vault_run S v db (CallUpdateItem a) = fst (sdk_send S (sdk_configure S (vault_update_item S v) a) db)"
| "vault_run S v db (CallTransactWrite items) = fst (transact_write S v items db)"

section \<open>What the SDK and the service document\<close>

text \<open>
  The item actions a request is authorised by, as AWS documents them: a plain request by the
  action of its operation, a transaction by the actions of its items. A request with an action
  that is not granted is refused and changes nothing. Reads, puts, updates and condition
  checks lose no key of a table.
\<close>

record ('b, 'twi) dynamo_actions =
  request_actions :: "'b \<Rightarrow> rstr list"
  item_action :: "'twi \<Rightarrow> rstr"

definition action_laws ::
  "('client, 'b, 'args, 'tb, 'p, 'u, 'c, 'twi, 'db, 'err, 'out) dynamo_sdk \<Rightarrow> ('b, 'twi) dynamo_actions
     \<Rightarrow> bool" where
  "action_laws S A \<longleftrightarrow>
     (\<forall>cl. request_actions A (sdk_get_item S cl) = [lit ''dynamodb:GetItem'']) \<and>
     (\<forall>cl. request_actions A (sdk_batch_get_item S cl) = [lit ''dynamodb:BatchGetItem'']) \<and>
     (\<forall>cl. request_actions A (sdk_query S cl) = [lit ''dynamodb:Query'']) \<and>
     (\<forall>cl. request_actions A (sdk_scan S cl) = [lit ''dynamodb:Scan'']) \<and>
     (\<forall>cl. request_actions A (sdk_describe_table S cl) = [lit ''dynamodb:DescribeTable'']) \<and>
     (\<forall>cl. request_actions A (sdk_put_item S cl) = [lit ''dynamodb:PutItem'']) \<and>
     (\<forall>cl. request_actions A (sdk_update_item S cl) = [lit ''dynamodb:UpdateItem'']) \<and>
     (\<forall>cl. request_actions A (sdk_delete_item S cl) = [lit ''dynamodb:DeleteItem'']) \<and>
     (\<forall>cl. request_actions A (sdk_transact_write_items S cl) = []) \<and>
     (\<forall>b t. request_actions A (sdk_transact_items S b t) = request_actions A b @ [item_action A t]) \<and>
     (\<forall>b a. request_actions A (sdk_configure S b a) = request_actions A b) \<and>
     (\<forall>p. item_action A (twi_build S (twi_put S (twi_builder S) p)) = lit ''dynamodb:PutItem'') \<and>
     (\<forall>u. item_action A (twi_build S (twi_update S (twi_builder S) u)) = lit ''dynamodb:UpdateItem'') \<and>
     (\<forall>c. item_action A (twi_build S (twi_condition_check S (twi_builder S) c)) =
        lit ''dynamodb:ConditionCheckItem'')"

definition keeping_actions :: "rstr set" where
  "keeping_actions = {lit ''dynamodb:GetItem'', lit ''dynamodb:BatchGetItem'', lit ''dynamodb:Query'',
     lit ''dynamodb:Scan'', lit ''dynamodb:DescribeTable'', lit ''dynamodb:PutItem'',
     lit ''dynamodb:UpdateItem'', lit ''dynamodb:ConditionCheckItem''}"

definition keeps_keys ::
  "('client, 'b, 'args, 'tb, 'p, 'u, 'c, 'twi, 'db, 'err, 'out) dynamo_sdk \<Rightarrow> ('b, 'twi) dynamo_actions
     \<Rightarrow> ('db \<Rightarrow> 'k set) \<Rightarrow> bool" where
  "keeps_keys S A keys \<longleftrightarrow>
     (\<forall>b db. set (request_actions A b) \<subseteq> keeping_actions \<longrightarrow> keys db \<subseteq> keys (fst (sdk_send S b db)))"

definition refuses_ungranted ::
  "('client, 'b, 'args, 'tb, 'p, 'u, 'c, 'twi, 'db, 'err, 'out) dynamo_sdk \<Rightarrow> ('b, 'twi) dynamo_actions
     \<Rightarrow> rstr set \<Rightarrow> bool" where
  "refuses_ungranted S A granted \<longleftrightarrow>
     (\<forall>b db. \<not> set (request_actions A b) \<subseteq> granted \<longrightarrow>
        fst (sdk_send S b db) = db \<and> (\<exists>e. snd (sdk_send S b db) = Inl e))"

section \<open>The actions of each call\<close>

fun vault_item_action :: "('p, 'u, 'c) vault_transact_item \<Rightarrow> rstr" where
  "vault_item_action (VaultPut p) = lit ''dynamodb:PutItem''"
| "vault_item_action (VaultUpdate u) = lit ''dynamodb:UpdateItem''"
| "vault_item_action (VaultConditionCheck c) = lit ''dynamodb:ConditionCheckItem''"

fun call_actions :: "('args, 'p, 'u, 'c) vault_call \<Rightarrow> rstr list" where
  "call_actions (CallGetItem a) = [lit ''dynamodb:GetItem'']"
| "call_actions (CallBatchGetItem a) = [lit ''dynamodb:BatchGetItem'']"
| "call_actions (CallQuery a) = [lit ''dynamodb:Query'']"
| "call_actions (CallScan a) = [lit ''dynamodb:Scan'']"
| "call_actions (CallDescribeTable a) = [lit ''dynamodb:DescribeTable'']"
| "call_actions (CallPutItem a) = [lit ''dynamodb:PutItem'']"
| "call_actions (CallUpdateItem a) = [lit ''dynamodb:UpdateItem'']"
| "call_actions (CallTransactWrite items) = map vault_item_action items"

lemma item_action_from:
  "action_laws S A \<Longrightarrow> item_action A (transact_write_item_from S item) = vault_item_action item"
  by (cases item) (simp_all add: action_laws_def)

lemma transaction_actions:
  assumes "action_laws S A"
  shows "request_actions A (foldl (\<lambda>req item. sdk_transact_items S req (transact_write_item_from S item)) b items)
    = request_actions A b @ map vault_item_action items"
proof (induction items arbitrary: b)
  case Nil
  show ?case by simp
next
  case (Cons i items)
  have "request_actions A (sdk_transact_items S b (transact_write_item_from S i)) =
      request_actions A b @ [vault_item_action i]"
    using assms item_action_from [OF assms] by (simp add: action_laws_def)
  with Cons show ?case by simp
qed

text \<open>Every call is one send of a request with the actions of the call.\<close>

lemma vault_run_request:
  assumes "action_laws S A"
  shows "\<exists>b. vault_run S v db call = fst (sdk_send S b db) \<and> request_actions A b = call_actions call"
proof (cases call)
  case (CallTransactWrite items)
  let ?b = "foldl (\<lambda>req item. sdk_transact_items S req (transact_write_item_from S item))
      (sdk_transact_write_items S (vc_inner v)) items"
  have "vault_run S v db call = fst (sdk_send S ?b db)"
    by (simp add: CallTransactWrite transact_write_def Let_def)
  moreover have "request_actions A ?b = call_actions call"
    using assms by (simp add: CallTransactWrite transaction_actions action_laws_def)
  ultimately show ?thesis by blast
qed (use assms in \<open>auto simp: action_laws_def vault_get_item_def vault_batch_get_item_def
    vault_query_def vault_scan_def vault_describe_table_def vault_put_item_def vault_update_item_def
    intro!: exI [where x = "sdk_configure S _ _"]\<close>)

lemma vault_item_action_keeping: "vault_item_action item \<in> keeping_actions"
  by (cases item) (simp_all add: keeping_actions_def)

lemma call_actions_keeping: "set (call_actions call) \<subseteq> keeping_actions"
proof (cases call)
  case (CallTransactWrite items)
  then show ?thesis using vault_item_action_keeping by auto
qed (simp_all add: keeping_actions_def)

lemma keys_kept:
  assumes "action_laws S A" "keeps_keys S A keys"
  shows "kept_invariant (vault_run S v) (\<lambda>db. K \<subseteq> keys db)"
proof
  fix db call
  assume k: "K \<subseteq> keys db"
  obtain b where b: "vault_run S v db call = fst (sdk_send S b db)" "request_actions A b = call_actions call"
    using vault_run_request [OF assms(1)] by blast
  have "keys db \<subseteq> keys (fst (sdk_send S b db))"
    using assms(2) b(2) call_actions_keeping [of call] unfolding keeps_keys_def by simp
  with k b(1) show "K \<subseteq> keys (vault_run S v db call)" by simp
qed

text \<open>The actions of the plain operations of the handle, in the order of its methods.\<close>

definition surface_actions ::
  "('client, 'b, 'args, 'tb, 'p, 'u, 'c, 'twi, 'db, 'err, 'out) dynamo_sdk \<Rightarrow> ('b, 'twi) dynamo_actions
     \<Rightarrow> 'client vault_client \<Rightarrow> rstr list" where
  "surface_actions S A v = concat (map (request_actions A)
     [vault_get_item S v, vault_batch_get_item S v, vault_query S v, vault_scan S v,
      vault_describe_table S v, vault_put_item S v, vault_update_item S v])"

section \<open>A concrete service\<close>

text \<open>
  For the witnesses: the database is the list of its keys, a request its actions and the keys
  it writes, and the granted actions are the required ones.
\<close>

definition example_sdk ::
  "(unit, rstr list \<times> nat list, nat list, rstr \<times> nat, nat, nat, nat, rstr \<times> nat, nat list, unit, unit)
     dynamo_sdk" where
  "example_sdk = \<lparr>
     sdk_get_item = (\<lambda>_. ([lit ''dynamodb:GetItem''], [])),
     sdk_batch_get_item = (\<lambda>_. ([lit ''dynamodb:BatchGetItem''], [])),
     sdk_query = (\<lambda>_. ([lit ''dynamodb:Query''], [])),
     sdk_scan = (\<lambda>_. ([lit ''dynamodb:Scan''], [])),
     sdk_describe_table = (\<lambda>_. ([lit ''dynamodb:DescribeTable''], [])),
     sdk_put_item = (\<lambda>_. ([lit ''dynamodb:PutItem''], [])),
     sdk_update_item = (\<lambda>_. ([lit ''dynamodb:UpdateItem''], [])),
     sdk_delete_item = (\<lambda>_. ([lit ''dynamodb:DeleteItem''], [])),
     sdk_transact_write_items = (\<lambda>_. ([], [])),
     sdk_transact_items = (\<lambda>b t. (fst b @ [fst t], snd b @ [snd t])),
     sdk_configure = (\<lambda>b ks. (fst b,
        if fst b \<in> {[lit ''dynamodb:PutItem''], [lit ''dynamodb:UpdateItem'']} then ks else snd b)),
     sdk_send = (\<lambda>b db. if set (fst b) \<subseteq> set required_actions then (db @ snd b, Inr ()) else (db, Inl ())),
     twi_builder = ([], 0),
     twi_put = (\<lambda>_ k. (lit ''dynamodb:PutItem'', k)),
     twi_update = (\<lambda>_ k. (lit ''dynamodb:UpdateItem'', k)),
     twi_condition_check = (\<lambda>_ k. (lit ''dynamodb:ConditionCheckItem'', k)),
     twi_build = id\<rparr>"

definition example_actions :: "(rstr list \<times> nat list, rstr \<times> nat) dynamo_actions" where
  "example_actions = \<lparr>request_actions = fst, item_action = fst\<rparr>"

lemma example_laws:
  "action_laws example_sdk example_actions" "keeps_keys example_sdk example_actions set"
  "refuses_ungranted example_sdk example_actions (set required_actions)"
  by (simp_all add: action_laws_def keeps_keys_def refuses_ungranted_def example_sdk_def
      example_actions_def)

section \<open>Properties\<close>

text \<open>
  C8: no sequence of calls on the handle, transactions included, ever loses a key: every key
  the database had before is there after each call, whatever the calls write.
\<close>

theorem vault_never_loses_keys:
  assumes "action_laws S A" "keeps_keys S A keys"
  shows "keys db \<subseteq> keys (foldl (vault_run S v) db calls)"
  by (rule kept_invariant.inv_run [OF keys_kept [OF assms]]) simp

theorem vault_never_loses_keys_witness:
  "set [1, 2] \<subseteq> set (foldl (vault_run example_sdk (vault_new ())) [1, 2]
     [CallGetItem [], CallPutItem [7], CallTransactWrite [VaultUpdate 9]])"
  by (rule vault_never_loses_keys [OF example_laws(1,2)])

text \<open>
  The plain operations of the handle need exactly the actions the crate declares, in the
  same order, and a transaction needs, item by item, the action of a put, of an update or of
  a condition check, never that of a delete.
\<close>

theorem surface_is_the_grant:
  "action_laws S A \<Longrightarrow>
     surface_actions S A v = required_actions \<and>
     (\<exists>req. transact_write S v items = sdk_send S req \<and>
        request_actions A req = map vault_item_action items)"
proof
  assume laws: "action_laws S A"
  then show "surface_actions S A v = required_actions"
    by (simp add: surface_actions_def action_laws_def required_actions_def vault_get_item_def
        vault_batch_get_item_def vault_query_def vault_scan_def vault_describe_table_def
        vault_put_item_def vault_update_item_def)
  let ?b = "foldl (\<lambda>req item. sdk_transact_items S req (transact_write_item_from S item))
      (sdk_transact_write_items S (vc_inner v)) items"
  have "request_actions A ?b = map vault_item_action items"
    using laws by (simp add: transaction_actions action_laws_def)
  then show "\<exists>req. transact_write S v items = sdk_send S req \<and>
      request_actions A req = map vault_item_action items"
    by (intro exI [of _ ?b]) (auto simp: transact_write_def Let_def)
qed

theorem surface_is_the_grant_witness:
  "surface_actions example_sdk example_actions (vault_new ()) = required_actions"
  using surface_is_the_grant [OF example_laws(1)] by blast

text \<open>
  A transaction with a condition check is refused under a grant of exactly the declared
  actions: nothing is written, not even its puts.
\<close>

theorem condition_check_refused:
  assumes "action_laws S A" "refuses_ungranted S A (set required_actions)"
    and "VaultConditionCheck c \<in> set items"
  shows "fst (transact_write S v items db) = db \<and> (\<exists>e. snd (transact_write S v items db) = Err e)"
proof -
  let ?b = "foldl (\<lambda>req item. sdk_transact_items S req (transact_write_item_from S item))
      (sdk_transact_write_items S (vc_inner v)) items"
  have acts: "request_actions A ?b = map vault_item_action items"
    using assms(1) by (simp add: transaction_actions action_laws_def)
  have "vault_item_action (VaultConditionCheck c) \<notin> set required_actions"
    by (simp add: required_actions_def lit_def)
  then have "\<not> set (request_actions A ?b) \<subseteq> set required_actions"
    unfolding acts using assms(3) by auto
  then show ?thesis
    using assms(2) unfolding refuses_ungranted_def transact_write_def Let_def by blast
qed

theorem condition_check_refused_witness:
  "fst (transact_write example_sdk (vault_new ()) [VaultPut 7, VaultConditionCheck 1] [1]) = [1]"
  using condition_check_refused [OF example_laws(1,3), of 1] by simp

end
