(* ===== verification/Notary_Seam.thy ===== *)
theory Notary_Seam
  imports Rust_Str
begin

text \<open>
  \<open>platform-notary\<close>: one API over a local and a KMS key. The two key types are those of
  \<open>attestation-envelope\<close>, not under the source: each is the record \<open>key_api\<close> of what the enum
  calls on it. Signing with the KMS key can fail, with the local one it cannot.
\<close>

section \<open>The two keys and the enum\<close>

record ('k, 'jwks, 'core, 'signed) key_api =
  ka_kid :: "'k \<Rightarrow> rstr"
  ka_jwks :: "'k \<Rightarrow> 'jwks"
  ka_sign :: "'k \<Rightarrow> 'core \<Rightarrow> 'signed"

datatype ('l, 'm) notary = NotaryLocal 'l | NotaryKms 'm

fun notary_kid ::
  "('l, 'jwks, 'core, 'att) key_api \<Rightarrow> ('m, 'jwks, 'core, 'e + 'att) key_api \<Rightarrow> ('l, 'm) notary \<Rightarrow> rstr" where
  "notary_kid L K (NotaryLocal k) = ka_kid L k"
| "notary_kid L K (NotaryKms k) = ka_kid K k"

fun notary_jwks ::
  "('l, 'jwks, 'core, 'att) key_api \<Rightarrow> ('m, 'jwks, 'core, 'e + 'att) key_api \<Rightarrow> ('l, 'm) notary \<Rightarrow> 'jwks" where
  "notary_jwks L K (NotaryLocal k) = ka_jwks L k"
| "notary_jwks L K (NotaryKms k) = ka_jwks K k"

fun notary_sign ::
  "('l, 'jwks, 'core, 'att) key_api \<Rightarrow> ('m, 'jwks, 'core, 'e + 'att) key_api \<Rightarrow> ('l, 'm) notary \<Rightarrow> 'core
     \<Rightarrow> 'e + 'att" where
  "notary_sign L K (NotaryLocal k) core = Ok (ka_sign L k core)"
| "notary_sign L K (NotaryKms k) core = result_bind (ka_sign K k core) (\<lambda>a. Ok a)"

section \<open>The contract of a signing key\<close>

text \<open>
  What an app relies on: an attestation a key makes carries the key's id and verifies, for the
  core it was made of, against the published key set.
\<close>

definition attests ::
  "('att \<Rightarrow> rstr) \<Rightarrow> ('jwks \<Rightarrow> 'core \<Rightarrow> 'att \<Rightarrow> bool) \<Rightarrow> rstr \<Rightarrow> 'jwks \<Rightarrow> 'core \<Rightarrow> 'att \<Rightarrow> bool" where
  "attests kid_of verifies kid jwks core a \<longleftrightarrow> kid_of a = kid \<and> verifies jwks core a"

definition key_laws ::
  "('att \<Rightarrow> rstr) \<Rightarrow> ('jwks \<Rightarrow> 'core \<Rightarrow> 'att \<Rightarrow> bool)
     \<Rightarrow> ('l, 'jwks, 'core, 'att) key_api \<Rightarrow> ('m, 'jwks, 'core, 'e + 'att) key_api \<Rightarrow> bool" where
  "key_laws kid_of verifies L K \<longleftrightarrow>
     (\<forall>k core. attests kid_of verifies (ka_kid L k) (ka_jwks L k) core (ka_sign L k core)) \<and>
     (\<forall>k core a. ka_sign K k core = Inr a \<longrightarrow> attests kid_of verifies (ka_kid K k) (ka_jwks K k) core a)"

text \<open>
  Behind either key, an attestation the notary returns carries the notary's key id and
  verifies against the key set the notary publishes; the local notary always returns one.
\<close>

theorem notary_attestation_verifies:
  "key_laws kid_of verifies L K \<Longrightarrow>
     (\<forall>a. notary_sign L K n core = Ok a \<longrightarrow>
        kid_of a = notary_kid L K n \<and> verifies (notary_jwks L K n) core a) \<and>
     (\<forall>k. n = NotaryLocal k \<longrightarrow> (\<exists>a. notary_sign L K n core = Ok a))"
  by (cases n) (auto simp: key_laws_def attests_def result_simps)

definition example_local :: "(rstr, rstr, rstr, rstr \<times> rstr) key_api" where
  "example_local = \<lparr>ka_kid = id, ka_jwks = id, ka_sign = Pair\<rparr>"

definition example_kms :: "(rstr, rstr, rstr, unit + rstr \<times> rstr) key_api" where
  "example_kms = \<lparr>ka_kid = id, ka_jwks = id,
     ka_sign = (\<lambda>k core. if core = [] then Inl () else Inr (k, core))\<rparr>"

theorem notary_attestation_verifies_witness:
  "\<exists>a. notary_sign example_local example_kms (NotaryLocal (lit ''kid-1'')) (lit ''core'') = Ok a \<and>
     fst a = lit ''kid-1''"
proof -
  have "key_laws fst (\<lambda>jwks core a. a = (jwks, core)) example_local example_kms"
    by (auto simp: key_laws_def attests_def example_local_def example_kms_def split: if_splits)
  from notary_attestation_verifies [OF this, of "NotaryLocal (lit ''kid-1'')" "lit ''core''"]
  show ?thesis by (auto simp: example_local_def)
qed

end
