(* ===== verification/Spec2Isabelle.thy ===== *)
theory Spec2Isabelle
  imports Webhook_Tests Guard_Tests Address_Tests Auth_Tests Verify_Tests Testkit_Tests Crate_Tests Row_Test
    Vault_Dynamo Notary_Seam
begin

text \<open>
  A model of the \<open>platform-crates\<close> workspace, the small libraries every backend of the platform
  links, and the theorems that make each correct.

  The crates and the theories that model them, under \<open>src/\<close>:

  \<^item> \<open>platform-http-error\<close> is \<open>Http_Error\<close>: \<open>ApiError\<close>, its status and detail, and the redacting
    \<open>IntoResponse\<close> with the event it logs.
  \<^item> \<open>platform-webhook-sig\<close> is \<open>Webhook_Hex\<close> (the hex codec, with the index loop of the
    decoder), \<open>Webhook_Sig\<close> (\<open>Signer\<close>, \<open>Verifier\<close>, the whole \<open>verify\<close> handler), and the properties
    in \<open>Webhook_Security\<close>, \<open>Webhook_Properties\<close> and \<open>Webhook_Verdicts\<close>.
  \<^item> \<open>platform-outbound-guard\<close> is \<open>Outbound_Guard\<close> (\<open>check_url\<close>, the address tables,
    \<open>resolve_pinned\<close>, \<open>client_builder\<close>), \<open>Outbound_Blocks\<close> (the tables as CIDR blocks) and
    \<open>Outbound_Properties\<close>; \<open>Rust_Net\<close> has the addresses of the standard library.
  \<^item> \<open>platform-chirp-auth\<close> is \<open>Trusted_Headers\<close> (\<open>decode_trusted_headers\<close>), \<open>Grant_Resolution\<close>
    (\<open>apply_on_behalf_of_grant\<close> over a backend's store), \<open>Machine_Auth\<close> (\<open>MachineAuth\<close>: the
    allowlist, \<open>from_env\<close>, \<open>verify\<close>), \<open>Testkit\<close> (the token mint of \<open>testkit.rs\<close>, judged against
    the JSON grammar of \<open>Json_String\<close> and \<open>Json_Text\<close>), \<open>Key_Pair\<close> (the one key of a process, and
    publishing, signing and minting as calls that share its cell), \<open>Key_Server\<close> (the key server as
    a step relation of its accept loop, its peers and its tasks, with the replies of
    \<open>Http_Reply\<close> and the fair runs of \<open>Fair_Runs\<close>), \<open>Key_Fetch\<close> (the key a verifier reads from
    a URL, and the tokens authentic under it) and \<open>Token_Flow\<close> (what becomes of minted tokens on
    the machine path).
  \<^item> \<open>platform-vault-dynamo\<close> is \<open>Vault_Dynamo\<close>: the handle with no delete and its transactions.
  \<^item> \<open>platform-lambda\<close> is \<open>Shutdown_Signal\<close> (\<open>shutdown_signal\<close> as a loop of polls that may never
    end) and \<open>Lambda_Runtime\<close> (\<open>serve\<close> with both of its runtimes, the store selector, the health
    shapes) over \<open>Socket_Parse\<close>, the standard library's parser of socket addresses, and
    \<open>Socket_Roundtrip\<close>, its inverse of \<open>Display\<close>.
  \<^item> \<open>platform-drive-deposit\<close> and \<open>platform-sg-graph-client\<close> are \<open>Drive_Deposit\<close> and
    \<open>Graph_Client\<close>, over the requests and replies of \<open>Http_Client\<close>; \<open>platform-notary\<close> is
    \<open>Notary_Seam\<close>.

  The crates' own tests are runs of the model in \<open>Webhook_Tests\<close>, \<open>Guard_Tests\<close>,
  \<open>Address_Tests\<close>, \<open>Auth_Tests\<close>, \<open>Verify_Tests\<close>, \<open>Testkit_Tests\<close>, \<open>Crate_Tests\<close> and
  \<open>Row_Test\<close>, over the assertions of \<open>Rust_Test\<close> and, for those with a key server, the world of \<open>Test_World\<close>: the model passes them.

  \<open>Prelude\<close> has the shared vocabulary (integers at their width, results as sums with the error on
  the left, panics as values, the locales of codecs and of steps that keep an invariant), \<open>Rust_Str\<close> and
  \<open>Rust_Env\<close> the strings and the environment of the standard library.

  How state and operations correspond to the code. A struct is a record with the source's fields
  (prefixed, since record fields share one name space); an enum is a datatype; a method that
  mutates returns the value updated; a call that reaches the outside also returns what it did
  (the log, the requests sent, the lookups made, the events of the entry point). \<open>?\<close> is
  \<open>result_bind\<close>. A function that can panic returns a \<open>run\<close>; arithmetic that overflows takes the
  build profile (\<open>checks\<close>) as an argument.

  Code that is not under \<open>src/\<close> is an argument: the MAC of the hmac crate (\<open>mac_api\<close>), the
  token library (\<open>chirp_client\<close>), the AWS SDK (\<open>dynamo_sdk\<close>), DNS and the connector of reqwest,
  the HTTP stack (\<open>sender\<close>), store-core, the attestation keys, the grant store of a backend, the
  runtimes behind \<open>serve\<close>. What a theorem relies on of such code is a named predicate
  (\<open>mac_laws\<close>, \<open>gate_laws\<close>, \<open>action_laws\<close>, \<open>keeps_keys\<close>, \<open>reqwest_laws\<close>, \<open>to_str_laws\<close>,
  \<open>status_laws\<close>, \<open>replica_laws\<close>, \<open>key_laws\<close>, \<open>b64_laws\<close>, \<open>rsa_laws\<close>, \<open>graceful_server\<close>, \<open>library_checks\<close>, \<open>kit_laws\<close>,
  \<open>prints_compact\<close>, \<open>reads_back\<close>), with an instance that satisfies it.

  What the groups of lemmas show. The webhook theories give the exact set of accepted
  deliveries, the order of the rejections, when \<open>verify\<close> panics, the round trip with the signer,
  and what a signature does and does not bind. The guard theories show that no connection made
  through a pinned destination reaches a non-public address and that the tables are the CIDR
  blocks they claim. The identity theories show that decoded identifiers are safe, that the
  acting owner only changes to the owner of a grant the store gave for the acting machine, and
  that only allowlisted machines pass. The vault theory shows that no run of calls loses a key.
  The rest fixes what each client sends and what each reply becomes. Properties that span
  components are at the end of this theory.

  The lambda theories show that an application is run by one of the two runtimes only and by the
  right one, that a malformed address ends the process before either, that a local run serves
  exactly the configured address, and that the wait for a signal ends at the first stop
  request; a server that waits for its open connections without a bound is what \<open>graceful_server\<close>
  assumes of axum. The testkit theories
  show that in any interleaving of a process's calls every token is signed by the published key,
  that the key server answers each connection at most once, with a reply no client can take for
  complete unless it is, and answers it exactly if the peer ever speaks, and what a verifier
  that fetches the key makes of the tokens: the token library's environment is a function of the
  issuer there, and of the principals of a test tenant nothing is assumed but that a human's
  token is not a machine. The test theories tie the definitions to the
  assertions the crates make of themselves.

  Bounds and fuel. Every loop of the code is structural or has a measure (the hex loop: the bytes
  left), but for the wait for a signal, a \<open>partial_function\<close> whose value \<open>None\<close> is waiting for
  ever; \<open>shutdown_completes_at_first_request\<close> says when it ends. The reader of JSON values in
  \<open>Json_Text\<close> takes the length of the text as fuel, which is at least the depth of any value in it
  (\<open>depth_le_length\<close>). A task of the key server waits for its peer without a bound; the liveness
  theorem assumes weak fairness of each task, on infinite runs. Integers are 64-bit
  where the code has \<open>i64\<close>; lengths are natural numbers, since a string cannot reach the limit
  of \<open>usize\<close>.

  Not modelled: the test of the re-exported \<open>bearer_token\<close>, which is the token library's;
  the derived \<open>Debug\<close> and \<open>Clone\<close>, re-exports, and the bodies of the third party crates above. A
  signal that arrives before its handler is installed ends the process; the model starts when
  the future is first polled.
\<close>

section \<open>Authentication and its answer\<close>

text \<open>
  The interface of an authentication step as an error responder sees it: whatever the reason, a
  rejection becomes \<open>Unauthorized\<close>. Then the client learns nothing of the reason.
\<close>

locale authenticator =
  fixes run :: "'r \<Rightarrow> 'e + 'u"
    and to_api :: "'e \<Rightarrow> api_error"
  assumes rejects_unauthorized: "run r = Inl e \<Longrightarrow> to_api e = Unauthorized"
begin

lemma rejection_response:
  assumes "documented_5xx is5xx" "run r = Inl e"
  shows "into_response is5xx (to_api e) =
    ([], \<lparr>resp_status = 401, resp_body = \<lparr>eb_error = lit ''unauthorized''\<rparr>\<rparr>)"
  using assms(1) rejects_unauthorized [OF assms(2)]
  by (simp add: into_response_def documented_5xx_def)

lemma rejections_indistinguishable:
  "run r = Inl e \<Longrightarrow> run r' = Inl e' \<Longrightarrow> into_response is5xx (to_api e) = into_response is5xx (to_api e')"
  by (simp add: rejects_unauthorized)

end

interpretation headers_auth: authenticator "decode_trusted_headers to_str" id for to_str
  by unfold_locales (auto simp: decode_trusted_headers_eq split: option.splits)

interpretation machine_auth: authenticator "\<lambda>(client, token). machine_verify L m client token"
  into_api_error for L m
  by unfold_locales simp

section \<open>From a request to the owner it acts for\<close>

text \<open>
  The context a backend resolves grants in for a request with trusted headers, as the source's
  comments on \<open>OnBehalfOf\<close> describe it: the decoded user and the decoded agent.
\<close>

definition ctx_of_user :: "trusted_header_user \<Rightarrow> on_behalf_of" where
  "ctx_of_user u =
     \<lparr>obo_uid = thu_uid u, obo_agent_id = thu_agent_id u, obo_approval_grant_id = None\<rparr>"

lemma decoded_grant:
  "decode_trusted_headers to_str headers = Inr u \<Longrightarrow>
     thu_approval_grant_id u = header_nonblank to_str headers approval_grant_header"
  by (auto simp: decode_trusted_headers_eq split: option.splits)

lemma decoded_agent_absent:
  "decode_trusted_headers to_str headers = Inr u \<Longrightarrow> header_str to_str headers agent_id_header = None \<Longrightarrow>
     thu_agent_id u = thu_uid u"
  by (auto simp: decode_trusted_headers_eq claimed_agent_def split: option.splits)

section \<open>Properties across components\<close>

text \<open>
  Every rejected request gets the same answer: a failed decoding of the trusted headers and
  each failed verification of a machine token, definitive or not, is a 401 whose body is the
  word "unauthorized", and nothing is logged.
\<close>

theorem rejections_answered_alike:
  assumes "documented_5xx is5xx"
  shows "(\<forall>e. decode_trusted_headers to_str headers = Err e \<longrightarrow>
      into_response is5xx e = ([], \<lparr>resp_status = 401, resp_body = \<lparr>eb_error = lit ''unauthorized''\<rparr>\<rparr>)) \<and>
    (\<forall>e. machine_verify L m client token = Err e \<longrightarrow>
      into_response is5xx (into_api_error e) =
        ([], \<lparr>resp_status = 401, resp_body = \<lparr>eb_error = lit ''unauthorized''\<rparr>\<rparr>))"
  using headers_auth.rejection_response [OF assms, of to_str headers]
    machine_auth.rejection_response [OF assms, of L m "(client, token)"]
  by (simp del: into_api_error.simps)

theorem rejections_answered_alike_witness:
  "into_response std_5xx Unauthorized =
     ([], \<lparr>resp_status = 401, resp_body = \<lparr>eb_error = lit ''unauthorized''\<rparr>\<rparr>)"
proof -
  have "decode_trusted_headers std_to_str Map.empty = Err Unauthorized"
    by (simp add: decode_trusted_headers_eq claimed_uid_def header_str_def)
  with rejections_answered_alike [OF documented_std_5xx, where to_str = std_to_str and headers = Map.empty
      and L = example_client and m = example_auth and client = "()" and token = "[]"]
  show ?thesis by blast
qed

text \<open>
  C22: a request authenticated by trusted headers and then resolved acts for the decoded user or
  for the owner of a grant the store returned for the decoded agent, and for no one else; the
  grant id both steps report is the same; and a request without an agent header always acts
  for its own user, with the store never asked.
\<close>

theorem header_request_acts_for:
  assumes "decode_trusted_headers to_str headers = Ok u"
    and "r = apply_on_behalf_of_grant parse_uuid lookup owner_uid to_str headers (ctx_of_user u)"
  shows "(obo_uid (applied_ctx r) = thu_uid u \<or>
      (\<exists>i g. lookup i (thu_agent_id u) = Ok (Some g) \<and> obo_uid (applied_ctx r) = owner_uid g)) \<and>
    obo_approval_grant_id (applied_ctx r) = thu_approval_grant_id u \<and>
    (header_str to_str headers agent_id_header = None \<longrightarrow>
       obo_uid (applied_ctx r) = thu_uid u \<and> applied_lookups r = [])"
proof -
  have "obo_uid (applied_ctx r) = thu_uid u \<or>
      (\<exists>i g. lookup i (thu_agent_id u) = Ok (Some g) \<and> obo_uid (applied_ctx r) = owner_uid g)"
    using escalated [where parse_uuid = parse_uuid and lookup = lookup and owner_uid = owner_uid
        and to_str = to_str and headers = headers and ctx = "ctx_of_user u"]
    by (auto simp: assms(2) ctx_of_user_def)
  moreover have "header_str to_str headers agent_id_header = None \<longrightarrow>
      obo_uid (applied_ctx r) = thu_uid u \<and> applied_lookups r = []"
    using decoded_agent_absent [OF assms(1)]
    by (auto simp: assms(2) applied_eqs ctx_of_user_def asked_grant_def found_owner_def)
  ultimately show ?thesis
    by (simp add: assms(2) applied_eqs decoded_grant [OF assms(1)])
qed

theorem header_request_acts_for_witness:
  "obo_approval_grant_id (applied_ctx (apply_on_behalf_of_grant (Inr :: rstr \<Rightarrow> unit + rstr)
     (test_lookup example_store) test_owner_uid std_to_str (identity_headers example_user)
     (ctx_of_user example_user))) = Some (lit ''grant-xyz'')"
  using header_request_acts_for [OF decode_identity_headers [OF good_example_user] refl,
      where parse_uuid = "Inr :: rstr \<Rightarrow> unit + rstr" and lookup = "test_lookup example_store"
        and owner_uid = test_owner_uid]
  by (simp add: example_user_def)

end
